(* ===== verification/Prelude.thy ===== *)
theory Prelude
  imports Complex_Main
begin

text \<open>
  Shared vocabulary of the development.

  \<^item> Asynchronous code. A function that awaits is a state transformer over a world
    \<open>'w\<close>: it either never settles (\<open>None\<close>), or settles with an exception
    (\<open>Inl\<close>) or a value (\<open>Inr\<close>) together with the world it leaves. The combinators
    \<open>ret\<close>, \<open>throw\<close>, \<open>bind_io\<close>, \<open>catch_io\<close> and \<open>lift_io\<close> are the
    sequencing, \<open>throw\<close> and \<open>try ... catch\<close> of the source language.
  \<^item> Association lists that keep insertion order, used for JavaScript objects and for
    HTTP header lists.
  \<^item> The \<open>named_theorems\<close> collections the component proofs draw on: \<open>io_simps\<close>
    for the combinators and \<open>alist_simps\<close> for association lists.
\<close>

named_theorems io_simps \<open>unfolding of the asynchronous combinators\<close>
named_theorems alist_simps \<open>lookup in updated association lists\<close>

section \<open>Asynchronous computations\<close>

type_synonym ('w, 'e, 'a) io = "'w \<Rightarrow> (('e + 'a) \<times> 'w) option"

definition ret :: "'a \<Rightarrow> ('w, 'e, 'a) io" where
  "ret x = (\<lambda>w. Some (Inr x, w))"

definition throw :: "'e \<Rightarrow> ('w, 'e, 'a) io" where
  "throw e = (\<lambda>w. Some (Inl e, w))"

definition lift_io :: "'e + 'a \<Rightarrow> ('w, 'e, 'a) io" where
  "lift_io r = (\<lambda>w. Some (r, w))"

definition bind_io :: "('w, 'e, 'a) io \<Rightarrow> ('a \<Rightarrow> ('w, 'e, 'b) io) \<Rightarrow> ('w, 'e, 'b) io" where
  "bind_io m f = (\<lambda>w. case m w of
       None \<Rightarrow> None
     | Some (Inl e, w') \<Rightarrow> Some (Inl e, w')
     | Some (Inr x, w') \<Rightarrow> f x w')"

definition catch_io :: "('w, 'e, 'a) io \<Rightarrow> ('e \<Rightarrow> ('w, 'e, 'a) io) \<Rightarrow> ('w, 'e, 'a) io" where
  "catch_io m h = (\<lambda>w. case m w of
       None \<Rightarrow> None
     | Some (Inl e, w') \<Rightarrow> h e w'
     | Some (Inr x, w') \<Rightarrow> Some (Inr x, w'))"

text \<open>A computation settles from a world when its promise is fulfilled or rejected.\<close>

definition settles :: "('w, 'e, 'a) io \<Rightarrow> 'w \<Rightarrow> bool" where
  "settles m w \<longleftrightarrow> m w \<noteq> None"

lemma ret_apply [io_simps, simp]: "ret x w = Some (Inr x, w)"
  by (simp add: ret_def)

lemma throw_apply [io_simps, simp]: "throw e w = Some (Inl e, w)"
  by (simp add: throw_def)

lemma lift_io_apply [io_simps, simp]: "lift_io r w = Some (r, w)"
  by (simp add: lift_io_def)

lemma bind_io_cases [io_simps]:
  "m w = None \<Longrightarrow> bind_io m f w = None"
  "m w = Some (Inl e, w') \<Longrightarrow> bind_io m f w = Some (Inl e, w')"
  "m w = Some (Inr x, w') \<Longrightarrow> bind_io m f w = f x w'"
  by (simp_all add: bind_io_def)

lemma catch_io_cases [io_simps]:
  "m w = None \<Longrightarrow> catch_io m h w = None"
  "m w = Some (Inl e, w') \<Longrightarrow> catch_io m h w = h e w'"
  "m w = Some (Inr x, w') \<Longrightarrow> catch_io m h w = Some (Inr x, w')"
  by (simp_all add: catch_io_def)

lemma bind_ret [simp]: "bind_io (ret x) f = f x"
  by (simp add: bind_io_def fun_eq_iff)

lemma bind_throw [simp]: "bind_io (throw e) f = throw e"
  by (simp add: bind_io_def fun_eq_iff)

lemma bind_io_assoc: "bind_io (bind_io m f) g = bind_io m (\<lambda>x. bind_io (f x) g)"
  by (auto simp: bind_io_def fun_eq_iff split: option.splits sum.splits prod.splits)

lemma bind_io_InrE:
  assumes "bind_io m f w = Some (Inr y, w'')"
  obtains x w' where "m w = Some (Inr x, w')" and "f x w' = Some (Inr y, w'')"
  using assms by (auto simp: bind_io_def split: option.splits sum.splits prod.splits)

lemma bind_io_InlE:
  assumes "bind_io m f w = Some (Inl e, w'')"
  obtains (left) "m w = Some (Inl e, w'')"
    | (right) x w' where "m w = Some (Inr x, w')" and "f x w' = Some (Inl e, w'')"
  using assms by (auto simp: bind_io_def split: option.splits sum.splits prod.splits)

lemma settles_bind_ioI:
  assumes "settles m w"
    and "\<And>x w'. m w = Some (Inr x, w') \<Longrightarrow> settles (f x) w'"
  shows "settles (bind_io m f) w"
  using assms by (auto simp: settles_def bind_io_def split: option.splits sum.splits prod.splits)

lemma settles_ret [simp]: "settles (ret x) w"
  by (simp add: settles_def)

lemma settles_throw [simp]: "settles (throw e) w"
  by (simp add: settles_def)

lemma settles_lift_io [simp]: "settles (lift_io r) w"
  by (simp add: settles_def)

lemma settlesE:
  assumes "settles m w"
  obtains r w' where "m w = Some (r, w')"
  using assms by (auto simp: settles_def)

lemma bind_io_cong:
  assumes "m w = m' w" and "\<And>x w'. m w = Some (Inr x, w') \<Longrightarrow> f x w' = g x w'"
  shows "bind_io m f w = bind_io m' g w"
  using assms by (auto simp: bind_io_def split: option.splits sum.splits prod.splits)

section \<open>Association lists in insertion order\<close>

type_synonym ('k, 'v) alist = "('k \<times> 'v) list"

fun alist_set :: "'k \<Rightarrow> 'v \<Rightarrow> ('k, 'v) alist \<Rightarrow> ('k, 'v) alist" where
  "alist_set k v [] = [(k, v)]"
| "alist_set k v ((k', v') # kvs) =
     (if k = k' then (k, v) # kvs else (k', v') # alist_set k v kvs)"

definition alist_del :: "'k \<Rightarrow> ('k, 'v) alist \<Rightarrow> ('k, 'v) alist" where
  "alist_del k kvs = filter (\<lambda>kv. fst kv \<noteq> k) kvs"

definition alist_merge :: "('k, 'v) alist \<Rightarrow> ('k, 'v) alist \<Rightarrow> ('k, 'v) alist" where
  "alist_merge kvs kvs' = fold (\<lambda>(k, v). alist_set k v) kvs' kvs"

lemma map_of_alist_set [alist_simps, simp]: "map_of (alist_set k v kvs) = (map_of kvs)(k \<mapsto> v)"
  by (induction kvs) (auto simp: fun_eq_iff)

lemma map_of_alist_del [alist_simps, simp]: "map_of (alist_del k kvs) = (map_of kvs)(k := None)"
  by (induction kvs) (auto simp: alist_del_def fun_eq_iff)

lemma alist_set_fresh: "k \<notin> fst ` set kvs \<Longrightarrow> alist_set k v kvs = kvs @ [(k, v)]"
  by (induction kvs) auto

lemma set_fst_alist_set [simp]: "fst ` set (alist_set k v kvs) = insert k (fst ` set kvs)"
  by (induction k v kvs rule: alist_set.induct) (simp_all add: insert_commute)

lemma set_fst_alist_del [simp]: "fst ` set (alist_del k kvs) = fst ` set kvs - {k}"
  by (auto simp: alist_del_def)

lemma distinct_alist_set: "distinct (map fst kvs) \<Longrightarrow> distinct (map fst (alist_set k v kvs))"
  by (induction k v kvs rule: alist_set.induct) simp_all

lemma distinct_alist_del: "distinct (map fst kvs) \<Longrightarrow> distinct (map fst (alist_del k kvs))"
  by (simp add: alist_del_def distinct_map_filter)

text \<open>An optional field of an object literal, \<open>...(x !== undefined && { k: x })\<close>.\<close>

definition opt_field :: "'k \<Rightarrow> ('a \<Rightarrow> 'v) \<Rightarrow> 'a option \<Rightarrow> ('k, 'v) alist" where
  "opt_field k f x = (case x of None \<Rightarrow> [] | Some a \<Rightarrow> [(k, f a)])"

lemma opt_field_simps [simp]:
  "opt_field k f None = []"
  "opt_field k f (Some a) = [(k, f a)]"
  by (simp_all add: opt_field_def)

definition with_default :: "'a \<Rightarrow> 'a option \<Rightarrow> 'a" where
  "with_default d x = (case x of None \<Rightarrow> d | Some a \<Rightarrow> a)"

lemma with_default_simps [simp]:
  "with_default d None = d"
  "with_default d (Some a) = a"
  by (simp_all add: with_default_def)

end
