(* ===== verification/Js_Value.thy ===== *)
theory Js_Value
  imports Prelude "HOL-Library.Word"
begin

text \<open>
  The part of the ECMAScript language and of its standard library the sources use.

  \<^item> Strings are lists of UTF-16 code units (\<open>jstr\<close>); \<open>js\<close> embeds a literal.
  \<^item> Numbers (\<open>jnum\<close>) are the rationals with \<open>NaN\<close> and the two infinities. A
    finite IEEE double is a rational; the model keeps the exact value and does not round.
  \<^item> \<open>jsval\<close> holds what \<open>JSON.parse\<close> and object literals produce, and \<open>undefined\<close>.
  \<^item> \<open>num_to_string\<close> is \<open>String(n)\<close>, \<open>string_to_num\<close> is \<open>Number(s)\<close>,
    \<open>js_trim\<close> is \<open>s.trim()\<close>, \<open>getprop\<close> is a property read.
\<close>

section \<open>Strings\<close>

type_synonym unit16 = "16 word"
type_synonym jstr = "unit16 list"

definition u16 :: "char \<Rightarrow> unit16" where
  "u16 c = word_of_nat (of_char c)"

definition js :: "string \<Rightarrow> jstr" where
  "js s = map u16 s"

lemma unat_u16 [simp]: "unat (u16 c) = of_char c"
proof -
  have "(of_char c :: nat) < 256" by simp
  then have "(of_char c :: nat) < 65536" by (rule order_less_le_trans) simp
  then show ?thesis by (simp add: u16_def unat_of_nat)
qed

lemma u16_inject [simp]: "u16 a = u16 b \<longleftrightarrow> a = b"
  by (metis of_char_eq_iff unat_u16)

lemma js_inject [simp]: "js a = js b \<longleftrightarrow> a = b"
  by (simp add: js_def inj_map_eq_map inj_def)

lemma js_Nil [simp]: "js [] = []"
  by (simp add: js_def)

lemma js_eq_Nil [simp]: "js s = [] \<longleftrightarrow> s = []" "[] = js s \<longleftrightarrow> s = []"
  by (auto simp: js_def)

lemma js_append: "js (a @ b) = js a @ js b"
  by (simp add: js_def)

lemma js_Cons: "js (c # cs) = u16 c # js cs"
  by (simp add: js_def)

lemma length_js [simp]: "length (js s) = length s"
  by (simp add: js_def)

text \<open>White space and line terminators, the class \<open>\s\<close> of regular expressions and the
  characters \<open>trim\<close> removes.\<close>

definition is_space :: "unit16 \<Rightarrow> bool" where
  "is_space u \<longleftrightarrow> u \<in> {9, 10, 11, 12, 13, 32, 0xA0, 0x1680, 0x2028, 0x2029, 0x202F, 0x205F,
     0x3000, 0xFEFF} \<or> (0x2000 \<le> u \<and> u \<le> 0x200A)"

definition is_line_terminator :: "unit16 \<Rightarrow> bool" where
  "is_line_terminator u \<longleftrightarrow> u \<in> {10, 13, 0x2028, 0x2029}"

text \<open>The general category \<open>Cc\<close>.\<close>

definition is_control :: "unit16 \<Rightarrow> bool" where
  "is_control u \<longleftrightarrow> u \<le> 0x1F \<or> (0x7F \<le> u \<and> u \<le> 0x9F)"

definition js_trim :: "jstr \<Rightarrow> jstr" where
  "js_trim s = rev (dropWhile is_space (rev (dropWhile is_space s)))"

definition starts_with :: "jstr \<Rightarrow> jstr \<Rightarrow> bool" where
  "starts_with p s \<longleftrightarrow> take (length p) s = p"

lemma starts_with_append [simp]: "starts_with p (p @ s)"
  by (simp add: starts_with_def)

lemma line_terminator_is_space: "is_line_terminator u \<Longrightarrow> is_space u"
  by (auto simp: is_line_terminator_def is_space_def)

lemma rev_dropWhile_rev_last:
  "rev (dropWhile P (rev xs)) = [] \<or> \<not> P (last (rev (dropWhile P (rev xs))))"
  by (metis hd_dropWhile dropWhile_eq_Nil_conv last_rev rev_is_Nil_conv)

lemma js_trim_hd: "js_trim s \<noteq> [] \<Longrightarrow> \<not> is_space (hd (js_trim s))"
proof -
  let ?t = "dropWhile is_space s"
  assume ne: "js_trim s \<noteq> []"
  obtain k where k: "js_trim s = take k ?t"
    unfolding js_trim_def by (metis rev_rev_ident rev_take dropWhile_eq_drop take_rev rev_drop)
  with ne have "?t \<noteq> []" and "hd (js_trim s) = hd ?t"
    by (auto simp: hd_take)
  then show ?thesis by (metis hd_dropWhile)
qed

lemma js_trim_last: "js_trim s \<noteq> [] \<Longrightarrow> \<not> is_space (last (js_trim s))"
  using rev_dropWhile_rev_last [of is_space] unfolding js_trim_def by metis

lemma set_js_trim: "set (js_trim s) \<subseteq> set s"
  unfolding js_trim_def by (auto dest!: set_dropWhileD)

lemma length_js_trim: "length (js_trim s) \<le> length s"
  unfolding js_trim_def by (metis length_dropWhile_le length_rev le_trans)

lemma js_trim_idem:
  assumes "s = [] \<or> \<not> is_space (hd s) \<and> \<not> is_space (last s)"
  shows "js_trim s = s"
proof (cases "s = []")
  case True
  then show ?thesis by (simp add: js_trim_def)
next
  case False
  with assms have "dropWhile is_space s = s"
    by (metis dropWhile.simps(2) list.collapse)
  moreover have "dropWhile is_space (rev s) = rev s"
    using assms False by (metis dropWhile.simps(2) hd_rev list.collapse rev_is_Nil_conv)
  ultimately show ?thesis by (simp add: js_trim_def)
qed

section \<open>Numbers\<close>

datatype jnum = Fin rat | NaN | PosInf | NegInf

definition is_finite :: "jnum \<Rightarrow> bool" where
  "is_finite n = (case n of Fin _ \<Rightarrow> True | _ \<Rightarrow> False)"

definition is_integer :: "jnum \<Rightarrow> bool" where
  "is_integer n = (case n of Fin r \<Rightarrow> r = of_int \<lfloor>r\<rfloor> | _ \<Rightarrow> False)"

text \<open>\<open>a <= b\<close> and \<open>a < b\<close>; every comparison with \<open>NaN\<close> is false.\<close>

fun num_le :: "jnum \<Rightarrow> jnum \<Rightarrow> bool" where
  "num_le (Fin a) (Fin b) = (a \<le> b)"
| "num_le NegInf (Fin b) = True"
| "num_le (Fin a) PosInf = True"
| "num_le NegInf PosInf = True"
| "num_le NegInf NegInf = True"
| "num_le PosInf PosInf = True"
| "num_le _ _ = False"

definition num_lt :: "jnum \<Rightarrow> jnum \<Rightarrow> bool" where
  "num_lt a b \<longleftrightarrow> num_le a b \<and> a \<noteq> b"

lemma num_lt_Fin [simp]: "num_lt (Fin a) (Fin b) \<longleftrightarrow> a < b"
  by (auto simp: num_lt_def)

fun num_add :: "jnum \<Rightarrow> jnum \<Rightarrow> jnum" where
  "num_add (Fin a) (Fin b) = Fin (a + b)"
| "num_add NaN _ = NaN"
| "num_add _ NaN = NaN"
| "num_add PosInf NegInf = NaN"
| "num_add NegInf PosInf = NaN"
| "num_add PosInf _ = PosInf"
| "num_add _ PosInf = PosInf"
| "num_add NegInf _ = NegInf"
| "num_add _ NegInf = NegInf"

abbreviation num_of_nat :: "nat \<Rightarrow> jnum" where
  "num_of_nat n \<equiv> Fin (of_nat n)"

subsection \<open>String(n)\<close>

definition digit_unit :: "nat \<Rightarrow> unit16" where
  "digit_unit d = word_of_nat (48 + d)"

fun show_nat :: "nat \<Rightarrow> jstr" where
  "show_nat n = (if n < 10 then [digit_unit n] else show_nat (n div 10) @ [digit_unit (n mod 10)])"

declare show_nat.simps [simp del]

definition show_int :: "int \<Rightarrow> jstr" where
  "show_int i = (if i < 0 then js ''-'' @ show_nat (nat (- i)) else show_nat (nat i))"

fun frac_digits :: "nat \<Rightarrow> rat \<Rightarrow> jstr" where
  "frac_digits 0 r = []"
| "frac_digits (Suc n) r =
     (if r = 0 then [] else digit_unit (nat \<lfloor>r * 10\<rfloor>) # frac_digits n (r * 10 - of_int \<lfloor>r * 10\<rfloor>))"

text \<open>Integers print in full; a fraction prints up to twenty decimal places. The exponent
  forms of magnitudes from \<open>10^21\<close> on and below \<open>10^-6\<close> are not used by the sources.\<close>

fun num_to_string :: "jnum \<Rightarrow> jstr" where
  "num_to_string NaN = js ''NaN''"
| "num_to_string PosInf = js ''Infinity''"
| "num_to_string NegInf = js ''-Infinity''"
| "num_to_string (Fin r) =
     (let a = \<bar>r\<bar>; i = \<lfloor>a\<rfloor>
      in (if r < 0 then js ''-'' else []) @ show_nat (nat i) @
         (if a = of_int i then [] else js ''.'' @ frac_digits 20 (a - of_int i)))"

subsection \<open>Number(s)\<close>

definition digit_value :: "unit16 \<Rightarrow> nat option" where
  "digit_value u = (if 48 \<le> unat u \<and> unat u \<le> 57 then Some (unat u - 48) else None)"

definition is_digit :: "unit16 \<Rightarrow> bool" where
  "is_digit u \<longleftrightarrow> digit_value u \<noteq> None"

definition radix_value :: "nat \<Rightarrow> unit16 \<Rightarrow> nat option" where
  "radix_value b u = (let n = unat u;
      d = (if 48 \<le> n \<and> n \<le> 57 then Some (n - 48)
           else if 65 \<le> n \<and> n \<le> 70 then Some (n - 55)
           else if 97 \<le> n \<and> n \<le> 102 then Some (n - 87) else None)
    in case d of None \<Rightarrow> None | Some v \<Rightarrow> if v < b then Some v else None)"

fun read_digits :: "nat \<Rightarrow> nat \<Rightarrow> jstr \<Rightarrow> nat option" where
  "read_digits b acc [] = Some acc"
| "read_digits b acc (u # us) =
     (case radix_value b u of None \<Rightarrow> None | Some d \<Rightarrow> read_digits b (b * acc + d) us)"

definition read_exponent :: "jstr \<Rightarrow> rat option" where
  "read_exponent s = (case s of
       [] \<Rightarrow> Some 1
     | e # r \<Rightarrow>
         if e = u16 CHR ''e'' \<or> e = u16 CHR ''E'' then
           (let neg = (r \<noteq> [] \<and> hd r = u16 CHR ''-'');
                ds = (if r \<noteq> [] \<and> (hd r = u16 CHR ''-'' \<or> hd r = u16 CHR ''+'') then tl r else r)
            in if ds = [] then None else (case read_digits 10 0 ds of
                 None \<Rightarrow> None
               | Some k \<Rightarrow> Some (if neg then 1 / 10 ^ k else 10 ^ k)))
         else None)"

definition read_decimal :: "jstr \<Rightarrow> rat option" where
  "read_decimal s =
     (let ip = takeWhile is_digit s; r1 = dropWhile is_digit s;
          dot = (r1 \<noteq> [] \<and> hd r1 = u16 CHR ''.'');
          fp = (if dot then takeWhile is_digit (tl r1) else []);
          r2 = (if dot then dropWhile is_digit (tl r1) else r1)
      in if ip = [] \<and> fp = [] then None
         else (case (read_digits 10 0 ip, read_digits 10 0 fp, read_exponent r2) of
             (Some i, Some f, Some e) \<Rightarrow> Some ((of_nat i + of_nat f / 10 ^ length fp) * e)
           | _ \<Rightarrow> None))"

definition read_radix :: "jstr \<Rightarrow> nat option" where
  "read_radix s =
     (if length s < 3 \<or> hd s \<noteq> u16 CHR ''0'' then None
      else let p = s ! 1; ds = drop 2 s in
        if p = u16 CHR ''x'' \<or> p = u16 CHR ''X'' then read_digits 16 0 ds
        else if p = u16 CHR ''o'' \<or> p = u16 CHR ''O'' then read_digits 8 0 ds
        else if p = u16 CHR ''b'' \<or> p = u16 CHR ''B'' then read_digits 2 0 ds
        else None)"

definition string_to_num :: "jstr \<Rightarrow> jnum" where
  "string_to_num s0 =
     (let s = js_trim s0 in
      if s = [] then Fin 0
      else case read_radix s of
        Some n \<Rightarrow> num_of_nat n
      | None \<Rightarrow>
          (let neg = (hd s = u16 CHR ''-'');
               m = (if hd s = u16 CHR ''-'' \<or> hd s = u16 CHR ''+'' then tl s else s)
           in if m = js ''Infinity'' then (if neg then NegInf else PosInf)
              else case read_decimal m of
                None \<Rightarrow> NaN
              | Some r \<Rightarrow> Fin (if neg then - r else r)))"

section \<open>Values\<close>

datatype jsval =
    JUndefined
  | JNull
  | JBool bool
  | JNum jnum
  | JStr jstr
  | JArr "jsval list"
  | JObj "(jstr \<times> jsval) list"

text \<open>A property read: \<open>None\<close> is the \<open>TypeError\<close> raised on \<open>undefined\<close> and \<open>null\<close>.\<close>

fun getprop :: "jstr \<Rightarrow> jsval \<Rightarrow> jsval option" where
  "getprop k JUndefined = None"
| "getprop k JNull = None"
| "getprop k (JObj fs) = Some (case map_of fs k of None \<Rightarrow> JUndefined | Some v \<Rightarrow> v)"
| "getprop k (JArr vs) =
     Some (if k = js ''length'' then JNum (num_of_nat (length vs)) else JUndefined)"
| "getprop k (JStr s) =
     Some (if k = js ''length'' then JNum (num_of_nat (length s)) else JUndefined)"
| "getprop k (JBool b) = Some JUndefined"
| "getprop k (JNum n) = Some JUndefined"

text \<open>The same read through optional chaining, \<open>v?.k\<close>.\<close>

definition prop_opt :: "jstr \<Rightarrow> jsval \<Rightarrow> jsval" where
  "prop_opt k v = (case getprop k v of None \<Rightarrow> JUndefined | Some x \<Rightarrow> x)"

definition jobj :: "(string \<times> jsval) list \<Rightarrow> jsval" where
  "jobj fs = JObj (map (\<lambda>(k, v). (js k, v)) fs)"

abbreviation jtext :: "string \<Rightarrow> jsval" where
  "jtext s \<equiv> JStr (js s)"

abbreviation jint :: "int \<Rightarrow> jsval" where
  "jint i \<equiv> JNum (Fin (of_int i))"

lemma map_of_js [simp]: "map_of (map (\<lambda>(k, v). (js k, v)) fs) (js k) = map_of fs k"
  by (induction fs) auto

lemma getprop_jobj [simp]:
  "getprop (js k) (jobj fs) = Some (case map_of fs k of None \<Rightarrow> JUndefined | Some v \<Rightarrow> v)"
  by (simp add: jobj_def)

lemma prop_opt_jobj [simp]:
  "prop_opt (js k) (jobj fs) = (case map_of fs k of None \<Rightarrow> JUndefined | Some v \<Rightarrow> v)"
  by (simp add: prop_opt_def)

text \<open>\<open>x ?? undefined\<close> turns \<open>null\<close> into \<open>undefined\<close>.\<close>

definition nullish_to_undefined :: "jsval \<Rightarrow> jsval" where
  "nullish_to_undefined v = (if v = JNull then JUndefined else v)"

text \<open>\<open>`${v}`\<close> for the primitive values the sources interpolate.\<close>

fun to_string :: "jsval \<Rightarrow> jstr" where
  "to_string JUndefined = js ''undefined''"
| "to_string JNull = js ''null''"
| "to_string (JBool b) = (if b then js ''true'' else js ''false'')"
| "to_string (JNum n) = num_to_string n"
| "to_string (JStr s) = s"
| "to_string (JObj fs) = js ''[object Object]''"
| "to_string (JArr vs) =
     (case vs of
        [] \<Rightarrow> []
      | v # vs' \<Rightarrow>
          (case v of JUndefined \<Rightarrow> [] | JNull \<Rightarrow> [] | _ \<Rightarrow> to_string v) @
          concat (map (\<lambda>x. js '','' @ (case x of JUndefined \<Rightarrow> [] | JNull \<Rightarrow> [] | _ \<Rightarrow> to_string x)) vs'))"

text \<open>The condition of \<open>if (v)\<close>.\<close>

fun truthy :: "jsval \<Rightarrow> bool" where
  "truthy JUndefined = False"
| "truthy JNull = False"
| "truthy (JBool b) = b"
| "truthy (JNum n) = (n \<noteq> Fin 0 \<and> n \<noteq> NaN)"
| "truthy (JStr s) = (s \<noteq> [])"
| "truthy (JArr _) = True"
| "truthy (JObj _) = True"

section \<open>Decimal round trip\<close>

lemma unat_digit_unit [simp]: "d < 10 \<Longrightarrow> unat (digit_unit d) = 48 + d"
  unfolding digit_unit_def by (subst unat_of_nat) simp

lemma radix_value_digit_unit [simp]: "d < 10 \<Longrightarrow> radix_value 10 (digit_unit d) = Some d"
  by (simp add: radix_value_def Let_def)

lemma is_digit_digit_unit [simp]: "d < 10 \<Longrightarrow> is_digit (digit_unit d)"
  by (simp add: is_digit_def digit_value_def)

lemma read_digits_append:
  "read_digits b acc (xs @ ys) =
     (case read_digits b acc xs of None \<Rightarrow> None | Some a \<Rightarrow> read_digits b a ys)"
  by (induction xs arbitrary: acc) (auto split: option.splits)

lemma show_nat_nonempty [simp]: "show_nat n \<noteq> []"
  by (subst show_nat.simps) simp

lemma read_digits_show_nat: "read_digits 10 0 (show_nat n) = Some n"
proof (induction n rule: show_nat.induct)
  case (1 n)
  show ?case
  proof (cases "n < 10")
    case True
    then show ?thesis by (simp add: show_nat.simps [of n])
  next
    case False
    with 1 show ?thesis
      by (simp add: show_nat.simps [of n] read_digits_append)
  qed
qed

lemma show_nat_digits: "u \<in> set (show_nat n) \<Longrightarrow> \<exists>d<10. u = digit_unit d"
proof (induction n rule: show_nat.induct)
  case (1 n)
  show ?case
  proof (cases "n < 10")
    case True
    with 1(2) show ?thesis by (auto simp: show_nat.simps [of n])
  next
    case False
    from 1(2) False consider "u \<in> set (show_nat (n div 10))" | "u = digit_unit (n mod 10)"
      by (auto simp: show_nat.simps [of n])
    then show ?thesis
      using 1(1) False by cases (auto intro: exI [of _ "n mod 10"])
  qed
qed

lemma show_nat_inject [simp]: "show_nat m = show_nat n \<longleftrightarrow> m = n"
  by (metis option.inject read_digits_show_nat)

lemma show_nat_is_digit: "\<forall>u \<in> set (show_nat n). is_digit u"
  using show_nat_digits by fastforce

lemma is_digit_bounds: "is_digit u \<longleftrightarrow> 48 \<le> unat u \<and> unat u \<le> 57"
  by (simp add: is_digit_def digit_value_def)

lemma is_digit_not_space: "is_digit u \<Longrightarrow> \<not> is_space u"
  by (auto simp: is_digit_bounds is_space_def word_le_nat_alt)

lemma is_digit_u16: "is_digit (u16 c) \<longleftrightarrow> of_char c \<in> {48..57 :: nat}"
  by (simp add: is_digit_bounds)

lemma js_trim_show_nat [simp]: "js_trim (show_nat n) = show_nat n"
  by (rule js_trim_idem) (meson hd_in_set is_digit_not_space last_in_set show_nat_is_digit)

lemma read_decimal_show_nat: "read_decimal (show_nat n) = Some (of_nat n)"
proof -
  have t: "takeWhile is_digit (show_nat n) = show_nat n"
    and d: "dropWhile is_digit (show_nat n) = []"
    using show_nat_is_digit [of n] by (auto simp: takeWhile_eq_all_conv)
  show ?thesis
    by (simp add: read_decimal_def t d read_digits_show_nat read_exponent_def)
qed

lemma read_radix_show_nat: "read_radix (show_nat n) = None"
proof (cases "length (show_nat n) < 3")
  case True
  then show ?thesis by (simp add: read_radix_def)
next
  case False
  then have "is_digit (show_nat n ! 1)"
    by (intro bspec [OF show_nat_is_digit [of n]] nth_mem) simp
  then have "show_nat n ! 1 \<noteq> u16 c" if "\<not> is_digit (u16 c)" for c
    using that by auto
  then show ?thesis by (simp add: read_radix_def is_digit_u16 Let_def)
qed

lemma string_to_num_show_nat [simp]: "string_to_num (show_nat n) = num_of_nat n"
proof -
  have "is_digit (hd (show_nat n))" by (rule bspec [OF show_nat_is_digit [of n]]) simp
  then have h: "hd (show_nat n) \<noteq> u16 c" if "\<not> is_digit (u16 c)" for c
    using that by auto
  have "show_nat n \<noteq> js ''Infinity''"
    using h [of "CHR ''I''"] by (auto simp: js_Cons is_digit_u16)
  with h [of "CHR ''-''"] h [of "CHR ''+''"] show ?thesis
    by (simp add: string_to_num_def Let_def read_radix_show_nat read_decimal_show_nat is_digit_u16)
qed

lemma num_to_string_of_nat [simp]: "num_to_string (num_of_nat n) = show_nat n"
  by (simp add: Let_def)

end
