(* ===== verification/Encoding.thy ===== *)
theory Encoding
  imports Js_Value
begin

text \<open>
  The text encodings of the platform the SDK puts credentials and filters through: UTF-8
  (\<open>TextEncoder\<close>), base64 (\<open>btoa\<close>) and \<open>application/x-www-form-urlencoded\<close>
  (\<open>URLSearchParams\<close>). Bytes are naturals below 256.

  The decoders are reference definitions: they state what a receiver does, and the round-trip
  lemmas show that the encodings lose nothing.
\<close>

section \<open>UTF-16 to UTF-8\<close>

definition is_high :: "unit16 \<Rightarrow> bool" where
  "is_high u \<longleftrightarrow> 0xD800 \<le> unat u \<and> unat u \<le> 0xDBFF"

definition is_low :: "unit16 \<Rightarrow> bool" where
  "is_low u \<longleftrightarrow> 0xDC00 \<le> unat u \<and> unat u \<le> 0xDFFF"

text \<open>The scalar values of a string; a lone surrogate becomes \<open>U+FFFD\<close>.\<close>

definition scalar_of :: "unit16 \<Rightarrow> nat" where
  "scalar_of u = (if is_high u \<or> is_low u then 0xFFFD else unat u)"

fun scalars :: "jstr \<Rightarrow> nat list" where
  "scalars [] = []"
| "scalars [u] = [scalar_of u]"
| "scalars (u # v # r) =
     (if is_high u \<and> is_low v
      then (0x10000 + (unat u - 0xD800) * 0x400 + (unat v - 0xDC00)) # scalars r
      else scalar_of u # scalars (v # r))"

definition utf8_scalar :: "nat \<Rightarrow> nat list" where
  "utf8_scalar n =
     (if n < 0x80 then [n]
      else if n < 0x800 then [0xC0 + n div 64, 0x80 + n mod 64]
      else if n < 0x10000 then [0xE0 + n div 4096, 0x80 + n div 64 mod 64, 0x80 + n mod 64]
      else [0xF0 + n div 262144, 0x80 + n div 4096 mod 64, 0x80 + n div 64 mod 64, 0x80 + n mod 64])"

definition utf8_encode :: "jstr \<Rightarrow> nat list" where
  "utf8_encode s = concat (map utf8_scalar (scalars s))"

text \<open>A string without lone surrogates, and the reference decoder.\<close>

fun well_formed :: "jstr \<Rightarrow> bool" where
  "well_formed [] = True"
| "well_formed [u] = (\<not> is_high u \<and> \<not> is_low u)"
| "well_formed (u # v # r) =
     (if is_high u then is_low v \<and> well_formed r else \<not> is_low u \<and> well_formed (v # r))"

definition units_of :: "nat \<Rightarrow> jstr" where
  "units_of n =
     (if n < 0x10000 then [word_of_nat n]
      else [word_of_nat (0xD800 + (n - 0x10000) div 0x400), word_of_nat (0xDC00 + (n - 0x10000) mod 0x400)])"

fun utf8_decode :: "nat list \<Rightarrow> nat list option" where
  "utf8_decode [] = Some []"
| "utf8_decode (b # bs) =
     (if b < 0x80 then map_option ((#) b) (utf8_decode bs)
      else if b < 0xE0 then (case bs of
          c # r \<Rightarrow> map_option ((#) ((b - 0xC0) * 64 + (c - 0x80))) (utf8_decode r)
        | _ \<Rightarrow> None)
      else if b < 0xF0 then (case bs of
          c # d # r \<Rightarrow>
            map_option ((#) ((b - 0xE0) * 4096 + (c - 0x80) * 64 + (d - 0x80))) (utf8_decode r)
        | _ \<Rightarrow> None)
      else (case bs of
          c # d # e # r \<Rightarrow>
            map_option ((#) ((b - 0xF0) * 262144 + (c - 0x80) * 4096 + (d - 0x80) * 64 + (e - 0x80)))
              (utf8_decode r)
        | _ \<Rightarrow> None))"

lemma unit_bound: "unat (u :: unit16) < 65536"
  using unsigned_less [of u, where ?'a = nat] by simp

lemma scalars_bound: "n \<in> set (scalars s) \<Longrightarrow> n < 0x110000"
proof (induction s rule: scalars.induct)
  case (2 u)
  then show ?case using unit_bound [of u] by (auto simp: scalar_of_def split: if_splits)
next
  case (3 u v r)
  show ?case
  proof (cases "is_high u \<and> is_low v")
    case True
    then have "unat u - 55296 < 1024" "unat v - 56320 < 1024" by (auto simp: is_high_def is_low_def)
    with 3 True show ?thesis by auto
  next
    case False
    with 3 show ?thesis using unit_bound [of u] by (auto simp: scalar_of_def split: if_splits)
  qed
qed simp

lemma utf8_scalar_bytes: "n < 0x110000 \<Longrightarrow> b \<in> set (utf8_scalar n) \<Longrightarrow> b < 256"
  by (auto simp: utf8_scalar_def less_mult_imp_div_less split: if_splits)

lemma utf8_encode_bytes: "b \<in> set (utf8_encode s) \<Longrightarrow> b < 256"
  unfolding utf8_encode_def using scalars_bound utf8_scalar_bytes by fastforce

lemma split_scalar:
  "(n :: nat) div 64 * 64 + n mod 64 = n"
  "n div 4096 * 4096 + n div 64 mod 64 * 64 + n mod 64 = n"
  "n div 262144 * 262144 + n div 4096 mod 64 * 4096 + n div 64 mod 64 * 64 + n mod 64 = n"
proof -
  have d: "n div 4096 = n div 64 div 64" "n div 262144 = n div 64 div 64 div 64"
    by (simp_all add: div_mult2_eq [symmetric])
  have m: "m div 64 * 64 + m mod 64 = m" for m :: nat by simp
  show "n div 64 * 64 + n mod 64 = n" by (rule m)
  show "n div 4096 * 4096 + n div 64 mod 64 * 64 + n mod 64 = n"
    using m [of n] m [of "n div 64"] unfolding d by linarith
  show "n div 262144 * 262144 + n div 4096 mod 64 * 4096 + n div 64 mod 64 * 64 + n mod 64 = n"
    using m [of n] m [of "n div 64"] m [of "n div 64 div 64"] unfolding d by linarith
qed

lemma utf8_decode_scalar:
  assumes "n < 0x110000"
  shows "utf8_decode (utf8_scalar n @ bs) = map_option ((#) n) (utf8_decode bs)"
proof -
  consider "n < 0x80" | "0x80 \<le> n" "n < 0x800" | "0x800 \<le> n" "n < 0x10000" | "0x10000 \<le> n" by linarith
  then show ?thesis
  proof cases
    case 1
    then show ?thesis by (simp add: utf8_scalar_def)
  next
    case 2
    then have "n div 64 < 32" by (simp add: less_mult_imp_div_less)
    with 2 show ?thesis by (simp add: utf8_scalar_def split_scalar)
  next
    case 3
    then have "n div 4096 < 16" by (simp add: less_mult_imp_div_less)
    with 3 show ?thesis by (simp add: utf8_scalar_def split_scalar)
  next
    case 4
    then show ?thesis by (simp add: utf8_scalar_def split_scalar)
  qed
qed

lemma utf8_decode_concat:
  "\<forall>n \<in> set ns. n < 0x110000 \<Longrightarrow> utf8_decode (concat (map utf8_scalar ns)) = Some ns"
  by (induction ns) (simp_all add: utf8_decode_scalar)

lemma utf8_round_trip: "utf8_decode (utf8_encode s) = Some (scalars s)"
  unfolding utf8_encode_def by (rule utf8_decode_concat) (simp add: scalars_bound)

lemma units_of_scalars: "well_formed s \<Longrightarrow> concat (map units_of (scalars s)) = s"
proof (induction s rule: scalars.induct)
  case (2 u)
  then show ?case using unit_bound [of u] by (simp add: scalar_of_def units_of_def)
next
  case (3 u v r)
  show ?case
  proof (cases "is_high u \<and> is_low v")
    case True
    define a where "a = unat u - 55296"
    define b where "b = unat v - 56320"
    have ab: "b < 1024" "unat u = 55296 + a" "unat v = 56320 + b"
      using True by (auto simp: is_high_def is_low_def a_def b_def)
    have "units_of (65536 + a * 1024 + b) = [word_of_nat (unat u), word_of_nat (unat v)]"
      using ab(1) by (simp add: units_of_def ab(2,3))
    with 3 True show ?thesis by (simp add: a_def b_def)
  next
    case False
    with 3 have "\<not> is_high u" "\<not> is_low u" "well_formed (v # r)" by (auto split: if_splits)
    with 3 False show ?thesis using unit_bound [of u] by (simp add: scalar_of_def units_of_def)
  qed
qed simp

lemma utf8_encode_inject:
  "well_formed s \<Longrightarrow> well_formed t \<Longrightarrow> utf8_encode s = utf8_encode t \<Longrightarrow> s = t"
  by (metis option.inject units_of_scalars utf8_round_trip)

section \<open>Base64\<close>

definition b64_unit :: "nat \<Rightarrow> unit16" where
  "b64_unit n =
     (if n < 26 then word_of_nat (65 + n)
      else if n < 52 then word_of_nat (71 + n)
      else if n < 62 then word_of_nat (n - 4)
      else if n = 62 then u16 CHR ''+''
      else u16 CHR ''/'')"

fun b64_groups :: "nat list \<Rightarrow> jstr" where
  "b64_groups [] = []"
| "b64_groups [a] = [b64_unit (a div 4), b64_unit (a mod 4 * 16), u16 CHR ''='', u16 CHR ''='']"
| "b64_groups [a, b] =
     [b64_unit (a div 4), b64_unit (a mod 4 * 16 + b div 16), b64_unit (b mod 16 * 4), u16 CHR ''='']"
| "b64_groups (a # b # c # r) =
     [b64_unit (a div 4), b64_unit (a mod 4 * 16 + b div 16), b64_unit (b mod 16 * 4 + c div 64),
      b64_unit (c mod 64)] @ b64_groups r"

text \<open>\<open>btoa\<close>: \<open>None\<close> is the \<open>InvalidCharacterError\<close> for a unit above 255.\<close>

definition btoa :: "jstr \<Rightarrow> jstr option" where
  "btoa s = (if list_all (\<lambda>u. unat u < 256) s then Some (b64_groups (map unat s)) else None)"

definition replace_all :: "unit16 \<Rightarrow> unit16 \<Rightarrow> jstr \<Rightarrow> jstr" where
  "replace_all a b s = map (\<lambda>u. if u = a then b else u) s"

text \<open>\<open>s.replace(/=+$/u, '')\<close>\<close>

definition strip_padding :: "jstr \<Rightarrow> jstr" where
  "strip_padding s = rev (dropWhile (\<lambda>u. u = u16 CHR ''='') (rev s))"

text \<open>The reference decoder of unpadded base64url.\<close>

definition b64url_value :: "unit16 \<Rightarrow> nat option" where
  "b64url_value u = (let n = unat u in
     if 65 \<le> n \<and> n \<le> 90 then Some (n - 65)
     else if 97 \<le> n \<and> n \<le> 122 then Some (n - 71)
     else if 48 \<le> n \<and> n \<le> 57 then Some (n + 4)
     else if u = u16 CHR ''-'' then Some 62
     else if u = u16 CHR ''_'' then Some 63 else None)"

fun b64_join :: "nat list \<Rightarrow> nat list option" where
  "b64_join [] = Some []"
| "b64_join [p] = None"
| "b64_join [p, q] = Some [p * 4 + q div 16]"
| "b64_join [p, q, r] = Some [p * 4 + q div 16, q mod 16 * 16 + r div 4]"
| "b64_join (p # q # r # s # rest) =
     map_option (\<lambda>bs. [p * 4 + q div 16, q mod 16 * 16 + r div 4, r mod 4 * 64 + s] @ bs) (b64_join rest)"

definition b64url_decode :: "jstr \<Rightarrow> nat list option" where
  "b64url_decode s =
     (if list_all (\<lambda>u. b64url_value u \<noteq> None) s then b64_join (map (the \<circ> b64url_value) s) else None)"

definition b64url_unit :: "nat \<Rightarrow> unit16" where
  "b64url_unit n =
     (if n = 62 then u16 CHR ''-'' else if n = 63 then u16 CHR ''_'' else b64_unit n)"

text \<open>The unpadded form by sextets.\<close>

fun b64_sextets :: "nat list \<Rightarrow> nat list" where
  "b64_sextets [] = []"
| "b64_sextets [a] = [a div 4, a mod 4 * 16]"
| "b64_sextets [a, b] = [a div 4, a mod 4 * 16 + b div 16, b mod 16 * 4]"
| "b64_sextets (a # b # c # r) =
     [a div 4, a mod 4 * 16 + b div 16, b mod 16 * 4 + c div 64, c mod 64] @ b64_sextets r"

lemma b64_sextets_bound: "\<forall>b \<in> set bs. b < 256 \<Longrightarrow> n \<in> set (b64_sextets bs) \<Longrightarrow> n < 64"
  by (induction bs rule: b64_sextets.induct) (auto simp: less_mult_imp_div_less)

lemma unat_b64_unit: "n < 62 \<Longrightarrow> unat (b64_unit n) =
    (if n < 26 then 65 + n else if n < 52 then 71 + n else n - 4)"
proof -
  assume n: "n < 62"
  have "unat (word_of_nat m :: unit16) = m" if "m < 65536" for m
    using that by (simp add: unat_of_nat)
  from this [of "65 + n"] this [of "71 + n"] this [of "n - 4"] n show ?thesis
    unfolding b64_unit_def by (simp del: of_nat_add of_nat_diff)
qed

lemma b64url_value_unit: "n < 64 \<Longrightarrow> b64url_value (b64url_unit n) = Some n"
proof -
  assume "n < 64"
  then consider "n < 62" | "n = 62" | "n = 63" by linarith
  then show ?thesis
    by cases (auto simp: b64url_value_def b64url_unit_def unat_b64_unit Let_def)
qed

lemma b64_join_sextets: "\<forall>b \<in> set bs. b < 256 \<Longrightarrow> b64_join (b64_sextets bs) = Some bs"
proof (induction bs rule: b64_sextets.induct)
  case (2 a)
  then show ?case by (simp add: less_mult_imp_div_less)
next
  case (3 a b)
  then show ?case by (simp add: div_add1_eq less_mult_imp_div_less)
next
  case (4 a b c r)
  then have "b div 16 < 16" "c div 64 < 4" by (simp_all add: less_mult_imp_div_less)
  with 4 show ?case by (simp add: div_add1_eq)
qed simp

definition b64_body :: "nat list \<Rightarrow> jstr" where
  "b64_body bs = map b64_unit (b64_sextets bs)"

definition b64_pad :: "nat list \<Rightarrow> jstr" where
  "b64_pad bs = replicate ((3 - length bs mod 3) mod 3) (u16 CHR ''='')"

lemma b64_groups_split: "b64_groups bs = b64_body bs @ b64_pad bs"
proof (induction bs rule: b64_groups.induct)
  case (4 a b c r)
  have "b64_pad (a # b # c # r) = b64_pad r" by (simp add: b64_pad_def)
  with 4 show ?case by (simp add: b64_body_def)
qed (simp_all add: b64_body_def b64_pad_def numeral_2_eq_2)

lemma unat_u16_simps: "b64_unit n = u16 c \<Longrightarrow> unat (b64_unit n) = of_char c"
  by simp

lemma translate_b64_unit:
  assumes "n < 64"
  shows "(if (if b64_unit n = u16 CHR ''+'' then u16 CHR ''-'' else b64_unit n) = u16 CHR ''/''
          then u16 CHR ''_'' else if b64_unit n = u16 CHR ''+'' then u16 CHR ''-'' else b64_unit n) =
         b64url_unit n"
proof (cases "n < 62")
  case True
  then have "b64_unit n \<noteq> u16 CHR ''+''" "b64_unit n \<noteq> u16 CHR ''/''"
    using unat_b64_unit [OF True] by (auto dest!: unat_u16_simps split: if_splits)
  with True show ?thesis by (simp add: b64url_unit_def)
next
  case False
  with assms have "n = 62 \<or> n = 63" by linarith
  then show ?thesis by (auto simp: b64url_unit_def b64_unit_def)
qed

lemma b64url_unit_not_pad: "n < 64 \<Longrightarrow> b64url_unit n \<noteq> u16 CHR ''=''"
  by (drule b64url_value_unit) (auto simp: b64url_value_def Let_def)

text \<open>The translated and stripped base64 text is the unpadded base64url text.\<close>

lemma base64url_of_groups:
  assumes "\<forall>b \<in> set bs. b < 256"
  shows "strip_padding (replace_all (u16 CHR ''/'') (u16 CHR ''_'')
           (replace_all (u16 CHR ''+'') (u16 CHR ''-'') (b64_groups bs))) =
         map b64url_unit (b64_sextets bs)"
proof -
  let ?tr = "replace_all (u16 CHR ''/'') (u16 CHR ''_'') \<circ> replace_all (u16 CHR ''+'') (u16 CHR ''-'')"
  have body: "?tr (b64_body bs) = map b64url_unit (b64_sextets bs)"
    unfolding b64_body_def replace_all_def comp_def map_map
    by (rule map_cong [OF refl], rule translate_b64_unit, rule b64_sextets_bound [OF assms])
  have pad: "?tr (b64_pad bs) = b64_pad bs"
    by (simp add: b64_pad_def replace_all_def)
  have "?tr (b64_groups bs) = ?tr (b64_body bs) @ ?tr (b64_pad bs)"
    unfolding b64_groups_split by (simp add: replace_all_def)
  then have "?tr (b64_groups bs) = map b64url_unit (b64_sextets bs) @ b64_pad bs"
    unfolding body pad .
  moreover have "strip_padding (map b64url_unit ns @ replicate k (u16 CHR ''='')) = map b64url_unit ns"
    if "\<forall>n \<in> set ns. n < 64" for ns k
  proof (cases ns rule: rev_cases)
    case Nil
    then show ?thesis by (simp add: strip_padding_def)
  next
    case (snoc ms m)
    with that have "b64url_unit m \<noteq> u16 CHR ''=''" by (simp add: b64url_unit_not_pad)
    with snoc show ?thesis by (simp add: strip_padding_def dropWhile_append)
  qed
  ultimately show ?thesis using b64_sextets_bound [OF assms] by (simp add: b64_pad_def)
qed

lemma b64url_decode_sextets:
  assumes "\<forall>b \<in> set bs. b < 256"
  shows "b64url_decode (map b64url_unit (b64_sextets bs)) = Some bs"
proof -
  have v: "\<forall>n \<in> set (b64_sextets bs). b64url_value (b64url_unit n) = Some n"
    using b64_sextets_bound [OF assms] b64url_value_unit by blast
  then have "map (the \<circ> b64url_value \<circ> b64url_unit) (b64_sextets bs) = b64_sextets bs"
    by (intro map_idI) simp
  moreover from v have "list_all (\<lambda>u. b64url_value u \<noteq> None) (map b64url_unit (b64_sextets bs))"
    by (simp add: list_all_iff)
  ultimately show ?thesis
    using b64_join_sextets [OF assms] by (simp add: b64url_decode_def comp_assoc)
qed

section \<open>application/x-www-form-urlencoded\<close>

definition form_plain :: "nat \<Rightarrow> bool" where
  "form_plain b \<longleftrightarrow> (48 \<le> b \<and> b \<le> 57) \<or> (65 \<le> b \<and> b \<le> 90) \<or> (97 \<le> b \<and> b \<le> 122) \<or>
     b \<in> {42, 45, 46, 95}"

definition hex_unit :: "nat \<Rightarrow> unit16" where
  "hex_unit d = (if d < 10 then word_of_nat (48 + d) else word_of_nat (55 + d))"

definition form_byte :: "nat \<Rightarrow> jstr" where
  "form_byte b =
     (if b = 32 then [u16 CHR ''+'']
      else if form_plain b then [word_of_nat b]
      else [u16 CHR ''%'', hex_unit (b div 16), hex_unit (b mod 16)])"

definition form_text :: "jstr \<Rightarrow> jstr" where
  "form_text s = concat (map form_byte (utf8_encode s))"

fun join_with :: "jstr \<Rightarrow> jstr list \<Rightarrow> jstr" where
  "join_with sep [] = []"
| "join_with sep [x] = x"
| "join_with sep (x # y # xs) = x @ sep @ join_with sep (y # xs)"

text \<open>\<open>new URLSearchParams(record).toString()\<close>\<close>

definition form_urlencode :: "(jstr \<times> jstr) list \<Rightarrow> jstr" where
  "form_urlencode kvs =
     join_with (js ''&'') (map (\<lambda>(k, v). form_text k @ js ''='' @ form_text v) kvs)"

text \<open>The reference parser: split at \<open>&\<close>, drop empty pieces, split each at its first
  \<open>=\<close>, turn \<open>+\<close> into a space, percent-decode.\<close>

definition hex_value :: "unit16 \<Rightarrow> nat option" where
  "hex_value u = radix_value 16 u"

fun form_bytes_decode :: "jstr \<Rightarrow> nat list option" where
  "form_bytes_decode [] = Some []"
| "form_bytes_decode (u # us) =
     (if u = u16 CHR ''+'' then map_option ((#) 32) (form_bytes_decode us)
      else if u = u16 CHR ''%'' then
        (case us of
           h # l # r \<Rightarrow>
             (case (hex_value h, hex_value l) of
                (Some a, Some b) \<Rightarrow> map_option ((#) (a * 16 + b)) (form_bytes_decode r)
              | _ \<Rightarrow> None)
         | _ \<Rightarrow> None)
      else map_option ((#) (unat u)) (form_bytes_decode us))"

fun split_on :: "unit16 \<Rightarrow> jstr \<Rightarrow> jstr list" where
  "split_on sep [] = [[]]"
| "split_on sep (u # us) =
     (if u = sep then [] # split_on sep us
      else (case split_on sep us of
          [] \<Rightarrow> [[u]]
        | x # xs \<Rightarrow> (u # x) # xs))"

definition form_pair_decode :: "jstr \<Rightarrow> (nat list option \<times> nat list option)" where
  "form_pair_decode s =
     (form_bytes_decode (takeWhile (\<lambda>u. u \<noteq> u16 CHR ''='') s),
      form_bytes_decode (tl (dropWhile (\<lambda>u. u \<noteq> u16 CHR ''='') s)))"

definition form_parse :: "jstr \<Rightarrow> (nat list option \<times> nat list option) list" where
  "form_parse s = map form_pair_decode (filter (\<lambda>p. p \<noteq> []) (split_on (u16 CHR ''&'') s))"

lemma unat_plain: "form_plain b \<Longrightarrow> unat (word_of_nat b :: unit16) = b"
  by (auto simp: form_plain_def unat_of_nat)

lemma unat_hex_unit: "d < 16 \<Longrightarrow> unat (hex_unit d) = (if d < 10 then 48 + d else 55 + d)"
proof -
  assume d: "d < 16"
  have "unat (word_of_nat m :: unit16) = m" if "m < 65536" for m
    using that by (simp add: unat_of_nat)
  from this [of "48 + d"] this [of "55 + d"] d show ?thesis
    unfolding hex_unit_def by (simp del: of_nat_add)
qed

lemma hex_value_unit: "d < 16 \<Longrightarrow> hex_value (hex_unit d) = Some d"
  by (simp add: hex_value_def radix_value_def unat_hex_unit)

lemma form_byte_decode:
  assumes "b < 256"
  shows "form_bytes_decode (form_byte b @ us) = map_option ((#) b) (form_bytes_decode us)"
proof -
  consider "b = 32" | "b \<noteq> 32" "form_plain b" | "b \<noteq> 32" "\<not> form_plain b" by blast
  then show ?thesis
  proof cases
    case 1
    then show ?thesis by (simp add: form_byte_def)
  next
    case 2
    then have ne: "(word_of_nat b :: unit16) \<noteq> u16 CHR ''+''" "(word_of_nat b :: unit16) \<noteq> u16 CHR ''%''"
      using unat_plain [OF 2(2)] by (auto simp: form_plain_def dest: arg_cong [where f = unat])
    with 2 show ?thesis using unat_plain [OF 2(2)] by (simp add: form_byte_def)
  next
    case 3
    moreover have "b div 16 < 16" using assms by (simp add: less_mult_imp_div_less)
    ultimately show ?thesis by (simp add: form_byte_def hex_value_unit)
  qed
qed

lemma form_text_decode: "form_bytes_decode (form_text s) = Some (utf8_encode s)"
proof -
  have "\<forall>b \<in> set bs. b < 256 \<Longrightarrow> form_bytes_decode (concat (map form_byte bs)) = Some bs" for bs
    by (induction bs) (simp_all add: form_byte_decode)
  then show ?thesis unfolding form_text_def using utf8_encode_bytes by blast
qed

text \<open>Neither separator occurs in encoded text.\<close>

lemma form_byte_units:
  assumes "b < 256" and "u \<in> set (form_byte b)"
  shows "unat u \<noteq> 38 \<and> unat u \<noteq> 61"
proof -
  consider "b = 32" | "b \<noteq> 32" "form_plain b" | "b \<noteq> 32" "\<not> form_plain b" by blast
  then show ?thesis
  proof cases
    case 1
    with assms show ?thesis by (simp add: form_byte_def)
  next
    case 2
    with assms have "unat u = b" by (simp add: form_byte_def unat_plain)
    with 2 show ?thesis by (auto simp: form_plain_def)
  next
    case 3
    moreover have "b div 16 < 16" using assms by (simp add: less_mult_imp_div_less)
    ultimately show ?thesis using assms
      by (auto simp: form_byte_def unat_hex_unit split: if_splits)
  qed
qed

lemma form_text_units:
  assumes "u \<in> set (form_text s)"
  shows "u \<noteq> u16 CHR ''&''" "u \<noteq> u16 CHR ''=''"
proof -
  have "unat u \<noteq> 38 \<and> unat u \<noteq> 61"
    using assms utf8_encode_bytes form_byte_units unfolding form_text_def by fastforce
  then show "u \<noteq> u16 CHR ''&''" "u \<noteq> u16 CHR ''=''" by auto
qed

lemma form_pair_round_trip:
  "form_pair_decode (form_text k @ js ''='' @ form_text v) = (Some (utf8_encode k), Some (utf8_encode v))"
proof -
  let ?P = "\<lambda>u. u \<noteq> u16 CHR ''=''"
  have k: "\<forall>u \<in> set (form_text k). ?P u" using form_text_units(2) by blast
  then have "takeWhile ?P (form_text k @ js ''='' @ form_text v) = form_text k"
    "dropWhile ?P (form_text k @ js ''='' @ form_text v) = js ''='' @ form_text v"
    by (simp_all add: takeWhile_append2 dropWhile_append2 js_Cons)
  then show ?thesis by (simp add: form_pair_decode_def form_text_decode js_Cons)
qed

lemma split_on_none: "sep \<notin> set s \<Longrightarrow> split_on sep s = [s]"
  by (induction s) auto

lemma split_on_append: "sep \<notin> set s \<Longrightarrow> split_on sep (s @ sep # t) = s # split_on sep t"
  by (induction s) auto

lemma split_on_join:
  "\<forall>x \<in> set xs. sep \<notin> set x \<Longrightarrow> xs \<noteq> [] \<Longrightarrow> split_on sep (join_with [sep] xs) = xs"
  by (induction "[sep]" xs rule: join_with.induct) (simp_all add: split_on_none split_on_append)

text \<open>Parsing what \<open>URLSearchParams\<close> prints gives back the pairs, in order.\<close>

lemma form_round_trip:
  "form_parse (form_urlencode kvs) =
     map (\<lambda>(k, v). (Some (utf8_encode k), Some (utf8_encode v))) kvs"
proof (cases "kvs = []")
  case True
  then show ?thesis by (simp add: form_urlencode_def form_parse_def)
next
  case False
  let ?enc = "\<lambda>(k, v). form_text k @ js ''='' @ form_text v"
  have "u16 CHR ''&'' \<notin> set (?enc kv)" for kv
    using form_text_units(1) by (cases kv) (auto simp: js_Cons)
  then have "split_on (u16 CHR ''&'') (form_urlencode kvs) = map ?enc kvs"
    using False unfolding form_urlencode_def by (subst js_Cons, subst js_Nil, intro split_on_join) auto
  moreover have "filter (\<lambda>p. p \<noteq> []) (map ?enc kvs) = map ?enc kvs"
    by (auto intro!: filter_True simp: js_Cons)
  ultimately show ?thesis
    by (simp add: form_parse_def form_pair_round_trip split_beta)
qed

text \<open>Text made of plain ASCII characters is encoded as itself.\<close>

lemma utf8_encode_ascii: "\<forall>u \<in> set s. unat u < 128 \<Longrightarrow> utf8_encode s = map unat s"
proof -
  assume ascii: "\<forall>u \<in> set s. unat u < 128"
  then have "scalars s = map unat s"
    by (induction s rule: scalars.induct) (auto simp: scalar_of_def is_high_def is_low_def)
  moreover have "utf8_scalar (unat u) = [unat u]" if "u \<in> set s" for u
    using ascii that by (simp add: utf8_scalar_def)
  ultimately show ?thesis
    unfolding utf8_encode_def by (simp add: comp_def cong: map_cong)
qed

lemma form_text_plain:
  assumes "\<forall>u \<in> set s. form_plain (unat u)"
  shows "form_text s = s"
proof -
  have "\<forall>u \<in> set s. unat u < 128" using assms by (auto simp: form_plain_def)
  then have "utf8_encode s = map unat s" by (rule utf8_encode_ascii)
  moreover have "form_byte (unat u) = [u]" if "u \<in> set s" for u
    using assms that by (auto simp: form_byte_def form_plain_def)
  ultimately show ?thesis
    unfolding form_text_def by (simp add: comp_def cong: map_cong)
qed

lemma form_text_show_nat [simp]: "form_text (show_nat n) = show_nat n"
  using show_nat_is_digit [of n] by (intro form_text_plain) (auto simp: is_digit_bounds form_plain_def)

end
