(* ===== verification/Json.thy ===== *)
theory Json
  imports Encoding
begin

text \<open>
  \<open>JSON.parse\<close> and \<open>JSON.stringify\<close>, which the streaming modules read frames with and write
  frames with.

  The parser is recursive descent with an explicit depth: \<open>json_parse\<close> starts it with one more than
  the length of the text, which bounds the nesting. Numbers keep their exact value; a magnitude
  beyond the range of a double becomes an infinity.
\<close>

section \<open>Lexical elements\<close>

definition json_space :: "unit16 \<Rightarrow> bool" where
  "json_space u \<longleftrightarrow> u \<in> {9, 10, 13, 32}"

definition skip_ws :: "jstr \<Rightarrow> jstr" where
  "skip_ws s = dropWhile json_space s"

definition unescape :: "unit16 \<Rightarrow> unit16 option" where
  "unescape e =
     (if e = u16 CHR ''\"'' \<or> e = u16 CHR 0x5C \<or> e = u16 CHR ''/'' then Some e
      else if e = u16 CHR ''b'' then Some 8
      else if e = u16 CHR ''f'' then Some 12
      else if e = u16 CHR ''n'' then Some 10
      else if e = u16 CHR ''r'' then Some 13
      else if e = u16 CHR ''t'' then Some 9
      else None)"

definition hex4 :: "unit16 \<Rightarrow> unit16 \<Rightarrow> unit16 \<Rightarrow> unit16 \<Rightarrow> unit16 option" where
  "hex4 a b c d =
     (case (hex_value a, hex_value b, hex_value c, hex_value d) of
        (Some w, Some x, Some y, Some z) \<Rightarrow> Some (word_of_nat (w * 4096 + x * 256 + y * 16 + z))
      | _ \<Rightarrow> None)"

definition add_unit :: "unit16 \<Rightarrow> (jstr \<times> jstr) option \<Rightarrow> (jstr \<times> jstr) option" where
  "add_unit u p = map_option (\<lambda>(t, r). (u # t, r)) p"

text \<open>The characters of a string after its opening quote.\<close>

fun parse_string :: "jstr \<Rightarrow> (jstr \<times> jstr) option" where
  "parse_string [] = None"
| "parse_string (u # r) =
     (if u = u16 CHR ''\"'' then Some ([], r)
      else if u = u16 CHR 0x5C then
        (case r of
           [] \<Rightarrow> None
         | e # r' \<Rightarrow>
             if e = u16 CHR ''u'' then
               (case r' of
                  a # b # c # d # r'' \<Rightarrow>
                    (case hex4 a b c d of None \<Rightarrow> None | Some w \<Rightarrow> add_unit w (parse_string r''))
                | _ \<Rightarrow> None)
             else (case unescape e of None \<Rightarrow> None | Some w \<Rightarrow> add_unit w (parse_string r')))
      else if unat u < 32 then None
      else add_unit u (parse_string r))"

definition number_unit :: "unit16 \<Rightarrow> bool" where
  "number_unit u \<longleftrightarrow> is_digit u \<or> u \<in> {u16 CHR ''-'', u16 CHR ''+'', u16 CHR ''.'', u16 CHR ''e'', u16 CHR ''E''}"

definition double_of_rat :: "rat \<Rightarrow> jnum" where
  "double_of_rat r =
     (if r \<ge> 2 ^ 1024 - 2 ^ 970 then PosInf else if r \<le> - (2 ^ 1024 - 2 ^ 970) then NegInf else Fin r)"

definition json_number :: "jstr \<Rightarrow> jnum option" where
  "json_number t =
     (let neg = (t \<noteq> [] \<and> hd t = u16 CHR ''-'');
          m = (if neg then tl t else t);
          ip = takeWhile is_digit m; r1 = dropWhile is_digit m;
          dot = (r1 \<noteq> [] \<and> hd r1 = u16 CHR ''.'');
          fp = (if dot then takeWhile is_digit (tl r1) else []);
          r2 = (if dot then dropWhile is_digit (tl r1) else r1)
      in if ip = [] \<or> (hd ip = u16 CHR ''0'' \<and> length ip \<noteq> 1) \<or> (dot \<and> fp = []) then None
         else (case (read_digits 10 0 ip, read_digits 10 0 fp, read_exponent r2) of
             (Some i, Some f, Some e) \<Rightarrow>
               (let v = (of_nat i + of_nat f / 10 ^ length fp) * e
                in Some (double_of_rat (if neg then - v else v)))
           | _ \<Rightarrow> None))"

definition parse_number :: "jstr \<Rightarrow> (jsval \<times> jstr) option" where
  "parse_number s =
     (case json_number (takeWhile number_unit s) of
        None \<Rightarrow> None
      | Some n \<Rightarrow> Some (JNum n, dropWhile number_unit s))"

definition parse_literal :: "jstr \<Rightarrow> (jsval \<times> jstr) option" where
  "parse_literal s =
     (if starts_with (js ''true'') s then Some (JBool True, drop 4 s)
      else if starts_with (js ''false'') s then Some (JBool False, drop 5 s)
      else if starts_with (js ''null'') s then Some (JNull, drop 4 s)
      else None)"

section \<open>Values\<close>

text \<open>Repeated keys: the last value wins.\<close>

definition object_of :: "(jstr \<times> jsval) list \<Rightarrow> jsval" where
  "object_of kvs = JObj (alist_merge [] kvs)"

fun parse_value :: "nat \<Rightarrow> jstr \<Rightarrow> (jsval \<times> jstr) option"
  and parse_elements :: "nat \<Rightarrow> jstr \<Rightarrow> (jsval list \<times> jstr) option"
  and parse_members :: "nat \<Rightarrow> jstr \<Rightarrow> ((jstr \<times> jsval) list \<times> jstr) option"
where
  "parse_value 0 s = None"
| "parse_value (Suc n) s =
     (case skip_ws s of
        [] \<Rightarrow> None
      | u # r \<Rightarrow>
          if u = u16 CHR ''\"'' then map_option (\<lambda>(t, r'). (JStr t, r')) (parse_string r)
          else if u = u16 CHR ''{'' then
            (case skip_ws r of
               [] \<Rightarrow> None
             | v # r' \<Rightarrow>
                 if v = u16 CHR ''}'' then Some (JObj [], r')
                 else map_option (\<lambda>(kvs, r'). (object_of kvs, r')) (parse_members n r))
          else if u = u16 CHR ''['' then
            (case skip_ws r of
               [] \<Rightarrow> None
             | v # r' \<Rightarrow>
                 if v = u16 CHR '']'' then Some (JArr [], r')
                 else map_option (\<lambda>(vs, r'). (JArr vs, r')) (parse_elements n r))
          else if u = u16 CHR ''-'' \<or> is_digit u then parse_number (u # r)
          else parse_literal (u # r))"
| "parse_elements 0 s = None"
| "parse_elements (Suc n) s =
     (case parse_value n s of
        None \<Rightarrow> None
      | Some (v, r) \<Rightarrow>
          (case skip_ws r of
             [] \<Rightarrow> None
           | u # r' \<Rightarrow>
               if u = u16 CHR '','' then map_option (\<lambda>(vs, r''). (v # vs, r'')) (parse_elements n r')
               else if u = u16 CHR '']'' then Some ([v], r') else None))"
| "parse_members 0 s = None"
| "parse_members (Suc n) s =
     (case skip_ws s of
        [] \<Rightarrow> None
      | q # s1 \<Rightarrow>
          if q \<noteq> u16 CHR ''\"'' then None
          else (case parse_string s1 of
              None \<Rightarrow> None
            | Some (k, s2) \<Rightarrow>
                (case skip_ws s2 of
                   [] \<Rightarrow> None
                 | c # s3 \<Rightarrow>
                     if c \<noteq> u16 CHR '':'' then None
                     else (case parse_value n s3 of
                         None \<Rightarrow> None
                       | Some (v, r) \<Rightarrow>
                           (case skip_ws r of
                              [] \<Rightarrow> None
                            | u # r' \<Rightarrow>
                                if u = u16 CHR '','' then
                                  map_option (\<lambda>(kvs, r''). ((k, v) # kvs, r'')) (parse_members n r')
                                else if u = u16 CHR ''}'' then Some ([(k, v)], r') else None)))))"

definition json_parse :: "jstr \<Rightarrow> jsval option" where
  "json_parse s =
     (case parse_value (Suc (length s)) s of
        Some (v, r) \<Rightarrow> if skip_ws r = [] then Some v else None
      | None \<Rightarrow> None)"

section \<open>JSON.stringify\<close>

definition hex_lower :: "nat \<Rightarrow> unit16" where
  "hex_lower d = (if d < 10 then word_of_nat (48 + d) else word_of_nat (87 + d))"

definition u_escape :: "unit16 \<Rightarrow> jstr" where
  "u_escape u = (let n = unat u in
     [u16 CHR 0x5C, u16 CHR ''u'', hex_lower (n div 4096), hex_lower (n div 256 mod 16),
      hex_lower (n div 16 mod 16), hex_lower (n mod 16)])"

definition quote_unit :: "unit16 \<Rightarrow> jstr" where
  "quote_unit u =
     (if u = u16 CHR ''\"'' \<or> u = u16 CHR 0x5C then [u16 CHR 0x5C, u]
      else if u = 8 then [u16 CHR 0x5C, u16 CHR ''b'']
      else if u = 12 then [u16 CHR 0x5C, u16 CHR ''f'']
      else if u = 10 then [u16 CHR 0x5C, u16 CHR ''n'']
      else if u = 13 then [u16 CHR 0x5C, u16 CHR ''r'']
      else if u = 9 then [u16 CHR 0x5C, u16 CHR ''t'']
      else if unat u < 32 \<or> is_high u \<or> is_low u then u_escape u
      else [u])"

text \<open>Surrogate pairs are printed as they are, lone surrogates escaped.\<close>

fun quote_units :: "jstr \<Rightarrow> jstr" where
  "quote_units [] = []"
| "quote_units [u] = quote_unit u"
| "quote_units (u # v # r) =
     (if is_high u \<and> is_low v then u # v # quote_units r else quote_unit u @ quote_units (v # r))"

definition json_quote :: "jstr \<Rightarrow> jstr" where
  "json_quote s = u16 CHR ''\"'' # quote_units s @ [u16 CHR ''\"'']"

text \<open>\<open>undefined\<close> inside an array prints as \<open>null\<close>, an undefined member is left out; the
  sources stringify objects only.\<close>

fun json_stringify :: "jsval \<Rightarrow> jstr" where
  "json_stringify JUndefined = js ''null''"
| "json_stringify JNull = js ''null''"
| "json_stringify (JBool b) = (if b then js ''true'' else js ''false'')"
| "json_stringify (JNum n) = (if is_finite n then num_to_string n else js ''null'')"
| "json_stringify (JStr s) = json_quote s"
| "json_stringify (JArr vs) = js ''['' @ join_with (js '','') (map json_stringify vs) @ js '']''"
| "json_stringify (JObj fs) =
     js ''{'' @ join_with (js '','')
       (map (\<lambda>(k, t). json_quote k @ js '':'' @ t)
         (map (\<lambda>(k, v). (k, json_stringify v)) (filter (\<lambda>(k, v). v \<noteq> JUndefined) fs))) @ js ''}''"

section \<open>Round trip\<close>

text \<open>The values whose text the sources exchange: no \<open>undefined\<close>, whole numbers, distinct keys.\<close>

fun json_data :: "jsval \<Rightarrow> bool" where
  "json_data JUndefined = False"
| "json_data JNull = True"
| "json_data (JBool b) = True"
| "json_data (JNum n) = (case n of Fin r \<Rightarrow> r = of_int \<lfloor>r\<rfloor> \<and> \<bar>r\<bar> < 10 ^ 21 | _ \<Rightarrow> False)"
| "json_data (JStr s) = True"
| "json_data (JArr vs) = list_all json_data vs"
| "json_data (JObj fs) = (distinct (map fst fs) \<and> list_all json_data (map snd fs))"

lemma parse_string_plain:
  "u \<noteq> u16 CHR ''\"'' \<Longrightarrow> u \<noteq> u16 CHR 0x5C \<Longrightarrow> 32 \<le> unat u \<Longrightarrow>
     parse_string (u # r) = add_unit u (parse_string r)"
  by simp

lemma surrogate_plain:
  assumes "is_high u \<or> is_low u"
  shows "u \<noteq> u16 CHR ''\"''" "u \<noteq> u16 CHR 0x5C" "32 \<le> unat u"
  using assms by (auto simp: is_high_def is_low_def)

lemma hex_value_lower: "d < 16 \<Longrightarrow> hex_value (hex_lower d) = Some d"
proof -
  assume d: "d < 16"
  have "unat (word_of_nat m :: unit16) = m" if "m < 65536" for m
    using that by (simp add: unat_of_nat)
  from this [of "48 + d"] this [of "87 + d"] d
  have "unat (hex_lower d) = (if d < 10 then 48 + d else 87 + d)"
    unfolding hex_lower_def by (simp del: of_nat_add)
  with d show ?thesis by (simp add: hex_value_def radix_value_def)
qed

lemma split_unit:
  "(n :: nat) div 4096 * 4096 + n div 256 mod 16 * 256 + n div 16 mod 16 * 16 + n mod 16 = n"
proof -
  have d: "n div 256 = n div 16 div 16" "n div 4096 = n div 16 div 16 div 16"
    by (simp_all add: div_mult2_eq [symmetric])
  have m: "m div 16 * 16 + m mod 16 = m" for m :: nat by simp
  show ?thesis
    using m [of n] m [of "n div 16"] m [of "n div 16 div 16"] unfolding d by linarith
qed

lemma parse_u_escape: "parse_string (u_escape u @ r) = add_unit u (parse_string r)"
proof -
  have "unat u div 4096 < 16" using unit_bound [of u] by (simp add: less_mult_imp_div_less)
  then have "hex4 (hex_lower (unat u div 4096)) (hex_lower (unat u div 256 mod 16))
      (hex_lower (unat u div 16 mod 16)) (hex_lower (unat u mod 16)) = Some u"
    by (simp add: hex4_def hex_value_lower split_unit del: of_nat_add of_nat_mult)
  then show ?thesis by (simp add: u_escape_def Let_def)
qed

lemma parse_quote_unit: "parse_string (quote_unit u @ r) = add_unit u (parse_string r)"
  by (auto simp: quote_unit_def unescape_def parse_u_escape not_less)

lemma add_unit_Some [simp]: "add_unit u (Some (t, r)) = Some (u # t, r)"
  by (simp add: add_unit_def)

lemma parse_quote: "parse_string (quote_units s @ u16 CHR ''\"'' # r) = Some (s, r)"
proof (induction s rule: quote_units.induct)
  case (3 u v s)
  then show ?case
    using surrogate_plain [of u] surrogate_plain [of v]
    by (auto simp: parse_quote_unit parse_string_plain simp del: parse_string.simps)
qed (simp_all add: parse_quote_unit del: parse_string.simps(2), simp_all)

lemma is_digit_number_unit: "is_digit u \<Longrightarrow> number_unit u"
  by (simp add: number_unit_def)

definition delimited :: "jstr \<Rightarrow> bool" where
  "delimited r \<longleftrightarrow> r = [] \<or> \<not> number_unit (hd r)"

lemma show_nat_no_leading_zero: "0 < n \<Longrightarrow> hd (show_nat n) \<noteq> u16 CHR ''0''"
proof (induction n rule: show_nat.induct)
  case (1 n)
  show ?case
  proof (cases "n < 10")
    case True
    then have "unat (digit_unit n) \<noteq> unat (u16 CHR ''0'')" using 1 by simp
    then have "digit_unit n \<noteq> u16 CHR ''0''" by metis
    with True show ?thesis by (simp add: show_nat.simps [of n])
  next
    case False
    with 1 show ?thesis by (simp add: show_nat.simps [of n] div_greater_zero_iff)
  qed
qed

lemma show_nat_zero: "show_nat 0 = [u16 CHR ''0'']"
  by (simp add: show_nat.simps digit_unit_def u16_def)

lemma json_number_show_nat:
  assumes "n < 10 ^ 21"
  shows "json_number (show_nat n) = Some (num_of_nat n)"
    and "json_number (u16 CHR ''-'' # show_nat n) = Some (Fin (- of_nat n))"
proof -
  have t: "takeWhile is_digit (show_nat n) = show_nat n"
    and d: "dropWhile is_digit (show_nat n) = []"
    using show_nat_is_digit [of n] by (auto simp: takeWhile_eq_all_conv)
  have z: "\<not> (hd (show_nat n) = u16 CHR ''0'' \<and> length (show_nat n) \<noteq> Suc 0)"
    using show_nat_no_leading_zero [of n] show_nat_zero by (cases "n = 0") auto
  have h: "hd (show_nat n) \<noteq> u16 CHR ''-''"
    using bspec [OF show_nat_is_digit [of n], of "hd (show_nat n)"] by (auto simp: is_digit_bounds)
  have lim: "(10 ^ 21 :: rat) < 2 ^ 1024 - 2 ^ 970" by simp
  have "of_nat n < (10 ^ 21 :: rat)"
    using assms by (metis of_nat_less_iff of_nat_numeral of_nat_power)
  with lim have "double_of_rat (of_nat n) = Fin (of_nat n)" "double_of_rat (- of_nat n) = Fin (- of_nat n)"
    unfolding double_of_rat_def by auto
  with h z show "json_number (show_nat n) = Some (num_of_nat n)"
    "json_number (u16 CHR ''-'' # show_nat n) = Some (Fin (- of_nat n))"
    using show_nat_is_digit [of n]
    by (simp_all add: json_number_def Let_def t d read_digits_show_nat read_exponent_def)
qed

lemma number_unit_show_nat: "\<forall>u \<in> set (show_nat n). number_unit u"
  using show_nat_is_digit is_digit_number_unit by blast

lemma parse_number_text:
  assumes "\<forall>u \<in> set t. number_unit u" and "delimited r" and "json_number t = Some x"
  shows "parse_number (t @ r) = Some (JNum x, r)"
proof -
  have "takeWhile number_unit r = []" "dropWhile number_unit r = r"
    using assms(2) by (cases r; simp add: delimited_def)+
  then show ?thesis using assms(1,3) by (simp add: parse_number_def takeWhile_append2 dropWhile_append2)
qed

text \<open>The text of a whole number.\<close>

lemma num_to_string_int:
  "num_to_string (Fin (of_int i)) = (if i < 0 then [u16 CHR ''-''] else []) @ show_nat (nat \<bar>i\<bar>)"
  by (simp add: Let_def js_Cons del: of_int_abs add: of_int_abs [symmetric])

lemma parse_int:
  assumes "\<bar>i\<bar> < 10 ^ 21" and "delimited r"
  shows "parse_number (num_to_string (Fin (of_int i)) @ r) = Some (JNum (Fin (of_int i)), r)"
proof (rule parse_number_text)
  show "\<forall>u \<in> set (num_to_string (Fin (of_int i))). number_unit u"
    unfolding num_to_string_int using number_unit_show_nat by (auto simp: number_unit_def)
  have "nat \<bar>i\<bar> < 10 ^ 21" using assms(1) by simp
  note json_number_show_nat [OF this]
  then show "json_number (num_to_string (Fin (of_int i))) = Some (Fin (of_int i))"
    unfolding num_to_string_int by auto
qed (rule assms(2))

lemma json_stringify_head:
  assumes "json_data v"
  obtains u t where "json_stringify v = u # t" "\<not> json_space u" "u \<noteq> u16 CHR '']''" "u \<noteq> u16 CHR ''}''"
proof -
  have num: "\<exists>u t. num_to_string (Fin (of_int i)) = u # t \<and> \<not> json_space u \<and>
      u \<noteq> u16 CHR '']'' \<and> u \<noteq> u16 CHR ''}''" for i
  proof -
    obtain u t where ut: "show_nat (nat \<bar>i\<bar>) = u # t" by (meson show_nat_nonempty neq_Nil_conv)
    then have "is_digit u" using show_nat_is_digit [of "nat \<bar>i\<bar>"] by simp
    with ut show ?thesis
      unfolding num_to_string_int by (auto simp: is_digit_bounds json_space_def u16_def)
  qed
  have "\<exists>u t. json_stringify v = u # t \<and> \<not> json_space u \<and> u \<noteq> u16 CHR '']'' \<and> u \<noteq> u16 CHR ''}''"
  proof (cases v)
    case (JNum n)
    with assms obtain i where "n = Fin (of_int i)" by (auto split: jnum.splits)
    with JNum num [of i] show ?thesis by (simp add: is_finite_def)
  qed (use assms in \<open>auto simp: js_Cons json_quote_def json_space_def u16_def\<close>)
  with that show thesis by blast
qed

lemma skip_ws_head: "\<not> json_space u \<Longrightarrow> skip_ws (u # t) = u # t"
  by (simp add: skip_ws_def)

lemma json_space_simps [simp]:
  "\<not> json_space (u16 CHR '','')" "\<not> json_space (u16 CHR '']'')" "\<not> json_space (u16 CHR ''}'')"
  "\<not> json_space (u16 CHR ''['')" "\<not> json_space (u16 CHR ''{'')" "\<not> json_space (u16 CHR '':'')"
  "\<not> json_space (u16 CHR ''\"'')" "\<not> json_space (u16 CHR ''t'')" "\<not> json_space (u16 CHR ''f'')"
  "\<not> json_space (u16 CHR ''n'')"
  by (simp_all add: json_space_def u16_def)

lemma delimited_simps [simp]:
  "delimited (u16 CHR '','' # r)" "delimited (u16 CHR '']'' # r)" "delimited (u16 CHR ''}'' # r)"
  "delimited []"
  by (simp_all add: delimited_def number_unit_def is_digit_bounds)

text \<open>What the parser must do with the text of a value, given enough depth.\<close>

definition reads_back :: "jsval \<Rightarrow> bool" where
  "reads_back v \<longleftrightarrow>
     (\<forall>n r. Suc (length (json_stringify v)) \<le> n \<longrightarrow> delimited r \<longrightarrow>
        parse_value n (json_stringify v @ r) = Some (v, r))"

lemma parse_elements_join:
  assumes "\<forall>v \<in> set vs. reads_back v" and "vs \<noteq> []"
    and "Suc (length (join_with (js '','') (map json_stringify vs))) < n"
  shows "parse_elements n (join_with (js '','') (map json_stringify vs) @ u16 CHR '']'' # r) = Some (vs, r)"
  using assms
proof (induction vs arbitrary: n)
  case (Cons v vs)
  from Cons.prems(3) obtain k where n: "n = Suc k" by (cases n) auto
  show ?case
  proof (cases vs)
    case Nil
    with Cons.prems n have "parse_value k (json_stringify v @ u16 CHR '']'' # r) = Some (v, u16 CHR '']'' # r)"
      by (simp add: reads_back_def)
    with Nil n show ?thesis by (simp add: skip_ws_head)
  next
    case (Cons v' vs')
    let ?rest = "join_with (js '','') (map json_stringify vs)"
    have joined: "join_with (js '','') (map json_stringify (v # vs)) = json_stringify v @ u16 CHR '','' # ?rest"
      using Cons by (simp add: js_Cons)
    have "parse_value k (json_stringify v @ u16 CHR '','' # ?rest @ u16 CHR '']'' # r) =
        Some (v, u16 CHR '','' # ?rest @ u16 CHR '']'' # r)"
      using Cons.prems n joined unfolding reads_back_def by simp
    moreover have "parse_elements k (?rest @ u16 CHR '']'' # r) = Some (vs, r)"
      using Cons.prems n joined Cons by (intro Cons.IH) simp_all
    ultimately show ?thesis unfolding n joined by (simp add: skip_ws_head)
  qed
qed simp

abbreviation member_text :: "jstr \<times> jsval \<Rightarrow> jstr" where
  "member_text \<equiv> \<lambda>(k, v). json_quote k @ js '':'' @ json_stringify v"

lemma parse_members_join:
  assumes "\<forall>kv \<in> set fs. reads_back (snd kv)" and "fs \<noteq> []"
    and "Suc (length (join_with (js '','') (map member_text fs))) < n"
  shows "parse_members n (join_with (js '','') (map member_text fs) @ u16 CHR ''}'' # r) = Some (fs, r)"
  using assms
proof (induction fs arbitrary: n)
  case (Cons kv fs)
  obtain key v where kv: "kv = (key, v)" by (cases kv)
  from Cons.prems(3) obtain k where n: "n = Suc k" by (cases n) auto
  have reads: "parse_value k (json_stringify v @ r') = Some (v, r')"
    if "Suc (length (json_stringify v)) \<le> k" "delimited r'" for r'
    using Cons.prems(1) that kv unfolding reads_back_def by simp
  show ?case
  proof (cases fs)
    case Nil
    have "parse_value k (json_stringify v @ u16 CHR ''}'' # r) = Some (v, u16 CHR ''}'' # r)"
      using Cons.prems(3) n kv Nil by (intro reads) (simp_all add: json_quote_def js_Cons)
    with Nil n kv show ?thesis
      by (simp add: json_quote_def js_Cons skip_ws_head parse_quote)
  next
    case (Cons kv' fs')
    let ?rest = "join_with (js '','') (map member_text fs)"
    have joined: "join_with (js '','') (map member_text (kv # fs)) = member_text kv @ u16 CHR '','' # ?rest"
      using Cons by (simp add: js_Cons)
    have len: "length (member_text kv @ u16 CHR '','' # ?rest) < k"
      using Cons.prems(3) n joined by simp
    have "parse_value k (json_stringify v @ u16 CHR '','' # ?rest @ u16 CHR ''}'' # r) =
        Some (v, u16 CHR '','' # ?rest @ u16 CHR ''}'' # r)"
      using len kv by (intro reads) (simp_all add: json_quote_def js_Cons)
    moreover have "parse_members k (?rest @ u16 CHR ''}'' # r) = Some (fs, r)"
      using Cons.prems(1) len Cons by (intro Cons.IH) simp_all
    ultimately show ?thesis unfolding n joined
      by (simp add: kv json_quote_def js_Cons skip_ws_head parse_quote)
  qed
qed simp

lemma alist_merge_distinct: "distinct (map fst fs) \<Longrightarrow> alist_merge [] fs = fs"
proof -
  have "distinct (map fst (acc @ fs)) \<Longrightarrow> alist_merge acc fs = acc @ fs" for acc
  proof (induction fs arbitrary: acc)
    case (Cons kv fs)
    obtain k v where kv: "kv = (k, v)" by (cases kv)
    with Cons.prems have "k \<notin> fst ` set acc" by auto
    with kv have "alist_merge acc (kv # fs) = alist_merge (acc @ [kv]) fs"
      by (simp add: alist_merge_def alist_set_fresh)
    with Cons show ?case by simp
  qed (simp add: alist_merge_def)
  from this [of "[]"] show "distinct (map fst fs) \<Longrightarrow> alist_merge [] fs = fs" by simp
qed

lemma reads_back_array:
  assumes "\<forall>v \<in> set vs. reads_back v \<and> json_data v"
  shows "reads_back (JArr vs)"
  unfolding reads_back_def
proof (intro allI impI)
  fix n r
  assume n: "Suc (length (json_stringify (JArr vs))) \<le> n" and "delimited r"
  then obtain k where k: "n = Suc k" by (cases n) auto
  show "parse_value n (json_stringify (JArr vs) @ r) = Some (JArr vs, r)"
  proof (cases vs)
    case Nil
    with k show ?thesis by (simp add: js_Cons skip_ws_head)
  next
    case (Cons v vs')
    let ?t = "join_with (js '','') (map json_stringify vs)"
    obtain u t where "json_stringify v = u # t" "\<not> json_space u" "u \<noteq> u16 CHR '']''"
      using assms Cons by (auto elim: json_stringify_head)
    then obtain t' where head: "?t = u # t'" "\<not> json_space u" "u \<noteq> u16 CHR '']''"
      using Cons by (cases vs') auto
    have "parse_elements k (?t @ u16 CHR '']'' # r) = Some (vs, r)"
      using assms Cons n k by (intro parse_elements_join) (auto simp: js_Cons)
    with head k show ?thesis by (simp add: js_Cons skip_ws_head)
  qed
qed

lemma reads_back_object:
  assumes "\<forall>kv \<in> set fs. reads_back (snd kv) \<and> json_data (snd kv)" and "distinct (map fst fs)"
  shows "reads_back (JObj fs)"
  unfolding reads_back_def
proof (intro allI impI)
  fix n r
  assume n: "Suc (length (json_stringify (JObj fs))) \<le> n" and "delimited r"
  then obtain k where k: "n = Suc k" by (cases n) auto
  have defined: "filter (\<lambda>(k, v). v \<noteq> JUndefined) fs = fs"
    using assms(1) by (intro filter_True) auto
  let ?t = "join_with (js '','') (map member_text fs)"
  have str: "json_stringify (JObj fs) = u16 CHR ''{'' # ?t @ [u16 CHR ''}'']"
    using defined by (simp add: js_Cons comp_def case_prod_unfold)
  show "parse_value n (json_stringify (JObj fs) @ r) = Some (JObj fs, r)"
  proof (cases fs)
    case Nil
    with k show ?thesis by (simp add: js_Cons skip_ws_head)
  next
    case (Cons kv fs')
    then obtain t' where head: "?t = u16 CHR ''\"'' # t'"
      by (cases kv; cases fs') (simp_all add: json_quote_def)
    have "Suc (length ?t) < k" using n unfolding str k by simp
    then have "parse_members k (?t @ u16 CHR ''}'' # r) = Some (fs, r)"
      using assms(1) Cons by (intro parse_members_join) auto
    with head k show ?thesis unfolding str
      by (simp add: skip_ws_head object_of_def alist_merge_distinct assms(2))
  qed
qed

lemma json_reads_back: "json_data v \<Longrightarrow> reads_back v"
proof (induction v)
  case (JNum x)
  then obtain i where x: "x = Fin (of_int i)" "\<bar>i\<bar> < 10 ^ 21"
    by (auto split: jnum.splits)
  show ?case unfolding reads_back_def
  proof (intro allI impI)
    fix n r assume "Suc (length (json_stringify (JNum x))) \<le> n" and r: "delimited r"
    then obtain k where k: "n = Suc k" by (cases n) auto
    obtain u t where ut: "num_to_string x @ r = u # t" "\<not> json_space u" "u = u16 CHR ''-'' \<or> is_digit u"
    proof -
      obtain u t where "show_nat (nat \<bar>i\<bar>) = u # t" by (meson show_nat_nonempty neq_Nil_conv)
      moreover from this have "is_digit u" using show_nat_is_digit [of "nat \<bar>i\<bar>"] by simp
      moreover from this have "\<not> json_space u" by (auto simp: is_digit_bounds json_space_def)
      ultimately show thesis using that unfolding x(1) num_to_string_int
        by (cases "i < 0") (auto simp: json_space_def u16_def)
    qed
    moreover have "is_digit u \<Longrightarrow> u \<noteq> u16 CHR ''\"'' \<and> u \<noteq> u16 CHR ''{'' \<and> u \<noteq> u16 CHR ''[''"
      by (auto simp: is_digit_bounds)
    ultimately have "parse_value n (num_to_string x @ r) = parse_number (num_to_string x @ r)"
      unfolding k by (auto simp: skip_ws_head)
    then show "parse_value n (json_stringify (JNum x) @ r) = Some (JNum x, r)"
      using parse_int [OF x(2) r] x(1) by (simp add: is_finite_def del: num_to_string.simps)
  qed
next
  case (JArr vs)
  then show ?case by (intro reads_back_array) (auto simp: list_all_iff)
next
  case (JObj fs)
  then show ?case by (intro reads_back_object) (fastforce simp: list_all_iff)+
next
  case (JStr s)
  then show ?case unfolding reads_back_def
    by (auto simp: json_quote_def skip_ws_head parse_quote Suc_le_eq dest!: less_imp_Suc_add)
next
  case (JBool b)
  then show ?case unfolding reads_back_def
    by (auto simp: js_Cons skip_ws_head parse_literal_def starts_with_def is_digit_u16 Suc_le_eq
        dest!: less_imp_Suc_add)
next
  case JNull
  then show ?case unfolding reads_back_def
    by (auto simp: js_Cons skip_ws_head parse_literal_def starts_with_def is_digit_u16 Suc_le_eq
        dest!: less_imp_Suc_add)
qed simp

lemma json_round_trip: "json_data v \<Longrightarrow> json_parse (json_stringify v) = Some v"
  using json_reads_back [of v] unfolding reads_back_def json_parse_def
  by (auto dest!: spec [of _ "Suc (length (json_stringify v))"] spec [of _ "[]"] simp: skip_ws_def)

end
