(* ===== verification/Regexp.thy ===== *)
theory Regexp
  imports Json
begin

text \<open>
  The fragment of ECMAScript regular expressions the sources write: character classes, the
  quantifiers \<open>*\<close>, \<open>+\<close>, \<open>?\<close> and \<open>{n}\<close>, negative look-ahead and the end anchor.

  A pattern anchored at the start is a list of terms. \<open>ends\<close> gives what may remain of a
  subject after the terms have matched a prefix of it, \<open>test\<close> is \<open>RegExp.prototype.test\<close>
  and \<open>parse_regexp\<close> reads the source text of a pattern the way \<open>new RegExp(text, 'u')\<close> does,
  failing outside the fragment. Every class of the sources is a set of code units of the basic
  plane or the complement of one, so matching by code units and by code points agree.
\<close>

type_synonym cls = "unit16 \<Rightarrow> bool"

datatype regex =
    One cls
  | Many cls
  | Some1 cls
  | Times nat cls
  | Opt "regex list"
  | Not_ahead "regex list"
  | End

section \<open>Matching\<close>

fun many :: "cls \<Rightarrow> jstr \<Rightarrow> jstr list" where
  "many P [] = [[]]"
| "many P (u # s) = (u # s) # (if P u then many P s else [])"

fun ends1 :: "regex \<Rightarrow> jstr \<Rightarrow> jstr list"
  and ends :: "regex list \<Rightarrow> jstr \<Rightarrow> jstr list"
where
  "ends1 (One P) s = (case s of [] \<Rightarrow> [] | u # t \<Rightarrow> if P u then [t] else [])"
| "ends1 (Many P) s = many P s"
| "ends1 (Some1 P) s = (case s of [] \<Rightarrow> [] | u # t \<Rightarrow> if P u then many P t else [])"
| "ends1 (Times n P) s =
     (if n \<le> length s \<and> list_all P (take n s) then [drop n s] else [])"
| "ends1 (Opt rs) s = s # ends rs s"
| "ends1 (Not_ahead rs) s = (if ends rs s = [] then [s] else [])"
| "ends1 End s = (if s = [] then [s] else [])"
| "ends [] s = [s]"
| "ends (r # rs) s = concat (map (ends rs) (ends1 r s))"

definition test :: "regex list \<Rightarrow> jstr \<Rightarrow> bool" where
  "test rs s \<longleftrightarrow> ends rs s \<noteq> []"

lemma in_many_iff: "t \<in> set (many P s) \<longleftrightarrow> (\<exists>p. s = p @ t \<and> list_all P p)"
proof (induction P s rule: many.induct)
  case (2 P u s)
  have "(\<exists>p. u # s = p @ t \<and> list_all P p) \<longleftrightarrow>
      t = u # s \<or> P u \<and> (\<exists>p. s = p @ t \<and> list_all P p)"
    by (auto simp: Cons_eq_append_conv)
  with 2 show ?case by auto
qed auto

lemma in_ends_append: "t \<in> set (ends (rs @ rs') s) \<longleftrightarrow> (\<exists>m \<in> set (ends rs s). t \<in> set (ends rs' m))"
  by (induction rs arbitrary: s) auto

lemma in_ends1_One: "t \<in> set (ends1 (One P) s) \<longleftrightarrow> (\<exists>u. s = u # t \<and> P u)"
  by (cases s) auto

lemma in_ends1_Some1:
  "t \<in> set (ends1 (Some1 P) s) \<longleftrightarrow> (\<exists>p. p \<noteq> [] \<and> s = p @ t \<and> list_all P p)"
proof (cases s)
  case (Cons u s')
  have "(\<exists>p. p \<noteq> [] \<and> u # s' = p @ t \<and> list_all P p) \<longleftrightarrow>
      P u \<and> (\<exists>q. s' = q @ t \<and> list_all P q)"
    by (auto simp: Cons_eq_append_conv)
  with Cons show ?thesis by (auto simp: in_many_iff)
qed simp

lemmas in_ends1 = in_many_iff in_ends1_One in_ends1_Some1

lemma test_iff: "test rs s \<longleftrightarrow> (\<exists>t. t \<in> set (ends rs s))"
  by (metis test_def list.set_intros(1) neq_Nil_conv length_pos_if_in_set list.size(3) less_irrefl)

lemma in_ends_Cons: "t \<in> set (ends (r # rs) s) \<longleftrightarrow> (\<exists>m \<in> set (ends1 r s). t \<in> set (ends rs m))"
  by simp

lemma in_ends_End: "t \<in> set (ends [End] s) \<longleftrightarrow> s = [] \<and> t = []"
  by auto

text \<open>A literal text, one term for every code unit.\<close>

definition literal :: "jstr \<Rightarrow> regex list" where
  "literal s = map (\<lambda>c. One (\<lambda>u. u = c)) s"

lemma in_ends_literal: "t \<in> set (ends (literal p) s) \<longleftrightarrow> s = p @ t"
proof (induction p arbitrary: s)
  case (Cons c p)
  then show ?case by (cases s) (auto simp: literal_def)
qed (auto simp: literal_def)

section \<open>Pattern texts\<close>

definition is_syntax_character :: "unit16 \<Rightarrow> bool" where
  "is_syntax_character u \<longleftrightarrow> u \<in> set (js ''^$.*+?()[]{}|'') \<or> u = u16 CHR 0x5C"

text \<open>One atom of a pattern: an escaped syntax character, the class \<open>[^/]\<close>, the dot or a
  character that stands for itself.\<close>

definition parse_atom :: "jstr \<Rightarrow> (cls \<times> jstr) option" where
  "parse_atom s = (case s of
       [] \<Rightarrow> None
     | u # s' \<Rightarrow>
         if u = u16 CHR 0x5C then (case s' of
            [] \<Rightarrow> None
          | c # t \<Rightarrow> if is_syntax_character c \<or> c = u16 CHR ''/'' then Some (\<lambda>v. v = c, t) else None)
         else if starts_with (js ''[^/]'') s then Some (\<lambda>v. v \<noteq> u16 CHR ''/'', drop 4 s)
         else if u = u16 CHR ''.'' then Some (\<lambda>v. \<not> is_line_terminator v, s')
         else if is_syntax_character u then None
         else Some (\<lambda>v. v = u, s'))"

definition parse_quantifier :: "cls \<Rightarrow> jstr \<Rightarrow> regex \<times> jstr" where
  "parse_quantifier P s = (case s of
       [] \<Rightarrow> (One P, [])
     | u # t \<Rightarrow>
         if u = u16 CHR ''*'' then (Many P, t)
         else if u = u16 CHR ''+'' then (Some1 P, t)
         else if u = u16 CHR ''?'' then (Opt [One P], t)
         else (One P, s))"

lemma parse_atom_shorter: "parse_atom s = Some (P, t) \<Longrightarrow> length t < length s"
  by (cases s) (auto simp: parse_atom_def split: list.splits if_splits)

lemma parse_quantifier_shorter: "parse_quantifier P s = (r, t) \<Longrightarrow> length t \<le> length s"
  by (cases s) (auto simp: parse_quantifier_def split: if_splits)

text \<open>The text between the anchors; \<open>None\<close> is a text outside the fragment.\<close>

function parse_terms :: "jstr \<Rightarrow> regex list option" where
  "parse_terms s =
     (if s = [] then Some []
      else case parse_atom s of
        None \<Rightarrow> None
      | Some (P, t) \<Rightarrow>
          (case parse_quantifier P t of (r, t') \<Rightarrow> map_option ((#) r) (parse_terms t')))"
  by pat_completeness auto
termination
  by (relation "measure length")
    (auto dest: parse_atom_shorter parse_quantifier_shorter [OF sym] order_le_less_trans)

declare parse_terms.simps [simp del]

text \<open>\<open>new RegExp(text, 'u')\<close> for a text that starts with \<open>^\<close> and ends with \<open>$\<close>.\<close>

definition parse_regexp :: "jstr \<Rightarrow> regex list option" where
  "parse_regexp s =
     (if 2 \<le> length s \<and> hd s = u16 CHR ''^'' \<and> last s = u16 CHR ''$''
      then map_option (\<lambda>rs. rs @ [End]) (parse_terms (butlast (tl s)))
      else None)"

lemma parse_terms_Nil [simp]: "parse_terms [] = Some []"
  by (simp add: parse_terms.simps)

definition is_quantifier :: "unit16 \<Rightarrow> bool" where
  "is_quantifier u \<longleftrightarrow> u \<in> {u16 CHR ''*'', u16 CHR ''+'', u16 CHR ''?''}"

definition unquantified :: "jstr \<Rightarrow> bool" where
  "unquantified s \<longleftrightarrow> (case s of [] \<Rightarrow> True | u # _ \<Rightarrow> \<not> is_quantifier u)"

lemma parse_quantifier_none: "unquantified s \<Longrightarrow> parse_quantifier P s = (One P, s)"
  by (cases s) (simp_all add: parse_quantifier_def unquantified_def is_quantifier_def)

lemma parse_terms_atom:
  assumes "parse_atom s = Some (P, t)" and "parse_quantifier P t = (r, t')"
  shows "parse_terms s = map_option ((#) r) (parse_terms t')"
proof -
  have "s \<noteq> []" using assms(1) by (auto simp: parse_atom_def)
  with assms show ?thesis by (simp add: parse_terms.simps [of s])
qed

end
