(* ===== verification/Errors.thy ===== *)
theory Errors
  imports Js_Value
begin

text \<open>
  The error classes of the TypeScript SDK (\<open>sdks/typescript/src/errors.ts\<close>) and the values a
  JavaScript computation can throw.

  \<open>FissionPlaneError\<close> is the record of the class's fields with the class it was constructed
  from; \<open>instance_of\<close> is \<open>instanceof\<close> over the class hierarchy, in which every
  class extends \<open>FissionPlaneError\<close> directly. \<open>exn\<close> adds the native errors the
  sources throw or inspect.
\<close>

datatype error_class =
    FissionPlaneErrorC
  | AuthenticationErrorC
  | ForbiddenErrorC
  | NotFoundErrorC
  | ConflictErrorC
  | SnapshotExpiredErrorC
  | RateLimitErrorC
  | CommandTimeoutErrorC
  | TemplateBuildErrorC

record FissionPlaneError =
  cls :: error_class
  message :: jstr
  status :: "int option"
  code :: "jstr option"
  retryable :: bool
  requestId :: "jstr option"
  buildError :: "jstr option"

fun class_name :: "error_class \<Rightarrow> jstr" where
  "class_name FissionPlaneErrorC = js ''FissionPlaneError''"
| "class_name AuthenticationErrorC = js ''AuthenticationError''"
| "class_name ForbiddenErrorC = js ''ForbiddenError''"
| "class_name NotFoundErrorC = js ''NotFoundError''"
| "class_name ConflictErrorC = js ''ConflictError''"
| "class_name SnapshotExpiredErrorC = js ''SnapshotExpiredError''"
| "class_name RateLimitErrorC = js ''RateLimitError''"
| "class_name CommandTimeoutErrorC = js ''CommandTimeoutError''"
| "class_name TemplateBuildErrorC = js ''TemplateBuildError''"

text \<open>\<open>this.name = new.target.name\<close>\<close>

definition error_name :: "FissionPlaneError \<Rightarrow> jstr" where
  "error_name e = class_name (cls e)"

definition instance_of :: "FissionPlaneError \<Rightarrow> error_class \<Rightarrow> bool" where
  "instance_of e c \<longleftrightarrow> cls e = c \<or> c = FissionPlaneErrorC"

text \<open>The constructor shared by every class but \<open>TemplateBuildError\<close>: \<open>status\<close>, \<open>code\<close>
  and \<open>requestId\<close> may be absent, and \<open>retryable\<close> defaults to \<open>false\<close>.\<close>

definition new_error ::
  "error_class \<Rightarrow> jstr \<Rightarrow> int option \<Rightarrow> jstr option \<Rightarrow> bool option \<Rightarrow> jstr option \<Rightarrow> FissionPlaneError"
where
  "new_error c m st cd rt rid =
     \<lparr>cls = c, message = m, status = st, code = cd, retryable = with_default False rt,
      requestId = rid, buildError = None\<rparr>"

definition new_template_build_error :: "jstr \<Rightarrow> jstr option \<Rightarrow> FissionPlaneError" where
  "new_template_build_error m be =
     (new_error TemplateBuildErrorC m None None None None)\<lparr>buildError := be\<rparr>"

datatype exn =
    Sdk FissionPlaneError
  | TypeError jstr
  | RangeError jstr
  | StreamingProtocolError jstr
  | OtherError jstr
  | NonError jsval

type_synonym ('w, 'a) jio = "('w, exn, 'a) io"

text \<open>A property read that raises, as a result.\<close>

definition read_prop :: "string \<Rightarrow> jsval \<Rightarrow> exn + jsval" where
  "read_prop k v = (case getprop (js k) v of
       None \<Rightarrow> Inl (TypeError (js ''Cannot read properties of undefined''))
     | Some x \<Rightarrow> Inr x)"

lemma read_prop_jobj [simp]:
  "read_prop k (jobj fs) = Inr (case map_of fs k of None \<Rightarrow> JUndefined | Some v \<Rightarrow> v)"
  by (simp add: read_prop_def)

text \<open>\<open>errorFromResponse\<close>. The four optional members of the body are read only when the
  body is an object and the member has the expected type.\<close>

definition own :: "string \<Rightarrow> jsval \<Rightarrow> jsval option" where
  "own k body = (case body of JObj fs \<Rightarrow> map_of fs (js k) | _ \<Rightarrow> None)"

definition string_member :: "string \<Rightarrow> jsval \<Rightarrow> jstr option" where
  "string_member k body = (case own k body of Some (JStr s) \<Rightarrow> Some s | _ \<Rightarrow> None)"

definition bool_member :: "string \<Rightarrow> jsval \<Rightarrow> bool option" where
  "bool_member k body = (case own k body of Some (JBool b) \<Rightarrow> Some b | _ \<Rightarrow> None)"

definition class_of_status :: "int \<Rightarrow> error_class" where
  "class_of_status st =
     (if st = 401 then AuthenticationErrorC
      else if st = 403 then ForbiddenErrorC
      else if st = 404 then NotFoundErrorC
      else if st = 408 then CommandTimeoutErrorC
      else if st = 409 then ConflictErrorC
      else if st = 410 then SnapshotExpiredErrorC
      else if st = 429 then RateLimitErrorC
      else FissionPlaneErrorC)"

definition errorFromResponse :: "int \<Rightarrow> jsval \<Rightarrow> FissionPlaneError" where
  "errorFromResponse st body =
     (let m = with_default (js ''request failed with status '' @ show_int st)
                (string_member ''message'' body);
          cd = string_member ''code'' body;
          rt = with_default (st = 429 \<or> 500 \<le> st) (bool_member ''retryable'' body);
          rid = string_member ''request_id'' body
      in new_error (class_of_status st) m (Some st) cd (Some rt) rid)"

lemma members_of_non_object [simp]:
  "\<forall>fs. body \<noteq> JObj fs \<Longrightarrow> string_member k body = None"
  "\<forall>fs. body \<noteq> JObj fs \<Longrightarrow> bool_member k body = None"
  by (cases body; simp add: string_member_def bool_member_def own_def)+

lemma errorFromResponse_sel:
  "cls (errorFromResponse st body) = class_of_status st"
  "status (errorFromResponse st body) = Some st"
  "retryable (errorFromResponse st body) =
     with_default (st = 429 \<or> 500 \<le> st) (bool_member ''retryable'' body)"
  "code (errorFromResponse st body) = string_member ''code'' body"
  "message (errorFromResponse st body) =
     with_default (js ''request failed with status '' @ show_int st)
       (string_member ''message'' body)"
  "requestId (errorFromResponse st body) = string_member ''request_id'' body"
  by (simp_all add: errorFromResponse_def new_error_def Let_def)

end
