(* ===== verification/Platform.thy ===== *)
theory Platform
  imports Errors
begin

text \<open>
  The JavaScript platform the SDK runs on: HTTP headers, requests and responses of the Fetch
  standard, abort signals, timers, the clock, the random source and the diagnostic sink.

  \<open>runtime\<close> is the world the asynchronous code runs in. Its field \<open>net\<close> is the state of
  everything behind the network, of an arbitrary type: the platform's \<open>fetch\<close> is a
  parameter (\<open>fetch_impl\<close>) that consumes a request at a time and says what the network
  becomes and when, if ever, the promise settles. Time is counted in whole milliseconds.
\<close>

section \<open>Headers\<close>

type_synonym header_list = "(jstr, jstr) alist"

definition ascii_lower_unit :: "unit16 \<Rightarrow> unit16" where
  "ascii_lower_unit u = (if 65 \<le> unat u \<and> unat u \<le> 90 then u + 32 else u)"

definition ascii_lower :: "jstr \<Rightarrow> jstr" where
  "ascii_lower s = map ascii_lower_unit s"

lemma length_ascii_lower [simp]: "length (ascii_lower s) = length s"
  by (simp add: ascii_lower_def)

lemma ascii_lower_neq_length: "length a \<noteq> length b \<Longrightarrow> ascii_lower a \<noteq> ascii_lower b"
  by (metis length_ascii_lower)

text \<open>Header values are stored without leading and trailing HTTP white space.\<close>

definition is_http_space :: "unit16 \<Rightarrow> bool" where
  "is_http_space u \<longleftrightarrow> u \<in> {9, 10, 13, 32}"

definition http_trim :: "jstr \<Rightarrow> jstr" where
  "http_trim s = rev (dropWhile is_http_space (rev (dropWhile is_http_space s)))"

definition hdr_get :: "jstr \<Rightarrow> header_list \<Rightarrow> jstr option" where
  "hdr_get n hs = map_of hs (ascii_lower n)"

definition hdr_has :: "jstr \<Rightarrow> header_list \<Rightarrow> bool" where
  "hdr_has n hs \<longleftrightarrow> hdr_get n hs \<noteq> None"

definition hdr_delete :: "jstr \<Rightarrow> header_list \<Rightarrow> header_list" where
  "hdr_delete n hs = alist_del (ascii_lower n) hs"

text \<open>What \<open>Headers\<close> accepts: a token for a name; for a value, bytes without NUL, LF and CR.
  Everything else is a \<open>TypeError\<close>.\<close>

definition token_unit :: "unit16 \<Rightarrow> bool" where
  "token_unit u \<longleftrightarrow> (let n = unat u in
     (48 \<le> n \<and> n \<le> 57) \<or> (65 \<le> n \<and> n \<le> 90) \<or> (97 \<le> n \<and> n \<le> 122) \<or>
     n \<in> {33, 35, 36, 37, 38, 39, 42, 43, 45, 46, 94, 95, 96, 124, 126})"

definition valid_header_name :: "jstr \<Rightarrow> bool" where
  "valid_header_name n \<longleftrightarrow> n \<noteq> [] \<and> list_all token_unit n"

definition valid_header_value :: "jstr \<Rightarrow> bool" where
  "valid_header_value v \<longleftrightarrow> list_all (\<lambda>u. unat u < 256 \<and> u \<notin> {0, 10, 13}) v"

definition hdr_set :: "jstr \<Rightarrow> jstr \<Rightarrow> header_list \<Rightarrow> exn + header_list" where
  "hdr_set n v hs =
     (if valid_header_name n \<and> valid_header_value (http_trim v)
      then Inr (alist_set (ascii_lower n) (http_trim v) hs)
      else Inl (TypeError (js ''Invalid header'')))"

definition hdr_append :: "jstr \<Rightarrow> jstr \<Rightarrow> header_list \<Rightarrow> exn + header_list" where
  "hdr_append n v hs =
     (case hdr_get n hs of
        None \<Rightarrow> hdr_set n v hs
      | Some old \<Rightarrow>
          if valid_header_value (http_trim v)
          then Inr (alist_set (ascii_lower n) (old @ js '', '' @ http_trim v) hs)
          else Inl (TypeError (js ''Invalid header'')))"

text \<open>\<open>new Headers(record)\<close>\<close>

fun headers_of_record :: "(jstr, jstr) alist \<Rightarrow> header_list \<Rightarrow> exn + header_list" where
  "headers_of_record [] hs = Inr hs"
| "headers_of_record ((n, v) # kvs) hs =
     (case hdr_append n v hs of Inl e \<Rightarrow> Inl e | Inr hs' \<Rightarrow> headers_of_record kvs hs')"

lemma hdr_get_delete_same [simp]: "hdr_get n (hdr_delete n hs) = None"
  by (simp add: hdr_get_def hdr_delete_def)

lemma hdr_get_delete_other:
  "ascii_lower m \<noteq> ascii_lower n \<Longrightarrow> hdr_get m (hdr_delete n hs) = hdr_get m hs"
  by (simp add: hdr_get_def hdr_delete_def)

lemma hdr_set_Inr:
  "hdr_set n v hs = Inr hs' \<longleftrightarrow>
     valid_header_name n \<and> valid_header_value (http_trim v) \<and>
     hs' = alist_set (ascii_lower n) (http_trim v) hs"
  by (auto simp: hdr_set_def)

lemma hdr_get_set_same: "hdr_set n v hs = Inr hs' \<Longrightarrow> hdr_get n hs' = Some (http_trim v)"
  by (simp add: hdr_set_Inr hdr_get_def)

lemma hdr_get_set_other:
  "hdr_set n v hs = Inr hs' \<Longrightarrow> ascii_lower m \<noteq> ascii_lower n \<Longrightarrow> hdr_get m hs' = hdr_get m hs"
  by (simp add: hdr_set_Inr hdr_get_def)

lemma http_trim_idem:
  assumes "s = [] \<or> \<not> is_http_space (hd s) \<and> \<not> is_http_space (last s)"
  shows "http_trim s = s"
proof (cases "s = []")
  case True
  then show ?thesis by (simp add: http_trim_def)
next
  case False
  with assms have "dropWhile is_http_space s = s"
    by (metis dropWhile.simps(2) list.collapse)
  moreover have "dropWhile is_http_space (rev s) = rev s"
    using assms False by (metis dropWhile.simps(2) hd_rev list.collapse rev_is_Nil_conv)
  ultimately show ?thesis by (simp add: http_trim_def)
qed

lemma is_digit_not_http_space: "is_digit u \<Longrightarrow> \<not> is_http_space u"
  by (auto simp: is_digit_bounds is_http_space_def)

lemma http_trim_show_nat [simp]: "http_trim (show_nat n) = show_nat n"
  by (rule http_trim_idem) (meson hd_in_set is_digit_not_http_space last_in_set show_nat_is_digit)

lemma hdr_append_other:
  "hdr_append n v hs = Inr hs' \<Longrightarrow> ascii_lower m \<noteq> ascii_lower n \<Longrightarrow> hdr_get m hs' = hdr_get m hs"
  by (auto simp: hdr_append_def hdr_get_def hdr_set_Inr split: option.splits if_splits)

lemma headers_of_record_other:
  assumes "headers_of_record kvs hs = Inr hs'" and "\<forall>k \<in> fst ` set kvs. ascii_lower k \<noteq> ascii_lower m"
  shows "hdr_get m hs' = hdr_get m hs"
  using assms
proof (induction kvs hs rule: headers_of_record.induct)
  case (2 n v kvs hs)
  then obtain hs1 where "hdr_append n v hs = Inr hs1" "headers_of_record kvs hs1 = Inr hs'"
    by (auto split: sum.splits)
  with 2 show ?case using hdr_append_other [of n v hs hs1 m] by fastforce
qed simp

lemma headers_of_record_append:
  "headers_of_record (kvs @ kvs') hs =
     (case headers_of_record kvs hs of Inl e \<Rightarrow> Inl e | Inr hs' \<Rightarrow> headers_of_record kvs' hs')"
  by (induction kvs hs rule: headers_of_record.induct) (auto split: sum.splits)

lemma headers_of_record_last:
  assumes "headers_of_record (kvs @ [(n, v)]) [] = Inr hs"
    and "\<forall>k \<in> fst ` set kvs. ascii_lower k \<noteq> ascii_lower n"
  shows "hdr_get n hs = Some (http_trim v)"
proof -
  from assms(1) obtain hs1 where hs1: "headers_of_record kvs [] = Inr hs1" "hdr_append n v hs1 = Inr hs"
    by (auto simp: headers_of_record_append split: sum.splits)
  with assms(2) have "hdr_get n hs1 = None"
    using headers_of_record_other [OF hs1(1), of n] by (simp add: hdr_get_def)
  with hs1(2) have "hdr_set n v hs1 = Inr hs" by (simp add: hdr_append_def)
  then show ?thesis by (rule hdr_get_set_same)
qed

section \<open>Signals, requests and responses\<close>

text \<open>An \<open>AbortSignal\<close> is known by the time at which it fires, if it ever does, and the
  reason it then carries.\<close>

record abort_signal =
  aborts_at :: "int option"
  abort_reason :: exn

definition aborted :: "abort_signal \<Rightarrow> int \<Rightarrow> bool" where
  "aborted sig t = (case aborts_at sig of None \<Rightarrow> False | Some a \<Rightarrow> a \<le> t)"

definition abort_error :: exn where
  "abort_error = OtherError (js ''This operation was aborted'')"

datatype http_body = NoBody | Bytes "8 word list" | Text jstr

record http_request =
  rq_method :: jstr
  rq_url :: jstr
  rq_headers :: header_list
  rq_body :: http_body
  rq_signal :: "abort_signal option"

text \<open>A response is known by its status, its headers and what reading its body gives:
  \<open>json()\<close> and \<open>arrayBuffer()\<close>.\<close>

record http_response =
  rs_status :: int
  rs_headers :: header_list
  rs_json :: "exn + jsval"
  rs_bytes :: "8 word list"

definition response_ok :: "http_response \<Rightarrow> bool" where
  "response_ok r \<longleftrightarrow> 200 \<le> rs_status r \<and> rs_status r \<le> 299"

section \<open>The runtime\<close>

record 'n runtime =
  net :: 'n
  now :: int
  entropy :: "nat \<Rightarrow> rat"
  draws :: nat
  logged :: "jstr list"

text \<open>The platform's \<open>fetch\<close>: the request issued at a time takes the network to its next
  state and settles at some time, or never.\<close>

type_synonym 'n fetch_impl =
  "http_request \<Rightarrow> int \<Rightarrow> 'n \<Rightarrow> 'n \<times> (int \<times> (exn + http_response)) option"

text \<open>\<open>setTimeout(f, ms)\<close> fires after this many milliseconds: a delay below one or above
  \<open>2147483647\<close> is set to one, other delays are truncated.\<close>

definition timer_delay :: "rat \<Rightarrow> int" where
  "timer_delay ms = (if ms < 1 \<or> 2147483647 < ms then 1 else \<lfloor>ms\<rfloor>)"

lemma timer_delay_pos: "1 \<le> timer_delay ms"
  by (simp add: timer_delay_def le_floor_iff)

lemma timer_delay_le: "1 \<le> ms \<Longrightarrow> of_int (timer_delay ms) \<le> ms"
  by (simp add: timer_delay_def)

lemma timer_delay_bound: "ms \<le> of_int k \<Longrightarrow> 1 \<le> k \<Longrightarrow> timer_delay ms \<le> k"
  by (auto simp: timer_delay_def floor_le_iff intro: order_less_le_trans)

lemma timer_delay_of_nat [simp]:
  "1 \<le> k \<Longrightarrow> k \<le> 2147483647 \<Longrightarrow> timer_delay (of_nat k) = int k"
  by (simp add: timer_delay_def)

definition math_random :: "('n, 'z) runtime_scheme \<Rightarrow> rat" where
  "math_random w = entropy w (draws w)"

text \<open>The random source yields values in the half-open unit interval.\<close>

definition entropy_ok :: "('n, 'z) runtime_scheme \<Rightarrow> bool" where
  "entropy_ok w \<longleftrightarrow> (\<forall>i. 0 \<le> entropy w i \<and> entropy w i < 1)"

definition log_debug :: "bool \<Rightarrow> jstr \<Rightarrow> ('n, 'z) runtime_scheme \<Rightarrow> ('n, 'z) runtime_scheme" where
  "log_debug has m w = (if has then w\<lparr>logged := logged w @ [m]\<rparr> else w)"

lemma log_debug_sel [simp]:
  "net (log_debug h m w) = net w"
  "now (log_debug h m w) = now w"
  "entropy (log_debug h m w) = entropy w"
  "draws (log_debug h m w) = draws w"
  "runtime.more (log_debug h m w) = runtime.more w"
  by (simp_all add: log_debug_def)

definition perform :: "'n fetch_impl \<Rightarrow> http_request \<Rightarrow> (('n, 'z) runtime_scheme, http_response) jio" where
  "perform send request w =
     (case send request (now w) (net w) of
        (n', None) \<Rightarrow> None
      | (n', Some (t, r)) \<Rightarrow> Some (r, w\<lparr>net := n', now := max t (now w)\<rparr>))"

text \<open>A runtime at time zero with an even-handed random source, for concrete instances.\<close>

definition idle_runtime :: "'n \<Rightarrow> 'n runtime" where
  "idle_runtime n = \<lparr>net = n, now = 0, entropy = (\<lambda>_. 1 / 2), draws = 0, logged = []\<rparr>"

lemma entropy_ok_idle_runtime [simp]: "entropy_ok (idle_runtime n)"
  by (simp add: entropy_ok_def idle_runtime_def)

lemma idle_runtime_sel [simp]:
  "net (idle_runtime n) = n" "now (idle_runtime n) = 0" "logged (idle_runtime n) = []"
  "entropy (idle_runtime n) i = 1 / 2" "draws (idle_runtime n) = 0"
  by (simp_all add: idle_runtime_def)

end
