(* ===== verification/Names.thy ===== *)
theory Names
  imports Regexp Platform
begin

text \<open>
  The value types of the shared domain package (\<open>libs/typescript/core/src\<close>): canonical
  identifiers (\<open>shared/identifiers.ts\<close>), display names and DNS labels (\<open>shared/names.ts\<close>),
  content digests (\<open>artifacts/types.ts\<close>), and the bounded strings and literals of users,
  organizations, sandboxes, templates and the health report.

  A schema is the predicate of the strings it accepts; \<open>schema_make\<close> is its constructor,
  which throws on every other string. The generator of the \<open>nanoid\<close> package is a parameter:
  the functions that draw an identifier take the string it returned, and \<open>nanoid_draw\<close> is what
  the package documents of it.
\<close>

section \<open>Schemas\<close>

type_synonym schema = "jstr \<Rightarrow> bool"

definition parse_error :: exn where
  "parse_error = OtherError (js ''ParseError'')"

definition schema_make :: "schema \<Rightarrow> jstr \<Rightarrow> exn + jstr" where
  "schema_make S s = (if S s then Inr s else Inl parse_error)"

definition bounded :: "nat \<Rightarrow> nat \<Rightarrow> schema" where
  "bounded minLength maxLength s \<longleftrightarrow> minLength \<le> length s \<and> length s \<le> maxLength"

definition schema_literal :: "string list \<Rightarrow> schema" where
  "schema_literal lits s \<longleftrightarrow> s \<in> js ` set lits"

section \<open>shared/identifiers.ts\<close>

definition NANO_ID_ALPHABET :: jstr where
  "NANO_ID_ALPHABET = js ''0123456789abcdefghijklmnopqrstuvwxyz''"

definition NANO_ID_LENGTH :: nat where "NANO_ID_LENGTH = 24"

definition NANO_ID_PATTERN :: "regex list" where
  "NANO_ID_PATTERN = [Times NANO_ID_LENGTH (\<lambda>u. u \<in> set NANO_ID_ALPHABET), End]"

definition NanoIdSchema :: schema where
  "NanoIdSchema = test NANO_ID_PATTERN"

text \<open>A brand adds nothing to the strings a schema accepts.\<close>

definition canonicalIdSchema :: "string \<Rightarrow> schema" where
  "canonicalIdSchema brand = NanoIdSchema"

definition generateNanoId :: "jstr \<Rightarrow> exn + jstr" where
  "generateNanoId nanoid = schema_make NanoIdSchema nanoid"

text \<open>\<open>customAlphabet(alphabet, size)\<close> returns \<open>size\<close> characters of \<open>alphabet\<close>.\<close>

definition nanoid_draw :: "jstr \<Rightarrow> bool" where
  "nanoid_draw s \<longleftrightarrow> length s = NANO_ID_LENGTH \<and> set s \<subseteq> set NANO_ID_ALPHABET"

section \<open>shared/names.ts\<close>

definition DISPLAY_NAME_PATTERN :: "regex list" where
  "DISPLAY_NAME_PATTERN =
     [Not_ahead [One is_space],
      Not_ahead [Many (\<lambda>u. \<not> is_line_terminator u), One is_space, End],
      Some1 (\<lambda>u. \<not> is_control u), End]"

definition lower_alnum :: "unit16 \<Rightarrow> bool" where
  "lower_alnum u \<longleftrightarrow> 97 \<le> unat u \<and> unat u \<le> 122 \<or> 48 \<le> unat u \<and> unat u \<le> 57"

definition label_unit :: "unit16 \<Rightarrow> bool" where
  "label_unit u \<longleftrightarrow> lower_alnum u \<or> u = u16 CHR ''-''"

definition DNS_LABEL_PATTERN :: "regex list" where
  "DNS_LABEL_PATTERN = [One lower_alnum, Opt [Many label_unit, One lower_alnum], End]"

definition displayNameSchema :: "nat \<Rightarrow> nat \<Rightarrow> schema" where
  "displayNameSchema minLength maxLength s \<longleftrightarrow>
     bounded minLength maxLength s \<and> test DISPLAY_NAME_PATTERN s"

definition dnsLabelSchema :: "nat \<Rightarrow> nat \<Rightarrow> schema" where
  "dnsLabelSchema minLength maxLength s \<longleftrightarrow>
     bounded minLength maxLength s \<and> test DNS_LABEL_PATTERN s"

definition RESOURCE_DESCRIPTION_MIN_LENGTH :: nat where "RESOURCE_DESCRIPTION_MIN_LENGTH = 1"
definition RESOURCE_DESCRIPTION_MAX_LENGTH :: nat where "RESOURCE_DESCRIPTION_MAX_LENGTH = 2000"

definition ResourceDescriptionSchema :: schema where
  "ResourceDescriptionSchema =
     displayNameSchema RESOURCE_DESCRIPTION_MIN_LENGTH RESOURCE_DESCRIPTION_MAX_LENGTH"

section \<open>artifacts/types.ts\<close>

definition ARTIFACT_ID_PREFIX :: jstr where "ARTIFACT_ID_PREFIX = js ''sha256:''"
definition ARTIFACT_DIGEST_HEX_LENGTH :: nat where "ARTIFACT_DIGEST_HEX_LENGTH = 64"
definition ARTIFACT_ID_LENGTH :: nat where
  "ARTIFACT_ID_LENGTH = length ARTIFACT_ID_PREFIX + ARTIFACT_DIGEST_HEX_LENGTH"

definition lower_hex :: "unit16 \<Rightarrow> bool" where
  "lower_hex u \<longleftrightarrow> 97 \<le> unat u \<and> unat u \<le> 102 \<or> 48 \<le> unat u \<and> unat u \<le> 57"

definition ARTIFACT_ID_PATTERN :: "regex list" where
  "ARTIFACT_ID_PATTERN = literal ARTIFACT_ID_PREFIX @ [Times ARTIFACT_DIGEST_HEX_LENGTH lower_hex, End]"

definition ArtifactIdSchema :: schema where
  "ArtifactIdSchema = test ARTIFACT_ID_PATTERN"

section \<open>Users and organizations\<close>

definition USER_ID_MIN_LENGTH :: nat where "USER_ID_MIN_LENGTH = 1"
definition USER_ID_MAX_LENGTH :: nat where "USER_ID_MAX_LENGTH = 255"
definition USER_DISPLAY_NAME_MIN_LENGTH :: nat where "USER_DISPLAY_NAME_MIN_LENGTH = 1"
definition USER_DISPLAY_NAME_MAX_LENGTH :: nat where "USER_DISPLAY_NAME_MAX_LENGTH = 80"
definition AUTH_ORGANIZATION_ID_MIN_LENGTH :: nat where "AUTH_ORGANIZATION_ID_MIN_LENGTH = 1"
definition AUTH_ORGANIZATION_ID_MAX_LENGTH :: nat where "AUTH_ORGANIZATION_ID_MAX_LENGTH = 255"
definition ORGANIZATION_NAME_MIN_LENGTH :: nat where "ORGANIZATION_NAME_MIN_LENGTH = 1"
definition ORGANIZATION_NAME_MAX_LENGTH :: nat where "ORGANIZATION_NAME_MAX_LENGTH = 100"
definition ORGANIZATION_SLUG_MIN_LENGTH :: nat where "ORGANIZATION_SLUG_MIN_LENGTH = 1"
definition ORGANIZATION_SLUG_MAX_LENGTH :: nat where "ORGANIZATION_SLUG_MAX_LENGTH = 63"

definition UserIdSchema :: schema where
  "UserIdSchema = bounded USER_ID_MIN_LENGTH USER_ID_MAX_LENGTH"

definition UserDisplayNameSchema :: schema where
  "UserDisplayNameSchema = displayNameSchema USER_DISPLAY_NAME_MIN_LENGTH USER_DISPLAY_NAME_MAX_LENGTH"

definition AuthOrganizationIdSchema :: schema where
  "AuthOrganizationIdSchema = bounded AUTH_ORGANIZATION_ID_MIN_LENGTH AUTH_ORGANIZATION_ID_MAX_LENGTH"

definition OrganizationIdSchema :: schema where
  "OrganizationIdSchema = canonicalIdSchema ''OrganizationId''"

definition OrganizationNameSchema :: schema where
  "OrganizationNameSchema = displayNameSchema ORGANIZATION_NAME_MIN_LENGTH ORGANIZATION_NAME_MAX_LENGTH"

definition OrganizationSlugSchema :: schema where
  "OrganizationSlugSchema = dnsLabelSchema ORGANIZATION_SLUG_MIN_LENGTH ORGANIZATION_SLUG_MAX_LENGTH"

definition generateOrganizationId :: "jstr \<Rightarrow> exn + jstr" where
  "generateOrganizationId nanoid =
     (case generateNanoId nanoid of Inl e \<Rightarrow> Inl e | Inr s \<Rightarrow> schema_make OrganizationIdSchema s)"

section \<open>Sandboxes and templates\<close>

definition SANDBOX_NAME_MIN_LENGTH :: nat where "SANDBOX_NAME_MIN_LENGTH = 1"
definition SANDBOX_NAME_MAX_LENGTH :: nat where "SANDBOX_NAME_MAX_LENGTH = 63"
definition TEMPLATE_ALIAS_MIN_LENGTH :: nat where "TEMPLATE_ALIAS_MIN_LENGTH = 1"
definition TEMPLATE_ALIAS_MAX_LENGTH :: nat where "TEMPLATE_ALIAS_MAX_LENGTH = 63"

definition SandboxIdSchema :: schema where
  "SandboxIdSchema = canonicalIdSchema ''SandboxId''"

definition SandboxNameSchema :: schema where
  "SandboxNameSchema = dnsLabelSchema SANDBOX_NAME_MIN_LENGTH SANDBOX_NAME_MAX_LENGTH"

definition SandboxStateSchema :: schema where
  "SandboxStateSchema = schema_literal [''creating'', ''running'', ''pausing'', ''paused'', ''resuming'',
     ''terminating'', ''terminated'', ''failed'']"

definition generateSandboxId :: "jstr \<Rightarrow> exn + jstr" where
  "generateSandboxId nanoid =
     (case generateNanoId nanoid of Inl e \<Rightarrow> Inl e | Inr s \<Rightarrow> schema_make SandboxIdSchema s)"

definition TemplateIdSchema :: schema where
  "TemplateIdSchema = canonicalIdSchema ''TemplateId''"

definition TemplateBuildIdSchema :: schema where
  "TemplateBuildIdSchema = canonicalIdSchema ''TemplateBuildId''"

definition TemplateAliasSchema :: schema where
  "TemplateAliasSchema = dnsLabelSchema TEMPLATE_ALIAS_MIN_LENGTH TEMPLATE_ALIAS_MAX_LENGTH"

definition generateTemplateId :: "jstr \<Rightarrow> exn + jstr" where
  "generateTemplateId nanoid =
     (case generateNanoId nanoid of Inl e \<Rightarrow> Inl e | Inr s \<Rightarrow> schema_make TemplateIdSchema s)"

definition generateTemplateBuildId :: "jstr \<Rightarrow> exn + jstr" where
  "generateTemplateBuildId nanoid =
     (case generateNanoId nanoid of Inl e \<Rightarrow> Inl e | Inr s \<Rightarrow> schema_make TemplateBuildIdSchema s)"

text \<open>The row of the console's listing; its date is the instant in milliseconds.\<close>

record SandboxSummary =
  ss_id :: jstr
  ss_organizationId :: jstr
  ss_state :: jstr
  ss_templateId :: jstr
  ss_createdAt :: int

definition SandboxSummarySchema :: "SandboxSummary \<Rightarrow> bool" where
  "SandboxSummarySchema s \<longleftrightarrow>
     SandboxIdSchema (ss_id s) \<and> OrganizationIdSchema (ss_organizationId s) \<and>
     SandboxStateSchema (ss_state s) \<and> TemplateIdSchema (ss_templateId s)"

section \<open>The health report\<close>

definition ServiceNameSchema :: schema where
  "ServiceNameSchema = schema_literal [''backoffice'', ''console-api'']"

record Health =
  hl_service :: jstr
  hl_status :: jstr

definition HealthSchema :: "Health \<Rightarrow> bool" where
  "HealthSchema h \<longleftrightarrow> ServiceNameSchema (hl_service h) \<and> schema_literal [''ok''] (hl_status h)"

section \<open>What the patterns accept\<close>

lemma schema_make_Inr [simp]: "schema_make S s = Inr t \<longleftrightarrow> S s \<and> t = s"
  by (auto simp: schema_make_def)

lemma test_DNS_LABEL:
  "test DNS_LABEL_PATTERN s \<longleftrightarrow>
     s \<noteq> [] \<and> list_all label_unit s \<and> lower_alnum (hd s) \<and> lower_alnum (last s)"
proof (cases s)
  case (Cons c cs)
  have opt: "[] \<in> set (ends [Many label_unit, One lower_alnum] t) \<longleftrightarrow>
      t \<noteq> [] \<and> list_all label_unit t \<and> lower_alnum (last t)" for t
  proof
    assume "[] \<in> set (ends [Many label_unit, One lower_alnum] t)"
    then obtain p u where "t = p @ [u]" "list_all label_unit p" "lower_alnum u"
      by (auto simp: in_ends1 simp del: ends1.simps(1))
    then show "t \<noteq> [] \<and> list_all label_unit t \<and> lower_alnum (last t)"
      by (simp add: label_unit_def)
  next
    assume t: "t \<noteq> [] \<and> list_all label_unit t \<and> lower_alnum (last t)"
    then have "t = butlast t @ [last t]" "list_all label_unit (butlast t)"
      by (auto simp: list_all_iff dest: in_set_butlastD)
    with t show "[] \<in> set (ends [Many label_unit, One lower_alnum] t)"
      by (auto simp: in_ends1 simp del: ends1.simps(1) intro!: bexI [of _ "[last t]"] exI [of _ "butlast t"])
  qed
  have "test DNS_LABEL_PATTERN s \<longleftrightarrow>
      lower_alnum c \<and> (cs = [] \<or> [] \<in> set (ends [Many label_unit, One lower_alnum] cs))"
    by (auto simp: test_iff DNS_LABEL_PATTERN_def Cons in_ends_End simp del: ends1.simps(2))
  then show ?thesis
    by (auto simp: opt Cons label_unit_def simp del: ends.simps ends1.simps)
qed (simp add: test_iff DNS_LABEL_PATTERN_def)

lemma no_trailing_space_ahead:
  "ends [Many (\<lambda>u. \<not> is_line_terminator u), One is_space, End] s = [] \<longleftrightarrow>
     s = [] \<or> \<not> is_space (last s) \<or> (\<exists>u \<in> set (butlast s). is_line_terminator u)"
proof -
  let ?rs = "[Many (\<lambda>u. \<not> is_line_terminator u), One is_space, End]"
  have "test ?rs s \<longleftrightarrow> (\<exists>p u. s = p @ [u] \<and> list_all (\<lambda>u. \<not> is_line_terminator u) p \<and> is_space u)"
    by (force simp: test_iff in_ends1 simp del: ends1.simps(1))
  also have "\<dots> \<longleftrightarrow> s \<noteq> [] \<and> is_space (last s) \<and> (\<forall>u \<in> set (butlast s). \<not> is_line_terminator u)"
    by (cases s rule: rev_cases) (auto simp: list_all_iff)
  finally show ?thesis by (auto simp: test_def)
qed

lemma test_DISPLAY_NAME:
  "test DISPLAY_NAME_PATTERN s \<longleftrightarrow>
     s \<noteq> [] \<and> list_all (\<lambda>u. \<not> is_control u) s \<and> \<not> is_space (hd s) \<and>
     (is_space (last s) \<longrightarrow> (\<exists>u \<in> set (butlast s). is_line_terminator u))"
proof -
  have lead: "ends [One is_space] s = [] \<longleftrightarrow> s = [] \<or> \<not> is_space (hd s)"
    by (cases s) auto
  have body: "[] \<in> set (ends1 (Some1 (\<lambda>u. \<not> is_control u)) s) \<longleftrightarrow>
      s \<noteq> [] \<and> list_all (\<lambda>u. \<not> is_control u) s"
    by (auto simp: in_ends1_Some1 simp del: ends1.simps)
  have "test DISPLAY_NAME_PATTERN s \<longleftrightarrow>
      ends [One is_space] s = [] \<and>
      ends [Many (\<lambda>u. \<not> is_line_terminator u), One is_space, End] s = [] \<and>
      [] \<in> set (ends1 (Some1 (\<lambda>u. \<not> is_control u)) s)"
    unfolding test_iff DISPLAY_NAME_PATTERN_def in_ends_Cons [where s = s]
    by (auto simp: in_ends_Cons simp del: ends.simps(2) ends1.simps(1-3))
  then show ?thesis
    by (auto simp: lead no_trailing_space_ahead body simp del: ends.simps ends1.simps)
qed

text \<open>After trimming, only control characters and the length can make a display name unacceptable.\<close>

lemma displayNameSchema_trimmed:
  "displayNameSchema mn mx (js_trim s) \<longleftrightarrow>
     js_trim s \<noteq> [] \<and> mn \<le> length (js_trim s) \<and> length (js_trim s) \<le> mx \<and>
     list_all (\<lambda>u. \<not> is_control u) (js_trim s)"
  using js_trim_hd [of s] js_trim_last [of s]
  by (auto simp: displayNameSchema_def bounded_def test_DISPLAY_NAME)

text \<open>The pattern is documented to reject trailing white space. It does not behind a line or
  paragraph separator: the dot of its look-ahead stops there.\<close>

lemma display_name_trailing_space_accepted:
  "UserDisplayNameSchema [97, 0x2028, 32]" "is_space (last [97 :: unit16, 0x2028, 32])"
  by (simp_all add: UserDisplayNameSchema_def displayNameSchema_def bounded_def test_DISPLAY_NAME
      USER_DISPLAY_NAME_MIN_LENGTH_def USER_DISPLAY_NAME_MAX_LENGTH_def is_control_def is_space_def
      is_line_terminator_def)

lemma NanoIdSchema_iff: "NanoIdSchema s \<longleftrightarrow> nanoid_draw s"
  by (auto simp: NanoIdSchema_def test_def NANO_ID_PATTERN_def nanoid_draw_def list_all_iff)

lemma generateNanoId_draw: "nanoid_draw s \<Longrightarrow> generateNanoId s = Inr s"
  by (simp add: generateNanoId_def NanoIdSchema_iff)

lemma nano_units: "u \<in> set NANO_ID_ALPHABET \<Longrightarrow> lower_alnum u"
  by (auto simp: NANO_ID_ALPHABET_def js_def lower_alnum_def)

lemma nanoid_draw_lower_alnum: "nanoid_draw s \<Longrightarrow> list_all lower_alnum s"
  using nano_units by (auto simp: nanoid_draw_def list_all_iff)

lemma ArtifactIdSchema_iff:
  "ArtifactIdSchema s \<longleftrightarrow>
     (\<exists>d. s = ARTIFACT_ID_PREFIX @ d \<and> length d = ARTIFACT_DIGEST_HEX_LENGTH \<and> list_all lower_hex d)"
  unfolding ArtifactIdSchema_def ARTIFACT_ID_PATTERN_def test_iff in_ends_append Bex_def in_ends_literal
  by (auto split: if_splits)

lemma ArtifactIdSchema_length: "ArtifactIdSchema s \<Longrightarrow> length s = ARTIFACT_ID_LENGTH"
  by (auto simp: ArtifactIdSchema_iff ARTIFACT_ID_LENGTH_def)

text \<open>Every identifier the package generates is accepted by the schema of its family.\<close>

lemma generated_ids:
  assumes "nanoid_draw s"
  shows "generateOrganizationId s = Inr s" "generateSandboxId s = Inr s"
    "generateTemplateId s = Inr s" "generateTemplateBuildId s = Inr s"
  using assms
  by (simp_all add: generateOrganizationId_def generateSandboxId_def generateTemplateId_def
      generateTemplateBuildId_def generateNanoId_draw OrganizationIdSchema_def SandboxIdSchema_def
      TemplateIdSchema_def TemplateBuildIdSchema_def canonicalIdSchema_def NanoIdSchema_iff)

end
