(* ===== verification/Organizations.thy ===== *)
theory Organizations
  imports Names
begin

text \<open>
  Roles, permissions and domain errors of the shared domain package: \<open>organizations/types.ts\<close>,
  \<open>organizations/permissions.ts\<close>, \<open>organizations/errors.ts\<close>, \<open>ddd/codes.ts\<close>,
  \<open>ddd/base-error.ts\<close> and \<open>auth/models.ts\<close>.

  The permission matrix is the data of the source: for every role the actions it may take on every
  resource. \<open>permission_matrix\<close> relates it to the catalogue of permissions on the wire.
\<close>

section \<open>Roles and permissions\<close>

datatype OrganizationRole = Owner | Admin | Developer | Viewer

fun role_name :: "OrganizationRole \<Rightarrow> jstr" where
  "role_name Owner = js ''owner''"
| "role_name Admin = js ''admin''"
| "role_name Developer = js ''developer''"
| "role_name Viewer = js ''viewer''"

definition OrganizationRoleSchema :: "jstr \<Rightarrow> OrganizationRole option" where
  "OrganizationRoleSchema s =
     (if s = js ''owner'' then Some Owner
      else if s = js ''admin'' then Some Admin
      else if s = js ''developer'' then Some Developer
      else if s = js ''viewer'' then Some Viewer
      else None)"

lemma role_round_trip [simp]: "OrganizationRoleSchema (role_name r) = Some r"
  by (cases r) (simp_all add: OrganizationRoleSchema_def)

lemma OrganizationRoleSchema_Some: "OrganizationRoleSchema s = Some r \<longleftrightarrow> s = role_name r"
  by (cases r) (auto simp: OrganizationRoleSchema_def)

lemma role_name_inject [simp]: "role_name a = role_name b \<longleftrightarrow> a = b"
  by (metis option.inject role_round_trip)

definition OrganizationPermissionSchema :: "string list" where
  "OrganizationPermissionSchema =
     [''organization:update'', ''organization:delete'',
      ''member:create'', ''member:update'', ''member:delete'',
      ''invitation:create'', ''invitation:cancel'',
      ''sandbox:create'', ''sandbox:read'', ''sandbox:pause'', ''sandbox:resume'', ''sandbox:terminate'',
      ''template:create'', ''template:read'', ''template:delete'',
      ''apiKey:create'', ''apiKey:read'', ''apiKey:revoke'',
      ''billing:read'', ''billing:manage'']"

text \<open>The grants of a role: for every resource the actions, in the order of the source.\<close>

type_synonym role_grants = "(string \<times> string list) list"

definition statements :: role_grants where
  "statements =
     [(''organization'', [''update'', ''delete'']),
      (''member'', [''create'', ''update'', ''delete'']),
      (''invitation'', [''create'', ''cancel'']),
      (''sandbox'', [''create'', ''read'', ''pause'', ''resume'', ''terminate'']),
      (''template'', [''create'', ''read'', ''delete'']),
      (''apiKey'', [''create'', ''read'', ''revoke'']),
      (''billing'', [''read'', ''manage''])]"

fun roleStatements :: "OrganizationRole \<Rightarrow> role_grants" where
  "roleStatements Owner = statements"
| "roleStatements Admin =
     [(''organization'', [''update'']),
      (''member'', [''create'', ''update'', ''delete'']),
      (''invitation'', [''create'', ''cancel'']),
      (''sandbox'', [''create'', ''read'', ''pause'', ''resume'', ''terminate'']),
      (''template'', [''create'', ''read'', ''delete'']),
      (''apiKey'', [''create'', ''read'', ''revoke'']),
      (''billing'', [''read''])]"
| "roleStatements Developer =
     [(''organization'', []),
      (''member'', []),
      (''invitation'', []),
      (''sandbox'', [''create'', ''read'', ''pause'', ''resume'', ''terminate'']),
      (''template'', [''create'', ''read'']),
      (''apiKey'', [''create'', ''read'', ''revoke'']),
      (''billing'', [])]"
| "roleStatements Viewer =
     [(''organization'', []),
      (''member'', []),
      (''invitation'', []),
      (''sandbox'', [''read'']),
      (''template'', [''read'']),
      (''apiKey'', []),
      (''billing'', [''read''])]"

definition permissionSetFromStatements :: "role_grants \<Rightarrow> string list" where
  "permissionSetFromStatements grants =
     concat (map (\<lambda>(resource, actions). map (\<lambda>action. resource @ '':'' @ action) actions) grants)"

definition rolePermissionSets :: "OrganizationRole \<Rightarrow> string list" where
  "rolePermissionSets r = permissionSetFromStatements (roleStatements r)"

definition hasOrganizationPermission :: "OrganizationRole \<Rightarrow> string \<Rightarrow> bool" where
  "hasOrganizationPermission r permission \<longleftrightarrow> permission \<in> set (rolePermissionSets r)"

section \<open>The authenticated member\<close>

record AuthenticatedMember =
  organizationId :: jstr
  member_role :: OrganizationRole
  userId :: jstr

text \<open>\<open>decodeUnknown(AuthenticatedMemberSchema)\<close> on an object whose three members are strings or
  \<open>undefined\<close>.\<close>

definition decode_member :: "jstr option \<Rightarrow> jstr option \<Rightarrow> jstr option \<Rightarrow> AuthenticatedMember option" where
  "decode_member org r user = (case (org, Option.bind r OrganizationRoleSchema, user) of
       (Some o', Some r', Some u) \<Rightarrow>
         if AuthOrganizationIdSchema o' \<and> UserIdSchema u
         then Some \<lparr>organizationId = o', member_role = r', userId = u\<rparr> else None
     | _ \<Rightarrow> None)"

definition member_ok :: "AuthenticatedMember \<Rightarrow> bool" where
  "member_ok m \<longleftrightarrow> AuthOrganizationIdSchema (organizationId m) \<and> UserIdSchema (userId m)"

lemma decode_member_Some:
  "decode_member org r user = Some m \<longleftrightarrow>
     org = Some (organizationId m) \<and> r = Some (role_name (member_role m)) \<and>
     user = Some (userId m) \<and> member_ok m"
  by (cases m) (auto simp: decode_member_def member_ok_def OrganizationRoleSchema_Some
      split: option.splits bind_splits if_splits)

section \<open>Domain errors\<close>

record error_code =
  ec_message :: string
  ec_statusCode :: int

definition ErrorCode_UNAUTHENTICATED :: error_code where
  "ErrorCode_UNAUTHENTICATED = \<lparr>ec_message = ''You are not authenticated'', ec_statusCode = 401\<rparr>"

definition ErrorCode_UNAUTHORIZED :: error_code where
  "ErrorCode_UNAUTHORIZED =
     \<lparr>ec_message = ''You are not authorized to perform this action'', ec_statusCode = 403\<rparr>"

definition ErrorCode_INTERNAL :: error_code where
  "ErrorCode_INTERNAL = \<lparr>ec_message = ''Internal server error'', ec_statusCode = 500\<rparr>"

datatype domain_error =
    UnauthenticatedError
  | UnauthorizedError
  | InternalError
  | ForbiddenError string
  | ActiveOrganizationRequiredError

text \<open>What \<open>DomainError(tag, code, message, statusCode, fields)\<close> fixes for a class.\<close>

record domain_error_class =
  de_tag :: string
  de_code :: string
  de_message :: string
  de_status :: int

definition DomainError :: "string \<Rightarrow> string \<Rightarrow> string \<Rightarrow> int \<Rightarrow> domain_error_class" where
  "DomainError tag c m statusCode = \<lparr>de_tag = tag, de_code = c, de_message = m, de_status = statusCode\<rparr>"

fun error_class_of :: "domain_error \<Rightarrow> domain_error_class" where
  "error_class_of UnauthenticatedError = DomainError ''UnauthenticatedError'' ''UNAUTHENTICATED''
     (ec_message ErrorCode_UNAUTHENTICATED) (ec_statusCode ErrorCode_UNAUTHENTICATED)"
| "error_class_of UnauthorizedError = DomainError ''UnauthorizedError'' ''UNAUTHORIZED''
     (ec_message ErrorCode_UNAUTHORIZED) (ec_statusCode ErrorCode_UNAUTHORIZED)"
| "error_class_of InternalError = DomainError ''InternalError'' ''INTERNAL''
     (ec_message ErrorCode_INTERNAL) (ec_statusCode ErrorCode_INTERNAL)"
| "error_class_of (ForbiddenError p) = DomainError ''ForbiddenError'' ''FORBIDDEN''
     (ec_message ErrorCode_UNAUTHORIZED) (ec_statusCode ErrorCode_UNAUTHORIZED)"
| "error_class_of ActiveOrganizationRequiredError =
     DomainError ''ActiveOrganizationRequiredError'' ''ACTIVE_ORGANIZATION_REQUIRED''
       ''Select an active organization before calling this API'' (ec_statusCode ErrorCode_UNAUTHORIZED)"

fun error_fields :: "domain_error \<Rightarrow> (string \<times> jsval) list" where
  "error_fields (ForbiddenError p) = [(''permission'', jtext p)]"
| "error_fields _ = []"

definition error_status :: "domain_error \<Rightarrow> int" where
  "error_status e = de_status (error_class_of e)"

text \<open>\<open>Schema.encodeSync\<close> of the effect package is a parameter. It encodes a tagged error built
  without a message to an object with the members of its schema and nothing that JSON cannot
  carry; the order of the members is its own.\<close>

type_synonym error_encoder = "domain_error \<Rightarrow> jsval"

definition wire_members :: "domain_error \<Rightarrow> (string \<times> jsval) list" where
  "wire_members e = (''_tag'', jtext (de_tag (error_class_of e))) # error_fields e @
     [(''code'', jtext (de_code (error_class_of e))), (''message'', jtext (de_message (error_class_of e)))]"

definition encodes_errors :: "error_encoder \<Rightarrow> bool" where
  "encodes_errors encodeSync \<longleftrightarrow>
     (\<forall>e. json_data (encodeSync e) \<and> (\<forall>(k, v) \<in> set (wire_members e). prop_opt (js k) (encodeSync e) = v))"

definition sample_encoder :: error_encoder where
  "sample_encoder e = jobj (wire_members e)"

lemma sample_encoder_ok: "encodes_errors sample_encoder"
  unfolding encodes_errors_def sample_encoder_def
proof
  fix e
  show "json_data (jobj (wire_members e)) \<and>
      (\<forall>(k, v) \<in> set (wire_members e). prop_opt (js k) (jobj (wire_members e)) = v)"
    by (cases e) (simp_all add: wire_members_def jobj_def DomainError_def prop_opt_def)
qed

section \<open>The matrix\<close>

lemma owner_permissions: "rolePermissionSets Owner = OrganizationPermissionSchema"
  by (simp add: rolePermissionSets_def permissionSetFromStatements_def statements_def
      OrganizationPermissionSchema_def)

lemma admin_permissions:
  "rolePermissionSets Admin =
     filter (\<lambda>p. p \<noteq> ''organization:delete'' \<and> p \<noteq> ''billing:manage'') OrganizationPermissionSchema"
  by (simp add: rolePermissionSets_def permissionSetFromStatements_def OrganizationPermissionSchema_def)

lemma developer_permissions:
  "rolePermissionSets Developer =
     filter (\<lambda>p. take 8 p = ''sandbox:'' \<or> take 7 p = ''apiKey:'' \<or> p = ''template:create'' \<or>
       p = ''template:read'') OrganizationPermissionSchema"
  by (simp add: rolePermissionSets_def permissionSetFromStatements_def OrganizationPermissionSchema_def)

lemma viewer_permissions:
  "rolePermissionSets Viewer = [''sandbox:read'', ''template:read'', ''billing:read'']"
  by (simp add: rolePermissionSets_def permissionSetFromStatements_def)

text \<open>C33: The permission matrix agrees with the catalogue on the wire: the owner has every
  permission of the schema and nothing else; the admin lacks exactly deleting the organization and
  managing billing; a developer has the sandbox and API key permissions and may create and read
  templates; a viewer only reads sandboxes, templates and billing.\<close>

theorem permission_matrix:
  "(hasOrganizationPermission Owner p \<longleftrightarrow> p \<in> set OrganizationPermissionSchema) \<and>
   (hasOrganizationPermission Admin p \<longleftrightarrow>
      p \<in> set OrganizationPermissionSchema - {''organization:delete'', ''billing:manage''}) \<and>
   (hasOrganizationPermission Developer p \<longleftrightarrow>
      p \<in> set OrganizationPermissionSchema \<and>
      (take 8 p = ''sandbox:'' \<or> take 7 p = ''apiKey:'' \<or> p \<in> {''template:create'', ''template:read''})) \<and>
   (hasOrganizationPermission Viewer p \<longleftrightarrow> p \<in> {''sandbox:read'', ''template:read'', ''billing:read''})"
  by (simp add: hasOrganizationPermission_def owner_permissions admin_permissions
      developer_permissions viewer_permissions)

end
