(* ===== verification/Contract.thy ===== *)
theory Contract
  imports Organizations
begin

text \<open>
  The HTTP contract of the two API hosts (\<open>libs/typescript/core/src/backend-api\<close>), the paths of
  the web front ends (\<open>frontend/routes.ts\<close>), and the gate derived from the contract
  (\<open>libs/typescript/api/src/modules/authorization/infrastructure/http/authenticated-routes.ts\<close>).

  A contract is data: groups of endpoints with the middleware declared on them. The package that
  builds and walks contracts is a parameter (\<open>reflect\<close>); \<open>reflects\<close> states what it documents,
  that walking a contract visits every declared endpoint with its prefixed path and the middleware
  of its group. \<open>guard_pattern_exact\<close> shows which paths the generated regular expressions accept.
\<close>

section \<open>Contracts\<close>

record api_endpoint =
  ep_name :: string
  ep_method :: string
  ep_path :: string
  ep_success :: string
  ep_errors :: "string list"

record api_group =
  gr_name :: string
  gr_endpoints :: "api_endpoint list"
  gr_middleware :: "string list"

record http_api =
  api_name :: string
  api_groups :: "api_group list"
  api_errors :: "string list"
  api_prefix :: string

definition OrganizationAuthentication :: string where
  "OrganizationAuthentication = ''@fissionplane/core/OrganizationAuthentication''"

definition OrganizationAuthenticationFailureSchema :: "string list" where
  "OrganizationAuthenticationFailureSchema =
     [''UnauthenticatedError'', ''ActiveOrganizationRequiredError'', ''UnauthorizedError'']"

definition SystemApiGroup :: api_group where
  "SystemApiGroup = \<lparr>gr_name = ''system'',
     gr_endpoints = [\<lparr>ep_name = ''health'', ep_method = ''GET'', ep_path = ''/health'',
        ep_success = ''Health'', ep_errors = []\<rparr>],
     gr_middleware = []\<rparr>"

definition SandboxesApiGroup :: api_group where
  "SandboxesApiGroup = \<lparr>gr_name = ''sandboxes'',
     gr_endpoints = [\<lparr>ep_name = ''list'', ep_method = ''GET'', ep_path = ''/sandboxes'',
        ep_success = ''Array<SandboxSummary>'', ep_errors = [''ForbiddenError'']\<rparr>],
     gr_middleware = [OrganizationAuthentication]\<rparr>"

definition BackofficeOperationsApiGroup :: api_group where
  "BackofficeOperationsApiGroup = \<lparr>gr_name = ''operations'',
     gr_endpoints = [\<lparr>ep_name = ''health'', ep_method = ''GET'', ep_path = ''/health'',
        ep_success = ''Health'', ep_errors = []\<rparr>],
     gr_middleware = []\<rparr>"

definition ConsoleApi :: http_api where
  "ConsoleApi = \<lparr>api_name = ''console'', api_groups = [SystemApiGroup, SandboxesApiGroup],
     api_errors = [''InternalError''], api_prefix = ''/api''\<rparr>"

definition BackofficeApi :: http_api where
  "BackofficeApi = \<lparr>api_name = ''backoffice'', api_groups = [BackofficeOperationsApiGroup],
     api_errors = [''UnauthenticatedError'', ''UnauthorizedError'', ''InternalError''],
     api_prefix = ''/api''\<rparr>"

type_synonym reflection = "http_api \<Rightarrow> (api_endpoint \<times> string list) list"

definition declared_routes :: reflection where
  "declared_routes a = concat (map (\<lambda>g.
     map (\<lambda>e. (e\<lparr>ep_path := api_prefix a @ ep_path e\<rparr>, gr_middleware g)) (gr_endpoints g)) (api_groups a))"

definition reflects :: "reflection \<Rightarrow> bool" where
  "reflects reflect \<longleftrightarrow> (\<forall>a. set (reflect a) = set (declared_routes a))"

section \<open>frontend/routes.ts\<close>

definition CONSOLE_SANDBOX_ID_PARAM :: string where "CONSOLE_SANDBOX_ID_PARAM = ''sandboxId''"

datatype console_route = C_onboarding | C_root | C_sandboxPattern | C_sandboxes | C_signIn

fun consoleRoutes :: "console_route \<Rightarrow> jstr" where
  "consoleRoutes C_onboarding = js ''/onboarding''"
| "consoleRoutes C_root = js ''/''"
| "consoleRoutes C_sandboxPattern = js (''/sandboxes/:'' @ CONSOLE_SANDBOX_ID_PARAM)"
| "consoleRoutes C_sandboxes = js ''/sandboxes''"
| "consoleRoutes C_signIn = js ''/sign-in''"

datatype backoffice_route =
  B_organizations | B_overview | B_root | B_sandboxes | B_signIn | B_unauthorized

fun backofficeRoutes :: "backoffice_route \<Rightarrow> jstr" where
  "backofficeRoutes B_organizations = js ''/organizations''"
| "backofficeRoutes B_overview = js ''/overview''"
| "backofficeRoutes B_root = js ''/''"
| "backofficeRoutes B_sandboxes = js ''/sandboxes''"
| "backofficeRoutes B_signIn = js ''/sign-in''"
| "backofficeRoutes B_unauthorized = js ''/unauthorized''"

definition uri_unreserved :: "nat \<Rightarrow> bool" where
  "uri_unreserved b \<longleftrightarrow> (48 \<le> b \<and> b \<le> 57) \<or> (65 \<le> b \<and> b \<le> 90) \<or> (97 \<le> b \<and> b \<le> 122) \<or>
     b \<in> {33, 39, 40, 41, 42, 45, 46, 95, 126}"

definition uri_byte :: "nat \<Rightarrow> jstr" where
  "uri_byte b = (if uri_unreserved b then [word_of_nat b]
     else [u16 CHR ''%'', hex_unit (b div 16), hex_unit (b mod 16)])"

text \<open>\<open>encodeURIComponent\<close>; a lone surrogate is a \<open>URIError\<close>.\<close>

definition encodeURIComponent :: "jstr \<Rightarrow> exn + jstr" where
  "encodeURIComponent s =
     (if well_formed s then Inr (concat (map uri_byte (utf8_encode s)))
      else Inl (OtherError (js ''URI malformed'')))"

definition consoleRoute_sandbox :: "jstr \<Rightarrow> exn + jstr" where
  "consoleRoute_sandbox sandboxId = (case encodeURIComponent sandboxId of
       Inl e \<Rightarrow> Inl e
     | Inr s \<Rightarrow> Inr (consoleRoutes C_sandboxes @ js ''/'' @ s))"

section \<open>The gate derived from the contract\<close>

definition escape_unit :: "unit16 \<Rightarrow> jstr" where
  "escape_unit u = (if u \<in> set (js ''.*+?^${}()|[]'') \<or> u = u16 CHR 0x5C then [u16 CHR 0x5C, u] else [u])"

definition escapeSegment :: "jstr \<Rightarrow> jstr" where
  "escapeSegment segment = concat (map escape_unit segment)"

definition segment_source :: "jstr \<Rightarrow> jstr" where
  "segment_source segment =
     (if starts_with (js '':'') segment then js ''[^/]+''
      else if segment = js ''*'' then js ''.*''
      else escapeSegment segment)"

definition pattern_source :: "jstr \<Rightarrow> jstr" where
  "pattern_source path =
     join_with (js ''/'') (map segment_source (split_on (u16 CHR ''/'') path))"

text \<open>\<open>None\<close> would be a \<open>SyntaxError\<close> of the \<open>RegExp\<close> constructor.\<close>

definition toPathPattern :: "jstr \<Rightarrow> regex list option" where
  "toPathPattern path = parse_regexp (js ''^'' @ pattern_source path @ js ''/?$'')"

record GuardedRoute =
  gd_method :: jstr
  gd_path :: "regex list"

fun guarded_routes :: "string \<Rightarrow> (api_endpoint \<times> string list) list \<Rightarrow> exn + GuardedRoute list" where
  "guarded_routes key [] = Inr []"
| "guarded_routes key ((e, tags) # rest) =
     (if key \<in> set tags then
        (case toPathPattern (js (ep_path e)) of
           None \<Rightarrow> Inl (OtherError (js ''Invalid regular expression''))
         | Some rx \<Rightarrow> map_sum id ((#) \<lparr>gd_method = js (ep_method e), gd_path = rx\<rparr>) (guarded_routes key rest))
      else guarded_routes key rest)"

text \<open>\<open>new URL(text).pathname\<close>: the platform's URL parser is a parameter; \<open>None\<close> is a
  \<open>TypeError\<close>.\<close>

record web_url =
  wu_href :: jstr
  wu_pathname :: jstr

type_synonym url_parser = "jstr \<Rightarrow> web_url option"

definition pathname :: "url_parser \<Rightarrow> jstr \<Rightarrow> exn + jstr" where
  "pathname parse_url u = (case parse_url u of
       None \<Rightarrow> Inl (TypeError (js ''Invalid URL''))
     | Some p \<Rightarrow> Inr (wu_pathname p))"

definition createGuardedRouteMatcher ::
  "url_parser \<Rightarrow> reflection \<Rightarrow> http_api \<Rightarrow> string \<Rightarrow> exn + (http_request \<Rightarrow> exn + bool)"
where
  "createGuardedRouteMatcher parse_url reflect a key = (case guarded_routes key (reflect a) of
       Inl e \<Rightarrow> Inl e
     | Inr routes \<Rightarrow> Inr (\<lambda>rq. case pathname parse_url (rq_url rq) of
           Inl e \<Rightarrow> Inl e
         | Inr p \<Rightarrow> Inr (list_ex (\<lambda>r. gd_method r = rq_method rq \<and> test (gd_path r) p) routes)))"

section \<open>Which paths a generated pattern accepts\<close>

abbreviation slash :: unit16 where "slash \<equiv> u16 CHR ''/''"

text \<open>A parameter stands for one non-empty segment, a wildcard for any text on one line, any other
  segment for itself.\<close>

definition segment_matches :: "jstr \<Rightarrow> jstr \<Rightarrow> bool" where
  "segment_matches segment part \<longleftrightarrow>
     (if starts_with (js '':'') segment then part \<noteq> [] \<and> slash \<notin> set part
      else if segment = js ''*'' then list_all (\<lambda>u. \<not> is_line_terminator u) part
      else part = segment)"

definition path_matches :: "jstr \<Rightarrow> jstr \<Rightarrow> bool" where
  "path_matches path p \<longleftrightarrow>
     (\<exists>parts. list_all2 segment_matches (split_on slash path) parts \<and>
        (p = join_with (js ''/'') parts \<or> p = join_with (js ''/'') parts @ js ''/''))"

definition segment_terms :: "jstr \<Rightarrow> regex list" where
  "segment_terms segment =
     (if starts_with (js '':'') segment then [Some1 (\<lambda>u. u \<noteq> slash)]
      else if segment = js ''*'' then [Many (\<lambda>u. \<not> is_line_terminator u)]
      else literal segment)"

fun path_terms :: "jstr list \<Rightarrow> regex list" where
  "path_terms [] = []"
| "path_terms [x] = segment_terms x"
| "path_terms (x # y # xs) = segment_terms x @ literal (js ''/'') @ path_terms (y # xs)"

lemma escape_unit_syntax: "escape_unit u = (if is_syntax_character u then [u16 CHR 0x5C, u] else [u])"
  by (auto simp: escape_unit_def is_syntax_character_def js_def)

lemma is_quantifier_syntax: "is_quantifier u \<Longrightarrow> is_syntax_character u"
  by (auto simp: is_quantifier_def is_syntax_character_def js_def)

lemma special_syntax: "is_syntax_character (u16 CHR ''['')" "is_syntax_character (u16 CHR ''.'')"
  "is_syntax_character (u16 CHR 0x5C)"
  by (simp_all add: is_syntax_character_def js_def)

lemma parse_atom_escape:
  "parse_atom (escape_unit u @ r) = Some (\<lambda>v. v = u, r)"
proof (cases "is_syntax_character u")
  case True
  then show ?thesis by (simp add: escape_unit_syntax parse_atom_def)
next
  case False
  then have "u \<noteq> u16 CHR 0x5C" "u \<noteq> u16 CHR ''.''" "u \<noteq> u16 CHR ''[''"
    using special_syntax by auto
  then have "\<not> starts_with (js ''[^/]'') (u # r)" by (simp add: starts_with_def js_def)
  with False \<open>u \<noteq> u16 CHR 0x5C\<close> \<open>u \<noteq> u16 CHR ''.''\<close> show ?thesis
    by (simp add: escape_unit_syntax parse_atom_def)
qed

lemma backslash_not_quantifier: "\<not> is_quantifier (u16 CHR 0x5C)"
  by (simp add: is_quantifier_def)

lemma unquantified_escape: "unquantified r \<Longrightarrow> unquantified (escapeSegment s @ r)"
  using is_quantifier_syntax backslash_not_quantifier
  by (cases s) (auto simp: escapeSegment_def unquantified_def escape_unit_syntax)

lemma parse_terms_escape:
  assumes "unquantified r"
  shows "parse_terms (escapeSegment s @ r) = map_option ((@) (literal s)) (parse_terms r)"
proof (induction s)
  case (Cons u s)
  have "parse_terms (escapeSegment (u # s) @ r) =
      map_option ((#) (One (\<lambda>v. v = u))) (parse_terms (escapeSegment s @ r))"
    by (rule parse_terms_atom [OF _ parse_quantifier_none])
      (simp_all add: escapeSegment_def parse_atom_escape unquantified_escape [OF assms, unfolded escapeSegment_def])
  with Cons show ?case by (simp add: literal_def option.map_comp comp_def)
qed (simp add: escapeSegment_def literal_def option.map_id [unfolded id_def])

lemma parse_terms_class:
  "parse_terms (js ''[^/]+'' @ r) = map_option ((#) (Some1 (\<lambda>u. u \<noteq> slash))) (parse_terms r)"
  by (rule parse_terms_atom [of _ _ "js ''+'' @ r"])
    (simp_all add: parse_atom_def starts_with_def js_def parse_quantifier_def)

lemma parse_terms_dot:
  "parse_terms (js ''.*'' @ r) = map_option ((#) (Many (\<lambda>u. \<not> is_line_terminator u))) (parse_terms r)"
  by (rule parse_terms_atom [of _ _ "js ''*'' @ r"])
    (simp_all add: parse_atom_def starts_with_def js_def parse_quantifier_def)

lemma parse_terms_segment:
  "unquantified r \<Longrightarrow>
     parse_terms (segment_source s @ r) = map_option ((@) (segment_terms s)) (parse_terms r)"
  by (auto simp: segment_source_def segment_terms_def parse_terms_escape parse_terms_class
      parse_terms_dot fun_eq_iff intro!: option.map_cong0)

lemma parse_terms_slash:
  assumes "unquantified r"
  shows "parse_terms (js ''/'' @ r) = map_option ((@) (literal (js ''/''))) (parse_terms r)"
proof -
  have "escapeSegment (js ''/'') = js ''/''"
    by (simp add: escapeSegment_def escape_unit_def js_def)
  with parse_terms_escape [OF assms, of "js ''/''"] show ?thesis by simp
qed

lemma unquantified_segment: "unquantified r \<Longrightarrow> unquantified (segment_source s @ r)"
  using unquantified_escape
  by (auto simp: segment_source_def) (simp_all add: unquantified_def js_def is_quantifier_def)

lemma unquantified_join:
  "unquantified r \<Longrightarrow> unquantified (join_with (js ''/'') (map segment_source xs) @ r)"
proof (induction xs rule: path_terms.induct)
  case (3 x y xs)
  have "unquantified (js ''/'' @ join_with (js ''/'') (map segment_source (y # xs)) @ r)"
    by (simp add: unquantified_def js_def is_quantifier_def)
  then show ?case by (simp add: unquantified_segment)
qed (simp_all add: unquantified_segment)

lemma parse_terms_path:
  "unquantified r \<Longrightarrow>
     parse_terms (join_with (js ''/'') (map segment_source xs) @ r) =
       map_option ((@) (path_terms xs)) (parse_terms r)"
proof (induction xs rule: path_terms.induct)
  case 1
  then show ?case by (cases "parse_terms r") simp_all
next
  case (3 x y xs)
  let ?rest = "join_with (js ''/'') (map segment_source (y # xs)) @ r"
  have u: "unquantified ?rest" by (rule unquantified_join [OF 3(2)])
  then have "unquantified (js ''/'' @ ?rest)"
    by (simp add: unquantified_def js_def is_quantifier_def)
  then have "parse_terms (segment_source x @ js ''/'' @ ?rest) =
      map_option ((@) (segment_terms x)) (map_option ((@) (literal (js ''/''))) (parse_terms ?rest))"
    by (simp only: parse_terms_segment parse_terms_slash [OF u])
  with 3 show ?case by (simp add: option.map_comp comp_def)
qed (simp add: parse_terms_segment)

lemma toPathPattern_terms:
  "toPathPattern path =
     Some (path_terms (split_on slash path) @ [Opt [One (\<lambda>u. u = slash)], End])"
proof -
  let ?src = "pattern_source path"
  have "unquantified (js ''/?'')" by (simp add: unquantified_def js_def is_quantifier_def)
  moreover have "parse_terms (js ''/?'') = Some [Opt [One (\<lambda>u. u = slash)]]"
    by (subst parse_terms_atom [of _ "\<lambda>u. u = slash" "js ''?''" _ "[]"])
      (simp_all add: parse_atom_def starts_with_def js_def parse_quantifier_def is_syntax_character_def)
  ultimately have "parse_terms (?src @ js ''/?'') =
      Some (path_terms (split_on slash path) @ [Opt [One (\<lambda>u. u = slash)]])"
    by (simp add: pattern_source_def parse_terms_path)
  moreover have "js ''^'' @ ?src @ js ''/?$'' = u16 CHR ''^'' # (?src @ js ''/?'') @ [u16 CHR ''$'']"
    by (simp add: js_def)
  ultimately show ?thesis
    by (simp add: toPathPattern_def parse_regexp_def butlast_append)
qed

lemma in_ends_segment:
  "t \<in> set (ends (segment_terms x) s) \<longleftrightarrow> (\<exists>part. segment_matches x part \<and> s = part @ t)"
proof -
  have "starts_with (js '':'') x \<Longrightarrow> list_all (\<lambda>u. u \<noteq> slash) p \<longleftrightarrow> slash \<notin> set p" for p
    by (auto simp: list_all_iff)
  then show ?thesis
    by (auto simp: segment_terms_def segment_matches_def in_ends_literal in_ends1 simp del: ends1.simps(1,3))
qed

lemma in_ends_path:
  "xs \<noteq> [] \<Longrightarrow> t \<in> set (ends (path_terms xs) s) \<longleftrightarrow>
     (\<exists>parts. list_all2 segment_matches xs parts \<and> s = join_with (js ''/'') parts @ t)"
proof (induction xs arbitrary: s rule: path_terms.induct)
  case (2 x)
  show ?case by (auto simp: in_ends_segment list_all2_Cons1)
next
  case (3 x y xs)
  have "t \<in> set (ends (path_terms (x # y # xs)) s) \<longleftrightarrow>
      (\<exists>part s'. segment_matches x part \<and> s = part @ js ''/'' @ s' \<and>
         t \<in> set (ends (path_terms (y # xs)) s'))"
    by (force simp: in_ends_append in_ends_segment in_ends_literal)
  also have "\<dots> \<longleftrightarrow> (\<exists>part parts. segment_matches x part \<and> list_all2 segment_matches (y # xs) parts \<and>
      s = part @ js ''/'' @ join_with (js ''/'') parts @ t)"
    using 3 by auto
  also have "\<dots> \<longleftrightarrow> (\<exists>parts. list_all2 segment_matches (x # y # xs) parts \<and>
      s = join_with (js ''/'') parts @ t)"
    by (fastforce simp: list_all2_Cons1)
  finally show ?case .
qed simp

lemma split_on_nonempty [simp]: "split_on c s \<noteq> []"
  by (induction c s rule: split_on.induct) (auto split: list.splits)

lemma pattern_accepts:
  "\<exists>rx. toPathPattern path = Some rx \<and> (\<forall>p. test rx p \<longleftrightarrow> path_matches path p)"
proof (intro exI conjI allI)
  fix p
  have last: "t \<in> set (ends [Opt [One (\<lambda>u. u = slash)], End] s) \<longleftrightarrow> t = [] \<and> (s = [] \<or> s = js ''/'')" for s t
    by (cases s) (auto simp: js_def)
  show "test (path_terms (split_on slash path) @ [Opt [One (\<lambda>u. u = slash)], End]) p \<longleftrightarrow> path_matches path p"
    unfolding test_iff in_ends_append Bex_def in_ends_path [OF split_on_nonempty] last path_matches_def
    by auto
qed (rule toPathPattern_terms)

text \<open>C15: The regular expression generated for a contract path is always well formed, whatever
  characters the path has, and accepts exactly the paths that match it segment by segment - a
  parameter one non-empty segment, a wildcard anything, every other segment itself - with an
  optional trailing slash.\<close>

theorem guard_pattern_exact:
  "\<exists>rx. toPathPattern path = Some rx \<and> (\<forall>p. test rx p \<longleftrightarrow> path_matches path p)"
  by (rule pattern_accepts)

section \<open>The console's gate\<close>

lemma guarded_routes_Inr:
  "\<exists>routes. guarded_routes key rs = Inr routes \<and>
     (\<forall>m p. list_ex (\<lambda>r. gd_method r = m \<and> test (gd_path r) p) routes \<longleftrightarrow>
        (\<exists>(e, tags) \<in> set rs. key \<in> set tags \<and> js (ep_method e) = m \<and> path_matches (js (ep_path e)) p))"
proof (induction rs)
  case (Cons x rs)
  obtain e tags where x: "x = (e, tags)" by fastforce
  from Cons obtain routes where r: "guarded_routes key rs = Inr routes"
    "\<forall>m p. list_ex (\<lambda>r. gd_method r = m \<and> test (gd_path r) p) routes \<longleftrightarrow>
        (\<exists>(e, tags) \<in> set rs. key \<in> set tags \<and> js (ep_method e) = m \<and> path_matches (js (ep_path e)) p)"
    by blast
  show ?case
  proof (cases "key \<in> set tags")
    case True
    obtain rx where "toPathPattern (js (ep_path e)) = Some rx"
      "\<And>p. test rx p \<longleftrightarrow> path_matches (js (ep_path e)) p"
      using pattern_accepts [of "js (ep_path e)"] by blast
    with r True show ?thesis by (auto simp: x)
  next
    case False
    with r show ?thesis by (auto simp: x)
  qed
qed simp

definition guards :: "http_api \<Rightarrow> string \<Rightarrow> jstr \<Rightarrow> jstr \<Rightarrow> bool" where
  "guards a key m p \<longleftrightarrow>
     (\<exists>(e, tags) \<in> set (declared_routes a).
        key \<in> set tags \<and> js (ep_method e) = m \<and> path_matches (js (ep_path e)) p)"

lemma createGuardedRouteMatcher_exact:
  assumes "reflects reflect"
  shows "\<exists>f. createGuardedRouteMatcher parse_url reflect a key = Inr f \<and>
     (\<forall>rq. f rq = map_sum id (guards a key (rq_method rq)) (pathname parse_url (rq_url rq)))"
proof -
  obtain routes where r: "guarded_routes key (reflect a) = Inr routes"
    and ex: "\<forall>m p. list_ex (\<lambda>r. gd_method r = m \<and> test (gd_path r) p) routes \<longleftrightarrow>
        (\<exists>(e, tags) \<in> set (reflect a). key \<in> set tags \<and> js (ep_method e) = m \<and>
           path_matches (js (ep_path e)) p)"
    using guarded_routes_Inr [of key "reflect a"] by blast
  have eq: "set (reflect a) = set (declared_routes a)" using assms by (simp add: reflects_def)
  have ex': "list_ex (\<lambda>r. gd_method r = m \<and> test (gd_path r) p) routes \<longleftrightarrow> guards a key m p" for m p
    by (simp only: guards_def ex [rule_format] eq)
  show ?thesis
    unfolding createGuardedRouteMatcher_def r
    by (rule exI, rule conjI, simp) (simp add: ex' split: sum.split)
qed

lemma join_split: "join_with (js ''/'') (split_on slash path) = path"
proof (induction path)
  case (Cons u path)
  obtain x xs where xs: "split_on slash path = x # xs"
    by (meson split_on_nonempty neq_Nil_conv)
  have "join_with (js ''/'') ((u # x) # xs) = u # join_with (js ''/'') (x # xs)"
    by (cases xs) simp_all
  with Cons xs show ?case by (simp add: js_def)
qed simp

lemma path_matches_plain:
  assumes "\<forall>s \<in> set (split_on slash path). \<not> starts_with (js '':'') s \<and> s \<noteq> js ''*''"
  shows "path_matches path p \<longleftrightarrow> p = path \<or> p = path @ js ''/''"
proof -
  have j: "join_with (js ''/'') (split_on slash path) = path" by (rule join_split)
  have "list_all2 segment_matches ss parts \<longleftrightarrow> parts = ss"
    if "\<forall>s \<in> set ss. \<not> starts_with (js '':'') s \<and> s \<noteq> js ''*''" for ss parts
    using that by (induction ss arbitrary: parts) (auto simp: list_all2_Cons1 segment_matches_def)
  with assms show ?thesis by (auto simp: path_matches_def j)
qed

text \<open>The console's gate covers exactly the listing of sandboxes: the liveness probe stays open.\<close>

lemma console_guards:
  "guards ConsoleApi OrganizationAuthentication m p \<longleftrightarrow>
     m = js ''GET'' \<and> (p = js ''/api/sandboxes'' \<or> p = js ''/api/sandboxes/'')"
proof -
  have "split_on slash (js ''/api/sandboxes'') = [[], js ''api'', js ''sandboxes'']"
    by (simp add: js_def)
  then have "path_matches (js ''/api/sandboxes'') p \<longleftrightarrow> p = js ''/api/sandboxes'' \<or> p = js ''/api/sandboxes'' @ js ''/''"
    by (intro path_matches_plain) (simp add: starts_with_def js_def)
  moreover have "js ''/api/sandboxes'' @ js ''/'' = js ''/api/sandboxes/''" by (simp add: js_def)
  ultimately show ?thesis
    by (auto simp: guards_def declared_routes_def ConsoleApi_def SystemApiGroup_def SandboxesApiGroup_def)
qed

text \<open>The backoffice contract declares no tenant middleware.\<close>

lemma backoffice_guards: "\<not> guards BackofficeApi OrganizationAuthentication m p"
  by (simp add: guards_def declared_routes_def BackofficeApi_def BackofficeOperationsApiGroup_def)

end
