(* ===== verification/Server.thy ===== *)
theory Server
  imports Contract "HOL-Library.List_Lexorder"
begin

text \<open>
  The HTTP host of the API packages (\<open>libs/typescript/api/src/http\<close>): \<open>error-response.ts\<close> and
  \<open>node-server.ts\<close>.

  An \<open>IncomingMessage\<close> of Node becomes a \<open>Request\<close> of the Fetch standard, is dispatched to the
  authentication handler, the gate and the API handler, and the \<open>Response\<close> is written to a
  \<open>ServerResponse\<close>, whose state is the head and the body written so far. The three handlers are
  arguments; each is an asynchronous function over a world \<open>'w\<close>.

  A response's headers are kept as the list of the fields it was given, because \<open>Set-Cookie\<close> may
  occur more than once.
\<close>

section \<open>error-response.ts\<close>

type_synonym byte = "8 word"

record DomainErrorPayload =
  dp_body :: jstr
  dp_status :: int

definition domainErrorPayload :: "error_encoder \<Rightarrow> domain_error \<Rightarrow> DomainErrorPayload" where
  "domainErrorPayload encodeSync e = \<lparr>dp_body = json_stringify (encodeSync e), dp_status = error_status e\<rparr>"

record web_response =
  wr_status :: int
  wr_statusText :: jstr
  wr_headers :: "(jstr \<times> jstr) list"
  wr_bytes :: "exn + byte list"

definition utf8_bytes :: "jstr \<Rightarrow> byte list" where
  "utf8_bytes s = map word_of_nat (utf8_encode s)"

definition domainErrorResponse :: "error_encoder \<Rightarrow> domain_error \<Rightarrow> web_response" where
  "domainErrorResponse encodeSync e =
     (let payload = domainErrorPayload encodeSync e
      in \<lparr>wr_status = dp_status payload, wr_statusText = [],
          wr_headers = [(js ''content-type'', js ''application/json'')],
          wr_bytes = Inr (utf8_bytes (dp_body payload))\<rparr>)"

section \<open>node-server.ts: reading a request\<close>

datatype incoming_value = Absent | Single jstr | Repeated "jstr list"

datatype body_part = Part_text jstr | Part_bytes "byte list"

record IncomingMessage =
  im_method :: "jstr option"
  im_url :: "jstr option"
  im_headers :: "(jstr \<times> incoming_value) list"
  im_parts :: "exn + body_part list"

fun append_all :: "jstr \<Rightarrow> jstr list \<Rightarrow> header_list \<Rightarrow> exn + header_list" where
  "append_all n [] hs = Inr hs"
| "append_all n (v # vs) hs =
     (case hdr_append n v hs of Inl e \<Rightarrow> Inl e | Inr hs' \<Rightarrow> append_all n vs hs')"

fun add_incoming :: "(jstr \<times> incoming_value) list \<Rightarrow> header_list \<Rightarrow> exn + header_list" where
  "add_incoming [] hs = Inr hs"
| "add_incoming ((n, v) # rest) hs =
     (case (case v of Single s \<Rightarrow> hdr_set n s hs | Absent \<Rightarrow> Inr hs | Repeated ss \<Rightarrow> append_all n ss hs) of
        Inl e \<Rightarrow> Inl e
      | Inr hs' \<Rightarrow> add_incoming rest hs')"

definition toHeaders :: "(jstr \<times> incoming_value) list \<Rightarrow> exn + header_list" where
  "toHeaders incoming = add_incoming incoming []"

definition part_bytes :: "body_part \<Rightarrow> byte list" where
  "part_bytes p = (case p of Part_text s \<Rightarrow> utf8_bytes s | Part_bytes bs \<Rightarrow> bs)"

definition readBody :: "IncomingMessage \<Rightarrow> exn + http_body" where
  "readBody im =
     (if im_method im = Some (js ''GET'') \<or> im_method im = Some (js ''HEAD'') then Inr NoBody
      else case im_parts im of
        Inl e \<Rightarrow> Inl e
      | Inr parts \<Rightarrow> Inr (if parts = [] then NoBody else Bytes (concat (map part_bytes parts))))"

text \<open>\<open>new Request(url, { body, headers, method })\<close>: the usual methods are written in upper
  case, some are refused, and neither \<open>GET\<close> nor \<open>HEAD\<close> may carry a body.\<close>

definition same_method :: "string \<Rightarrow> jstr \<Rightarrow> bool" where
  "same_method name m \<longleftrightarrow> ascii_lower m = ascii_lower (js name)"

definition normalize_method :: "jstr \<Rightarrow> jstr" where
  "normalize_method m =
     (case find (\<lambda>name. same_method name m) [''DELETE'', ''GET'', ''HEAD'', ''OPTIONS'', ''POST'', ''PUT''] of
        Some name \<Rightarrow> js name
      | None \<Rightarrow> m)"

definition new_Request ::
  "url_parser \<Rightarrow> jstr \<Rightarrow> jstr option \<Rightarrow> header_list \<Rightarrow> http_body \<Rightarrow> exn + http_request"
where
  "new_Request parse_url u meth hs body = (case parse_url u of
       None \<Rightarrow> Inl (TypeError (js ''Invalid URL''))
     | Some p \<Rightarrow>
         (let m = normalize_method (with_default (js ''GET'') meth)
          in if \<not> valid_header_name m \<or> list_ex (\<lambda>name. same_method name m) [''CONNECT'', ''TRACE'', ''TRACK'']
             then Inl (TypeError (js ''HTTP method is unsupported''))
             else if body \<noteq> NoBody \<and> (m = js ''GET'' \<or> m = js ''HEAD'')
             then Inl (TypeError (js ''Request with GET/HEAD method cannot have body''))
             else Inr \<lparr>rq_method = m, rq_url = wu_href p, rq_headers = hs, rq_body = body,
                       rq_signal = None\<rparr>))"

definition incoming_host :: "IncomingMessage \<Rightarrow> jnum \<Rightarrow> jstr" where
  "incoming_host im port = (case map_of (im_headers im) (js ''host'') of
       Some (Single h) \<Rightarrow> h
     | _ \<Rightarrow> js ''localhost:'' @ num_to_string port)"

definition toWebRequest :: "url_parser \<Rightarrow> IncomingMessage \<Rightarrow> jnum \<Rightarrow> exn + http_request" where
  "toWebRequest parse_url im port = (case readBody im of
       Inl e \<Rightarrow> Inl e
     | Inr body \<Rightarrow>
         (case toHeaders (im_headers im) of
            Inl e \<Rightarrow> Inl e
          | Inr hs \<Rightarrow>
              new_Request parse_url
                (js ''http://'' @ incoming_host im port @ with_default (js ''/'') (im_url im))
                (im_method im) hs body))"

section \<open>node-server.ts: writing a response\<close>

datatype outgoing_value = Out_one jstr | Out_many "jstr list"

text \<open>What was written: the head, with an explicit reason phrase or Node's own for the status,
  and the body that ended the response.\<close>

record ServerResponse =
  sr_head :: "(int \<times> jstr option \<times> (jstr \<times> outgoing_value) list) option"
  sr_body :: "byte list option"

definition fresh_response :: ServerResponse where
  "fresh_response = \<lparr>sr_head = None, sr_body = None\<rparr>"

definition header_values :: "jstr \<Rightarrow> (jstr \<times> jstr) list \<Rightarrow> jstr list" where
  "header_values n hs = map snd (filter (\<lambda>(k, _). k = n) hs)"

definition set_cookie :: jstr where "set_cookie = js ''set-cookie''"

text \<open>\<open>Headers.entries()\<close>: names in order, the fields of a name joined, except \<open>Set-Cookie\<close>.\<close>

definition header_entries :: "(jstr \<times> jstr) list \<Rightarrow> (jstr \<times> jstr) list" where
  "header_entries hs = concat (map (\<lambda>n.
     if n = set_cookie then map (Pair n) (header_values n hs)
     else [(n, join_with (js '', '') (header_values n hs))]) (sort (remdups (map fst hs))))"

definition getSetCookie :: "(jstr \<times> jstr) list \<Rightarrow> jstr list" where
  "getSetCookie hs = header_values set_cookie hs"

definition outgoing_headers :: "(jstr \<times> jstr) list \<Rightarrow> (jstr \<times> outgoing_value) list" where
  "outgoing_headers hs =
     (let plain = fold (\<lambda>(n, v) acc. if n \<noteq> set_cookie then alist_set n (Out_one v) acc else acc)
            (header_entries hs) [];
          cookies = getSetCookie hs
      in if cookies \<noteq> [] then alist_set set_cookie (Out_many cookies) plain else plain)"

text \<open>The head is written before the body is read: when reading fails the head is on the wire.\<close>

definition writeWebResponse :: "web_response \<Rightarrow> ServerResponse \<Rightarrow> exn option \<times> ServerResponse" where
  "writeWebResponse r target =
     (let sent = target\<lparr>sr_head := Some (wr_status r, Some (wr_statusText r), outgoing_headers (wr_headers r))\<rparr>
      in case wr_bytes r of
           Inl e \<Rightarrow> (Some e, sent)
         | Inr bs \<Rightarrow> (None, sent\<lparr>sr_body := Some bs\<rparr>))"

section \<open>node-server.ts: dispatch\<close>

text \<open>What the gate answers: the request to forward, a response of its own, or nothing.\<close>

datatype authorization = Forward http_request | Respond web_response | Undefined

record 'w NodeServerOptions =
  ns_api :: "http_request \<Rightarrow> ('w, web_response) jio"
  ns_auth :: "http_request \<Rightarrow> ('w, web_response) jio"
  ns_authPath :: "jstr option"
  ns_authorizeApi :: "(http_request \<Rightarrow> ('w, authorization) jio) option"
  ns_name :: jstr
  ns_port :: jnum

definition isAuthRequest :: "'w NodeServerOptions \<Rightarrow> jstr \<Rightarrow> bool" where
  "isAuthRequest opts p \<longleftrightarrow> starts_with (with_default (js ''/api/auth/'') (ns_authPath opts)) p"

definition web_answer ::
  "url_parser \<Rightarrow> 'w NodeServerOptions \<Rightarrow> IncomingMessage \<Rightarrow> ('w, web_response) jio"
where
  "web_answer parse_url opts im =
     bind_io (lift_io (toWebRequest parse_url im (ns_port opts))) (\<lambda>webRequest.
     bind_io (lift_io (pathname parse_url (rq_url webRequest))) (\<lambda>p.
     if isAuthRequest opts p then ns_auth opts webRequest
     else bind_io (case ns_authorizeApi opts of None \<Rightarrow> ret Undefined | Some f \<Rightarrow> f webRequest)
       (\<lambda>a. case a of
            Respond r \<Rightarrow> ret r
          | Forward rq \<Rightarrow> ns_api opts rq
          | Undefined \<Rightarrow> ns_api opts webRequest)))"

definition internalError :: "error_encoder \<Rightarrow> DomainErrorPayload" where
  "internalError encodeSync = domainErrorPayload encodeSync InternalError"

definition on_failure :: "error_encoder \<Rightarrow> ServerResponse \<Rightarrow> ServerResponse" where
  "on_failure encodeSync target =
     (let sent = (if sr_head target = None
          then target\<lparr>sr_head := Some (dp_status (internalError encodeSync), None,
                 [(js ''content-type'', Out_one (js ''application/json''))])\<rparr>
          else target)
      in sent\<lparr>sr_body := Some (utf8_bytes (dp_body (internalError encodeSync)))\<rparr>)"

text \<open>The listener of \<open>createServer\<close>: what is written for a request, and the lines logged.\<close>

definition createNodeServer ::
  "url_parser \<Rightarrow> error_encoder \<Rightarrow> 'w NodeServerOptions \<Rightarrow> IncomingMessage \<Rightarrow> 'w \<Rightarrow>
   (ServerResponse \<times> jstr list \<times> 'w) option"
where
  "createNodeServer parse_url encodeSync opts im w =
     (case web_answer parse_url opts im w of
        None \<Rightarrow> None
      | Some (Inl e, w') \<Rightarrow>
          Some (on_failure encodeSync fresh_response, [ns_name opts @ js '' request failed''], w')
      | Some (Inr r, w') \<Rightarrow>
          (case writeWebResponse r fresh_response of
             (None, target) \<Rightarrow> Some (target, [], w')
           | (Some e, target) \<Rightarrow>
               Some (on_failure encodeSync target, [ns_name opts @ js '' request failed''], w')))"

section \<open>What the host writes\<close>

lemma fold_plain_headers:
  assumes "\<forall>(k, v) \<in> set es. k \<noteq> set_cookie \<longrightarrow> v = F k"
  shows "map_of (fold (\<lambda>(n, v) acc. if n \<noteq> set_cookie then alist_set n (Out_one v) acc else acc) es acc) n =
    (if n \<noteq> set_cookie \<and> n \<in> fst ` set es then Some (Out_one (F n)) else map_of acc n)"
  using assms by (induction es arbitrary: acc) auto

lemma header_entries_shape:
  "\<forall>(k, v) \<in> set (header_entries hs). k \<noteq> set_cookie \<longrightarrow> v = join_with (js '', '') (header_values k hs)"
  by (auto simp: header_entries_def split: if_splits)

lemma header_entries_names:
  assumes n: "n \<noteq> set_cookie"
  shows "n \<in> fst ` set (header_entries hs) \<longleftrightarrow> n \<in> fst ` set hs"
proof
  assume "n \<in> fst ` set (header_entries hs)"
  then obtain v where "(n, v) \<in> set (header_entries hs)" by fastforce
  with n show "n \<in> fst ` set hs" by (auto simp: header_entries_def split: if_splits)
next
  assume "n \<in> fst ` set hs"
  with n have "(n, join_with (js '', '') (header_values n hs)) \<in> set (header_entries hs)"
    by (simp add: header_entries_def)
  then show "n \<in> fst ` set (header_entries hs)" by force
qed

text \<open>Every header of a response is written once, its fields joined; the cookies are written one by
  one and in order, never joined.\<close>

lemma outgoing_headers_exact:
  "map_of (outgoing_headers hs) n =
     (if n = set_cookie then (if getSetCookie hs = [] then None else Some (Out_many (getSetCookie hs)))
      else if n \<in> fst ` set hs then Some (Out_one (join_with (js '', '') (header_values n hs)))
      else None)"
  by (simp add: outgoing_headers_def Let_def header_entries_names
      fold_plain_headers [OF header_entries_shape [of hs]])

lemma payload_parses:
  "encodes_errors encodeSync \<Longrightarrow> json_parse (dp_body (domainErrorPayload encodeSync e)) = Some (encodeSync e)"
  by (simp add: domainErrorPayload_def encodes_errors_def json_round_trip)

lemma wire_member:
  "encodes_errors encodeSync \<Longrightarrow> (k, v) \<in> set (wire_members e) \<Longrightarrow> prop_opt (js k) (encodeSync e) = v"
  unfolding encodes_errors_def by fast

text \<open>A failure answers with the body of \<open>InternalError\<close>.\<close>

definition internal_error_body :: "byte list \<Rightarrow> bool" where
  "internal_error_body bs \<longleftrightarrow>
     (\<exists>t v. bs = utf8_bytes t \<and> json_parse t = Some v \<and>
        prop_opt (js ''_tag'') v = jtext ''InternalError'' \<and> prop_opt (js ''code'') v = jtext ''INTERNAL'' \<and>
        prop_opt (js ''message'') v = jtext ''Internal server error'')"

lemma internalError_body:
  assumes "encodes_errors encodeSync"
  shows "internal_error_body (utf8_bytes (dp_body (internalError encodeSync)))"
proof -
  have "prop_opt (js k) (encodeSync InternalError) = v" if "(k, v) \<in> set (wire_members InternalError)" for k v
    using wire_member [OF assms that] .
  then show ?thesis
    unfolding internal_error_body_def internalError_def
    by (intro exI [of _ "dp_body (domainErrorPayload encodeSync InternalError)"] exI [of _ "encodeSync InternalError"])
      (simp add: payload_parses [OF assms] wire_members_def DomainError_def ErrorCode_INTERNAL_def)
qed

lemma on_failure_fresh:
  "on_failure encodeSync fresh_response =
     \<lparr>sr_head = Some (500, None, [(js ''content-type'', Out_one (js ''application/json''))]),
      sr_body = Some (utf8_bytes (dp_body (internalError encodeSync)))\<rparr>"
  by (simp add: on_failure_def fresh_response_def internalError_def domainErrorPayload_def error_status_def
      DomainError_def ErrorCode_INTERNAL_def)

text \<open>The message says what a client sees when the body of a response cannot be read: the head is
  already written, so the error body travels under the status of the response.\<close>

lemma unreadable_body_keeps_status:
  assumes "web_answer parse_url opts im w = Some (Inr r, w')" and "wr_bytes r = Inl e"
  shows "createNodeServer parse_url encodeSync opts im w =
    Some (\<lparr>sr_head = Some (wr_status r, Some (wr_statusText r), outgoing_headers (wr_headers r)),
           sr_body = Some (utf8_bytes (dp_body (internalError encodeSync)))\<rparr>,
          [ns_name opts @ js '' request failed''], w')"
  using assms by (simp add: createNodeServer_def writeWebResponse_def on_failure_def fresh_response_def)


definition failing_options :: "unit NodeServerOptions" where
  "failing_options = \<lparr>ns_api = (\<lambda>rq. throw abort_error), ns_auth = (\<lambda>rq. throw abort_error),
     ns_authPath = None, ns_authorizeApi = None, ns_name = js ''console-api'', ns_port = Fin 3101\<rparr>"

definition bare_message :: IncomingMessage where
  "bare_message = \<lparr>im_method = Some (js ''GET''), im_url = Some (js ''/api/health''), im_headers = [],
     im_parts = Inr []\<rparr>"


end
