(* ===== verification/Tenancy.thy ===== *)
theory Tenancy
  imports Server
begin

text \<open>
  The tenant side of the API package (\<open>libs/typescript/api/src/modules\<close>): the trusted subject
  headers, the authentication middleware, the permission service, the use cases with their
  controllers, and the compositions that wire them.

  The \<open>effect\<close> packages that route a request to an endpoint and encode what it returned are a
  parameter (\<open>effect_platform\<close>): its router may send any request to any endpoint, and nothing below
  depends on how it routes. The locales state what the use cases rely on: a permission service whose
  two operations agree, and a repository of sandboxes that settles.
\<close>

section \<open>authenticated-member.ts\<close>

definition organizationId_header :: jstr where
  "organizationId_header = js ''x-fissionplane-auth-organization-id''"

definition organizationRole_header :: jstr where
  "organizationRole_header = js ''x-fissionplane-auth-organization-role''"

definition userId_header :: jstr where
  "userId_header = js ''x-fissionplane-auth-user-id''"

definition AUTHENTICATED_MEMBER_HEADERS :: "jstr list" where
  "AUTHENTICATED_MEMBER_HEADERS = [organizationId_header, organizationRole_header, userId_header]"

definition strip_step :: "jstr \<Rightarrow> header_list \<times> bool \<Rightarrow> header_list \<times> bool" where
  "strip_step h st = (if hdr_has h (fst st) then (hdr_delete h (fst st), True) else st)"

definition withoutAuthenticatedMember :: "http_request \<Rightarrow> http_request" where
  "withoutAuthenticatedMember rq =
     (case fold strip_step AUTHENTICATED_MEMBER_HEADERS (rq_headers rq, False) of
        (headers, forged) \<Rightarrow> if forged then rq\<lparr>rq_headers := headers\<rparr> else rq)"

definition withAuthenticatedMember :: "http_request \<Rightarrow> AuthenticatedMember \<Rightarrow> exn + http_request" where
  "withAuthenticatedMember rq subject =
     (case hdr_set userId_header (userId subject) (rq_headers rq) of
        Inl e \<Rightarrow> Inl e
      | Inr h1 \<Rightarrow>
          (case hdr_set organizationId_header (organizationId subject) h1 of
             Inl e \<Rightarrow> Inl e
           | Inr h2 \<Rightarrow>
               (case hdr_set organizationRole_header (role_name (member_role subject)) h2 of
                  Inl e \<Rightarrow> Inl e
                | Inr h3 \<Rightarrow> Inr (rq\<lparr>rq_headers := h3\<rparr>))))"

section \<open>organization-authentication.middleware.ts\<close>

definition OrganizationAuthenticationLive :: "http_request \<Rightarrow> domain_error + AuthenticatedMember" where
  "OrganizationAuthenticationLive rq =
     (case decode_member (hdr_get organizationId_header (rq_headers rq))
             (hdr_get organizationRole_header (rq_headers rq)) (hdr_get userId_header (rq_headers rq)) of
        None \<Rightarrow> Inl UnauthenticatedError
      | Some m \<Rightarrow> Inr m)"

section \<open>organization-rbac.service.ts\<close>

definition rbac_hasPermission :: "string \<Rightarrow> AuthenticatedMember \<Rightarrow> bool" where
  "rbac_hasPermission permission subject = hasOrganizationPermission (member_role subject) permission"

definition rbac_requirePermission :: "string \<Rightarrow> AuthenticatedMember \<Rightarrow> domain_error + unit" where
  "rbac_requirePermission permission subject =
     (if hasOrganizationPermission (member_role subject) permission then Inr ()
      else Inl (ForbiddenError permission))"

section \<open>Use cases\<close>

type_synonym 'r sandbox_repository = "jstr \<Rightarrow> ('r, SandboxSummary list) jio"

definition EmptySandboxRepositoryLive :: "'r sandbox_repository" where
  "EmptySandboxRepositoryLive org = ret []"

definition ListSandboxesUseCaseLive ::
  "(string \<Rightarrow> AuthenticatedMember \<Rightarrow> domain_error + unit) \<Rightarrow> 'r sandbox_repository \<Rightarrow>
   AuthenticatedMember \<Rightarrow> ('r, domain_error + SandboxSummary list) jio"
where
  "ListSandboxesUseCaseLive requirePermission repository subject =
     (case requirePermission ''sandbox:read'' subject of
        Inl e \<Rightarrow> ret (Inl e)
      | Inr _ \<Rightarrow> bind_io (repository (organizationId subject)) (\<lambda>rows. ret (Inr rows)))"

definition GetHealthUseCaseLive :: "string \<Rightarrow> Health" where
  "GetHealthUseCaseLive service = \<lparr>hl_service = js service, hl_status = js ''ok''\<rparr>"

section \<open>Controllers and compositions\<close>

datatype api_value = Rows "SandboxSummary list" | Report Health

definition ConsoleHealthControllerLive :: "('r, domain_error + api_value) jio" where
  "ConsoleHealthControllerLive = ret (Inr (Report (GetHealthUseCaseLive ''console-api'')))"

definition BackofficeHealthControllerLive :: "('r, domain_error + api_value) jio" where
  "BackofficeHealthControllerLive = ret (Inr (Report (GetHealthUseCaseLive ''backoffice'')))"

definition SandboxesControllerLive ::
  "(AuthenticatedMember \<Rightarrow> ('r, domain_error + SandboxSummary list) jio) \<Rightarrow> AuthenticatedMember \<Rightarrow>
   ('r, domain_error + api_value) jio"
where
  "SandboxesControllerLive execute subject = bind_io (execute subject) (\<lambda>x. ret (map_sum id Rows x))"

text \<open>The endpoint a router chose, by the names of its group and itself. A group that declares
  \<open>OrganizationAuthentication\<close> runs behind that middleware.\<close>

definition console_endpoint ::
  "'r sandbox_repository \<Rightarrow> string \<times> string \<Rightarrow> http_request \<Rightarrow> ('r, domain_error + api_value) jio option"
where
  "console_endpoint repository ge rq =
     (if ge = (''system'', ''health'') then Some ConsoleHealthControllerLive
      else if ge = (''sandboxes'', ''list'') then Some
        (case OrganizationAuthenticationLive rq of
           Inl e \<Rightarrow> ret (Inl e)
         | Inr subject \<Rightarrow>
             SandboxesControllerLive (ListSandboxesUseCaseLive rbac_requirePermission repository) subject)
      else None)"

definition backoffice_endpoint :: "string \<times> string \<Rightarrow> http_request \<Rightarrow> ('r, domain_error + api_value) jio option" where
  "backoffice_endpoint ge rq =
     (if ge = (''operations'', ''health'') then Some BackofficeHealthControllerLive else None)"

text \<open>What the \<open>effect\<close> packages do: choose an endpoint, and turn its result, a missing route or a
  defect into a response.\<close>

record effect_platform =
  ef_route :: "http_request \<Rightarrow> (string \<times> string) option"
  ef_respond :: "domain_error + api_value \<Rightarrow> web_response"
  ef_not_found :: web_response
  ef_defect :: "exn \<Rightarrow> web_response"

definition toWebHandler ::
  "effect_platform \<Rightarrow> (string \<times> string \<Rightarrow> http_request \<Rightarrow> ('r, domain_error + api_value) jio option) \<Rightarrow>
   http_request \<Rightarrow> ('r, web_response) jio"
where
  "toWebHandler ef endpoints rq = (case ef_route ef rq of
       None \<Rightarrow> ret (ef_not_found ef)
     | Some ge \<Rightarrow> (case endpoints ge rq of
           None \<Rightarrow> ret (ef_not_found ef)
         | Some run \<Rightarrow>
             catch_io (bind_io run (\<lambda>x. ret (ef_respond ef x))) (\<lambda>e. ret (ef_defect ef e))))"

text \<open>The repository is the adapter the composition exchanges; today it wires the empty one.\<close>

definition console_api_with :: "effect_platform \<Rightarrow> 'r sandbox_repository \<Rightarrow> http_request \<Rightarrow> ('r, web_response) jio" where
  "console_api_with ef repository = toWebHandler ef (console_endpoint repository)"

definition ConsoleApiLive :: "effect_platform \<Rightarrow> http_request \<Rightarrow> ('r, web_response) jio" where
  "ConsoleApiLive ef = console_api_with ef EmptySandboxRepositoryLive"

definition BackofficeApiLive :: "effect_platform \<Rightarrow> http_request \<Rightarrow> ('r, web_response) jio" where
  "BackofficeApiLive ef = toWebHandler ef backoffice_endpoint"

section \<open>The subject headers\<close>

lemma header_names_distinct:
  "ascii_lower organizationId_header \<noteq> ascii_lower organizationRole_header"
  "ascii_lower organizationId_header \<noteq> ascii_lower userId_header"
  "ascii_lower organizationRole_header \<noteq> ascii_lower userId_header"
  by (rule ascii_lower_neq_length,
      simp add: organizationId_header_def organizationRole_header_def userId_header_def)+

lemma hdr_has_get: "\<not> hdr_has n hs \<longleftrightarrow> hdr_get n hs = None"
  by (simp add: hdr_has_def)

lemma strip_step_get:
  "hdr_get m (fst (strip_step n st)) = (if ascii_lower m = ascii_lower n then None else hdr_get m (fst st))"
  by (auto simp: strip_step_def hdr_has_def hdr_get_def hdr_delete_def)

lemma strip_step_clean: "\<not> snd (strip_step n st) \<Longrightarrow> \<not> snd st \<and> fst (strip_step n st) = fst st"
  by (auto simp: strip_step_def split: if_splits)

lemma strip_clean: "\<not> snd (fold strip_step hs st) \<Longrightarrow> \<not> snd st \<and> fst (fold strip_step hs st) = fst st"
proof (induction hs arbitrary: st)
  case (Cons h hs)
  from Cons.IH [of "strip_step h st"] Cons.prems strip_step_clean [of h st] show ?case by simp
qed simp

lemma strip_get:
  "hdr_get m (fst (fold strip_step hs st)) =
     (if ascii_lower m \<in> ascii_lower ` set hs then None else hdr_get m (fst st))"
proof (induction hs arbitrary: st)
  case (Cons h hs)
  show ?case using Cons [of "strip_step h st"] by (simp add: strip_step_get)
qed simp

text \<open>A stripped request carries no subject header; every other header and the rest of the request
  are untouched.\<close>

lemma stripped_headers:
  "rq_headers (withoutAuthenticatedMember rq) =
     fst (fold strip_step AUTHENTICATED_MEMBER_HEADERS (rq_headers rq, False))"
proof (cases "fold strip_step AUTHENTICATED_MEMBER_HEADERS (rq_headers rq, False)")
  case (Pair hs forged)
  show ?thesis
  proof (cases forged)
    case True
    then show ?thesis unfolding withoutAuthenticatedMember_def Pair prod.case fst_conv by simp
  next
    case False
    have "hs = rq_headers rq"
      using strip_clean [of AUTHENTICATED_MEMBER_HEADERS "(rq_headers rq, False)"] False unfolding Pair fst_conv snd_conv
      by blast
    then show ?thesis using False unfolding withoutAuthenticatedMember_def Pair prod.case fst_conv by (simp only: if_False)
  qed
qed

lemma stripped_get:
  "hdr_get m (rq_headers (withoutAuthenticatedMember rq)) =
     (if ascii_lower m \<in> ascii_lower ` set AUTHENTICATED_MEMBER_HEADERS then None
      else hdr_get m (rq_headers rq))"
  by (simp add: stripped_headers strip_get)

lemma stripped_rest:
  "rq_method (withoutAuthenticatedMember rq) = rq_method rq"
  "rq_url (withoutAuthenticatedMember rq) = rq_url rq"
  "rq_body (withoutAuthenticatedMember rq) = rq_body rq"
  by (auto simp: withoutAuthenticatedMember_def split: prod.splits)

lemma stripped_unauthenticated:
  "OrganizationAuthenticationLive (withoutAuthenticatedMember rq) = Inl UnauthenticatedError"
  by (simp add: OrganizationAuthenticationLive_def decode_member_def stripped_get
      AUTHENTICATED_MEMBER_HEADERS_def)

lemma role_header_value: "http_trim (role_name r) = role_name r" "valid_header_value (role_name r)"
  by (cases r, simp_all add: http_trim_def is_http_space_def valid_header_value_def js_def u16_def)+

text \<open>What the middleware reads is what the gate wrote, after the trimming of header values.\<close>

lemma withAuthenticatedMember_get:
  assumes "withAuthenticatedMember rq m = Inr rq'"
  shows "hdr_get userId_header (rq_headers rq') = Some (http_trim (userId m))"
    and "hdr_get organizationId_header (rq_headers rq') = Some (http_trim (organizationId m))"
    and "hdr_get organizationRole_header (rq_headers rq') = Some (role_name (member_role m))"
proof -
  from assms obtain h1 h2 h3 where h:
    "hdr_set userId_header (userId m) (rq_headers rq) = Inr h1"
    "hdr_set organizationId_header (organizationId m) h1 = Inr h2"
    "hdr_set organizationRole_header (role_name (member_role m)) h2 = Inr h3"
    "rq' = rq\<lparr>rq_headers := h3\<rparr>"
    by (auto simp: withAuthenticatedMember_def split: sum.splits)
  note d = header_names_distinct header_names_distinct [symmetric]
  show "hdr_get userId_header (rq_headers rq') = Some (http_trim (userId m))"
    using h hdr_get_set_same [OF h(1)] hdr_get_set_other [OF h(2)] hdr_get_set_other [OF h(3)] d by simp
  show "hdr_get organizationId_header (rq_headers rq') = Some (http_trim (organizationId m))"
    using h hdr_get_set_same [OF h(2)] hdr_get_set_other [OF h(3)] d by simp
  show "hdr_get organizationRole_header (rq_headers rq') = Some (role_name (member_role m))"
    using h hdr_get_set_same [OF h(3)] role_header_value by simp
qed

lemma middleware_reads_gate:
  assumes "withAuthenticatedMember rq m = Inr rq'"
    and "OrganizationAuthenticationLive rq' = Inr m'"
  shows "m' = m\<lparr>organizationId := http_trim (organizationId m), userId := http_trim (userId m)\<rparr>"
  using assms withAuthenticatedMember_get [OF assms(1)]
  by (cases m'; cases m)
    (auto simp: OrganizationAuthenticationLive_def decode_member_Some split: option.splits)

section \<open>Interfaces of the use case\<close>

locale rbac_service =
  fixes hasPermission :: "string \<Rightarrow> AuthenticatedMember \<Rightarrow> bool"
    and requirePermission :: "string \<Rightarrow> AuthenticatedMember \<Rightarrow> domain_error + unit"
  assumes require_agrees:
    "requirePermission p s = (if hasPermission p s then Inr () else Inl (ForbiddenError p))"
begin

lemma list_denied:
  "\<not> hasPermission ''sandbox:read'' s \<Longrightarrow>
     ListSandboxesUseCaseLive requirePermission repository s r = Some (Inr (Inl (ForbiddenError ''sandbox:read'')), r)"
  by (simp add: ListSandboxesUseCaseLive_def require_agrees)

lemma list_allowed:
  "hasPermission ''sandbox:read'' s \<Longrightarrow>
     ListSandboxesUseCaseLive requirePermission repository s =
       bind_io (repository (organizationId s)) (\<lambda>rows. ret (Inr rows))"
  by (simp add: ListSandboxesUseCaseLive_def require_agrees)

end

locale settling_repository =
  fixes repository :: "'r sandbox_repository"
  assumes repository_settles: "settles (repository org) r"

text \<open>A use case over a permission service and a settling repository always settles.\<close>

locale list_sandboxes = rbac_service + settling_repository
begin

lemma list_settles: "settles (ListSandboxesUseCaseLive requirePermission repository s) r"
proof (cases "hasPermission ''sandbox:read'' s")
  case True
  then show ?thesis
    by (simp add: list_allowed settles_bind_ioI repository_settles)
next
  case False
  then show ?thesis by (simp add: list_denied settles_def)
qed

end

interpretation rbac: rbac_service rbac_hasPermission rbac_requirePermission
  by unfold_locales (simp add: rbac_hasPermission_def rbac_requirePermission_def)

interpretation live: list_sandboxes rbac_hasPermission rbac_requirePermission EmptySandboxRepositoryLive
  by unfold_locales (simp add: EmptySandboxRepositoryLive_def)

end
