(* ===== verification/Hosts.thy ===== *)
theory Hosts
  imports Tenancy
begin

text \<open>
  The two API hosts: \<open>apps/console-api/src\<close> and \<open>apps/backoffice-api/src\<close>, their configuration
  and the gates that run before the API handler.

  Better Auth is a parameter (\<open>better_auth\<close>): its session lookup, its membership lookup and its
  request handler are functions over a state of their own. The world of a host is that state and
  the state behind the sandbox repository; a handler of one part cannot touch the other.
\<close>

section \<open>config.ts\<close>

type_synonym environment = "string \<Rightarrow> jstr option"

definition requireEnvironment :: "environment \<Rightarrow> string \<Rightarrow> exn + jstr" where
  "requireEnvironment env name = (case env name of
       None \<Rightarrow> Inl (OtherError (js (name @ '' is required'')))
     | Some value \<Rightarrow> if value = [] then Inl (OtherError (js (name @ '' is required''))) else Inr value)"

record host_config =
  hc_authSecret :: jstr
  hc_baseUrl :: jstr
  hc_databaseUrl :: jstr
  hc_port :: jnum
  hc_trustedOrigins :: "jstr list"

definition console_config :: "environment \<Rightarrow> exn + host_config" where
  "console_config env = (case requireEnvironment env ''CONSOLE_AUTH_SECRET'' of
       Inl e \<Rightarrow> Inl e
     | Inr secret \<Rightarrow> (case requireEnvironment env ''DATABASE_URL'' of
         Inl e \<Rightarrow> Inl e
       | Inr database \<Rightarrow> Inr
          \<lparr>hc_authSecret = secret,
           hc_baseUrl = with_default (js ''http://localhost:3101'') (env ''CONSOLE_API_URL''),
           hc_databaseUrl = database,
           hc_port = string_to_num (with_default (js ''3101'') (env ''CONSOLE_API_PORT'')),
           hc_trustedOrigins = [with_default (js ''http://localhost:3100'') (env ''CONSOLE_WEB_URL'')]\<rparr>))"

definition backoffice_config :: "environment \<Rightarrow> exn + host_config" where
  "backoffice_config env = (case requireEnvironment env ''BACKOFFICE_AUTH_SECRET'' of
       Inl e \<Rightarrow> Inl e
     | Inr secret \<Rightarrow> (case requireEnvironment env ''DATABASE_URL'' of
         Inl e \<Rightarrow> Inl e
       | Inr database \<Rightarrow> Inr
          \<lparr>hc_authSecret = secret,
           hc_baseUrl = with_default (js ''http://localhost:3201'') (env ''BACKOFFICE_API_URL''),
           hc_databaseUrl = database,
           hc_port = string_to_num (with_default (js ''3201'') (env ''BACKOFFICE_API_PORT'')),
           hc_trustedOrigins = [with_default (js ''http://localhost:3200'') (env ''BACKOFFICE_WEB_URL'')]\<rparr>))"

section \<open>Better Auth and the world of a host\<close>

text \<open>A session names its user, the user's role in the operator realm and the active organization;
  \<open>null\<close> and \<open>undefined\<close> are \<open>None\<close>.\<close>

record auth_session =
  se_userId :: jstr
  se_userRole :: "jstr option"
  se_activeOrganizationId :: "jstr option"

record 'a better_auth =
  ba_getSession :: "header_list \<Rightarrow> ('a, auth_session option) jio"
  ba_getActiveMemberRole :: "header_list \<Rightarrow> jstr \<Rightarrow> ('a, jstr) jio"
  ba_handler :: "http_request \<Rightarrow> ('a, web_response) jio"

record ('a, 'r) host_world =
  auth_state :: 'a
  repo_state :: 'r

definition on_auth :: "('a, 'x) jio \<Rightarrow> (('a, 'r) host_world, 'x) jio" where
  "on_auth m w = map_option (\<lambda>(x, a). (x, w\<lparr>auth_state := a\<rparr>)) (m (auth_state w))"

definition on_repo :: "('r, 'x) jio \<Rightarrow> (('a, 'r) host_world, 'x) jio" where
  "on_repo m w = map_option (\<lambda>(x, r). (x, w\<lparr>repo_state := r\<rparr>)) (m (repo_state w))"

section \<open>console-api/src/server.ts\<close>

definition resolveAuthenticatedMember ::
  "(http_request \<Rightarrow> exn + bool) \<Rightarrow> error_encoder \<Rightarrow> 'a better_auth \<Rightarrow> http_request \<Rightarrow> ('a, authorization) jio"
where
  "resolveAuthenticatedMember requires encodeSync auth incoming =
     (let request = withoutAuthenticatedMember incoming in
      bind_io (lift_io (requires request)) (\<lambda>guarded.
      if \<not> guarded then ret (Forward request)
      else bind_io (ba_getSession auth (rq_headers request)) (\<lambda>found. case found of
          None \<Rightarrow> ret (Respond (domainErrorResponse encodeSync UnauthenticatedError))
        | Some session \<Rightarrow>
            (case se_activeOrganizationId session of
               None \<Rightarrow> ret (Respond (domainErrorResponse encodeSync ActiveOrganizationRequiredError))
             | Some org \<Rightarrow>
                 bind_io (catch_io
                     (bind_io (ba_getActiveMemberRole auth (rq_headers request) org) (\<lambda>r. ret (Some r)))
                     (\<lambda>e. ret None))
                   (\<lambda>role. case decode_member (Some org) role (Some (se_userId session)) of
                        None \<Rightarrow> ret (Respond (domainErrorResponse encodeSync UnauthorizedError))
                      | Some subject \<Rightarrow>
                          bind_io (lift_io (withAuthenticatedMember request subject)) (\<lambda>rq. ret (Forward rq)))))))"

definition console_server ::
  "url_parser \<Rightarrow> reflection \<Rightarrow> error_encoder \<Rightarrow> 'a better_auth \<Rightarrow> effect_platform \<Rightarrow>
   'r sandbox_repository \<Rightarrow> jnum \<Rightarrow> exn + ('a, 'r) host_world NodeServerOptions"
where
  "console_server parse_url reflect encodeSync auth ef repository port =
     (case createGuardedRouteMatcher parse_url reflect ConsoleApi OrganizationAuthentication of
        Inl e \<Rightarrow> Inl e
      | Inr requires \<Rightarrow> Inr
          \<lparr>ns_api = (\<lambda>rq. on_repo (console_api_with ef repository rq)),
           ns_auth = (\<lambda>rq. on_auth (ba_handler auth rq)),
           ns_authPath = None,
           ns_authorizeApi = Some (\<lambda>rq. on_auth (resolveAuthenticatedMember requires encodeSync auth rq)),
           ns_name = js ''console-api'', ns_port = port\<rparr>)"

section \<open>backoffice-api/src/server.ts\<close>

definition authorizeOperator :: "error_encoder \<Rightarrow> 'a better_auth \<Rightarrow> http_request \<Rightarrow> ('a, authorization) jio" where
  "authorizeOperator encodeSync auth incoming =
     (let request = withoutAuthenticatedMember incoming in
      bind_io (ba_getSession auth (rq_headers request)) (\<lambda>found. case found of
          None \<Rightarrow> ret (Respond (domainErrorResponse encodeSync UnauthenticatedError))
        | Some session \<Rightarrow> ret
            (if se_userRole session = Some (js ''admin'') then Forward request
             else Respond (domainErrorResponse encodeSync UnauthorizedError))))"

definition backoffice_server ::
  "error_encoder \<Rightarrow> 'a better_auth \<Rightarrow> effect_platform \<Rightarrow> jnum \<Rightarrow> ('a, 'r) host_world NodeServerOptions"
where
  "backoffice_server encodeSync auth ef port =
     \<lparr>ns_api = (\<lambda>rq. on_repo (BackofficeApiLive ef rq)),
      ns_auth = (\<lambda>rq. on_auth (ba_handler auth rq)),
      ns_authPath = None,
      ns_authorizeApi = Some (\<lambda>rq. on_auth (authorizeOperator encodeSync auth rq)),
      ns_name = js ''backoffice'', ns_port = port\<rparr>"

section \<open>The console's gate\<close>

lemma on_auth_cases:
  "on_auth m w = Some (x, w') \<longleftrightarrow> (\<exists>a. m (auth_state w) = Some (x, a) \<and> w' = w\<lparr>auth_state := a\<rparr>)"
  by (auto simp: on_auth_def)

lemma on_repo_cases:
  "on_repo m w = Some (x, w') \<longleftrightarrow> (\<exists>r. m (repo_state w) = Some (x, r) \<and> w' = w\<lparr>repo_state := r\<rparr>)"
  by (auto simp: on_repo_def)

text \<open>A forwarded request either carries no subject, or the subject of the session.\<close>

lemma gate_forwards:
  assumes "resolveAuthenticatedMember requires encodeSync auth incoming a = Some (Inr (Forward rq), a')"
  obtains (unguarded) "rq = withoutAuthenticatedMember incoming"
  | (member) session a1 m where
      "ba_getSession auth (rq_headers (withoutAuthenticatedMember incoming)) a = Some (Inr (Some session), a1)"
      "se_activeOrganizationId session = Some (organizationId m)" "se_userId session = userId m"
      "ba_getActiveMemberRole auth (rq_headers (withoutAuthenticatedMember incoming)) (organizationId m) a1 =
         Some (Inr (role_name (member_role m)), a')"
      "member_ok m" "withAuthenticatedMember (withoutAuthenticatedMember incoming) m = Inr rq"
  using assms
  by (auto simp: resolveAuthenticatedMember_def Let_def bind_io_def catch_io_def decode_member_Some
      split: option.splits sum.splits prod.splits if_splits)

text \<open>What the API handler does to the repository, whatever endpoint the router picks: nothing, or
  one listing of the organization of the subject the middleware accepted.\<close>

lemma console_api_repository:
  assumes "console_api_with ef repository rq r = Some (x, r')"
  obtains (untouched) "r' = r"
  | (listed) m y where "OrganizationAuthenticationLive rq = Inr m"
      "rbac_hasPermission ''sandbox:read'' m" "repository (organizationId m) r = Some (y, r')"
proof (cases "ef_route ef rq = Some (''sandboxes'', ''list'')")
  case False
  with assms have "r' = r"
    by (auto simp: console_api_with_def toWebHandler_def console_endpoint_def ConsoleHealthControllerLive_def
        catch_io_def split: option.splits if_splits)
  then show thesis by (rule untouched)
next
  case route: True
  show thesis
  proof (cases "OrganizationAuthenticationLive rq")
    case (Inl e)
    with assms route have "r' = r"
      by (auto simp: console_api_with_def toWebHandler_def console_endpoint_def catch_io_def)
    then show thesis by (rule untouched)
  next
    case (Inr m)
    show thesis
    proof (cases "rbac_hasPermission ''sandbox:read'' m")
      case True
      with assms route Inr obtain y where "repository (organizationId m) r = Some (y, r')"
        by (auto simp: console_api_with_def toWebHandler_def console_endpoint_def
            SandboxesControllerLive_def rbac.list_allowed bind_io_def catch_io_def
            split: option.splits sum.splits prod.splits)
      with Inr True show thesis by (rule listed)
    next
      case False
      with assms route Inr have "r' = r"
        by (auto simp: console_api_with_def toWebHandler_def console_endpoint_def
            SandboxesControllerLive_def rbac.list_denied bind_io_def catch_io_def)
      then show thesis by (rule untouched)
    qed
  qed
qed

lemma createNodeServer_world:
  assumes "createNodeServer parse_url encodeSync opts im w = Some (target, logs, w')"
  obtains x where "web_answer parse_url opts im w = Some (x, w')"
  using assms that
  by (auto simp: createNodeServer_def split: option.splits sum.splits prod.splits)

text \<open>The stages of an answer: nothing was called, the authentication handler answered, the gate
  answered or failed, or the gate forwarded a request to the API handler.\<close>

lemma web_answer_stages:
  assumes "web_answer parse_url opts im w = Some (x, w')" and "ns_authorizeApi opts = Some gate"
  obtains (none) "w' = w"
  | (auth) rq where "toWebRequest parse_url im (ns_port opts) = Inr rq" "ns_auth opts rq w = Some (x, w')"
  | (stopped) rq y where "toWebRequest parse_url im (ns_port opts) = Inr rq" "gate rq w = Some (y, w')"
  | (api) rq w1 a rq' where "toWebRequest parse_url im (ns_port opts) = Inr rq"
      "gate rq w = Some (Inr a, w1)" "a = Forward rq' \<or> a = Undefined \<and> rq' = rq"
      "ns_api opts rq' w1 = Some (x, w')"
  using assms
  by (auto simp: web_answer_def bind_io_def split: option.splits sum.splits prod.splits if_splits
      authorization.splits)

lemma gate_answers: "resolveAuthenticatedMember requires encodeSync auth rq a = Some (Inr x, a') \<Longrightarrow> x \<noteq> Undefined"
  by (auto simp: resolveAuthenticatedMember_def Let_def bind_io_def catch_io_def
      split: option.splits sum.splits prod.splits if_splits)

text \<open>C2: Tenant isolation of the console host. Whatever headers a caller sends and however the
  router maps requests to endpoints, the sandbox repository is either left alone or asked for exactly
  one organization: the active organization of the session that Better Auth resolved from the request
  without its subject headers, of which that user is a member with a role that grants
  \<open>sandbox:read\<close>. (Header values lose surrounding white space on the way.)\<close>

theorem tenant_isolation:
  assumes "console_server parse_url reflect encodeSync auth ef repository port = Inr opts"
    and "createNodeServer parse_url encodeSync opts im w = Some (target, logs, w')"
  shows "repo_state w' = repo_state w \<or>
    (\<exists>rq hs session a1 a2 org r y.
       toWebRequest parse_url im port = Inr rq \<and> hs = rq_headers (withoutAuthenticatedMember rq) \<and>
       (\<forall>h \<in> set AUTHENTICATED_MEMBER_HEADERS. hdr_get h hs = None) \<and>
       ba_getSession auth hs (auth_state w) = Some (Inr (Some session), a1) \<and>
       se_activeOrganizationId session = Some org \<and>
       ba_getActiveMemberRole auth hs org a1 = Some (Inr (role_name r), a2) \<and>
       hasOrganizationPermission r ''sandbox:read'' \<and>
       repository (http_trim org) (repo_state w) = Some (y, repo_state w'))"
proof -
  from assms(1) obtain requires where opts:
    "ns_api opts = (\<lambda>rq. on_repo (console_api_with ef repository rq))"
    "ns_auth opts = (\<lambda>rq. on_auth (ba_handler auth rq))"
    "ns_authorizeApi opts = Some (\<lambda>rq. on_auth (resolveAuthenticatedMember requires encodeSync auth rq))"
    "ns_port opts = port"
    by (auto simp: console_server_def split: sum.splits)
  from assms(2) obtain x where "web_answer parse_url opts im w = Some (x, w')"
    by (rule createNodeServer_world)
  from this opts(3) show ?thesis
  proof (cases rule: web_answer_stages)
    case (api rq w1 a rq')
    from api(2) obtain a1 where g: "resolveAuthenticatedMember requires encodeSync auth rq (auth_state w) =
        Some (Inr a, a1)" and w1: "w1 = w\<lparr>auth_state := a1\<rparr>"
      by (auto simp: on_auth_cases)
    from api(3) gate_answers [OF g] have "a = Forward rq'" by simp
    with g have g: "resolveAuthenticatedMember requires encodeSync auth rq (auth_state w) =
        Some (Inr (Forward rq'), a1)" by (simp only:)
    from api(4) obtain r' where h: "console_api_with ef repository rq' (repo_state w) = Some (x, r')"
      and w': "repo_state w' = r'"
      by (auto simp: opts on_repo_cases w1)
    from h show ?thesis
    proof (cases rule: console_api_repository)
      case untouched
      with w' show ?thesis by simp
    next
      case (listed m y)
      from g show ?thesis
      proof (cases rule: gate_forwards)
        case unguarded
        with listed show ?thesis by (simp add: stripped_unauthenticated)
      next
        case (member session a2 s)
        have "m = s\<lparr>organizationId := http_trim (organizationId s), userId := http_trim (userId s)\<rparr>"
          by (rule middleware_reads_gate [OF member(6) listed(1)])
        with listed(2, 3) member api(1) w' opts(4) show ?thesis
          by (intro disjI2 exI [of _ rq] exI [of _ "rq_headers (withoutAuthenticatedMember rq)"]
              exI [of _ session] exI [of _ a2] exI [of _ a1] exI [of _ "organizationId s"]
              exI [of _ "member_role s"] exI [of _ y])
            (simp add: stripped_get rbac_hasPermission_def)
      qed
    qed
  qed (auto simp: opts on_auth_cases)
qed

section \<open>A concrete host\<close>

definition fixed_path :: "string \<Rightarrow> url_parser" where
  "fixed_path p u = Some \<lparr>wu_href = u, wu_pathname = js p\<rparr>"

definition sample_auth :: "unit better_auth" where
  "sample_auth = \<lparr>ba_getSession = (\<lambda>hs. ret (Some \<lparr>se_userId = js ''u'', se_userRole = None,
       se_activeOrganizationId = Some (js ''o'')\<rparr>)),
     ba_getActiveMemberRole = (\<lambda>hs org. ret (js ''viewer'')), ba_handler = (\<lambda>rq. throw abort_error)\<rparr>"

definition empty_page :: web_response where
  "empty_page = \<lparr>wr_status = 200, wr_statusText = [], wr_headers = [], wr_bytes = Inr []\<rparr>"

definition sample_effect :: effect_platform where
  "sample_effect = \<lparr>ef_route = (\<lambda>rq. Some (''sandboxes'', ''list'')), ef_respond = (\<lambda>x. empty_page),
     ef_not_found = empty_page, ef_defect = (\<lambda>e. empty_page)\<rparr>"

text \<open>A repository that records the organizations it was asked for.\<close>

definition recording_repository :: "jstr list sandbox_repository" where
  "recording_repository org qs = Some (Inr [], qs @ [org])"

lemma bare_request: "toWebRequest (fixed_path p) bare_message port = Inr
  \<lparr>rq_method = js ''GET'', rq_url = js ''http://'' @ js ''localhost:'' @ num_to_string port @ js ''/api/health'',
   rq_headers = [], rq_body = NoBody, rq_signal = None\<rparr>"
  by (simp add: bare_message_def toWebRequest_def readBody_def toHeaders_def new_Request_def
      fixed_path_def normalize_method_def same_method_def ascii_lower_def ascii_lower_unit_def
      valid_header_name_def token_unit_def incoming_host_def js_def Let_def del: num_to_string.simps)

lemma declared_routes_reflect: "reflects declared_routes"
  by (simp add: reflects_def)

lemma strip_bare: "rq_headers rq = [] \<Longrightarrow> withoutAuthenticatedMember rq = rq"
  by (simp add: withoutAuthenticatedMember_def AUTHENTICATED_MEMBER_HEADERS_def strip_step_def
      hdr_has_def hdr_get_def)

definition sample_member :: AuthenticatedMember where
  "sample_member = \<lparr>organizationId = js ''o'', member_role = Viewer, userId = js ''u''\<rparr>"

lemma member_header_names:
  "valid_header_name userId_header" "valid_header_name organizationId_header"
  "valid_header_name organizationRole_header"
  by (simp_all add: userId_header_def organizationId_header_def organizationRole_header_def
      valid_header_name_def token_unit_def js_def)

lemma plain_value: "http_trim [u16 c] = [u16 c] \<and> valid_header_value [u16 c]"
  if "of_char c \<notin> {0, 9, 10, 13, 32 :: nat}"
proof -
  have "u16 c \<noteq> n" if "of_char c \<noteq> unat n" for n
    using that by (metis unat_u16)
  with that show ?thesis
    by (simp add: http_trim_def is_http_space_def valid_header_value_def)
qed

lemma member_ok_sample: "member_ok sample_member"
  by (simp add: member_ok_def sample_member_def AuthOrganizationIdSchema_def UserIdSchema_def bounded_def
      AUTH_ORGANIZATION_ID_MIN_LENGTH_def AUTH_ORGANIZATION_ID_MAX_LENGTH_def USER_ID_MIN_LENGTH_def
      USER_ID_MAX_LENGTH_def)

lemma sample_subject:
  obtains rq' where "withAuthenticatedMember rq sample_member = Inr rq'"
    "OrganizationAuthenticationLive rq' = Inr sample_member"
proof -
  have v: "http_trim (js ''u'') = js ''u'' \<and> valid_header_value (js ''u'')"
    "http_trim (js ''o'') = js ''o'' \<and> valid_header_value (js ''o'')"
    using plain_value [of "CHR ''u''"] plain_value [of "CHR ''o''"] by (simp_all add: js_def)
  obtain rq' where rq': "withAuthenticatedMember rq sample_member = Inr rq'"
    using v member_header_names role_header_value [of Viewer]
    by (simp add: withAuthenticatedMember_def sample_member_def hdr_set_def)
  have "decode_member (Some (js ''o'')) (Some (role_name Viewer)) (Some (js ''u'')) = Some sample_member"
    using member_ok_sample by (simp only: decode_member_Some) (simp add: sample_member_def)
  with withAuthenticatedMember_get [OF rq'] v have "OrganizationAuthenticationLive rq' = Inr sample_member"
    unfolding OrganizationAuthenticationLive_def by (simp add: sample_member_def)
  with rq' show thesis by (rule that)
qed

lemma sample_run:
  "\<exists>opts target. console_server (fixed_path ''/api/sandboxes'') declared_routes sample_encoder sample_auth
       sample_effect recording_repository (Fin 3101) = Inr opts \<and>
     createNodeServer (fixed_path ''/api/sandboxes'') sample_encoder opts bare_message
       \<lparr>auth_state = (), repo_state = []\<rparr> = Some (target, [], \<lparr>auth_state = (), repo_state = [js ''o'']\<rparr>)"
proof -
  let ?P = "fixed_path ''/api/sandboxes''"
  obtain f where f: "createGuardedRouteMatcher ?P declared_routes ConsoleApi OrganizationAuthentication = Inr f"
    "\<And>rq. f rq = map_sum id (guards ConsoleApi OrganizationAuthentication (rq_method rq)) (pathname ?P (rq_url rq))"
    using createGuardedRouteMatcher_exact [OF declared_routes_reflect, of ?P ConsoleApi OrganizationAuthentication]
    by blast
  have p: "pathname ?P u = Inr (js ''/api/sandboxes'')" for u
    by (simp add: pathname_def fixed_path_def)
  define rq where "rq = \<lparr>rq_method = js ''GET'',
    rq_url = js ''http://'' @ js ''localhost:'' @ num_to_string (Fin 3101) @ js ''/api/health'',
    rq_headers = [], rq_body = NoBody, rq_signal = None\<rparr>"
  obtain rq' where rq': "withAuthenticatedMember rq sample_member = Inr rq'"
    "OrganizationAuthenticationLive rq' = Inr sample_member" by (rule sample_subject)
  have d: "decode_member (Some (js ''o'')) (Some (js ''viewer'')) (Some (js ''u'')) = Some sample_member"
    using member_ok_sample by (simp only: decode_member_Some) (simp add: sample_member_def)
  have g: "resolveAuthenticatedMember f sample_encoder sample_auth rq () = Some (Inr (Forward rq'), ())"
    using f(2) [of rq] rq'(1) d
    by (simp add: resolveAuthenticatedMember_def strip_bare p console_guards rq_def sample_auth_def
        bind_io_def catch_io_def del: num_to_string.simps)
  have "rbac_hasPermission ''sandbox:read'' sample_member"
    by (simp add: rbac_hasPermission_def hasOrganizationPermission_def viewer_permissions sample_member_def)
  then have a: "console_api_with sample_effect recording_repository rq' [] = Some (Inr empty_page, [js ''o''])"
    using rq'(2)
    by (simp add: console_api_with_def toWebHandler_def sample_effect_def console_endpoint_def
        SandboxesControllerLive_def rbac.list_allowed recording_repository_def bind_io_def catch_io_def
        sample_member_def)
  have na: "\<not> isAuthRequest opts (js ''/api/sandboxes'')" if "ns_authPath opts = None" for opts :: "'w NodeServerOptions"
    using that by (simp add: isAuthRequest_def starts_with_def js_def)
  show ?thesis
    using g a bare_request [of "''/api/sandboxes''" "Fin 3101"]
    by (simp add: console_server_def f(1) createNodeServer_def web_answer_def p na rq_def [symmetric]
        on_auth_def on_repo_def bind_io_def writeWebResponse_def empty_page_def del: num_to_string.simps)
qed

theorem tenant_isolation_witness:
  "\<exists>opts target. console_server (fixed_path ''/api/sandboxes'') declared_routes sample_encoder sample_auth
       sample_effect recording_repository (Fin 3101) = Inr opts \<and>
     createNodeServer (fixed_path ''/api/sandboxes'') sample_encoder opts bare_message
       \<lparr>auth_state = (), repo_state = []\<rparr> = Some (target, [], \<lparr>auth_state = (), repo_state = [js ''o'']\<rparr>) \<and>
     (\<exists>org r. ba_getSession sample_auth [] () = Some (Inr (Some \<lparr>se_userId = js ''u'', se_userRole = None,
          se_activeOrganizationId = Some org\<rparr>), ()) \<and>
        hasOrganizationPermission r ''sandbox:read'' \<and> [http_trim org] = [js ''o''])"
proof -
  obtain opts target where o: "console_server (fixed_path ''/api/sandboxes'') declared_routes sample_encoder
      sample_auth sample_effect recording_repository (Fin 3101) = Inr opts"
    and c: "createNodeServer (fixed_path ''/api/sandboxes'') sample_encoder opts bare_message
      \<lparr>auth_state = (), repo_state = []\<rparr> = Some (target, [], \<lparr>auth_state = (), repo_state = [js ''o'']\<rparr>)"
    using sample_run by blast
  from tenant_isolation [OF o c] have "\<exists>org r. ba_getSession sample_auth [] () = Some (Inr (Some
      \<lparr>se_userId = js ''u'', se_userRole = None, se_activeOrganizationId = Some org\<rparr>), ()) \<and>
        hasOrganizationPermission r ''sandbox:read'' \<and> [http_trim org] = [js ''o'']"
    by (auto simp: recording_repository_def sample_auth_def)
  with o c show ?thesis by blast
qed

section \<open>Verdicts of the gates\<close>

lemma error_response_status:
  "wr_status (domainErrorResponse encodeSync e) = error_status e"
  by (simp add: domainErrorResponse_def domainErrorPayload_def Let_def)

lemma error_statuses:
  "error_status UnauthenticatedError = 401" "error_status UnauthorizedError = 403"
  "error_status ActiveOrganizationRequiredError = 403" "error_status (ForbiddenError p) = 403"
  "error_status InternalError = 500"
  by (simp_all add: error_status_def DomainError_def ErrorCode_UNAUTHENTICATED_def
      ErrorCode_UNAUTHORIZED_def ErrorCode_INTERNAL_def)

text \<open>The console's gate fails closed with the documented error. A request for the sandbox list is
  answered 401 when there is no session, 403 when the session has no active organization, and 403 when
  the membership lookup fails or names no known role; the API handler then never runs, and the
  response is the encoded domain error.\<close>

theorem console_gate_verdicts:
  assumes "reflects reflect"
    and "console_server parse_url reflect encodeSync auth ef repository port = Inr opts"
    and "toWebRequest parse_url im port = Inr rq"
    and "pathname parse_url (rq_url rq) = Inr p"
    and "rq_method rq = js ''GET''" and "p = js ''/api/sandboxes'' \<or> p = js ''/api/sandboxes/''"
    and "ba_getSession auth (rq_headers (withoutAuthenticatedMember rq)) (auth_state w) = Some (Inr found, a1)"
  shows "case found of
      None \<Rightarrow> web_answer parse_url opts im w =
        Some (Inr (domainErrorResponse encodeSync UnauthenticatedError), w\<lparr>auth_state := a1\<rparr>)
    | Some session \<Rightarrow>
        (case se_activeOrganizationId session of
           None \<Rightarrow> web_answer parse_url opts im w =
             Some (Inr (domainErrorResponse encodeSync ActiveOrganizationRequiredError), w\<lparr>auth_state := a1\<rparr>)
         | Some org \<Rightarrow>
             (\<forall>x a2. ba_getActiveMemberRole auth (rq_headers (withoutAuthenticatedMember rq)) org a1 = Some (x, a2) \<and>
                (\<forall>r. x \<noteq> Inr (role_name r)) \<longrightarrow>
                web_answer parse_url opts im w =
                  Some (Inr (domainErrorResponse encodeSync UnauthorizedError), w\<lparr>auth_state := a2\<rparr>)))"
proof -
  from assms(2) obtain requires where opts:
    "createGuardedRouteMatcher parse_url reflect ConsoleApi OrganizationAuthentication = Inr requires"
    "ns_authorizeApi opts = Some (\<lambda>rq. on_auth (resolveAuthenticatedMember requires encodeSync auth rq))"
    "ns_authPath opts = None" "ns_port opts = port"
    by (auto simp: console_server_def split: sum.splits)
  have g: "requires (withoutAuthenticatedMember rq) = Inr True"
    using createGuardedRouteMatcher_exact [OF assms(1), of parse_url ConsoleApi OrganizationAuthentication] opts(1)
      assms(4-6) by (auto simp: stripped_rest console_guards)
  have na: "\<not> isAuthRequest opts p"
    using assms(6) by (auto simp: isAuthRequest_def opts starts_with_def js_def)
  have answer: "web_answer parse_url opts im w = Some (Inr r, w\<lparr>auth_state := a\<rparr>)"
    if "resolveAuthenticatedMember requires encodeSync auth rq (auth_state w) = Some (Inr (Respond r), a)" for r a
    using that assms(3,4) na by (simp add: web_answer_def opts bind_io_def on_auth_def)
  show ?thesis
  proof (cases found)
    case None
    with assms(7) g show ?thesis
      by (simp add: answer resolveAuthenticatedMember_def bind_io_def Let_def)
  next
    case (Some session)
    show ?thesis
    proof (cases "se_activeOrganizationId session")
      case None
      with Some assms(7) g show ?thesis
        by (simp add: answer resolveAuthenticatedMember_def bind_io_def Let_def)
    next
      case org: (Some org)
      have "decode_member (Some org) r user = None" if "\<forall>q. r \<noteq> Some (role_name q)" for r user
        using that decode_member_Some [of "Some org" r user] by (metis not_None_eq)
      with Some org assms(7) g show ?thesis
        by (auto simp: resolveAuthenticatedMember_def bind_io_def catch_io_def Let_def
            intro!: answer split: sum.split)
    qed
  qed
qed

theorem console_gate_verdicts_witness:
  "\<exists>opts. console_server (fixed_path ''/api/sandboxes'') declared_routes sample_encoder
       (sample_auth\<lparr>ba_getSession := \<lambda>hs. ret None\<rparr>) sample_effect recording_repository (Fin 3101) = Inr opts \<and>
     web_answer (fixed_path ''/api/sandboxes'') opts bare_message \<lparr>auth_state = (), repo_state = []\<rparr> =
       Some (Inr (domainErrorResponse sample_encoder UnauthenticatedError), \<lparr>auth_state = (), repo_state = []\<rparr>) \<and>
     wr_status (domainErrorResponse sample_encoder UnauthenticatedError) = 401"
proof -
  let ?P = "fixed_path ''/api/sandboxes''" and ?A = "sample_auth\<lparr>ba_getSession := \<lambda>hs. ret None\<rparr>"
  obtain opts where o: "console_server ?P declared_routes sample_encoder ?A sample_effect
      recording_repository (Fin 3101) = Inr opts"
    using createGuardedRouteMatcher_exact [OF declared_routes_reflect, of ?P ConsoleApi OrganizationAuthentication]
    by (auto simp: console_server_def)
  have "pathname ?P u = Inr (js ''/api/sandboxes'')" for u
    by (simp add: pathname_def fixed_path_def)
  from console_gate_verdicts [OF declared_routes_reflect o bare_request this, of "\<lparr>auth_state = (), repo_state = []\<rparr>" None "()"] o
  show ?thesis by (simp add: error_response_status error_statuses)
qed



end
