(* ===== verification/Console_Web.thy ===== *)
theory Console_Web
  imports Contract
begin

text \<open>
  The logic of the two web front ends: \<open>apps/console-web/src\<close> (name parsing, slugs, the sign-in and
  sign-up form, onboarding, route loaders, the active organization) and \<open>apps/backoffice-web/src\<close>
  (the operator's sign-in form and loader). The markup of the pages is not modelled.

  The Better Auth client is a parameter (\<open>auth_client\<close>) over a state of its own. A page keeps what its
  hooks keep: the fields, the error shown, and where it navigated. Lower-casing follows Unicode tables
  and is a parameter as well; the slug is valid whatever it does.
\<close>

section \<open>Names\<close>

datatype name_result = Valid jstr | Invalid jstr

definition parseUserDisplayName :: "jstr \<Rightarrow> name_result" where
  "parseUserDisplayName input =
     (let normalized = js_trim input in
      if length normalized < USER_DISPLAY_NAME_MIN_LENGTH then Invalid (js ''Name is required'')
      else if USER_DISPLAY_NAME_MAX_LENGTH < length normalized
      then Invalid (js ''Name must be '' @ show_nat USER_DISPLAY_NAME_MAX_LENGTH @ js '' characters or fewer'')
      else case schema_make UserDisplayNameSchema normalized of
        Inr v \<Rightarrow> Valid v
      | Inl e \<Rightarrow> Invalid (js ''Name contains unsupported characters''))"

definition parseOrganizationName :: "jstr \<Rightarrow> name_result" where
  "parseOrganizationName input =
     (let normalized = js_trim input in
      if length normalized < ORGANIZATION_NAME_MIN_LENGTH then Invalid (js ''Organization name is required'')
      else if ORGANIZATION_NAME_MAX_LENGTH < length normalized
      then Invalid (js ''Organization name must be '' @ show_nat ORGANIZATION_NAME_MAX_LENGTH @ js '' characters or fewer'')
      else case schema_make OrganizationNameSchema normalized of
        Inr v \<Rightarrow> Valid v
      | Inl e \<Rightarrow> Invalid (js ''Organization name contains unsupported characters''))"

definition SLUG_SEPARATOR_LENGTH :: nat where "SLUG_SEPARATOR_LENGTH = 1"

definition ORGANIZATION_SLUG_PREFIX_MAX_LENGTH :: nat where
  "ORGANIZATION_SLUG_PREFIX_MAX_LENGTH = ORGANIZATION_SLUG_MAX_LENGTH - NANO_ID_LENGTH - SLUG_SEPARATOR_LENGTH"

text \<open>\<open>replaceAll(/[^a-z0-9]+/g, '-')\<close>; the flag says that a run is already replaced.\<close>

fun hyphenate :: "bool \<Rightarrow> jstr \<Rightarrow> jstr" where
  "hyphenate inside [] = []"
| "hyphenate inside (u # s) =
     (if lower_alnum u then u # hyphenate False s
      else if inside then hyphenate True s
      else u16 CHR ''-'' # hyphenate True s)"

text \<open>\<open>replaceAll(/(^-|-$)/g, '')\<close>\<close>

definition strip_hyphens :: "jstr \<Rightarrow> jstr" where
  "strip_hyphens s =
     (let t = (if s \<noteq> [] \<and> hd s = u16 CHR ''-'' then tl s else s)
      in if t \<noteq> [] \<and> last t = u16 CHR ''-'' then butlast t else t)"

definition slug_prefix :: "(jstr \<Rightarrow> jstr) \<Rightarrow> jstr \<Rightarrow> jstr" where
  "slug_prefix toLowerCase name =
     (let p = take ORGANIZATION_SLUG_PREFIX_MAX_LENGTH
            (strip_hyphens (hyphenate False (toLowerCase (js_trim name))))
      in if p = [] then js ''organization'' else p)"

definition createOrganizationSlug :: "(jstr \<Rightarrow> jstr) \<Rightarrow> jstr \<Rightarrow> jstr \<Rightarrow> exn + jstr" where
  "createOrganizationSlug toLowerCase nanoid name = (case generateNanoId nanoid of
       Inl e \<Rightarrow> Inl e
     | Inr suffix \<Rightarrow> schema_make OrganizationSlugSchema (slug_prefix toLowerCase name @ js ''-'' @ suffix))"

section \<open>The Better Auth client and pages\<close>

record client_session =
  cs_activeOrganizationId :: jsval
  cs_userRole :: "jstr option"

record client_error =
  ce_message :: "jstr option"

record 'c auth_client =
  cl_getSession :: "('c, client_session option) jio"
  cl_signInEmail :: "jstr \<Rightarrow> jstr \<Rightarrow> ('c, client_error option) jio"
  cl_signUpEmail :: "jstr \<Rightarrow> jstr \<Rightarrow> jstr \<Rightarrow> ('c, client_error option) jio"
  cl_signOut :: "('c, unit) jio"
  cl_listOrganizations :: "('c, jstr list option) jio"
  cl_createOrganization :: "jstr \<Rightarrow> jstr \<Rightarrow> ('c, client_error + jstr) jio"
  cl_setActive :: "jstr \<Rightarrow> ('c, client_error option) jio"

text \<open>A page: the client's state, the error shown and the locations navigated to.\<close>

record 'c page =
  pg_client :: 'c
  pg_error :: "jstr option"
  pg_navigated :: "jstr list"

definition on_client :: "('c, 'x) jio \<Rightarrow> (('c, 'z) page_scheme, 'x) jio" where
  "on_client m p = map_option (\<lambda>(x, c). (x, p\<lparr>pg_client := c\<rparr>)) (m (pg_client p))"

definition setError :: "jstr option \<Rightarrow> (('c, 'z) page_scheme, unit) jio" where
  "setError e p = Some (Inr (), p\<lparr>pg_error := e\<rparr>)"

definition navigate :: "jstr \<Rightarrow> (('c, 'z) page_scheme, unit) jio" where
  "navigate path p = Some (Inr (), p\<lparr>pg_navigated := pg_navigated p @ [path]\<rparr>)"

section \<open>Loaders\<close>

definition ensureActiveOrganization :: "'c auth_client \<Rightarrow> ('c, bool) jio" where
  "ensureActiveOrganization cl =
     bind_io (cl_getSession cl) (\<lambda>session. case session of
         None \<Rightarrow> ret False
       | Some s \<Rightarrow>
           if cs_activeOrganizationId s \<noteq> JNull then ret True
           else bind_io (cl_listOrganizations cl) (\<lambda>orgs. case orgs of
               None \<Rightarrow> ret False
             | Some [] \<Rightarrow> ret False
             | Some (org # _) \<Rightarrow> bind_io (cl_setActive cl org) (\<lambda>err. ret (err = None))))"

definition requireSession :: "'c auth_client \<Rightarrow> ('c, jstr option) jio" where
  "requireSession cl = bind_io (cl_getSession cl) (\<lambda>session.
     ret (case session of None \<Rightarrow> Some (consoleRoutes C_signIn) | Some _ \<Rightarrow> None))"

definition requireActiveOrganization :: "'c auth_client \<Rightarrow> ('c, jstr option) jio" where
  "requireActiveOrganization cl = bind_io (requireSession cl) (\<lambda>sessionRedirect. case sessionRedirect of
       Some r \<Rightarrow> ret (Some r)
     | None \<Rightarrow> bind_io (ensureActiveOrganization cl) (\<lambda>ok.
         ret (if ok then None else Some (consoleRoutes C_onboarding))))"

definition requireAdministrator :: "'c auth_client \<Rightarrow> ('c, jstr option) jio" where
  "requireAdministrator cl = bind_io (cl_getSession cl) (\<lambda>session. ret (case session of
       None \<Rightarrow> Some (backofficeRoutes B_signIn)
     | Some s \<Rightarrow> if cs_userRole s \<noteq> Some (js ''admin'') then Some (backofficeRoutes B_unauthorized) else None))"

text \<open>Which loader guards a page; a child route runs behind the loader of its parent.\<close>

definition console_loader :: "'c auth_client \<Rightarrow> jstr \<Rightarrow> ('c, jstr option) jio" where
  "console_loader cl path =
     (if path = consoleRoutes C_signIn then ret None
      else if path = consoleRoutes C_onboarding then requireSession cl
      else if path = consoleRoutes C_root then bind_io (requireActiveOrganization cl) (\<lambda>r.
        ret (case r of Some x \<Rightarrow> Some x | None \<Rightarrow> Some (consoleRoutes C_sandboxes)))
      else if path \<in> {consoleRoutes C_sandboxes, consoleRoutes C_sandboxPattern} then requireActiveOrganization cl
      else ret None)"

definition backoffice_loader :: "'c auth_client \<Rightarrow> jstr \<Rightarrow> ('c, jstr option) jio" where
  "backoffice_loader cl path =
     (if path = backofficeRoutes B_root then bind_io (requireAdministrator cl) (\<lambda>r.
        ret (case r of Some x \<Rightarrow> Some x | None \<Rightarrow> Some (backofficeRoutes B_overview)))
      else if path \<in> {backofficeRoutes B_overview, backofficeRoutes B_organizations, backofficeRoutes B_sandboxes}
      then requireAdministrator cl
      else ret None)"

section \<open>Forms\<close>

datatype auth_mode = Sign_in | Sign_up

record 'c auth_page = "'c page" +
  ap_email :: jstr
  ap_name :: jstr
  ap_password :: jstr
  ap_mode :: auth_mode

definition sign_in_calls :: "'c auth_client \<Rightarrow> jstr \<Rightarrow> jstr \<Rightarrow> (('c, 'z) page_scheme, unit) jio" where
  "sign_in_calls cl email password =
     bind_io (on_client (cl_signInEmail cl email password)) (\<lambda>err. case err of
         Some e \<Rightarrow> setError (ce_message e)
       | None \<Rightarrow> bind_io (on_client (ensureActiveOrganization cl)) (\<lambda>hasOrganization.
           navigate (if hasOrganization then consoleRoutes C_sandboxes else consoleRoutes C_onboarding)))"

definition sign_up_calls ::
  "'c auth_client \<Rightarrow> jstr \<Rightarrow> jstr \<Rightarrow> jstr \<Rightarrow> jstr \<Rightarrow> exn + jstr \<Rightarrow> (('c, 'z) page_scheme, unit) jio"
where
  "sign_up_calls cl email userName password organizationName slug =
     bind_io (on_client (cl_signUpEmail cl email userName password)) (\<lambda>err. case err of
         Some e \<Rightarrow> setError (ce_message e)
       | None \<Rightarrow> bind_io (lift_io slug) (\<lambda>s.
           bind_io (on_client (cl_createOrganization cl organizationName s)) (\<lambda>created. case created of
               Inl e \<Rightarrow> setError (ce_message e)
             | Inr org \<Rightarrow> bind_io (on_client (cl_setActive cl org)) (\<lambda>_.
                 navigate (consoleRoutes C_sandboxes)))))"

definition AuthForm_submit ::
  "(jstr \<Rightarrow> jstr) \<Rightarrow> jstr \<Rightarrow> 'c auth_client \<Rightarrow> ('c auth_page, unit) jio"
where
  "AuthForm_submit toLowerCase nanoid cl p =
     bind_io (setError None) (\<lambda>_.
       case ap_mode p of
         Sign_in \<Rightarrow> sign_in_calls cl (ap_email p) (ap_password p)
       | Sign_up \<Rightarrow> (case parseUserDisplayName (ap_name p) of
           Invalid m \<Rightarrow> setError (Some m)
         | Valid userName \<Rightarrow> (case parseOrganizationName (userName @ js [CHR 0x27] @ js ''s Organization'') of
             Invalid m \<Rightarrow> setError (Some m)
           | Valid organizationName \<Rightarrow>
               sign_up_calls cl (ap_email p) userName (ap_password p) organizationName
                 (createOrganizationSlug toLowerCase nanoid organizationName)))) p"

definition toggle_mode :: "'c auth_page \<Rightarrow> 'c auth_page" where
  "toggle_mode p = p\<lparr>ap_mode := (case ap_mode p of Sign_in \<Rightarrow> Sign_up | Sign_up \<Rightarrow> Sign_in)\<rparr>"

record 'c onboarding_page = "'c page" +
  ob_name :: jstr

definition Onboarding_submit ::
  "(jstr \<Rightarrow> jstr) \<Rightarrow> jstr \<Rightarrow> 'c auth_client \<Rightarrow> ('c onboarding_page, unit) jio"
where
  "Onboarding_submit toLowerCase nanoid cl p =
     bind_io (setError None) (\<lambda>_. case parseOrganizationName (ob_name p) of
         Invalid m \<Rightarrow> setError (Some m)
       | Valid name \<Rightarrow> bind_io (lift_io (createOrganizationSlug toLowerCase nanoid name)) (\<lambda>slug.
           bind_io (on_client (cl_createOrganization cl name slug)) (\<lambda>created. case created of
               Inl e \<Rightarrow> setError (ce_message e)
             | Inr org \<Rightarrow> bind_io (on_client (cl_setActive cl org)) (\<lambda>err. case err of
                 Some e \<Rightarrow> setError (ce_message e)
               | None \<Rightarrow> navigate (consoleRoutes C_sandboxes))))) p"

definition SignInForm_submit :: "'c auth_client \<Rightarrow> jstr \<Rightarrow> jstr \<Rightarrow> ('c page, unit) jio" where
  "SignInForm_submit cl email password =
     bind_io (on_client (cl_signInEmail cl email password)) (\<lambda>err. case err of
         Some e \<Rightarrow> setError (ce_message e)
       | None \<Rightarrow> navigate (backofficeRoutes B_overview))"

definition console_signOut :: "'c auth_client \<Rightarrow> (('c, 'z) page_scheme, unit) jio" where
  "console_signOut cl = bind_io (on_client (cl_signOut cl)) (\<lambda>_. navigate (consoleRoutes C_signIn))"

definition backoffice_signOut :: "'c auth_client \<Rightarrow> (('c, 'z) page_scheme, unit) jio" where
  "backoffice_signOut cl = bind_io (on_client (cl_signOut cl)) (\<lambda>_. navigate (backofficeRoutes B_signIn))"

section \<open>Slugs\<close>

lemma hyphenate_units: "list_all label_unit (hyphenate inside s)"
  by (induction inside s rule: hyphenate.induct) (auto simp: label_unit_def)

lemma hyphenate_inside_head: "hyphenate True s \<noteq> [] \<Longrightarrow> lower_alnum (hd (hyphenate True s))"
  by (induction s) auto

lemma hyphen_not_alnum: "\<not> lower_alnum (u16 CHR ''-'')"
  by (simp add: lower_alnum_def)

lemma hd_butlast: "butlast t \<noteq> [] \<Longrightarrow> hd (butlast t) = hd t"
  by (cases t) auto

lemma stripped_head:
  assumes "strip_hyphens (hyphenate False s) \<noteq> []"
  shows "lower_alnum (hd (strip_hyphens (hyphenate False s)))"
proof -
  define t where "t = (if hyphenate False s \<noteq> [] \<and> hd (hyphenate False s) = u16 CHR ''-''
    then tl (hyphenate False s) else hyphenate False s)"
  have t: "t \<noteq> [] \<Longrightarrow> lower_alnum (hd t)"
    using hyphenate_inside_head hyphen_not_alnum by (cases s) (auto simp: t_def)
  have st: "strip_hyphens (hyphenate False s) = (if t \<noteq> [] \<and> last t = u16 CHR ''-'' then butlast t else t)"
    by (simp only: strip_hyphens_def Let_def t_def [symmetric])
  with assms have "hd (strip_hyphens (hyphenate False s)) = hd t" "t \<noteq> []"
    by (auto simp: hd_butlast split: if_splits)
  with t show ?thesis by simp
qed

lemma strip_hyphens_units: "set (strip_hyphens s) \<subseteq> set s"
proof -
  let ?t = "if s \<noteq> [] \<and> hd s = u16 CHR ''-'' then tl s else s"
  have "set (strip_hyphens s) \<subseteq> set ?t"
    unfolding strip_hyphens_def Let_def by (simp add: in_set_butlastD subsetI)
  also have "set ?t \<subseteq> set s" by (cases s) auto
  finally show ?thesis .
qed

lemma slug_prefix_label:
  "slug_prefix lower n \<noteq> []" "list_all label_unit (slug_prefix lower n)"
  "lower_alnum (hd (slug_prefix lower n))"
  "length (slug_prefix lower n) \<le> ORGANIZATION_SLUG_PREFIX_MAX_LENGTH"
proof -
  let ?s = "strip_hyphens (hyphenate False (lower (js_trim n)))"
  let ?p = "take ORGANIZATION_SLUG_PREFIX_MAX_LENGTH ?s"
  have o: "list_all label_unit (js ''organization'')" "lower_alnum (hd (js ''organization''))"
    "length (js ''organization'') \<le> ORGANIZATION_SLUG_PREFIX_MAX_LENGTH"
    by (simp_all add: js_def label_unit_def lower_alnum_def ORGANIZATION_SLUG_PREFIX_MAX_LENGTH_def
        ORGANIZATION_SLUG_MAX_LENGTH_def NANO_ID_LENGTH_def SLUG_SEPARATOR_LENGTH_def)
  have u: "list_all label_unit ?p"
    using hyphenate_units strip_hyphens_units by (fastforce simp: list_all_iff dest: in_set_takeD)
  have h: "?p \<noteq> [] \<Longrightarrow> lower_alnum (hd ?p)"
    using stripped_head by (metis hd_take neq0_conv take_eq_Nil)
  show "slug_prefix lower n \<noteq> []" by (simp add: slug_prefix_def Let_def)
  show "list_all label_unit (slug_prefix lower n)" "lower_alnum (hd (slug_prefix lower n))"
    "length (slug_prefix lower n) \<le> ORGANIZATION_SLUG_PREFIX_MAX_LENGTH"
    using o u h by (simp_all add: slug_prefix_def Let_def)
qed

lemma slug_valid:
  assumes "nanoid_draw nano"
  shows "createOrganizationSlug lower nano n = Inr (slug_prefix lower n @ js ''-'' @ nano)"
    and "OrganizationSlugSchema (slug_prefix lower n @ js ''-'' @ nano)"
proof -
  let ?p = "slug_prefix lower n" and ?s = "slug_prefix lower n @ js ''-'' @ nano"
  have a: "list_all lower_alnum nano" by (rule nanoid_draw_lower_alnum [OF assms])
  have len: "length nano = NANO_ID_LENGTH" using assms by (simp add: nanoid_draw_def)
  then have ne: "nano \<noteq> []" by (auto simp: NANO_ID_LENGTH_def)
  have "list_all label_unit ?s"
    using slug_prefix_label(2) a by (auto simp: js_def list_all_iff label_unit_def)
  moreover have "lower_alnum (hd ?s)"
    using slug_prefix_label(1,3) by simp
  moreover have "lower_alnum (last ?s)"
    using a ne by (simp add: list_all_iff)
  moreover have "length ?s \<le> ORGANIZATION_SLUG_MAX_LENGTH"
    using slug_prefix_label(4) [of lower n] len
    by (simp add: ORGANIZATION_SLUG_PREFIX_MAX_LENGTH_def ORGANIZATION_SLUG_MAX_LENGTH_def
        NANO_ID_LENGTH_def SLUG_SEPARATOR_LENGTH_def)
  ultimately show v: "OrganizationSlugSchema ?s"
    using slug_prefix_label(1)
    by (simp add: OrganizationSlugSchema_def dnsLabelSchema_def bounded_def test_DNS_LABEL
        ORGANIZATION_SLUG_MIN_LENGTH_def)
  show "createOrganizationSlug lower nano n = Inr ?s"
    using v by (simp add: createOrganizationSlug_def generateNanoId_draw [OF assms])
qed

section \<open>Names accepted\<close>

lemma parseUserDisplayName_Valid:
  "parseUserDisplayName s = Valid v \<longleftrightarrow> v = js_trim s \<and> UserDisplayNameSchema v"
  by (auto simp: parseUserDisplayName_def Let_def schema_make_def UserDisplayNameSchema_def
      displayNameSchema_def bounded_def)

lemma parseOrganizationName_Valid:
  "parseOrganizationName s = Valid v \<longleftrightarrow> v = js_trim s \<and> OrganizationNameSchema v"
  by (auto simp: parseOrganizationName_def Let_def schema_make_def OrganizationNameSchema_def
      displayNameSchema_def bounded_def)

text \<open>The organization name derived at sign-up is acceptable for every acceptable user name: 80
  characters and the suffix are still within 100.\<close>

definition own_organization :: "jstr \<Rightarrow> jstr" where
  "own_organization user = user @ js [CHR 0x27] @ js ''s Organization''"

lemma own_organization_valid:
  assumes "parseUserDisplayName s = Valid user"
  shows "parseOrganizationName (own_organization user) = Valid (own_organization user)"
proof -
  from assms have u: "user = js_trim s" "UserDisplayNameSchema user"
    using parseUserDisplayName_Valid by blast+
  then have d: "user \<noteq> []" "length user \<le> 80" "list_all (\<lambda>u. \<not> is_control u) user"
    using displayNameSchema_trimmed [of USER_DISPLAY_NAME_MIN_LENGTH USER_DISPLAY_NAME_MAX_LENGTH s]
    by (auto simp: UserDisplayNameSchema_def USER_DISPLAY_NAME_MAX_LENGTH_def)
  let ?o = "own_organization user"
  have ne: "?o \<noteq> []" "hd ?o = hd user" "last ?o = u16 CHR ''n''"
    using d by (simp_all add: own_organization_def js_def)
  have "\<not> is_space (hd ?o)" using js_trim_hd [of s] u d ne by simp
  moreover have "\<not> is_space (last ?o)" by (simp add: ne is_space_def u16_def)
  ultimately have t: "js_trim ?o = ?o" by (intro js_trim_idem) simp
  have "list_all (\<lambda>u. \<not> is_control u) ?o"
    using d(3) by (simp add: own_organization_def js_def is_control_def u16_def)
  moreover have "length ?o \<le> 100" using d(2) by (simp add: own_organization_def)
  ultimately have "OrganizationNameSchema (js_trim ?o)"
    using ne unfolding OrganizationNameSchema_def displayNameSchema_trimmed
    by (simp add: t ORGANIZATION_NAME_MIN_LENGTH_def ORGANIZATION_NAME_MAX_LENGTH_def Suc_le_eq)
  then show ?thesis by (simp add: parseOrganizationName_Valid t)
qed

section \<open>Properties of the front end\<close>

text \<open>C35: The slug of a new organization is always an acceptable DNS label of at most 63 characters,
  for every name and every way of lower-casing it, and ends in the drawn identifier, so that
  distinct draws give distinct slugs.\<close>

theorem organization_slug_valid:
  assumes "nanoid_draw nano"
  shows "\<exists>prefix. createOrganizationSlug toLowerCase nano name = Inr (prefix @ js ''-'' @ nano) \<and>
    OrganizationSlugSchema (prefix @ js ''-'' @ nano)"
  using slug_valid [OF assms] by blast

definition sample_nanoid :: jstr where
  "sample_nanoid = js ''q1w2e3r4t5y6u7i8o9p0a1s2''"

lemma sample_nanoid_draw: "nanoid_draw sample_nanoid"
  by (simp add: sample_nanoid_def nanoid_draw_def NANO_ID_LENGTH_def NANO_ID_ALPHABET_def js_def)

theorem organization_slug_valid_witness:
  "nanoid_draw sample_nanoid \<and>
   (\<exists>prefix. createOrganizationSlug (\<lambda>s. s) sample_nanoid (js ''-- a & b --'') =
      Inr (prefix @ js ''-'' @ sample_nanoid))"
  using organization_slug_valid [OF sample_nanoid_draw] sample_nanoid_draw by blast


definition idle_client :: "nat auth_client" where
  "idle_client = \<lparr>cl_getSession = ret None, cl_signInEmail = (\<lambda>e p. ret None),
     cl_signUpEmail = (\<lambda>e n p c. Some (Inr None, Suc c)), cl_signOut = ret (),
     cl_listOrganizations = ret None, cl_createOrganization = (\<lambda>n s c. Some (Inr (Inr s), Suc c)),
     cl_setActive = (\<lambda>org. ret None)\<rparr>"

definition blank_page :: "nat auth_page" where
  "blank_page = \<lparr>pg_client = 0, pg_error = None, pg_navigated = [], ap_email = js ''a@b.c'', ap_name = js ''  '',
     ap_password = js ''secret'', ap_mode = Sign_up\<rparr>"


text \<open>A console page renders only for a session with an active organization, or one just made active.\<close>

lemma requireActiveOrganization_renders:
  assumes "requireActiveOrganization cl c = Some (Inr None, c')"
  obtains s c1 where "cl_getSession cl c = Some (Inr (Some s), c1)"
    and "ensureActiveOrganization cl c1 = Some (Inr True, c')"
  using assms
  by (auto simp: requireActiveOrganization_def requireSession_def bind_io_def
      split: option.splits sum.splits prod.splits if_splits)

text \<open>The loader takes an \<open>undefined\<close> active organization for one; the console API does not.\<close>

lemma undefined_organization_accepted:
  assumes "cl_getSession cl c = Some (Inr (Some \<lparr>cs_activeOrganizationId = JUndefined, cs_userRole = None\<rparr>), c1)"
  shows "ensureActiveOrganization cl c = Some (Inr True, c1)"
  using assms by (simp add: ensureActiveOrganization_def bind_io_def)

text \<open>Sign-up navigates even when the new organization could not be made active; onboarding reports
  that failure.\<close>

lemma sign_up_ignores_setActive:
  assumes "cl_signUpEmail cl email user password c = Some (Inr None, c1)"
    and "cl_createOrganization cl org slug c1 = Some (Inr (Inr i), c2)"
    and "cl_setActive cl i c2 = Some (Inr (Some err), c3)"
  shows "sign_up_calls cl email user password org (Inr slug) (p\<lparr>pg_client := c\<rparr>) =
    Some (Inr (), p\<lparr>pg_client := c3, pg_navigated := pg_navigated p @ [consoleRoutes C_sandboxes]\<rparr>)"
  using assms by (simp add: sign_up_calls_def bind_io_def on_client_def navigate_def)

section \<open>Pages\<close>

text \<open>What the error boundary of a route was given: an error response of the router, an \<open>Error\<close> or
  anything else.\<close>

datatype route_error = Route_response int jstr | Route_exception jstr | Route_other jsval

fun RouteError_message :: "route_error \<Rightarrow> jstr" where
  "RouteError_message (Route_response st statusText) = show_int st @ js [CHR 0x20] @ statusText"
| "RouteError_message (Route_exception m) = m"
| "RouteError_message (Route_other v) = js ''An unexpected error occurred''"

text \<open>A query of the pages: its data once there is some, and the name of its state.\<close>

record 'd query =
  qu_data :: "'d option"
  qu_state :: jstr

definition health_label :: "jstr query \<Rightarrow> jstr" where
  "health_label q = with_default (qu_state q) (qu_data q)"

definition shows_empty_state :: "'d list query \<Rightarrow> bool" where
  "shows_empty_state q \<longleftrightarrow> (case qu_data q of None \<Rightarrow> False | Some ds \<Rightarrow> ds = [])"

definition sandbox_heading :: "jstr option \<Rightarrow> jstr" where
  "sandbox_heading sandboxId = with_default (js ''Unknown sandbox'') sandboxId"

text \<open>A list that is still loading or failed is never presented as an empty one.\<close>

lemma no_empty_state_without_data: "qu_data q = None \<Longrightarrow> \<not> shows_empty_state q"
  by (simp add: shows_empty_state_def)

end
