(* ===== verification/Bytes.thy ===== *)
theory Bytes
  imports Server
begin

text \<open>
  Buffers of Node as the asset scripts use them: reads and writes of integers in both byte orders,
  \<open>subarray\<close>, \<open>toString('latin1')\<close>, and the sequencing of computations that may throw.

  A read outside the buffer throws a \<open>RangeError\<close>; indexing a buffer outside its range gives
  \<open>undefined\<close>, here \<open>None\<close>.
\<close>

section \<open>Computations that may throw\<close>

definition and_then :: "'e + 'a \<Rightarrow> ('a \<Rightarrow> 'e + 'b) \<Rightarrow> 'e + 'b" where
  "and_then x f = (case x of Inl e \<Rightarrow> Inl e | Inr a \<Rightarrow> f a)"

lemma and_then_simps [simp]:
  "and_then (Inl e) f = Inl e"
  "and_then (Inr a) f = f a"
  by (simp_all add: and_then_def)

lemma and_then_Inr: "and_then x f = Inr b \<longleftrightarrow> (\<exists>a. x = Inr a \<and> f a = Inr b)"
  by (cases x) simp_all

text \<open>A loop over indices whose body may throw.\<close>

fun fold_try :: "('a \<Rightarrow> 's \<Rightarrow> 'e + 's) \<Rightarrow> 'a list \<Rightarrow> 's \<Rightarrow> 'e + 's" where
  "fold_try f [] s = Inr s"
| "fold_try f (x # xs) s = and_then (f x s) (fold_try f xs)"

lemma fold_try_append: "fold_try f (xs @ ys) s = and_then (fold_try f xs s) (fold_try f ys)"
  by (induction xs arbitrary: s) (simp_all add: and_then_def split: sum.splits)

lemma fold_try_invariant:
  assumes "fold_try f xs s = Inr s'" and "P s"
    and "\<And>x s s'. x \<in> set xs \<Longrightarrow> P s \<Longrightarrow> f x s = Inr s' \<Longrightarrow> P s'"
  shows "P s'"
  using assms by (induction xs arbitrary: s) (auto simp: and_then_Inr)

section \<open>Reading\<close>

type_synonym buffer = "byte list"

definition out_of_range :: exn where
  "out_of_range = RangeError (js ''ERR_OUT_OF_RANGE'')"

definition buf_at :: "buffer \<Rightarrow> nat \<Rightarrow> nat option" where
  "buf_at b i = (if i < length b then Some (unat (b ! i)) else None)"

definition be_value :: "byte list \<Rightarrow> nat" where
  "be_value bs = fold (\<lambda>b acc. acc * 256 + unat b) bs 0"

definition readBE :: "nat \<Rightarrow> buffer \<Rightarrow> nat \<Rightarrow> exn + nat" where
  "readBE n b i = (if i + n \<le> length b then Inr (be_value (take n (drop i b))) else Inl out_of_range)"

abbreviation readUInt16BE :: "buffer \<Rightarrow> nat \<Rightarrow> exn + nat" where "readUInt16BE \<equiv> readBE 2"
abbreviation readUInt32BE :: "buffer \<Rightarrow> nat \<Rightarrow> exn + nat" where "readUInt32BE \<equiv> readBE 4"

text \<open>Two's complement.\<close>

definition signed :: "nat \<Rightarrow> nat \<Rightarrow> int" where
  "signed bits v = (if v < 2 ^ (bits - 1) then int v else int v - 2 ^ bits)"

definition readInt16BE :: "buffer \<Rightarrow> nat \<Rightarrow> exn + int" where
  "readInt16BE b i = map_sum id (signed 16) (readBE 2 b i)"

definition readInt8 :: "buffer \<Rightarrow> nat \<Rightarrow> exn + int" where
  "readInt8 b i = map_sum id (signed 8) (readBE 1 b i)"

definition subarray :: "buffer \<Rightarrow> nat \<Rightarrow> nat \<Rightarrow> buffer" where
  "subarray b from to = take (to - from) (drop from b)"

definition latin1 :: "buffer \<Rightarrow> jstr" where
  "latin1 b = map (\<lambda>x. word_of_nat (unat x)) b"

lemma length_subarray: "length (subarray b i j) = min (j - i) (length b - i)"
  by (simp add: subarray_def)

lemma be_value_append: "be_value (bs @ [x]) = be_value bs * 256 + unat x"
  by (simp add: be_value_def)

lemma byte_bound: "unat (x :: byte) < 256"
  using unsigned_less [of x] by simp

lemma be_value_bound: "be_value bs < 256 ^ length bs"
proof (induction bs rule: rev_induct)
  case (snoc x bs)
  have "unat x < 256" by (rule byte_bound)
  then have "be_value bs * 256 + unat x < (be_value bs + 1) * 256" by simp
  also have "\<dots> \<le> 256 ^ length bs * 256" using snoc by (intro mult_le_mono1) simp
  finally show ?case by (simp add: be_value_append mult.commute)
qed (simp add: be_value_def)

lemma readBE_bound: "readBE n b i = Inr v \<Longrightarrow> v < 256 ^ n"
  using be_value_bound [of "take n (drop i b)"] by (auto simp: readBE_def split: if_splits)

lemma readInt16BE_bounds: "readInt16BE b i = Inr v \<Longrightarrow> - 32768 \<le> v \<and> v \<le> 32767"
  using readBE_bound [of 2 b i]
  by (cases "readBE 2 b i") (auto simp: readInt16BE_def signed_def split: if_splits)

lemma readBE_in_buffer: "readBE n b i = Inr v \<Longrightarrow> i + n \<le> length b"
  by (simp add: readBE_def split: if_splits)

section \<open>Writing\<close>

text \<open>\<open>writeUInt32BE\<close> and its relatives: a value that does not fit throws.\<close>

definition be_bytes :: "nat \<Rightarrow> nat \<Rightarrow> byte list" where
  "be_bytes n v = map (\<lambda>i. word_of_nat (v div 256 ^ (n - 1 - i))) [0..<n]"

definition le_bytes :: "nat \<Rightarrow> nat \<Rightarrow> byte list" where
  "le_bytes n v = map (\<lambda>i. word_of_nat (v div 256 ^ i)) [0..<n]"

definition put_bytes :: "nat \<Rightarrow> byte list \<Rightarrow> buffer \<Rightarrow> buffer" where
  "put_bytes i bs b = take i b @ bs @ drop (i + length bs) b"

definition writeBE :: "nat \<Rightarrow> nat \<Rightarrow> nat \<Rightarrow> buffer \<Rightarrow> exn + buffer" where
  "writeBE n v i b = (if v < 256 ^ n \<and> i + n \<le> length b then Inr (put_bytes i (be_bytes n v) b)
     else Inl out_of_range)"

definition writeLE :: "nat \<Rightarrow> nat \<Rightarrow> nat \<Rightarrow> buffer \<Rightarrow> exn + buffer" where
  "writeLE n v i b = (if v < 256 ^ n \<and> i + n \<le> length b then Inr (put_bytes i (le_bytes n v) b)
     else Inl out_of_range)"

definition alloc :: "nat \<Rightarrow> buffer" where
  "alloc n = replicate n 0"

definition ascii_bytes :: "string \<Rightarrow> byte list" where
  "ascii_bytes s = map (\<lambda>c. word_of_nat (of_char c)) s"

lemma length_be_bytes [simp]: "length (be_bytes n v) = n"
  by (simp add: be_bytes_def)

lemma length_le_bytes [simp]: "length (le_bytes n v) = n"
  by (simp add: le_bytes_def)

lemma be_bytes_Suc: "be_bytes (Suc n) v = be_bytes n (v div 256) @ [word_of_nat v]"
proof -
  have "v div 256 ^ (n - i) = v div 256 div 256 ^ (n - Suc i)" if "i < n" for i
    using that by (simp add: div_mult2_eq [symmetric] power_Suc [symmetric] Suc_diff_Suc del: power_Suc)
  then show ?thesis by (simp add: be_bytes_def)
qed

lemma be_round_trip: "v < 256 ^ n \<Longrightarrow> be_value (be_bytes n v) = v"
proof (induction n arbitrary: v)
  case 0
  then show ?case by (simp add: be_value_def be_bytes_def)
next
  case (Suc n)
  have "v div 256 < 256 ^ n" using Suc.prems by (simp add: less_mult_imp_div_less mult.commute)
  with Suc.IH show ?case
    by (simp add: be_bytes_Suc be_value_append unat_of_nat)
qed

text \<open>Little-endian reads, the counterpart of the little-endian writes.\<close>

definition le_value :: "byte list \<Rightarrow> nat" where
  "le_value bs = be_value (rev bs)"

lemma le_bytes_rev: "le_bytes n v = rev (be_bytes n v)"
  by (rule nth_equalityI) (simp_all add: le_bytes_def be_bytes_def rev_nth)

lemma le_round_trip: "v < 256 ^ n \<Longrightarrow> le_value (le_bytes n v) = v"
  by (simp add: le_value_def le_bytes_rev be_round_trip)

lemma take_drop_append:
  "i + n \<le> length a \<Longrightarrow> take n (drop i (a @ b)) = take n (drop i a)"
  "length a \<le> i \<Longrightarrow> take n (drop i (a @ b)) = take n (drop (i - length a) b)"
  by simp_all

end
