(* ===== verification/Raster.thy ===== *)
theory Raster
  imports Bytes
begin

unbundle bit_operations_syntax

text \<open>
  The anti-aliased polygon rasteriser and PNG writer of the marketing site's asset scripts
  (\<open>apps/marketing-site/scripts/lib/raster.mjs\<close>).

  Coordinates are exact rationals; \<open>deflateSync\<close> is a parameter. A typed array is a list: a write
  outside it is ignored, as the language does. Values stored in the clamped pixel array are rounded
  to the nearest integer, halves to even.
\<close>

section \<open>Checksums\<close>

definition crc_shift :: "32 word \<Rightarrow> 32 word" where
  "crc_shift v = (if v AND 1 \<noteq> 0 then 0xEDB88320 XOR drop_bit 1 v else drop_bit 1 v)"

definition CRC_TABLE :: "32 word list" where
  "CRC_TABLE = map (\<lambda>i. (crc_shift ^^ 8) (word_of_nat i)) [0..<256]"

definition crc_update :: "byte \<Rightarrow> 32 word \<Rightarrow> 32 word" where
  "crc_update b crc = CRC_TABLE ! unat ((crc XOR ucast b) AND 0xFF) XOR drop_bit 8 crc"

definition crc32 :: "byte list \<Rightarrow> 32 word" where
  "crc32 bs = fold crc_update bs (- 1) XOR (- 1)"

section \<open>PNG\<close>

definition pngChunk :: "string \<Rightarrow> buffer \<Rightarrow> exn + buffer" where
  "pngChunk type data =
     and_then (writeBE 4 (length data) 0 (alloc 8)) (\<lambda>h0.
     let header = put_bytes 4 (ascii_bytes type) h0 in
     and_then (writeBE 4 (unat (crc32 (drop 4 header @ data))) 0 (alloc 4)) (\<lambda>crc.
     Inr (header @ data @ crc)))"

text \<open>The filters of a scanline. A byte left of the row or above the image counts as zero.\<close>

definition raw_at :: "byte list \<Rightarrow> nat \<Rightarrow> byte" where
  "raw_at rgb i = (if i < length rgb then rgb ! i else 0)"

definition none_row :: "byte list \<Rightarrow> nat \<Rightarrow> nat \<Rightarrow> byte list" where
  "none_row rgb stride y = map (\<lambda>i. raw_at rgb (y * stride + i)) [0..<stride]"

definition sub_row :: "byte list \<Rightarrow> nat \<Rightarrow> nat \<Rightarrow> byte list" where
  "sub_row rgb stride y = map (\<lambda>i.
     raw_at rgb (y * stride + i) - (if 3 \<le> i then raw_at rgb (y * stride + i - 3) else 0)) [0..<stride]"

definition up_row :: "byte list \<Rightarrow> nat \<Rightarrow> nat \<Rightarrow> byte list" where
  "up_row rgb stride y = map (\<lambda>i.
     raw_at rgb (y * stride + i) - (if 0 < y then raw_at rgb (y * stride - stride + i) else 0)) [0..<stride]"

definition filter_score :: "byte list \<Rightarrow> nat" where
  "filter_score row = sum_list (map (\<lambda>v. if unat v < 128 then unat v else 256 - unat v) row)"

definition filter_row :: "byte list \<Rightarrow> nat \<Rightarrow> nat \<Rightarrow> byte list" where
  "filter_row rgb stride y =
     (let none = none_row rgb stride y; sub = sub_row rgb stride y; up = up_row rgb stride y;
          noneScore = filter_score none; subScore = filter_score sub; upScore = filter_score up
      in if subScore \<le> noneScore \<and> subScore \<le> upScore then 1 # sub
         else if upScore \<le> noneScore then 2 # up
         else 0 # none)"

definition filterScanlines :: "byte list \<Rightarrow> nat \<Rightarrow> nat \<Rightarrow> buffer" where
  "filterScanlines rgb width height = concat (map (filter_row rgb (width * 3)) [0..<height])"

section \<open>The canvas\<close>

text \<open>A store to a \<open>Uint8ClampedArray\<close>: clamp to 0..255, round to nearest, halves to even.\<close>

definition round_half_even :: "rat \<Rightarrow> int" where
  "round_half_even r =
     (let f = \<lfloor>r\<rfloor>; d = r - of_int f
      in if d < 1 / 2 then f else if 1 / 2 < d then f + 1 else if even f then f else f + 1)"

definition clamp_store :: "rat \<Rightarrow> byte" where
  "clamp_store r = (if r \<le> 0 then 0 else if 255 \<le> r then 255 else word_of_int (round_half_even r))"

type_synonym point = "rat \<times> rat"
type_synonym polygon = "point list"
type_synonym rgb = "rat \<times> rat \<times> rat"

record Canvas =
  cv_width :: nat
  cv_height :: nat
  cv_pixels :: "byte list"

definition new_Canvas :: "nat \<Rightarrow> nat \<Rightarrow> rgb \<Rightarrow> Canvas" where
  "new_Canvas width height background = (case background of (r, g, b) \<Rightarrow>
     \<lparr>cv_width = width, cv_height = height,
      cv_pixels = concat (replicate (width * height) [clamp_store r, clamp_store g, clamp_store b])\<rparr>)"

section \<open>Painting\<close>

definition SUBSAMPLES :: nat where "SUBSAMPLES = 16"

record edge =
  e_x0 :: rat
  e_y0 :: rat
  e_x1 :: rat
  e_y1 :: rat

definition polygon_edges :: "polygon \<Rightarrow> edge list" where
  "polygon_edges polygon = concat (map (\<lambda>i.
     case (polygon ! i, polygon ! ((i + 1) mod length polygon)) of ((x0, y0), (x1, y1)) \<Rightarrow>
       if y0 = y1 then [] else [\<lparr>e_x0 = x0, e_y0 = y0, e_x1 = x1, e_y1 = y1\<rparr>]) [0..<length polygon])"

definition edges_of :: "polygon list \<Rightarrow> edge list" where
  "edges_of polygons = concat (map polygon_edges polygons)"

definition e_from :: "edge \<Rightarrow> rat" where "e_from e = min (e_y0 e) (e_y1 e)"
definition e_to :: "edge \<Rightarrow> rat" where "e_to e = max (e_y0 e) (e_y1 e)"

text \<open>The rows and columns of the bounding box, cut to the canvas.\<close>

definition min_of :: "rat list \<Rightarrow> rat" where "min_of xs = foldr min (tl xs) (hd xs)"
definition max_of :: "rat list \<Rightarrow> rat" where "max_of xs = foldr max (tl xs) (hd xs)"

definition rowFrom :: "edge list \<Rightarrow> int" where
  "rowFrom es = max 0 \<lfloor>min_of (map e_from es)\<rfloor>"
definition rowTo :: "nat \<Rightarrow> edge list \<Rightarrow> int" where
  "rowTo height es = min (int height - 1) \<lceil>max_of (map e_to es)\<rceil>"
definition colFrom :: "edge list \<Rightarrow> int" where
  "colFrom es = max 0 \<lfloor>min_of (map (\<lambda>e. min (e_x0 e) (e_x1 e)) es)\<rfloor>"
definition colTo :: "nat \<Rightarrow> edge list \<Rightarrow> int" where
  "colTo width es = min (int width - 1) \<lceil>max_of (map (\<lambda>e. max (e_x0 e) (e_x1 e)) es)\<rceil>"

text \<open>The edges bucketed under a pixel row.\<close>

definition bucket :: "nat \<Rightarrow> edge list \<Rightarrow> int \<Rightarrow> edge list" where
  "bucket height es row = filter (\<lambda>e.
     max (rowFrom es) \<lfloor>e_from e\<rfloor> \<le> row \<and> row \<le> min (rowTo height es) \<lceil>e_to e\<rceil>) es"

definition crossings :: "edge list \<Rightarrow> rat \<Rightarrow> (rat \<times> int) list" where
  "crossings es y = map (\<lambda>e.
       (e_x0 e + ((y - e_y0 e) * (e_x1 e - e_x0 e)) / (e_y1 e - e_y0 e), if e_y1 e > e_y0 e then 1 else - 1))
     (filter (\<lambda>e. \<not> (y < e_from e \<or> e_to e \<le> y)) es)"

text \<open>The spans of the non-zero winding rule.\<close>

fun winding_spans :: "int \<Rightarrow> rat \<Rightarrow> (rat \<times> int) list \<Rightarrow> (rat \<times> rat) list" where
  "winding_spans winding spanStart [] = []"
| "winding_spans winding spanStart ((x, d) # cs) =
     (let s = (if winding = 0 then x else spanStart); w = winding + d
      in if w = 0 then (s, x) # winding_spans w s cs else winding_spans w s cs)"

definition sample_spans :: "edge list \<Rightarrow> rat \<Rightarrow> (rat \<times> rat) list" where
  "sample_spans es y =
     (let cs = crossings es y
      in if length cs < 2 then [] else winding_spans 0 0 (sort_key fst cs))"

definition add_at :: "int \<Rightarrow> rat \<Rightarrow> rat list \<Rightarrow> rat list" where
  "add_at i v cov = (if 0 \<le> i \<and> i < int (length cov) then cov[nat i := cov ! nat i + v] else cov)"

definition addSpan :: "rat \<Rightarrow> int \<Rightarrow> rat \<times> rat \<Rightarrow> rat list \<Rightarrow> rat list" where
  "addSpan weight columns sp cov = (case sp of (from, to) \<Rightarrow>
     (let start = max 0 from; end = min (of_int columns) to in
      if end \<le> start then cov
      else let first = \<lfloor>start\<rfloor>; last = min (columns - 1) \<lfloor>end - 1 / 10 ^ 9\<rfloor> in
        if first = last then add_at first ((end - start) * weight) cov
        else add_at last ((end - of_int last) * weight)
               (fold (\<lambda>c. add_at c weight) [first + 1..last - 1]
                 (add_at first ((of_int first + 1 - start) * weight) cov))))"

definition row_coverage :: "nat \<Rightarrow> nat \<Rightarrow> edge list \<Rightarrow> int \<Rightarrow> rat list" where
  "row_coverage width height es row =
     (let cf = colFrom es; columns = colTo width es - cf + 1
      in fold (\<lambda>sample cov. fold (\<lambda>(a, b). addSpan (1 / of_nat SUBSAMPLES) columns (a - of_int cf, b - of_int cf))
           (sample_spans (bucket height es row) (of_int row + (of_nat sample + 1 / 2) / of_nat SUBSAMPLES)) cov)
         [0..<SUBSAMPLES] (replicate (nat columns) 0))"

definition blend :: "byte \<Rightarrow> rat \<Rightarrow> rat \<Rightarrow> byte" where
  "blend p c clamped = clamp_store (of_nat (unat p) + (c - of_nat (unat p)) * clamped)"

definition put_pixel :: "nat \<Rightarrow> rgb \<Rightarrow> rat \<Rightarrow> byte list \<Rightarrow> byte list" where
  "put_pixel k color alpha pixels = (case color of (red, green, blue) \<Rightarrow>
     (if alpha \<le> 5 / 10000 then pixels
      else let clamped = (if 1 \<le> alpha then 1 else alpha);
               p1 = pixels[k := blend (raw_at pixels k) red clamped];
               p2 = p1[k + 1 := blend (raw_at p1 (k + 1)) green clamped]
           in p2[k + 2 := blend (raw_at p2 (k + 2)) blue clamped]))"

definition paint_row :: "nat \<Rightarrow> nat \<Rightarrow> edge list \<Rightarrow> rgb \<Rightarrow> int \<Rightarrow> byte list \<Rightarrow> byte list" where
  "paint_row width height es color row pixels =
     (if bucket height es row = [] then pixels
      else let coverage = row_coverage width height es row;
               rowOffset = (nat row * width + nat (colFrom es)) * 3
           in fold (\<lambda>column. put_pixel (rowOffset + column * 3) color (coverage ! column))
                [0..<length coverage] pixels)"

definition paint :: "polygon list \<Rightarrow> rgb \<Rightarrow> Canvas \<Rightarrow> Canvas" where
  "paint polygons color cv =
     (let es = edges_of polygons; w = cv_width cv; h = cv_height cv
      in if es = [] then cv
         else if rowFrom es > rowTo h es \<or> colFrom es > colTo w es then cv
         else cv\<lparr>cv_pixels := fold (paint_row w h es color) [rowFrom es..rowTo h es] (cv_pixels cv)\<rparr>)"

definition PNG_SIGNATURE :: "byte list" where
  "PNG_SIGNATURE = [0x89, 0x50, 0x4E, 0x47, 0x0D, 0x0A, 0x1A, 0x0A]"

definition png_header :: "nat \<Rightarrow> nat \<Rightarrow> byte \<Rightarrow> exn + buffer" where
  "png_header width height colorType =
     and_then (writeBE 4 width 0 (alloc 13)) (\<lambda>h1.
     and_then (writeBE 4 height 4 h1) (\<lambda>h2.
     Inr (h2[8 := 8, 9 := colorType])))"

definition png_file :: "(buffer \<Rightarrow> buffer) \<Rightarrow> nat \<Rightarrow> nat \<Rightarrow> byte \<Rightarrow> buffer \<Rightarrow> exn + buffer" where
  "png_file deflate width height colorType raw =
     and_then (png_header width height colorType) (\<lambda>header.
     and_then (pngChunk ''IHDR'' header) (\<lambda>ihdr.
     and_then (pngChunk ''IDAT'' (deflate raw)) (\<lambda>idat.
     and_then (pngChunk ''IEND'' (alloc 0)) (\<lambda>iend.
     Inr (PNG_SIGNATURE @ ihdr @ idat @ iend)))))"

definition toPng :: "(buffer \<Rightarrow> buffer) \<Rightarrow> Canvas \<Rightarrow> exn + buffer" where
  "toPng deflate cv = png_file deflate (cv_width cv) (cv_height cv) 2
     (filterScanlines (cv_pixels cv) (cv_width cv) (cv_height cv))"

end
