(* ===== verification/Png_Format.thy ===== *)
theory Png_Format
  imports Raster
begin

unbundle bit_operations_syntax

text \<open>
  What the PNG writer of \<open>raster.mjs\<close> produces, against reference definitions of the format: the
  checksum as a shift register fed bit by bit, the reversal of the scanline filters, and a reader of
  chunks. The round trip \<open>toPng_round_trip\<close> rests on them.
\<close>

section \<open>The checksum\<close>

text \<open>The reference: the bits of the message, least significant first, through a 32-bit register.\<close>

definition crc_bit :: "bool \<Rightarrow> 32 word \<Rightarrow> 32 word" where
  "crc_bit b c = crc_shift (c XOR of_bool b)"

definition byte_bits :: "byte \<Rightarrow> bool list" where
  "byte_bits b = map (bit b) [0..<8]"

definition crc_reference :: "byte list \<Rightarrow> 32 word" where
  "crc_reference bs = NOT (fold crc_bit (concat (map byte_bits bs)) (NOT 0))"

lemma crc_shift_bit: "crc_shift v = (if bit v 0 then 0xEDB88320 XOR drop_bit 1 v else drop_bit 1 v)"
proof -
  have "v AND 1 \<noteq> 0 \<longleftrightarrow> bit v 0" by (simp add: and_one_eq bit_0 odd_iff_mod_2_eq_one)
  then show ?thesis by (simp add: crc_shift_def)
qed

lemma xor_cancel: "a XOR (a XOR b) = (b :: 'a :: len word)"
  by (simp flip: xor.assoc)

lemma crc_shift_xor: "crc_shift (a XOR b) = crc_shift a XOR crc_shift b"
  by (simp add: crc_shift_bit bit_xor_iff xor.assoc xor.left_commute xor.commute xor_cancel)

lemma crc_shift_pow_xor: "(crc_shift ^^ n) (a XOR b) = (crc_shift ^^ n) a XOR (crc_shift ^^ n) b"
  by (induction n) (simp_all add: crc_shift_xor)

text \<open>Bits that stay clear of the low end are only moved.\<close>

lemma crc_shift_pow_high:
  "(\<forall>i < n. \<not> bit v i) \<Longrightarrow> (crc_shift ^^ n) v = drop_bit n v"
proof (induction n)
  case (Suc n)
  then have "(crc_shift ^^ n) v = drop_bit n v" by simp
  moreover have "\<not> bit (drop_bit n v) 0" using Suc.prems by (simp add: bit_drop_bit_eq)
  ultimately show ?case by (simp add: crc_shift_bit [of "drop_bit n v"])
qed simp

lemma crc_byte_split:
  "(crc_shift ^^ 8) v = (crc_shift ^^ 8) (v AND 0xFF) XOR drop_bit 8 v"
proof -
  have mask: "(0xFF :: 32 word) = mask 8" by (simp add: mask_eq_exp_minus_1)
  have v: "v = (v AND 0xFF) XOR (v AND NOT 0xFF)"
    by (rule bit_word_eqI) (auto simp: bit_simps)
  have "(crc_shift ^^ 8) (v AND NOT 0xFF) = drop_bit 8 (v AND NOT 0xFF)"
    by (rule crc_shift_pow_high) (simp add: mask bit_simps)
  also have "\<dots> = drop_bit 8 v"
    by (rule bit_word_eqI) (auto simp: mask bit_simps dest: bit_imp_le_length)
  finally show ?thesis by (subst v) (simp add: crc_shift_pow_xor)
qed

lemma crc_update_shift: "crc_update b crc = (crc_shift ^^ 8) (crc XOR ucast b)"
proof -
  let ?v = "crc XOR ucast b"
  have lt: "unat (?v AND 0xFF) < 256"
  proof -
    have "?v AND 0xFF \<le> 0xFF" by (rule word_and_le1)
    then show ?thesis by (simp add: word_le_nat_alt)
  qed
  have "CRC_TABLE ! unat (?v AND 0xFF) = (crc_shift ^^ 8) (?v AND 0xFF)"
    using lt by (simp add: CRC_TABLE_def)
  moreover have "drop_bit 8 crc = drop_bit 8 ?v"
    by (rule bit_word_eqI) (auto simp: bit_simps dest: bit_imp_le_length)
  ultimately show ?thesis by (simp add: crc_update_def crc_byte_split [of ?v])
qed

lemma crc_bits_shift:
  "n \<le> 8 \<Longrightarrow> fold crc_bit (map (bit b) [0..<n]) c = (crc_shift ^^ n) (c XOR take_bit n (ucast (b :: byte)))"
proof (induction n)
  case (Suc n)
  let ?t = "take_bit n (ucast b) :: 32 word" and ?p = "push_bit n (of_bool (bit b n)) :: 32 word"
  have split: "take_bit (Suc n) (ucast b) = ?t XOR ?p"
    by (rule bit_word_eqI) (use Suc.prems in \<open>auto simp: bit_simps less_Suc_eq\<close>)
  have "(crc_shift ^^ n) ?p = drop_bit n ?p"
    by (rule crc_shift_pow_high) (simp add: bit_simps)
  also have "\<dots> = of_bool (bit b n)"
    by (rule bit_word_eqI) (use Suc.prems in \<open>auto simp: bit_simps\<close>)
  finally have "(crc_shift ^^ n) (c XOR (?t XOR ?p)) = (crc_shift ^^ n) (c XOR ?t) XOR of_bool (bit b n)"
    by (simp add: crc_shift_pow_xor xor.assoc)
  with Suc split show ?case by (simp add: crc_bit_def)
qed simp

lemma crc_byte: "fold crc_bit (byte_bits b) c = crc_update b c"
proof -
  have "take_bit 8 (ucast b) = (ucast b :: 32 word)"
    by (rule bit_word_eqI) (auto simp: bit_simps dest: bit_imp_le_length)
  with crc_bits_shift [of 8 b c] show ?thesis by (simp add: byte_bits_def crc_update_shift)
qed

lemma fold_crc_bytes: "fold crc_bit (concat (map byte_bits bs)) c = fold crc_update bs c"
  by (induction bs arbitrary: c) (simp_all add: crc_byte)

lemma crc32_equals: "crc32 bs = crc_reference bs"
  by (simp add: crc32_def crc_reference_def fold_crc_bytes)


section \<open>Scanline filters\<close>

text \<open>The reference decoder of the three filters the writer uses.\<close>

fun unsub :: "byte list \<Rightarrow> byte list \<Rightarrow> byte list" where
  "unsub out [] = out"
| "unsub out (v # vs) = unsub (out @ [v + (if 3 \<le> length out then out ! (length out - 3) else 0)]) vs"

definition unfilter_row :: "byte \<Rightarrow> byte list \<Rightarrow> byte list \<Rightarrow> byte list option" where
  "unfilter_row t prev row =
     (if t = 0 then Some row
      else if t = 1 then Some (unsub [] row)
      else if t = 2 then Some (map2 (+) row prev)
      else None)"

fun unfilter :: "nat \<Rightarrow> nat \<Rightarrow> byte list \<Rightarrow> byte list \<Rightarrow> byte list option" where
  "unfilter stride 0 prev data = (if data = [] then Some [] else None)"
| "unfilter stride (Suc h) prev data = (case data of
       [] \<Rightarrow> None
     | t # rest \<Rightarrow>
         if length rest < stride then None
         else (case unfilter_row t prev (take stride rest) of
             None \<Rightarrow> None
           | Some row \<Rightarrow> map_option ((@) row) (unfilter stride h row (drop stride rest))))"

lemma unsub_differences:
  assumes "k \<le> length R"
  shows "unsub (take k R) (map (\<lambda>i. R ! i - (if 3 \<le> i then R ! (i - 3) else 0)) [k..<length R]) = R"
  using assms
proof (induction "length R - k" arbitrary: k)
  case (Suc n)
  then have k: "k < length R" by simp
  then have "[k..<length R] = k # [Suc k..<length R]" by (rule upt_conv_Cons)
  moreover have "take k R @ [R ! k] = take (Suc k) R" using k by (simp add: take_Suc_conv_app_nth)
  moreover have "3 \<le> k \<Longrightarrow> take k R ! (k - 3) = R ! (k - 3)" by simp
  ultimately show ?case using Suc k by simp
qed simp

lemma raw_at_row: "i < stride \<Longrightarrow> y < h \<Longrightarrow> length rgb = stride * h \<Longrightarrow>
    raw_at rgb (y * stride + i) = rgb ! (y * stride + i) \<and> y * stride + i < stride * h"
proof -
  assume a: "i < stride" "y < h" "length rgb = stride * h"
  then have "y * stride + i < Suc y * stride" by simp
  also have "\<dots> \<le> h * stride" using a(2) by (intro mult_le_mono1) simp
  finally have "y * stride + i < stride * h" by (simp add: mult.commute)
  with a(3) show ?thesis by (simp add: raw_at_def)
qed

lemma none_row_slice:
  assumes "y < h" "length rgb = stride * h"
  shows "none_row rgb stride y = take stride (drop (y * stride) rgb)"
proof (rule nth_equalityI)
  have "y * stride + stride \<le> stride * h"
    using assms(1) by (metis Suc_leI mult.commute mult_Suc_right add.commute mult_le_mono2)
  then show "length (none_row rgb stride y) = length (take stride (drop (y * stride) rgb))"
    using assms(2) by (simp add: none_row_def)
  fix i assume "i < length (none_row rgb stride y)"
  then have "i < stride" by (simp add: none_row_def)
  have r: "raw_at rgb (y * stride + i) = rgb ! (y * stride + i)" "y * stride \<le> length rgb"
    using raw_at_row [OF \<open>i < stride\<close> assms] assms(2) by linarith+
  with \<open>i < stride\<close> show "none_row rgb stride y ! i = take stride (drop (y * stride) rgb) ! i"
    by (simp add: none_row_def)
qed

lemma length_rows [simp]:
  "length (none_row rgb stride y) = stride" "length (sub_row rgb stride y) = stride"
  "length (up_row rgb stride y) = stride" "length (filter_row rgb stride y) = Suc stride"
  by (simp_all add: none_row_def sub_row_def up_row_def filter_row_def Let_def)

lemma unsub_sub_row: "unsub [] (sub_row rgb stride y) = none_row rgb stride y"
proof -
  let ?R = "none_row rgb stride y"
  have "sub_row rgb stride y = map (\<lambda>i. ?R ! i - (if 3 \<le> i then ?R ! (i - 3) else 0)) [0..<length ?R]"
    by (auto simp: sub_row_def none_row_def nth_upt less_imp_diff_less)
  with unsub_differences [of 0 ?R] show ?thesis by simp
qed

definition prior_row :: "byte list \<Rightarrow> nat \<Rightarrow> nat \<Rightarrow> byte list" where
  "prior_row rgb stride y = (if y = 0 then replicate stride 0 else none_row rgb stride (y - 1))"

lemma unup_up_row: "map2 (+) (up_row rgb stride y) (prior_row rgb stride y) = none_row rgb stride y"
proof (cases y)
  case (Suc m)
  then show ?thesis
    by (intro nth_equalityI) (simp_all add: up_row_def none_row_def prior_row_def)
qed (intro nth_equalityI, simp_all add: up_row_def none_row_def prior_row_def)

lemma unfilter_row_filter:
  obtains t row where "filter_row rgb stride y = t # row" "length row = stride"
    "unfilter_row t (prior_row rgb stride y) row = Some (none_row rgb stride y)"
proof -
  let ?best = "filter_row rgb stride y"
  consider "?best = 1 # sub_row rgb stride y" | "?best = 2 # up_row rgb stride y" | "?best = 0 # none_row rgb stride y"
    unfolding filter_row_def Let_def by metis
  then show thesis
    by cases (auto intro: that simp: unfilter_row_def unsub_sub_row unup_up_row)
qed

lemma unfilter_filter_from:
  assumes "length rgb = stride * h" and "y \<le> h"
  shows "unfilter stride (h - y) (prior_row rgb stride y) (concat (map (filter_row rgb stride) [y..<h])) =
    Some (drop (y * stride) rgb)"
  using assms(2)
proof (induction "h - y" arbitrary: y)
  case 0
  then show ?case using assms(1) by (simp add: mult.commute)
next
  case (Suc n)
  then have y: "y < h" by simp
  then have hy: "h - y = Suc (h - Suc y)" by simp
  have up: "[y..<h] = y # [Suc y..<h]" using y by (rule upt_conv_Cons)
  obtain t row where f: "filter_row rgb stride y = t # row" "length row = stride"
    "unfilter_row t (prior_row rgb stride y) row = Some (none_row rgb stride y)"
    by (rule unfilter_row_filter)
  have "prior_row rgb stride (Suc y) = none_row rgb stride y" by (simp add: prior_row_def)
  moreover have "unfilter stride (h - Suc y) (prior_row rgb stride (Suc y))
      (concat (map (filter_row rgb stride) [Suc y..<h])) = Some (drop (Suc y * stride) rgb)"
    using Suc y by (intro Suc.hyps(1)) simp_all
  moreover have "none_row rgb stride y @ drop (Suc y * stride) rgb = drop (y * stride) rgb"
    unfolding none_row_slice [OF y assms(1)]
    by (metis append_take_drop_id drop_drop mult_Suc add.commute)
  ultimately show ?case by (simp add: hy up f)
qed

lemma unfilter_filterScanlines:
  assumes "length rgb = width * 3 * height"
  shows "unfilter (width * 3) height (replicate (width * 3) 0) (filterScanlines rgb width height) = Some rgb"
  using unfilter_filter_from [OF assms, of 0] by (simp add: filterScanlines_def prior_row_def)

section \<open>Reading a file back\<close>

text \<open>A chunk: length, type, data and checksum of type and data.\<close>

definition read_chunk :: "byte list \<Rightarrow> (byte list \<times> byte list \<times> byte list) option" where
  "read_chunk bs =
     (let n = be_value (take 4 bs); type = take 4 (drop 4 bs); data = take n (drop 8 bs);
          rest = drop (8 + n) bs
      in if length bs < 12 + n then None
         else if be_value (take 4 rest) \<noteq> unat (crc_reference (type @ data)) then None
         else Some (type, data, drop 4 rest))"

text \<open>A reader of files made of one \<open>IHDR\<close>, one \<open>IDAT\<close> and one \<open>IEND\<close> chunk: width, height, colour
  type and the inflated scanlines.\<close>

definition read_png :: "(byte list \<Rightarrow> byte list) \<Rightarrow> byte list \<Rightarrow> (nat \<times> nat \<times> byte \<times> byte list) option" where
  "read_png inflate file =
     (if take 8 file \<noteq> PNG_SIGNATURE then None
      else case read_chunk (drop 8 file) of
        Some (t1, ihdr, r1) \<Rightarrow> (case read_chunk r1 of
          Some (t2, idat, r2) \<Rightarrow> (case read_chunk r2 of
            Some (t3, iend, r3) \<Rightarrow>
              if t1 = ascii_bytes ''IHDR'' \<and> length ihdr = 13 \<and> ihdr ! 8 = 8 \<and> drop 10 ihdr = [0, 0, 0] \<and>
                 t2 = ascii_bytes ''IDAT'' \<and> t3 = ascii_bytes ''IEND'' \<and> iend = [] \<and> r3 = []
              then Some (be_value (take 4 ihdr), be_value (take 4 (drop 4 ihdr)), ihdr ! 9, inflate idat)
              else None
          | None \<Rightarrow> None)
        | None \<Rightarrow> None)
      | None \<Rightarrow> None)"

lemma writeBE_alloc: "v < 256 ^ n \<Longrightarrow> n \<le> m \<Longrightarrow> writeBE n v 0 (alloc m) = Inr (be_bytes n v @ replicate (m - n) 0)"
  by (simp add: writeBE_def put_bytes_def alloc_def)

lemma length_ascii_bytes [simp]: "length (ascii_bytes s) = length s"
  by (simp add: ascii_bytes_def)

lemma word32_nat: "unat (w :: 32 word) < 256 ^ 4"
  using unsigned_less [of w, where ?'a = nat] by simp

lemma pngChunk_bytes:
  assumes "length type = 4" "length data < 256 ^ 4"
  shows "pngChunk type data = Inr (be_bytes 4 (length data) @ ascii_bytes type @ data @
    be_bytes 4 (unat (crc32 (ascii_bytes type @ data))))"
proof -
  have h: "writeBE 4 (length data) 0 (alloc 8) = Inr (be_bytes 4 (length data) @ replicate 4 0)"
    using writeBE_alloc [OF assms(2), of 8] by simp
  have p: "put_bytes 4 (ascii_bytes type) (be_bytes 4 (length data) @ replicate 4 0) =
      be_bytes 4 (length data) @ ascii_bytes type"
    using assms(1) by (simp add: put_bytes_def)
  have c: "writeBE 4 (unat v) 0 (alloc 4) = Inr (be_bytes 4 (unat v))" for v :: "32 word"
    using writeBE_alloc [OF word32_nat, of 4 v] by simp
  show ?thesis by (simp add: pngChunk_def h p c)
qed

lemma pngChunk_Inr:
  assumes "length type = 4" "pngChunk type data = Inr c"
  shows "length data < 256 ^ 4"
proof (rule ccontr)
  assume "\<not> length data < 256 ^ 4"
  then have "writeBE 4 (length data) 0 (alloc 8) = Inl out_of_range" unfolding writeBE_def by auto
  with assms(2) show False by (simp add: pngChunk_def)
qed

lemma read_pngChunk:
  assumes "length type = 4" "pngChunk type data = Inr c"
  shows "read_chunk (c @ rest) = Some (ascii_bytes type, data, rest)"
proof -
  have n: "length data < 256 ^ 4" by (rule pngChunk_Inr [OF assms])
  define crc where "crc = be_bytes 4 (unat (crc32 (ascii_bytes type @ data)))"
  have c: "c = be_bytes 4 (length data) @ ascii_bytes type @ data @ crc"
    using pngChunk_bytes [OF assms(1) n] assms(2) by (simp add: crc_def)
  have len: "length crc = 4" by (simp add: crc_def)
  have v: "be_value (be_bytes 4 (length data)) = length data"
    "be_value crc = unat (crc32 (ascii_bytes type @ data))"
    using be_round_trip [OF n] be_round_trip [OF word32_nat] by (simp_all add: crc_def)
  show ?thesis
    using assms(1) by (simp add: read_chunk_def c len v crc32_equals Let_def)
qed

lemma png_header_bytes:
  assumes "png_header width height ct = Inr h"
  shows "length h = 13" "be_value (take 4 h) = width" "be_value (take 4 (drop 4 h)) = height"
    "h ! 8 = 8" "h ! 9 = ct" "drop 10 h = [0, 0, 0]"
proof -
  from assms have w: "width < 256 ^ 4" and h: "height < 256 ^ 4"
    by (auto simp: png_header_def and_then_Inr writeBE_def split: if_splits)
  have "writeBE 4 height 4 (be_bytes 4 width @ replicate 9 0) = Inr (be_bytes 4 width @ be_bytes 4 height @ replicate 5 0)"
    using h by (simp add: writeBE_def put_bytes_def)
  moreover have "writeBE 4 width 0 (alloc 13) = Inr (be_bytes 4 width @ replicate 9 0)"
    using writeBE_alloc [OF w, of 13] by simp
  ultimately have "h = (be_bytes 4 width @ be_bytes 4 height @ replicate 5 0)[8 := 8, 9 := ct]"
    using assms by (simp add: png_header_def)
  also have "\<dots> = be_bytes 4 width @ be_bytes 4 height @ [8, ct, 0, 0, 0]"
    by (simp add: list_update_append numeral_eq_Suc)
  finally have hh: "h = be_bytes 4 width @ be_bytes 4 height @ [8, ct, 0, 0, 0]" .
  show "length h = 13" "be_value (take 4 h) = width" "be_value (take 4 (drop 4 h)) = height"
    "h ! 8 = 8" "h ! 9 = ct" "drop 10 h = [0, 0, 0]"
    using be_round_trip [OF w] be_round_trip [OF h] by (simp_all add: hh nth_append)
qed

lemma read_png_file:
  assumes "png_file deflate width height ct raw = Inr png"
  shows "read_png inflate png = Some (width, height, ct, inflate (deflate raw))"
proof -
  from assms obtain h c1 c2 c3 where f: "png_header width height ct = Inr h" "pngChunk ''IHDR'' h = Inr c1"
    "pngChunk ''IDAT'' (deflate raw) = Inr c2" "pngChunk ''IEND'' (alloc 0) = Inr c3"
    and f_eq: "png = PNG_SIGNATURE @ c1 @ c2 @ c3"
    by (auto simp: png_file_def and_then_Inr)
  have r: "read_chunk (c1 @ c2 @ c3) = Some (ascii_bytes ''IHDR'', h, c2 @ c3)"
    "read_chunk (c2 @ c3) = Some (ascii_bytes ''IDAT'', deflate raw, c3)"
    "read_chunk c3 = Some (ascii_bytes ''IEND'', alloc 0, [])"
    using read_pngChunk [OF _ f(2), of "c2 @ c3"] read_pngChunk [OF _ f(3), of c3] read_pngChunk [OF _ f(4), of "[]"]
    by simp_all
  have s: "take 8 png = PNG_SIGNATURE" "drop 8 png = c1 @ c2 @ c3"
    by (simp_all add: f_eq PNG_SIGNATURE_def)
  show ?thesis
    unfolding read_png_def s by (simp add: r png_header_bytes [OF f(1)] alloc_def)
qed

definition canvas_ok :: "Canvas \<Rightarrow> bool" where
  "canvas_ok cv \<longleftrightarrow> length (cv_pixels cv) = cv_width cv * 3 * cv_height cv"

text \<open>C7: A PNG written by the canvas reads back: whatever file \<open>toPng\<close> returns has valid checksums and
  the canvas's width and height, and undoing the compression and the scanline filters gives exactly its
  pixels, provided decompression undoes the compression.\<close>

theorem toPng_round_trip:
  assumes "canvas_ok cv" and "toPng deflate cv = Inr png" and "\<And>raw. inflate (deflate raw) = raw"
  shows "\<exists>raw. read_png inflate png = Some (cv_width cv, cv_height cv, 2, raw) \<and>
    unfilter (cv_width cv * 3) (cv_height cv) (replicate (cv_width cv * 3) 0) raw = Some (cv_pixels cv)"
  using read_png_file [OF assms(2) [unfolded toPng_def], of inflate] assms(1,3)
    unfilter_filterScanlines [of "cv_pixels cv" "cv_width cv" "cv_height cv"]
  by (simp add: canvas_ok_def)

text \<open>The writer succeeds on every canvas whose dimensions and compressed data fit their fields.\<close>

lemma png_file_total:
  assumes "width < 256 ^ 4" "height < 256 ^ 4" "length (deflate raw) < 256 ^ 4"
  obtains png where "png_file deflate width height ct raw = Inr png"
proof -
  obtain h where h: "png_header width height ct = Inr h" "length h = 13"
  proof -
    have "writeBE 4 height 4 (be_bytes 4 width @ replicate 9 0) = Inr (be_bytes 4 width @ be_bytes 4 height @ replicate 5 0)"
      using assms(2) by (simp add: writeBE_def put_bytes_def)
    moreover have "writeBE 4 width 0 (alloc 13) = Inr (be_bytes 4 width @ replicate 9 0)"
      using writeBE_alloc [OF assms(1), of 13] by simp
    ultimately show thesis using that by (simp add: png_header_def)
  qed
  show thesis
    using that h assms(3)
    by (simp add: png_file_def pngChunk_bytes alloc_def)
qed

lemma new_Canvas_ok: "canvas_ok (new_Canvas width height background)"
proof -
  obtain r g b where "background = (r, g, b)" by (rule prod_cases3)
  then show ?thesis
    by (simp add: canvas_ok_def new_Canvas_def length_concat sum_list_replicate)
qed

theorem toPng_round_trip_witness:
  "\<exists>png raw. toPng (\<lambda>bs. bs) (new_Canvas 2 1 (1, 2, 3)) = Inr png \<and>
     read_png (\<lambda>bs. bs) png = Some (2, 1, 2, raw) \<and>
     unfilter 6 1 (replicate 6 0) raw = Some [1, 2, 3, 1, 2, 3]"
proof -
  let ?cv = "new_Canvas 2 1 (1, 2, 3)"
  have px: "cv_pixels ?cv = [1, 2, 3, 1, 2, 3]" "cv_width ?cv = 2" "cv_height ?cv = 1"
    by (simp_all add: new_Canvas_def clamp_store_def round_half_even_def numeral_2_eq_2)
  have "length (filterScanlines (cv_pixels ?cv) 2 1) < 256 ^ 4"
    by (simp add: filterScanlines_def length_concat)
  then obtain png where p: "toPng (\<lambda>bs. bs) ?cv = Inr png"
    using png_file_total [of 2 1 "\<lambda>bs. bs" _ 2] px by (auto simp: toPng_def)
  from toPng_round_trip [OF new_Canvas_ok p, of "\<lambda>bs. bs"] p px show ?thesis by auto
qed

end
