(* ===== verification/Zip.thy ===== *)
theory Zip
  imports Png_Format
begin

text \<open>
  The ZIP writer of \<open>apps/marketing-site/scripts/generate-brand-assets.mjs\<close> (\<open>zipFromEntries\<close>), with a
  reader that starts from the end record, follows the central directory and the local headers and
  checks every signature, method, length and checksum. What is written reads back.
\<close>

section \<open>Writing\<close>

text \<open>A fixed header: a zero-filled buffer and little-endian fields, each a width, a value and an offset.\<close>

type_synonym le_field = "nat \<times> nat \<times> nat"

definition write_fields :: "le_field list \<Rightarrow> buffer \<Rightarrow> exn + buffer" where
  "write_fields fs b = fold_try (\<lambda>(n, v, i). writeLE n v i) fs b"

record zip_entry =
  ze_name :: jstr
  ze_data :: buffer

definition zip_local :: "nat \<Rightarrow> nat \<Rightarrow> nat \<Rightarrow> exn + buffer" where
  "zip_local crc dataLength nameLength = write_fields
     [(4, 0x04034B50, 0), (2, 20, 4), (2, 0, 6), (2, 0, 8), (2, 0, 10), (2, 0x5821, 12), (4, crc, 14),
      (4, dataLength, 18), (4, dataLength, 22), (2, nameLength, 26), (2, 0, 28)] (alloc 30)"

definition zip_record :: "nat \<Rightarrow> nat \<Rightarrow> nat \<Rightarrow> nat \<Rightarrow> exn + buffer" where
  "zip_record crc dataLength nameLength offset = write_fields
     [(4, 0x02014B50, 0), (2, 20, 4), (2, 20, 6), (2, 0, 8), (2, 0, 10), (2, 0, 12), (2, 0x5821, 14), (4, crc, 16),
      (4, dataLength, 20), (4, dataLength, 24), (2, nameLength, 28), (4, offset, 42)] (alloc 46)"

definition zip_end :: "nat \<Rightarrow> nat \<Rightarrow> nat \<Rightarrow> exn + buffer" where
  "zip_end entryCount centralLength offset = write_fields
     [(4, 0x06054B50, 0), (2, entryCount, 8), (2, entryCount, 10), (4, centralLength, 12), (4, offset, 16)] (alloc 22)"

text \<open>The state of the loop: the parts written so far, the central directory, and the offset.\<close>

definition zip_step :: "zip_entry \<Rightarrow> buffer \<times> buffer \<times> nat \<Rightarrow> exn + buffer \<times> buffer \<times> nat" where
  "zip_step e st = (case st of (parts, central, offset) \<Rightarrow>
     (let name = utf8_bytes (ze_name e); crc = unat (crc32 (ze_data e)); n = length (ze_data e)
      in and_then (zip_local crc n (length name)) (\<lambda>loc.
         and_then (zip_record crc n (length name) offset) (\<lambda>rec.
         Inr (parts @ loc @ name @ ze_data e, central @ rec @ name, offset + (30 + length name + n))))))"

definition zipFromEntries :: "zip_entry list \<Rightarrow> exn + buffer" where
  "zipFromEntries entries =
     and_then (fold_try zip_step entries ([], [], 0)) (\<lambda>(parts, central, offset).
     and_then (zip_end (length entries) (length central) offset) (\<lambda>e.
     Inr (parts @ central @ e)))"

section \<open>Reading\<close>

definition read_le :: "nat \<Rightarrow> nat \<Rightarrow> buffer \<Rightarrow> nat" where
  "read_le n i b = le_value (take n (drop i b))"

text \<open>The file a central record describes, and the position behind the record.\<close>

definition read_record :: "buffer \<Rightarrow> nat \<Rightarrow> ((byte list \<times> buffer) \<times> nat) option" where
  "read_record z pos =
     (let r = drop pos z; nameLength = read_le 2 28 r; n = read_le 4 20 r;
          l = drop (read_le 4 42 r) z;
          name = take nameLength (drop 46 r);
          body = drop (30 + read_le 2 26 l + read_le 2 28 l) l
      in if read_le 4 0 r = 0x02014B50 \<and> read_le 2 10 r = 0 \<and> read_le 4 24 r = n \<and>
            read_le 4 0 l = 0x04034B50 \<and> read_le 2 8 l = 0 \<and> take nameLength (drop 30 l) = name \<and>
            read_le 2 26 l = nameLength \<and> read_le 4 18 l = n \<and> read_le 4 22 l = n \<and> n \<le> length body \<and>
            read_le 4 14 l = read_le 4 16 r \<and> unat (crc32 (take n body)) = read_le 4 16 r
         then Some ((name, take n body), pos + 46 + nameLength + read_le 2 30 r + read_le 2 32 r) else None)"

fun read_records :: "buffer \<Rightarrow> nat \<Rightarrow> nat \<Rightarrow> ((byte list \<times> buffer) list \<times> nat) option" where
  "read_records z 0 pos = Some ([], pos)"
| "read_records z (Suc k) pos = (case read_record z pos of
       None \<Rightarrow> None
     | Some (f, pos') \<Rightarrow> map_option (\<lambda>(fs, q). (f # fs, q)) (read_records z k pos'))"

definition read_zip :: "buffer \<Rightarrow> (byte list \<times> buffer) list option" where
  "read_zip z =
     (let e = drop (length z - 22) z; start = read_le 4 16 e
      in if length z < 22 \<or> read_le 4 0 e \<noteq> 0x06054B50 \<or> read_le 2 8 e \<noteq> read_le 2 10 e then None
         else (case read_records z (read_le 2 10 e) start of
             None \<Rightarrow> None
           | Some (fs, stop) \<Rightarrow>
               if stop = start + read_le 4 12 e \<and> stop = length z - 22 then Some fs else None))"

section \<open>Headers\<close>

text \<open>Fields written in ascending order lie one behind the other, with zeros between them.\<close>

fun field_layout :: "nat \<Rightarrow> le_field list \<Rightarrow> byte list" where
  "field_layout p [] = []"
| "field_layout p ((n, v, i) # fs) = replicate (i - p) 0 @ le_bytes n v @ field_layout (i + n) fs"

fun ascending :: "nat \<Rightarrow> le_field list \<Rightarrow> bool" where
  "ascending p [] = True"
| "ascending p ((n, v, i) # fs) = (p \<le> i \<and> ascending (i + n) fs)"

fun fields_end :: "nat \<Rightarrow> le_field list \<Rightarrow> nat" where
  "fields_end p [] = p"
| "fields_end p ((n, v, i) # fs) = fields_end (i + n) fs"

lemma writeLE_ahead:
  assumes "writeLE n v i (pre @ replicate k 0) = Inr b" and "length pre \<le> i"
  shows "v < 256 ^ n" "i + n \<le> length pre + k"
    "b = (pre @ replicate (i - length pre) 0 @ le_bytes n v) @ replicate (length pre + k - (i + n)) 0"
  using assms by (auto simp: writeLE_def put_bytes_def split: if_splits)

lemma write_fields_layout:
  "fold_try (\<lambda>(n, v, i). writeLE n v i) fs (pre @ replicate k 0) = Inr b \<Longrightarrow> ascending (length pre) fs \<Longrightarrow>
     b = pre @ field_layout (length pre) fs @ replicate (length pre + k - fields_end (length pre) fs) 0 \<and>
     list_all (\<lambda>(n, v, i). v < 256 ^ n) fs"
proof (induction fs arbitrary: pre k)
  case (Cons f fs)
  obtain n v i where f: "f = (n, v, i)" by (cases f)
  from Cons.prems(1) obtain b1 where w: "writeLE n v i (pre @ replicate k 0) = Inr b1"
    and r: "fold_try (\<lambda>(n, v, i). writeLE n v i) fs b1 = Inr b" by (auto simp: f and_then_Inr)
  from Cons.prems(2) have i: "length pre \<le> i" and a: "ascending (i + n) fs" by (simp_all add: f)
  let ?pre = "pre @ replicate (i - length pre) 0 @ le_bytes n v"
  let ?k = "length pre + k - (i + n)"
  note b1 = writeLE_ahead [OF w i]
  have l: "length ?pre = i + n" using i by simp
  from r b1(3) have "fold_try (\<lambda>(n, v, i). writeLE n v i) fs (?pre @ replicate ?k 0) = Inr b" by simp
  from Cons.IH [OF this] a l have "b = ?pre @ field_layout (i + n) fs @ replicate (i + n + ?k - fields_end (i + n) fs) 0"
    "list_all (\<lambda>(n, v, i). v < 256 ^ n) fs" by simp_all
  moreover have "i + n + ?k = length pre + k" using b1(2) by simp
  ultimately show ?case using b1(1) by (simp add: f)
qed simp

lemma write_fields_alloc:
  assumes "write_fields fs (alloc k) = Inr b" and "ascending 0 fs"
  shows "b = field_layout 0 fs @ replicate (k - fields_end 0 fs) 0" "list_all (\<lambda>(n, v, i). v < 256 ^ n) fs"
  using write_fields_layout [of fs "[]" k b] assms by (simp_all add: write_fields_def alloc_def)

lemma read_le_append [simp]:
  "i + n \<le> length a \<Longrightarrow> read_le n i (a @ b) = read_le n i a"
  by (simp add: read_le_def)

lemma le_value_zeros [simp]: "le_value (replicate n 0) = 0"
  by (simp add: le_value_def be_value_def rev_replicate) (induction n, simp_all)

lemma zip_local_fields:
  assumes "zip_local crc n k = Inr h"
  shows "length h = 30" "read_le 4 0 h = 0x04034B50" "read_le 2 8 h = 0" "read_le 4 14 h = crc" "read_le 4 18 h = n"
    "read_le 4 22 h = n" "read_le 2 26 h = k" "read_le 2 28 h = 0"
proof -
  note w = write_fields_alloc [OF assms [unfolded zip_local_def]]
  from w(2) have "crc < 256 ^ 4" "n < 256 ^ 4" "k < 256 ^ 2" by simp_all
  with w(1) show "length h = 30" "read_le 4 0 h = 0x04034B50" "read_le 2 8 h = 0" "read_le 4 14 h = crc"
    "read_le 4 18 h = n" "read_le 4 22 h = n" "read_le 2 26 h = k" "read_le 2 28 h = 0"
    by (simp_all add: read_le_def le_round_trip)
qed

lemma zip_record_fields:
  assumes "zip_record crc n k offset = Inr h"
  shows "length h = 46" "read_le 4 0 h = 0x02014B50" "read_le 2 10 h = 0" "read_le 4 16 h = crc" "read_le 4 20 h = n"
    "read_le 4 24 h = n" "read_le 2 28 h = k" "read_le 2 30 h = 0" "read_le 2 32 h = 0" "read_le 4 42 h = offset"
proof -
  note w = write_fields_alloc [OF assms [unfolded zip_record_def]]
  from w(2) have "crc < 256 ^ 4" "n < 256 ^ 4" "k < 256 ^ 2" "offset < 256 ^ 4" by simp_all
  with w(1) show "length h = 46" "read_le 4 0 h = 0x02014B50" "read_le 2 10 h = 0" "read_le 4 16 h = crc"
    "read_le 4 20 h = n" "read_le 4 24 h = n" "read_le 2 28 h = k" "read_le 2 30 h = 0" "read_le 2 32 h = 0"
    "read_le 4 42 h = offset"
    by (simp_all add: read_le_def le_round_trip)
qed

lemma zip_end_fields:
  assumes "zip_end count n offset = Inr h"
  shows "length h = 22" "read_le 4 0 h = 0x06054B50" "read_le 2 8 h = count" "read_le 2 10 h = count"
    "read_le 4 12 h = n" "read_le 4 16 h = offset"
proof -
  note w = write_fields_alloc [OF assms [unfolded zip_end_def]]
  from w(2) have "count < 256 ^ 2" "n < 256 ^ 4" "offset < 256 ^ 4" by simp_all
  with w(1) show "length h = 22" "read_le 4 0 h = 0x06054B50" "read_le 2 8 h = count" "read_le 2 10 h = count"
    "read_le 4 12 h = n" "read_le 4 16 h = offset"
    by (simp_all add: read_le_def le_round_trip)
qed

section \<open>Round trip\<close>

lemma read_record_written:
  assumes "zip_local crc (length body) (length name) = Inr loc" and "crc = unat (crc32 body)"
    and "zip_record crc (length body) (length name) offset = Inr rec"
    and "z = A @ loc @ name @ body @ B" and "length A = offset" and "z = C @ rec @ name @ D"
  shows "read_record z (length C) = Some ((name, body), length C + (46 + length name))"
proof -
  have r: "drop (length C) z = rec @ name @ D" using assms(6) by simp
  have l: "drop offset z = loc @ name @ body @ B" using assms(4,5) by simp
  note zip_record_fields [OF assms(3)] and zip_local_fields [OF assms(1)]
  then show ?thesis
    unfolding read_record_def r Let_def by (simp add: l assms(2))
qed

lemma zip_step_Inr:
  assumes "zip_step e (parts, central, offset) = Inr st"
  obtains loc rec where
    "zip_local (unat (crc32 (ze_data e))) (length (ze_data e)) (length (utf8_bytes (ze_name e))) = Inr loc"
    "zip_record (unat (crc32 (ze_data e))) (length (ze_data e)) (length (utf8_bytes (ze_name e))) offset = Inr rec"
    "st = (parts @ loc @ utf8_bytes (ze_name e) @ ze_data e, central @ rec @ utf8_bytes (ze_name e),
       offset + (30 + length (utf8_bytes (ze_name e)) + length (ze_data e)))"
  using assms by (auto simp: zip_step_def Let_def and_then_Inr)

definition zip_file :: "zip_entry \<Rightarrow> byte list \<times> buffer" where
  "zip_file e = (utf8_bytes (ze_name e), ze_data e)"

lemma zip_loop_reads:
  "fold_try zip_step es (parts, central, length parts) = Inr (parts', central', offset') \<Longrightarrow>
   \<exists>ps cs. parts' = parts @ ps \<and> central' = central @ cs \<and> offset' = length parts' \<and>
     (\<forall>B C D. parts' @ B = C @ cs @ D \<longrightarrow>
        read_records (parts' @ B) (length es) (length C) = Some (map zip_file es, length C + length cs))"
proof (induction es arbitrary: parts central)
  case (Cons e es)
  let ?name = "utf8_bytes (ze_name e)"
  from Cons.prems obtain st where s: "zip_step e (parts, central, length parts) = Inr st"
    and f: "fold_try zip_step es st = Inr (parts', central', offset')" by (auto simp: and_then_Inr)
  from zip_step_Inr [OF s] obtain loc rec where
    loc: "zip_local (unat (crc32 (ze_data e))) (length (ze_data e)) (length ?name) = Inr loc" and
    rec: "zip_record (unat (crc32 (ze_data e))) (length (ze_data e)) (length ?name) (length parts) = Inr rec" and
    st: "st = (parts @ loc @ ?name @ ze_data e, central @ rec @ ?name, length parts + (30 + length ?name + length (ze_data e)))" .
  let ?parts = "parts @ loc @ ?name @ ze_data e"
  from zip_local_fields(1) [OF loc] have "st = (?parts, central @ rec @ ?name, length ?parts)" by (simp add: st)
  from Cons.IH [OF f [unfolded this]] obtain ps cs where IH: "parts' = ?parts @ ps" "central' = (central @ rec @ ?name) @ cs"
    "offset' = length parts'" "\<And>B C D. parts' @ B = C @ cs @ D \<Longrightarrow>
       read_records (parts' @ B) (length es) (length C) = Some (map zip_file es, length C + length cs)" by blast
  have "read_records (parts' @ B) (length (e # es)) (length C) =
      Some (map zip_file (e # es), length C + length (rec @ ?name @ cs))"
    if z: "parts' @ B = C @ (rec @ ?name @ cs) @ D" for B C D
  proof -
    have "read_record (parts' @ B) (length C) = Some ((?name, ze_data e), length C + (46 + length ?name))"
      by (rule read_record_written [OF loc refl rec, where B = "ps @ B" and D = "cs @ D" and A = parts])
         (use z IH(1) in simp_all)
    moreover have "length (C @ rec @ ?name) = length C + (46 + length ?name)"
      using zip_record_fields(1) [OF rec] by simp
    ultimately show ?thesis
      using IH(4) [of B "C @ rec @ ?name" D] z by (simp add: zip_file_def)
  qed
  with IH(1-3) show ?case by (intro exI [of _ "loc @ ?name @ ze_data e @ ps"] exI [of _ "rec @ ?name @ cs"]) simp
qed simp

text \<open>C40: The archive of the brand downloads opens. Whatever entries are written, if the writer does not
  throw (a field that overflows its width does), a reader that follows the central directory finds
  every file in order, with its name, its bytes and a matching checksum.\<close>

theorem zip_round_trip:
  assumes "zipFromEntries entries = Inr z"
  shows "read_zip z = Some (map zip_file entries)"
proof -
  from assms obtain parts central offset e where
    f: "fold_try zip_step entries ([], [], 0) = Inr (parts, central, offset)" and
    e: "zip_end (length entries) (length central) offset = Inr e" and z: "z = parts @ central @ e"
    by (auto simp: zipFromEntries_def and_then_Inr)
  from zip_loop_reads [of entries "[]" "[]"] f have o: "offset = length parts"
    and r: "read_records z (length entries) (length parts) = Some (map zip_file entries, length parts + length central)"
    by (auto simp: z)
  note h = zip_end_fields [OF e]
  have "drop (length z - 22) z = e" "length z - 22 = length parts + length central" "\<not> length z < 22"
    using h(1) by (simp_all add: z)
  with r h o show ?thesis by (simp add: read_zip_def Let_def)
qed

lemma write_fields_total:
  "list_all (\<lambda>(n, v, i). v < 256 ^ n \<and> i + n \<le> length b) fs \<Longrightarrow> \<exists>h. write_fields fs b = Inr h"
  unfolding write_fields_def
proof (induction fs arbitrary: b)
  case (Cons f fs)
  obtain n v i where f: "f = (n, v, i)" by (cases f)
  with Cons.prems have w: "writeLE n v i b = Inr (put_bytes i (le_bytes n v) b)" "i + n \<le> length b"
    by (simp_all add: writeLE_def)
  then have "length (put_bytes i (le_bytes n v) b) = length b" by (simp add: put_bytes_def)
  with Cons w(1) show ?case by (simp add: f)
qed simp

lemma headers_total:
  "crc < 256 ^ 4 \<Longrightarrow> n < 256 ^ 4 \<Longrightarrow> k < 256 ^ 2 \<Longrightarrow> \<exists>h. zip_local crc n k = Inr h"
  "crc < 256 ^ 4 \<Longrightarrow> n < 256 ^ 4 \<Longrightarrow> k < 256 ^ 2 \<Longrightarrow> offset < 256 ^ 4 \<Longrightarrow> \<exists>h. zip_record crc n k offset = Inr h"
  "count < 256 ^ 2 \<Longrightarrow> n < 256 ^ 4 \<Longrightarrow> offset < 256 ^ 4 \<Longrightarrow> \<exists>h. zip_end count n offset = Inr h"
  unfolding zip_local_def zip_record_def zip_end_def
  by (rule write_fields_total; simp add: alloc_def)+

theorem zip_round_trip_witness:
  "\<exists>z. zipFromEntries [\<lparr>ze_name = js ''a'', ze_data = [1, 2]\<rparr>] = Inr z \<and> read_zip z = Some [([97], [1, 2])]"
proof -
  let ?crc = "unat (crc32 [1, 2])"
  have c: "?crc < 256 ^ 4" using unsigned_less [of "crc32 [1, 2]"] by simp
  have u: "utf8_bytes (js ''a'') = [97]"
    by (simp add: utf8_bytes_def utf8_encode_def js_def u16_def utf8_scalar_def scalar_of_def is_high_def is_low_def)
  obtain loc rec where p: "zip_local ?crc 2 1 = Inr loc" "zip_record ?crc 2 1 0 = Inr rec"
    using headers_total(1) [OF c, of 2 1] headers_total(2) [OF c, of 2 1 0] by auto
  obtain e where e: "zip_end 1 (length rec + 1) 33 = Inr e"
    using headers_total(3) [of 1 "length rec + 1" 33] zip_record_fields(1) [OF p(2)] by auto
  have z: "\<exists>z. zipFromEntries [\<lparr>ze_name = js ''a'', ze_data = [1, 2]\<rparr>] = Inr z"
    using p e by (simp add: zipFromEntries_def zip_step_def u numeral_2_eq_2)
  then obtain z where z: "zipFromEntries [\<lparr>ze_name = js ''a'', ze_data = [1, 2]\<rparr>] = Inr z" ..
  show ?thesis using zip_round_trip [OF z] z by (simp add: zip_file_def u)
qed

end
