(* ===== verification/Shapes.thy ===== *)
theory Shapes
  imports Raster
begin

text \<open>
  Brand artwork as polygons (\<open>apps/marketing-site/scripts/lib/shapes.mjs\<close>): the SVG subset of the
  lockup, its placement on the pixel grid, the flattening of TrueType contours and the boxes of the
  social card.

  Regular expressions with the global flag are scanners: \<open>scan\<close> tries a pattern at every position and
  continues after a match. A coordinate read from text may fail to be a finite number: such a value
  is \<open>None\<close>. \<open>Math.hypot\<close>, \<open>Math.cos\<close> and \<open>Math.sin\<close>, which the language leaves to the
  implementation, are parameters.
\<close>

section \<open>Scanning\<close>

function scan :: "(jstr \<Rightarrow> ('a \<times> jstr) option) \<Rightarrow> jstr \<Rightarrow> 'a list" where
  "scan m [] = []"
| "scan m (u # t) = (case m (u # t) of
       Some (x, r) \<Rightarrow> if length r < length (u # t) then x # scan m r else scan m t
     | None \<Rightarrow> scan m t)"
  by pat_completeness auto
termination by (relation "measure (length \<circ> snd)") auto

definition is_letter :: "unit16 \<Rightarrow> bool" where
  "is_letter u \<longleftrightarrow> 65 \<le> unat u \<and> unat u \<le> 90 \<or> 97 \<le> unat u \<and> unat u \<le> 122"

definition is_word_unit :: "unit16 \<Rightarrow> bool" where
  "is_word_unit u \<longleftrightarrow> is_letter u \<or> is_digit u \<or> u = u16 CHR ''_''"

definition strip_prefix :: "string \<Rightarrow> jstr \<Rightarrow> jstr option" where
  "strip_prefix p s = (if starts_with (js p) s then Some (drop (length p) s) else None)"

section \<open>Path data\<close>

text \<open>\<open>PATH_TOKEN\<close>: one of the ten commands, or a number with optional sign, point and exponent.\<close>

definition match_digits :: "jstr \<Rightarrow> (jstr \<times> jstr) option" where
  "match_digits s = (if takeWhile is_digit s = [] then None
     else Some (takeWhile is_digit s, dropWhile is_digit s))"

definition match_exponent :: "jstr \<Rightarrow> jstr \<times> jstr" where
  "match_exponent s = (case s of
       [] \<Rightarrow> ([], s)
     | e # t \<Rightarrow>
         if e \<noteq> u16 CHR ''e'' then ([], s)
         else (let sign = (if t \<noteq> [] \<and> hd t = u16 CHR ''-'' then [hd t] else [])
               in case match_digits (drop (length sign) t) of
                    None \<Rightarrow> ([], s)
                  | Some (ds, r) \<Rightarrow> (e # sign @ ds, r)))"

definition match_unsigned :: "jstr \<Rightarrow> (jstr \<times> jstr) option" where
  "match_unsigned s =
     (let ds = takeWhile is_digit s; r = dropWhile is_digit s
      in case r of
           p # t \<Rightarrow> (if p = u16 CHR ''.''
             then (case match_digits t of
                 Some (fs, r') \<Rightarrow> Some (ds @ p # fs, r')
               | None \<Rightarrow> if ds = [] then None else Some (ds, r))
             else if ds = [] then None else Some (ds, r))
         | [] \<Rightarrow> if ds = [] then None else Some (ds, r))"

definition match_path_token :: "jstr \<Rightarrow> (jstr \<times> jstr) option" where
  "match_path_token s = (case s of
       [] \<Rightarrow> None
     | u # t \<Rightarrow>
         if u \<in> set (js ''MLHVZmlhvz'') then Some ([u], t)
         else (let sign = (if u = u16 CHR ''-'' then [u] else [])
               in case match_unsigned (drop (length sign) s) of
                    None \<Rightarrow> None
                  | Some (n, r) \<Rightarrow> (case match_exponent r of (e, r') \<Rightarrow> Some (sign @ n @ e, r'))))"

definition path_tokens :: "jstr \<Rightarrow> jstr list" where
  "path_tokens definition' = scan match_path_token definition'"

record path_state =
  ps_polygons :: "polygon list"
  ps_current :: "polygon option"
  ps_command :: jstr
  ps_x :: rat
  ps_y :: rat

definition take_number :: "jstr list \<Rightarrow> exn + (rat \<times> jstr list)" where
  "take_number ts = (case ts of
       [] \<Rightarrow> Inl (OtherError (js ''unexpected token in path data''))
     | t # r \<Rightarrow> (case string_to_num t of
           Fin v \<Rightarrow> Inr (v, r)
         | _ \<Rightarrow> Inl (OtherError (js ''unexpected token in path data''))))"

definition close_polygon :: "path_state \<Rightarrow> path_state" where
  "close_polygon st = st\<lparr>ps_polygons := ps_polygons st @
       (case ps_current st of None \<Rightarrow> [] | Some p \<Rightarrow> if 1 < length p then [p] else []),
     ps_current := None\<rparr>"

definition push_point :: "path_state \<Rightarrow> path_state" where
  "push_point st = st\<lparr>ps_current := map_option (\<lambda>p. p @ [(ps_x st, ps_y st)]) (ps_current st)\<rparr>"

text \<open>The body of the \<open>switch\<close>, for the command in force.\<close>

definition path_command :: "path_state \<Rightarrow> jstr list \<Rightarrow> exn + (path_state \<times> jstr list)" where
  "path_command st ts =
     (let c = ps_command st in
      if c = js ''M'' \<or> c = js ''m'' then
        (let st1 = close_polygon st in
         and_then (take_number ts) (\<lambda>(dx, ts1).
         and_then (take_number ts1) (\<lambda>(dy, ts2).
         let x = (if c = js ''M'' then dx else ps_x st1 + dx); y = (if c = js ''M'' then dy else ps_y st1 + dy)
         in Inr (st1\<lparr>ps_x := x, ps_y := y, ps_current := Some [(x, y)]\<rparr>, ts2))))
      else if c = js ''L'' \<or> c = js ''l'' then
        and_then (take_number ts) (\<lambda>(dx, ts1).
        and_then (take_number ts1) (\<lambda>(dy, ts2).
        Inr (push_point (st\<lparr>ps_x := (if c = js ''L'' then dx else ps_x st + dx),
               ps_y := (if c = js ''L'' then dy else ps_y st + dy)\<rparr>), ts2)))
      else if c = js ''H'' \<or> c = js ''h'' then
        and_then (take_number ts) (\<lambda>(dx, ts1).
        Inr (push_point (st\<lparr>ps_x := (if c = js ''H'' then dx else ps_x st + dx)\<rparr>), ts1))
      else if c = js ''V'' \<or> c = js ''v'' then
        and_then (take_number ts) (\<lambda>(dy, ts1).
        Inr (push_point (st\<lparr>ps_y := (if c = js ''V'' then dy else ps_y st + dy)\<rparr>), ts1))
      else Inl (OtherError (js ''unsupported path command'')))"

lemma take_number_shorter: "take_number ts = Inr (v, r) \<Longrightarrow> length r < length ts"
  by (auto simp: take_number_def split: list.splits jnum.splits)

lemma path_command_shorter: "path_command st ts = Inr (st', r) \<Longrightarrow> length r < length ts"
  unfolding path_command_def Let_def
  by (auto simp: and_then_Inr split: if_splits dest!: take_number_shorter)

function path_loop :: "path_state \<Rightarrow> jstr list \<Rightarrow> exn + path_state" where
  "path_loop st [] = Inr st"
| "path_loop st (t # ts) =
     (if list_ex is_letter t then
        (let st1 = st\<lparr>ps_command := t\<rparr> in
         if t = js ''Z'' \<or> t = js ''z'' then path_loop (close_polygon st1) ts
         else case path_command st1 ts of
           Inl e \<Rightarrow> Inl e
         | Inr (st2, ts2) \<Rightarrow> path_loop st2 ts2)
      else
        (let st1 = (if ps_command st = js ''M'' then st\<lparr>ps_command := js ''L''\<rparr>
                    else if ps_command st = js ''m'' then st\<lparr>ps_command := js ''l''\<rparr> else st)
         in case path_command st1 (t # ts) of
              Inl e \<Rightarrow> Inl e
            | Inr (st2, ts2) \<Rightarrow> path_loop st2 ts2))"
  by pat_completeness auto
termination
  by (relation "measure (length \<circ> snd)") (auto dest!: path_command_shorter simp: less_Suc_eq)

definition parsePathData :: "jstr \<Rightarrow> exn + polygon list" where
  "parsePathData definition' =
     map_sum id (ps_polygons \<circ> close_polygon)
       (path_loop \<lparr>ps_polygons = [], ps_current = None, ps_command = [], ps_x = 0, ps_y = 0\<rparr> (path_tokens definition'))"

section \<open>SVG documents\<close>

text \<open>A number that may not be finite. \<open>None\<close> stands for every value that is not: sums and products with
  such a value are not finite either.\<close>

type_synonym num = "rat option"
type_synonym num_point = "num \<times> num"
type_synonym num_polygon = "num_point list"

definition fin_of :: "jnum \<Rightarrow> num" where
  "fin_of n = (case n of Fin r \<Rightarrow> Some r | _ \<Rightarrow> None)"

definition num_plus :: "num \<Rightarrow> num \<Rightarrow> num" where
  "num_plus a b = (case (a, b) of (Some x, Some y) \<Rightarrow> Some (x + y) | _ \<Rightarrow> None)"

definition half_sum :: "num \<Rightarrow> num \<Rightarrow> num" where
  "half_sum a b = map_option (\<lambda>x. x / 2) (num_plus a b)"

record SvgShape =
  sv_fill :: jstr
  sv_polygons :: "num_polygon list"

record svg =
  sv_width :: num
  sv_height :: num
  sv_shapes :: "SvgShape list"

text \<open>\<open>ATTRIBUTE\<close>: a name and a quoted value.\<close>

definition match_attribute :: "jstr \<Rightarrow> ((jstr \<times> jstr) \<times> jstr) option" where
  "match_attribute s =
     (if s = [] \<or> \<not> is_word_unit (hd s) then None
      else let inside = (\<lambda>u. is_word_unit u \<or> u = u16 CHR ''-'');
               name = takeWhile inside s
           in case strip_prefix [CHR ''='', CHR 0x22] (dropWhile inside s) of
                None \<Rightarrow> None
              | Some r \<Rightarrow>
                  (case dropWhile (\<lambda>u. u \<noteq> u16 CHR 0x22) r of
                     [] \<Rightarrow> None
                   | q # t \<Rightarrow> Some ((name, takeWhile (\<lambda>u. u \<noteq> u16 CHR 0x22) r), t)))"

definition attributesOf :: "jstr \<Rightarrow> jstr \<Rightarrow> jstr option" where
  "attributesOf tag = map_of (rev (scan match_attribute tag))"

text \<open>A tag from its opening up to the first \<open>>\<close>; the name ends at a word boundary.\<close>

definition match_open :: "string \<Rightarrow> jstr \<Rightarrow> (jstr \<times> jstr) option" where
  "match_open opening s = (case strip_prefix opening s of
       None \<Rightarrow> None
     | Some r \<Rightarrow>
         if r \<noteq> [] \<and> is_word_unit (hd r) then None
         else (case dropWhile (\<lambda>u. u \<noteq> u16 CHR ''>'') r of
             [] \<Rightarrow> None
           | q # t \<Rightarrow> Some (js opening @ takeWhile (\<lambda>u. u \<noteq> u16 CHR ''>'') r @ [q], t)))"

definition match_node :: "jstr \<Rightarrow> (jstr \<times> jstr) option" where
  "match_node s = (case match_open ''<g'' s of
       Some x \<Rightarrow> Some x
     | None \<Rightarrow> (case strip_prefix ''</g>'' s of
         Some r \<Rightarrow> Some (js ''</g>'', r)
       | None \<Rightarrow> (case match_open ''<path'' s of
           Some (tag, r) \<Rightarrow> if drop (length tag - 2) tag = js ''/>'' then Some (tag, r) else None
         | None \<Rightarrow> None)))"

definition match_signed :: "jstr \<Rightarrow> (jstr \<times> jstr) option" where
  "match_signed s =
     (let sign = (if s \<noteq> [] \<and> hd s = u16 CHR ''-'' then [hd s] else []);
          inside = (\<lambda>u. is_digit u \<or> u = u16 CHR ''.'');
          r = drop (length sign) s
      in if takeWhile inside r = [] then None else Some (sign @ takeWhile inside r, dropWhile inside r))"

definition match_translate :: "jstr \<Rightarrow> ((jstr \<times> jstr) \<times> jstr) option" where
  "match_translate s = (case strip_prefix ''translate('' s of
       None \<Rightarrow> None
     | Some r \<Rightarrow> (case match_signed (dropWhile is_space r) of
         None \<Rightarrow> None
       | Some (a, r1) \<Rightarrow>
           (let separator = (\<lambda>u. is_space u \<or> u = u16 CHR '','') in
            if takeWhile separator r1 = [] then None
            else case match_signed (dropWhile separator r1) of
                None \<Rightarrow> None
              | Some (b, r2) \<Rightarrow> (case strip_prefix '')'' (dropWhile is_space r2) of
                  None \<Rightarrow> None
                | Some r3 \<Rightarrow> Some ((a, b), r3)))))"

definition TRANSLATE :: "jstr \<Rightarrow> (jstr \<times> jstr) option" where
  "TRANSLATE transform = (case scan match_translate transform of [] \<Rightarrow> None | m # _ \<Rightarrow> Some m)"

lemma split_runs_shorter:
  assumes "dropWhile (\<lambda>u. \<not> sep u) s \<noteq> []"
  shows "length (dropWhile sep (dropWhile (\<lambda>u. \<not> sep u) s)) < length s"
proof -
  obtain c r where cr: "dropWhile (\<lambda>u. \<not> sep u) s = c # r" using assms by (cases "dropWhile (\<lambda>u. \<not> sep u) s") auto
  then have "sep c" by (metis dropWhile_eq_Cons_conv)
  have "length (dropWhile sep r) \<le> length r" by (rule length_dropWhile_le)
  moreover have "length (c # r) \<le> length s" unfolding cr [symmetric] by (rule length_dropWhile_le)
  ultimately show ?thesis using \<open>sep c\<close> by (simp add: cr)
qed

text \<open>\<open>split(/[\s,]+/)\<close>\<close>

function split_runs :: "(unit16 \<Rightarrow> bool) \<Rightarrow> jstr \<Rightarrow> jstr list" where
  "split_runs sep s =
     (let r = dropWhile (\<lambda>u. \<not> sep u) s in
      if r = [] then [takeWhile (\<lambda>u. \<not> sep u) s]
      else takeWhile (\<lambda>u. \<not> sep u) s # split_runs sep (dropWhile sep r))"
  by pat_completeness auto
termination
proof (relation "measure (length \<circ> snd)")
  show "((sep, dropWhile sep r), (sep, s)) \<in> measure (length \<circ> snd)"
    if "r = dropWhile (\<lambda>u. \<not> sep u) s" "r \<noteq> []" for sep s r
    using that split_runs_shorter [of sep s] by simp
qed simp

declare split_runs.simps [simp del]

definition viewBox_numbers :: "jstr \<Rightarrow> jnum list" where
  "viewBox_numbers v = map string_to_num (split_runs (\<lambda>u. is_space u \<or> u = u16 CHR '','') v)"

text \<open>The state of the reading loop: the offsets of the open groups, innermost first, and the shapes.\<close>

definition shift_polygon :: "num_point \<Rightarrow> polygon \<Rightarrow> num_polygon" where
  "shift_polygon off p = map (\<lambda>(px, py). (num_plus (Some px) (fst off), num_plus (Some py) (snd off))) p"

definition svg_node :: "jstr \<Rightarrow> num_point list \<times> SvgShape list \<Rightarrow> exn + num_point list \<times> SvgShape list" where
  "svg_node tag st = (case st of (stack, shapes) \<Rightarrow>
     if tag = js ''</g>'' then
       (if length stack = 1 then Inl (OtherError (js ''unbalanced </g>'')) else Inr (tl stack, shapes))
     else let off = hd stack in
       if starts_with (js ''<g'') tag then
         (let transform = (case attributesOf tag (js ''transform'') of None \<Rightarrow> [] | Some t \<Rightarrow> t) in
          if transform \<noteq> [] \<and> TRANSLATE transform = None
          then Inl (OtherError (js ''unsupported group transform''))
          else Inr ((case TRANSLATE transform of
                Some (a, b) \<Rightarrow> (num_plus (fst off) (fin_of (string_to_num a)), num_plus (snd off) (fin_of (string_to_num b)))
              | None \<Rightarrow> off) # stack, shapes))
       else case attributesOf tag (js ''d'') of
           None \<Rightarrow> Inl (OtherError (js ''path is missing d''))
         | Some d \<Rightarrow>
             if d = [] then Inl (OtherError (js ''path is missing d''))
             else (case attributesOf tag (js ''fill'') of
                 None \<Rightarrow> Inl (OtherError (js ''path is missing a fill''))
               | Some fill \<Rightarrow>
                   if fill = [] \<or> fill = js ''none'' then Inl (OtherError (js ''path is missing a fill''))
                   else and_then (parsePathData d) (\<lambda>ps.
                     Inr (stack, shapes @ [\<lparr>sv_fill = fill, sv_polygons = map (shift_polygon off) ps\<rparr>]))))"

definition loadSvg :: "jstr \<Rightarrow> exn + svg" where
  "loadSvg source = (case scan (match_open ''<svg'') source of
       [] \<Rightarrow> Inl (OtherError (js ''file is not an SVG''))
     | svgTag # _ \<Rightarrow>
         (let viewBox = viewBox_numbers (case attributesOf svgTag (js ''viewBox'') of None \<Rightarrow> [] | Some v \<Rightarrow> v) in
          if length viewBox \<noteq> 4 then Inl (OtherError (js ''SVG needs a viewBox''))
          else and_then (fold_try svg_node (scan match_node source) ([(Some 0, Some 0)], [])) (\<lambda>(stack, shapes).
            if length stack \<noteq> 1 then Inl (OtherError (js ''unbalanced <g>''))
            else Inr \<lparr>sv_width = fin_of (viewBox ! 2), sv_height = fin_of (viewBox ! 3), sv_shapes = shapes\<rparr>)))"

section \<open>Placement\<close>

definition place_num :: "rat \<Rightarrow> rat \<Rightarrow> num \<Rightarrow> num" where
  "place_num origin scale v = map_option (\<lambda>p. origin + p * scale) v"

definition placeSvg :: "svg \<Rightarrow> rat \<Rightarrow> rat \<Rightarrow> rat \<Rightarrow> svg" where
  "placeSvg sv x y scale =
     \<lparr>sv_width = map_option (\<lambda>w. w * scale) (sv_width sv), sv_height = map_option (\<lambda>h. h * scale) (sv_height sv),
      sv_shapes = map (\<lambda>shape. \<lparr>sv_fill = sv_fill shape,
        sv_polygons = map (map (\<lambda>(px, py). (place_num x scale px, place_num y scale py))) (sv_polygons shape)\<rparr>)
        (sv_shapes sv)\<rparr>"

text \<open>The loop of \<open>gcd\<close>, on the absolute values of whole numbers.\<close>

function js_gcd :: "nat \<Rightarrow> nat \<Rightarrow> nat" where
  "js_gcd a b = (if b = 0 then a else js_gcd b (a mod b))"
  by pat_completeness auto
termination by (relation "measure snd") auto

declare js_gcd.simps [simp del]

definition isInteger :: "num \<Rightarrow> bool" where
  "isInteger v = (case v of None \<Rightarrow> False | Some r \<Rightarrow> of_int \<lfloor>r\<rfloor> = r)"

definition svg_numbers :: "svg \<Rightarrow> num list" where
  "svg_numbers sv = concat (map (\<lambda>(a, b). [a, b]) (concat (concat (map sv_polygons (sv_shapes sv)))))"

fun unit_loop :: "num list \<Rightarrow> nat \<Rightarrow> nat" where
  "unit_loop [] u = (if u = 0 then 1 else u)"
| "unit_loop (v # vs) u = (if \<not> isInteger v then 1 else unit_loop vs (js_gcd u (nat \<lfloor>\<bar>the v\<bar>\<rfloor>)))"

definition gridUnitOf :: "svg \<Rightarrow> nat" where
  "gridUnitOf sv = unit_loop (svg_numbers sv) 0"

section \<open>Boxes\<close>

record box =
  bx_x :: rat
  bx_y :: rat
  bx_width :: rat
  bx_height :: rat

definition rectangle :: "box \<Rightarrow> polygon" where
  "rectangle b =
     (let x = bx_x b; y = bx_y b; w = bx_width b; h = bx_height b
      in [(x, y), (x + w, y), (x + w, y + h), (x, y + h)])"

text \<open>\<open>Math.PI\<close> and the two trigonometric functions, as the implementation gives them.\<close>

record trigonometry =
  tr_pi :: rat
  tr_cos :: "rat \<Rightarrow> rat"
  tr_sin :: "rat \<Rightarrow> rat"

definition roundedRectangle :: "trigonometry \<Rightarrow> box \<Rightarrow> rat \<Rightarrow> polygon" where
  "roundedRectangle tr b radius =
     (let x = bx_x b; y = bx_y b; w = bx_width b; h = bx_height b;
          r = min radius (min (w / 2) (h / 2))
      in if r \<le> 0 then rectangle b
         else let steps = max 4 (nat \<lceil>r\<rceil>);
                  corners = [(x + w - r, y + r, - tr_pi tr / 2), (x + w - r, y + h - r, 0),
                             (x + r, y + h - r, tr_pi tr / 2), (x + r, y + r, tr_pi tr)]
              in concat (map (\<lambda>(cx, cy, from). map (\<lambda>step.
                     let angle = from + of_nat step / of_nat steps * (tr_pi tr / 2)
                     in (cx + r * tr_cos tr angle, cy + r * tr_sin tr angle)) [0..<Suc steps]) corners))"

definition frame :: "box \<Rightarrow> rat \<Rightarrow> polygon list" where
  "frame b t =
     (let x = bx_x b; y = bx_y b; w = bx_width b; h = bx_height b
      in [rectangle \<lparr>bx_x = x, bx_y = y, bx_width = w, bx_height = t\<rparr>,
          rectangle \<lparr>bx_x = x, bx_y = y + h - t, bx_width = w, bx_height = t\<rparr>,
          rectangle \<lparr>bx_x = x, bx_y = y + t, bx_width = t, bx_height = h - t * 2\<rparr>,
          rectangle \<lparr>bx_x = x + w - t, bx_y = y + t, bx_width = t, bx_height = h - t * 2\<rparr>])"

section \<open>The pixel grid\<close>

lemma js_gcd_gcd: "js_gcd a b = gcd a b"
proof (induction a b rule: js_gcd.induct)
  case (1 a b)
  show ?case
  proof (cases "b = 0")
    case True
    then show ?thesis by (simp add: js_gcd.simps [of a 0])
  next
    case False
    with 1 have "js_gcd a b = gcd b (a mod b)" by (simp add: js_gcd.simps [of a b])
    then show ?thesis by (metis gcd_red_nat)
  qed
qed

lemma isInteger_iff: "isInteger v \<longleftrightarrow> (\<exists>i. v = Some (of_int i))"
  unfolding isInteger_def by (cases v) (auto intro: sym)

lemma dvd_gcd_cases:
  fixes d u i :: nat
  assumes "gcd u i = 0 \<or> d dvd gcd u i"
  shows "d dvd u" "d dvd i"
  using assms by (auto simp: gcd_greatest_iff)

lemma unit_loop_divides:
  "list_all isInteger vs \<Longrightarrow> (\<forall>v \<in> set vs. \<exists>i. v = Some (of_int (i * int (unit_loop vs u)))) \<and>
     (u = 0 \<or> unit_loop vs u dvd u) \<and> 0 < unit_loop vs u"
proof (induction vs arbitrary: u)
  case (Cons v vs)
  from Cons.prems obtain i where v: "v = Some (of_int i)" by (auto simp: isInteger_iff)
  define w where "w = gcd u (nat \<bar>i\<bar>)"
  define d where "d = unit_loop vs w"
  have step: "unit_loop (v # vs) u = d"
    by (simp add: v isInteger_def js_gcd_gcd d_def w_def flip: of_int_abs)
  from Cons.prems have "list_all isInteger vs" by simp
  from Cons.IH [OF this, of w] have IH: "\<forall>v \<in> set vs. \<exists>j. v = Some (of_int (j * int d))"
    "w = 0 \<or> d dvd w" "0 < d" unfolding d_def by blast+
  from dvd_gcd_cases [OF IH(2) [unfolded w_def]] have d: "d dvd u" "d dvd nat \<bar>i\<bar>" .
  then have "int d dvd i" by (metis abs_ge_zero dvd_abs_iff int_dvd_int_iff nat_0_le)
  then obtain j where "i = j * int d" by (metis dvd_def mult.commute)
  with v have "\<exists>j. v = Some (of_int (j * int d))" by blast
  with IH(1,3) d(1) show ?case unfolding step by simp
qed auto

lemma unit_loop_fractions: "\<not> list_all isInteger vs \<Longrightarrow> unit_loop vs u = 1"
  by (induction vs arbitrary: u) auto

lemma placed_numbers:
  "v \<in> set (svg_numbers (placeSvg sv x y scale)) \<Longrightarrow>
     \<exists>w \<in> set (svg_numbers sv). v = place_num x scale w \<or> v = place_num y scale w"
  by (fastforce simp: svg_numbers_def placeSvg_def)

lemma place_integer:
  assumes "v = Some (of_int (i * int u))" "isInteger (Some (of_nat u * scale))" "isInteger (Some origin)"
  shows "isInteger (place_num origin scale v)"
proof -
  from assms(2,3) obtain j k where j: "of_nat u * scale = of_int j" and k: "origin = of_int k"
    by (auto simp: isInteger_iff)
  have "origin + of_int (i * int u) * scale = of_int k + of_int i * (of_nat u * scale)"
    by (simp add: k algebra_simps)
  also have "\<dots> = of_int (k + i * j)" by (simp add: j)
  finally have "place_num origin scale v = Some (of_int (k + i * j))"
    by (simp only: place_num_def assms(1) option.map)
  then show ?thesis unfolding isInteger_iff by blast
qed

text \<open>Placement keeps pixel art sharp. When the grid unit of an SVG times the scale is whole, which
  the card checks before it draws the lockup, a whole origin puts every coordinate on a pixel boundary.
  The check alone suffices for a fractional scale such as the card's 1.5, since artwork off the grid has
  unit one and fails it; for a whole scale the coordinates themselves have to be whole.\<close>

theorem placement_on_grid:
  assumes "isInteger (Some (of_nat (gridUnitOf sv) * scale))"
    and "isInteger (Some scale) \<longrightarrow> list_all isInteger (svg_numbers sv)"
    and "isInteger (Some x)" and "isInteger (Some y)"
  shows "list_all isInteger (svg_numbers (placeSvg sv x y scale))"
proof -
  have whole: "list_all isInteger (svg_numbers sv)"
  proof (rule ccontr)
    assume "\<not> ?thesis"
    with unit_loop_fractions have "gridUnitOf sv = 1" by (simp add: gridUnitOf_def)
    with assms(1,2) \<open>\<not> ?thesis\<close> show False by simp
  qed
  from unit_loop_divides [OF whole, of 0]
  have "\<forall>v \<in> set (svg_numbers sv). \<exists>i. v = Some (of_int (i * int (gridUnitOf sv)))"
    unfolding gridUnitOf_def by blast
  with placed_numbers place_integer assms(1,3,4) show ?thesis
    unfolding list_all_iff by metis
qed

definition sample_mark :: svg where
  "sample_mark = \<lparr>sv_width = Some 294, sv_height = Some 42,
     sv_shapes = [\<lparr>sv_fill = js ''#F1ECEC'',
       sv_polygons = [[(Some 56, Some 6), (Some 62, Some 6), (Some 62, Some 30), (Some 56, Some 30)]]\<rparr>]\<rparr>"

theorem placement_on_grid_witness:
  "gridUnitOf sample_mark = 2 \<and>
   list_all isInteger (svg_numbers (placeSvg sample_mark 104 72 (3 / 2)))"
proof -
  have u: "gridUnitOf sample_mark = 2"
    by code_simp
  moreover have "isInteger (Some (of_nat (gridUnitOf sample_mark) * (3 / 2)))" by (simp add: u isInteger_def)
  moreover have "list_all isInteger (svg_numbers sample_mark)" by code_simp
  ultimately show ?thesis
    using placement_on_grid [of sample_mark "3 / 2" 104 72] by (simp add: isInteger_def)
qed

section \<open>Path data\<close>

text \<open>Every polygon a path gives has at least two points: degenerate subpaths are dropped.\<close>

definition proper :: "path_state \<Rightarrow> bool" where
  "proper st \<longleftrightarrow> list_all (\<lambda>p. 2 \<le> length p) (ps_polygons st)"

lemma close_polygon_proper [simp]: "proper (close_polygon st) \<longleftrightarrow> proper st"
  by (auto simp: proper_def close_polygon_def split: option.splits)

lemma push_point_proper [simp]: "proper (push_point st) \<longleftrightarrow> proper st"
  by (simp add: proper_def push_point_def)

lemma proper_update [simp]:
  "proper (st\<lparr>ps_x := a\<rparr>) = proper st" "proper (st\<lparr>ps_y := b\<rparr>) = proper st"
  "proper (st\<lparr>ps_current := c\<rparr>) = proper st" "proper (st\<lparr>ps_command := d\<rparr>) = proper st"
  by (simp_all add: proper_def)

lemma path_command_proper: "path_command st ts = Inr (st', r) \<Longrightarrow> proper st \<Longrightarrow> proper st'"
  unfolding path_command_def Let_def by (auto simp: and_then_Inr split: if_splits)

lemma path_loop_proper: "path_loop st ts = Inr st' \<Longrightarrow> proper st \<Longrightarrow> proper st'"
proof (induction st ts arbitrary: st' rule: path_loop.induct)
  case (2 st t ts)
  let ?st = "if ps_command st = js ''M'' then st\<lparr>ps_command := js ''L''\<rparr>
      else if ps_command st = js ''m'' then st\<lparr>ps_command := js ''l''\<rparr> else st"
  have st: "proper ?st" using "2.prems"(2) by simp
  show ?case
  proof (cases "list_ex is_letter t")
    case letter: True
    show ?thesis
    proof (cases "t = js ''Z'' \<or> t = js ''z''")
      case True
      then show ?thesis using "2.prems" "2.IH"(1) [OF letter refl True] letter by auto
    next
      case False
      with "2.prems"(1) letter obtain st2 ts2 where c: "path_command (st\<lparr>ps_command := t\<rparr>) ts = Inr (st2, ts2)"
        "path_loop st2 ts2 = Inr st'" by (auto simp: Let_def split: sum.splits)
      from path_command_proper [OF c(1)] "2.prems"(2) have "proper st2" by simp
      with "2.IH"(2) [OF letter refl False c(1) refl c(2)] show ?thesis .
    qed
  next
    case False
    with "2.prems"(1) obtain st2 ts2 where c: "path_command ?st (t # ts) = Inr (st2, ts2)"
      "path_loop st2 ts2 = Inr st'" by (auto simp: Let_def split: sum.splits)
    from path_command_proper [OF c(1) st] have "proper st2" .
    with "2.IH"(3) [OF False refl c(1) refl c(2)] show ?thesis .
  qed
qed simp

lemma parsePathData_proper: "parsePathData d = Inr ps \<Longrightarrow> list_all (\<lambda>p. 2 \<le> length p) ps"
  using path_loop_proper [of "\<lparr>ps_polygons = [], ps_current = None, ps_command = [], ps_x = 0, ps_y = 0\<rparr>" "path_tokens d"]
    close_polygon_proper
  by (auto simp: parsePathData_def proper_def map_sum_def split: sum.splits)

text \<open>A curve command is not reported as unsupported: the token scanner skips its letter, and the control
  points become corners.\<close>

lemma curve_command_dropped:
  "parsePathData (js ''M0 0C1 1 2 2 3 3'') = Inr [[(0, 0), (1, 1), (2, 2), (3, 3)]]"
  by code_simp

text \<open>A number with an exponent is one token; where it opens an implicit repetition, its letter makes the
  loop take it for a command.\<close>

lemma exponent_rejected:
  "path_tokens (js ''M0 0H1e1'') = [js ''M'', js ''0'', js ''0'', js ''H'', js ''1e1'']"
  "parsePathData (js ''M0 0 1e1 0'') = Inl (OtherError (js ''unsupported path command''))"
  by code_simp+

end
