(* ===== verification/Brand_Assets.thy ===== *)
theory Brand_Assets
  imports Zip Shapes
begin

text \<open>
  The brand download script (\<open>apps/marketing-site/scripts/generate-brand-assets.mjs\<close>): dark variants,
  the wordmark cut from the lockup, the exact RGBA rasteriser, its PNG writer, and the list of files
  with the archive of all of them. The script repeats the checksum and the chunk writer of \<open>raster.mjs\<close>
  word for word; the model uses the same definitions.

  Artwork with a coordinate or a size that is not finite ends in whatever the engine's sort and
  allocation do with \<open>NaN\<close>: that outcome is the parameter \<open>engine\<close>. The files the script reads and writes are
  UTF-8 text without lone surrogates, so reading a written SVG gives the text back.
\<close>

section \<open>SVG variants\<close>

definition DARK_VARIANT :: "(string \<times> string) list" where
  "DARK_VARIANT =
     [(''#F1ECEC'', ''#171212''), (''#B7B1B1'', ''#4B4646''), (''#847E7E'', ''#847E7E''), (''#4B4646'', ''#B7B1B1'')]"

definition dark_color :: "jstr \<Rightarrow> jstr option" where
  "dark_color s = (case find (\<lambda>(c, d). starts_with (js c) s) DARK_VARIANT of
       None \<Rightarrow> None
     | Some (c, d) \<Rightarrow> Some (js d))"

text \<open>\<open>replace\<close> with a global pattern of seven units: leftmost matches, each replaced.\<close>

function toDarkVariant :: "jstr \<Rightarrow> jstr" where
  "toDarkVariant [] = []"
| "toDarkVariant (u # s) = (case dark_color (u # s) of
       Some d \<Rightarrow> d @ toDarkVariant (drop 7 (u # s))
     | None \<Rightarrow> u # toDarkVariant s)"
  by pat_completeness auto
termination by (relation "measure length") auto

text \<open>The text behind the first occurrence of a marker, and the text up to one.\<close>

fun behind :: "jstr \<Rightarrow> jstr \<Rightarrow> jstr option" where
  "behind p [] = (if p = [] then Some [] else None)"
| "behind p (u # s) = (if starts_with p (u # s) then Some (drop (length p) (u # s)) else behind p s)"

fun before :: "jstr \<Rightarrow> jstr \<Rightarrow> jstr option" where
  "before p [] = (if p = [] then Some [] else None)"
| "before p (u # s) = (if starts_with p (u # s) then Some [] else map_option ((#) u) (before p s))"

definition newline :: jstr where "newline = [10]"

definition quoted :: "string \<Rightarrow> string \<Rightarrow> jstr" where
  "quoted name v = js name @ [u16 CHR ''='', u16 CHR 0x22] @ js v @ [u16 CHR 0x22]"

definition wordmark_head :: jstr where
  "wordmark_head = js ''<svg '' @ quoted ''width'' ''294'' @ js '' '' @ quoted ''height'' ''42'' @ js '' '' @
     quoted ''viewBox'' ''0 0 294 42'' @ js '' '' @ quoted ''fill'' ''none'' @ js '' '' @
     quoted ''xmlns'' ''http://www.w3.org/2000/svg'' @ js ''>''"

definition wordmarkFromLockup :: "jstr \<Rightarrow> exn + jstr" where
  "wordmarkFromLockup source =
     (case Option.bind (behind (js ''<g '' @ quoted ''transform'' ''translate(56 0)'' @ js ''>'') source) (before (js ''</g>'')) of
        None \<Rightarrow> Inl (OtherError (js ''lockup.svg is missing the wordmark group''))
      | Some inner \<Rightarrow> Inr (wordmark_head @ newline @ js ''  <g>'' @ inner @ js ''</g>'' @ newline @ js ''</svg>'' @ newline))"

record asset =
  as_stem :: jstr
  as_source :: jstr
  as_scale :: rat

definition brand_assets :: "jstr \<Rightarrow> jstr \<Rightarrow> jstr \<Rightarrow> asset list" where
  "brand_assets iconSource wordmarkSource lockupSource =
     [\<lparr>as_stem = js ''fissionplane-icon-light'', as_source = iconSource, as_scale = 16\<rparr>,
      \<lparr>as_stem = js ''fissionplane-icon-dark'', as_source = toDarkVariant iconSource, as_scale = 16\<rparr>,
      \<lparr>as_stem = js ''fissionplane-wordmark-light'', as_source = wordmarkSource, as_scale = 6\<rparr>,
      \<lparr>as_stem = js ''fissionplane-wordmark-dark'', as_source = toDarkVariant wordmarkSource, as_scale = 6\<rparr>,
      \<lparr>as_stem = js ''fissionplane-lockup-light'', as_source = lockupSource, as_scale = 6\<rparr>,
      \<lparr>as_stem = js ''fissionplane-lockup-dark'', as_source = toDarkVariant lockupSource, as_scale = 6\<rparr>]"

section \<open>The RGBA rasteriser\<close>

type_synonym rgb_bytes = "byte \<times> byte \<times> byte"

definition without_hash :: "jstr \<Rightarrow> jstr" where
  "without_hash v = (case dropWhile (\<lambda>u. u \<noteq> u16 CHR 0x23) v of
       [] \<Rightarrow> v
     | h # t \<Rightarrow> takeWhile (\<lambda>u. u \<noteq> u16 CHR 0x23) v @ t)"

definition hex_pair :: "jstr \<Rightarrow> nat \<Rightarrow> byte" where
  "hex_pair digits i = word_of_nat (the (hex_value (digits ! i)) * 16 + the (hex_value (digits ! (i + 1))))"

definition hex_digits :: "jstr \<Rightarrow> bool" where
  "hex_digits digits \<longleftrightarrow> length digits = 6 \<and> list_all (\<lambda>u. hex_value u \<noteq> None) digits"

definition hexRgb :: "jstr \<Rightarrow> exn + rgb_bytes" where
  "hexRgb v =
     (let digits = without_hash v
      in if hex_digits digits then Inr (hex_pair digits 0, hex_pair digits 2, hex_pair digits 4)
         else Inl (OtherError (js ''unsupported color'')))"

definition js_round :: "rat \<Rightarrow> int" where
  "js_round x = \<lfloor>x + 1 / 2\<rfloor>"

definition put_rgba :: "rgb_bytes \<Rightarrow> nat \<Rightarrow> buffer \<Rightarrow> buffer" where
  "put_rgba color k rgba = (case color of (red, green, blue) \<Rightarrow>
     rgba[k * 4 := red, k * 4 + 1 := green, k * 4 + 2 := blue, k * 4 + 3 := 255])"

definition fill_span :: "nat \<Rightarrow> nat \<Rightarrow> rgb_bytes \<Rightarrow> rat \<times> rat \<Rightarrow> buffer \<Rightarrow> buffer" where
  "fill_span width row color sp rgba = (case sp of (spanStart, spanEnd) \<Rightarrow>
     fold (\<lambda>x. put_rgba color (row * width + x))
       [nat (max 0 (js_round spanStart))..<nat (min (int width) (js_round spanEnd))] rgba)"

definition fill_row :: "nat \<Rightarrow> edge list \<Rightarrow> rgb_bytes \<Rightarrow> nat \<Rightarrow> buffer \<Rightarrow> buffer" where
  "fill_row width es color row rgba =
     fold (fill_span width row color) (sample_spans es (of_nat row + 1 / 2)) rgba"

definition fill_polygons :: "nat \<Rightarrow> nat \<Rightarrow> polygon list \<Rightarrow> rgb_bytes \<Rightarrow> buffer \<Rightarrow> buffer" where
  "fill_polygons width height polygons color rgba =
     fold (fill_row width (edges_of polygons) color) [0..<height] rgba"

definition pngFromRgba :: "(buffer \<Rightarrow> buffer) \<Rightarrow> buffer \<Rightarrow> nat \<Rightarrow> nat \<Rightarrow> exn + buffer" where
  "pngFromRgba deflate rgba width height =
     png_file deflate width height 6
       (concat (map (\<lambda>row. 0 # take (width * 4) (drop (row * (width * 4)) rgba)) [0..<height]))"

text \<open>Finite artwork: whole sizes that are not negative, and finite coordinates.\<close>

definition finite_polygons :: "num_polygon list \<Rightarrow> polygon list option" where
  "finite_polygons ps =
     (if list_all (list_all (\<lambda>(x, y). x \<noteq> None \<and> y \<noteq> None)) ps
      then Some (map (map (\<lambda>(x, y). (the x, the y))) ps) else None)"

definition image_side :: "num \<Rightarrow> nat option" where
  "image_side v = (case v of None \<Rightarrow> None | Some r \<Rightarrow> if 0 \<le> js_round r then Some (nat (js_round r)) else None)"

definition fill_shape :: "nat \<Rightarrow> nat \<Rightarrow> jstr \<times> polygon list \<Rightarrow> buffer \<Rightarrow> exn + buffer" where
  "fill_shape width height shape rgba =
     and_then (hexRgb (fst shape)) (\<lambda>color. Inr (fill_polygons width height (snd shape) color rgba))"

definition rasterize_svg :: "(buffer \<Rightarrow> buffer) \<Rightarrow> (svg \<Rightarrow> exn + buffer) \<Rightarrow> svg \<Rightarrow> exn + buffer" where
  "rasterize_svg deflate engine sv =
     (case (image_side (sv_width sv), image_side (sv_height sv)) of
        (Some width, Some height) \<Rightarrow>
          if list_ex (\<lambda>s. finite_polygons (sv_polygons s) = None) (sv_shapes sv) then engine sv
          else and_then (fold_try (fill_shape width height)
                 (map (\<lambda>s. (sv_fill s, the (finite_polygons (sv_polygons s)))) (sv_shapes sv))
                 (alloc (width * height * 4)))
               (\<lambda>rgba. pngFromRgba deflate rgba width height)
      | _ \<Rightarrow> engine sv)"

definition rasterize :: "(buffer \<Rightarrow> buffer) \<Rightarrow> (svg \<Rightarrow> exn + buffer) \<Rightarrow> jstr \<Rightarrow> rat \<Rightarrow> exn + buffer" where
  "rasterize deflate engine source scale =
     and_then (loadSvg source) (\<lambda>sv. rasterize_svg deflate engine (placeSvg sv 0 0 scale))"

section \<open>The files\<close>

type_synonym files = "(jstr \<times> buffer) list"

definition write_asset ::
  "(buffer \<Rightarrow> buffer) \<Rightarrow> (svg \<Rightarrow> exn + buffer) \<Rightarrow> asset \<Rightarrow> files \<times> zip_entry list \<Rightarrow> exn + files \<times> zip_entry list"
where
  "write_asset deflate engine a st = (case st of (written, entries) \<Rightarrow>
     (let svgFile = as_stem a @ js ''.svg''; pngFile = as_stem a @ js ''.png''; folder = js ''fissionplane-brand/''
      in and_then (rasterize deflate engine (as_source a) (as_scale a)) (\<lambda>png.
         Inr (written @ [(svgFile, utf8_bytes (as_source a)), (pngFile, png)],
              entries @ [\<lparr>ze_name = folder @ svgFile, ze_data = utf8_bytes (as_source a)\<rparr>,
                         \<lparr>ze_name = folder @ pngFile, ze_data = png\<rparr>]))))"

definition generate_brand_assets ::
  "(buffer \<Rightarrow> buffer) \<Rightarrow> (svg \<Rightarrow> exn + buffer) \<Rightarrow> jstr \<Rightarrow> jstr \<Rightarrow> exn + files"
where
  "generate_brand_assets deflate engine iconSource lockupSource =
     and_then (wordmarkFromLockup lockupSource) (\<lambda>wordmarkSource.
     and_then (fold_try (write_asset deflate engine) (brand_assets iconSource wordmarkSource lockupSource) ([], []))
       (\<lambda>(written, entries).
     and_then (zipFromEntries entries) (\<lambda>zip.
     Inr (written @ [(js ''fissionplane-brand.zip'', zip)]))))"

end
