(* ===== verification/Woff.thy ===== *)
theory Woff
  imports Shapes
begin

text \<open>
  The TrueType reader of the asset scripts (\<open>apps/marketing-site/scripts/lib/woff.mjs\<close>): the WOFF1
  container, the character map, the outlines of simple and composite glyphs, and advances.

  Fonts are untrusted bytes. A read outside a buffer throws; indexing outside one gives \<open>undefined\<close>,
  which the typed arrays of the reader store as zero and which turns a running coordinate into \<open>NaN\<close>
  (\<open>None\<close>). \<open>inflateSync\<close> is a parameter. The two loops without a counter end because each turn consumes
  bytes (\<open>components\<close>) or points (\<open>read_flags\<close>); composite glyphs recurse by level.
\<close>

section \<open>The container\<close>

definition WOFF_HEADER_SIZE :: nat where "WOFF_HEADER_SIZE = 44"
definition WOFF_ENTRY_SIZE :: nat where "WOFF_ENTRY_SIZE = 20"

type_synonym font_tables = "jstr \<rightharpoonup> buffer"

definition woff_entry :: "(buffer \<Rightarrow> exn + buffer) \<Rightarrow> buffer \<Rightarrow> nat \<Rightarrow> font_tables \<Rightarrow> exn + font_tables" where
  "woff_entry inflate b index tables =
     (let entry = WOFF_HEADER_SIZE + index * WOFF_ENTRY_SIZE;
          tag = latin1 (subarray b entry (entry + 4))
      in and_then (readUInt32BE b (entry + 4)) (\<lambda>offset.
         and_then (readUInt32BE b (entry + 8)) (\<lambda>compressedLength.
         and_then (readUInt32BE b (entry + 12)) (\<lambda>originalLength.
         let raw = subarray b offset (offset + compressedLength)
         in and_then (if compressedLength < originalLength then inflate raw else Inr raw) (\<lambda>table.
            Inr (tables(tag \<mapsto> table)))))))"

definition decodeWoff :: "(buffer \<Rightarrow> exn + buffer) \<Rightarrow> buffer \<Rightarrow> exn + font_tables" where
  "decodeWoff inflate b =
     (if latin1 (subarray b 0 4) \<noteq> js ''wOFF'' then Inl (OtherError (js ''expected a WOFF1 container''))
      else and_then (readUInt16BE b 12) (\<lambda>numTables.
        fold_try (woff_entry inflate b) [0..<numTables] Map.empty))"

definition requireTable :: "font_tables \<Rightarrow> string \<Rightarrow> exn + buffer" where
  "requireTable tables tag = (case tables (js tag) of
       None \<Rightarrow> Inl (OtherError (js ''font is missing a table''))
     | Some t \<Rightarrow> Inr t)"

section \<open>The character map\<close>

type_synonym charmap = "nat \<rightharpoonup> nat"

definition cmap_score :: "nat \<Rightarrow> nat \<Rightarrow> nat" where
  "cmap_score platform encoding =
     (if platform = 3 \<and> encoding = 10 then 4
      else if platform = 3 \<and> encoding = 1 then 3
      else if platform = 0 then 2 else 1)"

text \<open>The best subtable so far: its score and offset.\<close>

definition cmap_record :: "buffer \<Rightarrow> nat \<Rightarrow> (nat \<times> nat) option \<Rightarrow> exn + (nat \<times> nat) option" where
  "cmap_record cmap index best =
     (let pos = 4 + index * 8 in
      and_then (readUInt16BE cmap pos) (\<lambda>platform.
      and_then (readUInt16BE cmap (pos + 2)) (\<lambda>encoding.
      and_then (readUInt32BE cmap (pos + 4)) (\<lambda>offset.
      let score = cmap_score platform encoding
      in Inr (if (case best of None \<Rightarrow> True | Some (s, _) \<Rightarrow> s < score) then Some (score, offset) else best)))))"

definition low16 :: "int \<Rightarrow> nat" where
  "low16 i = nat (i mod 65536)"

definition segment_code ::
  "buffer \<Rightarrow> nat \<Rightarrow> int \<Rightarrow> nat \<Rightarrow> nat \<Rightarrow> nat \<Rightarrow> charmap \<Rightarrow> exn + charmap"
where
  "segment_code cmap start delta rangeOffsetAt rangeOffset ch m =
     (let put = (\<lambda>glyphId. if glyphId \<noteq> 0 then m(ch \<mapsto> glyphId) else m) in
      if rangeOffset = 0 then Inr (put (low16 (int ch + delta)))
      else let pos = rangeOffsetAt + rangeOffset + (ch - start) * 2 in
        if length cmap \<le> pos + 1 then Inr m
        else and_then (readUInt16BE cmap pos) (\<lambda>raw.
          Inr (put (if raw = 0 then 0 else low16 (int raw + delta)))))"

definition cmap_segment :: "buffer \<Rightarrow> nat \<Rightarrow> nat \<Rightarrow> nat \<Rightarrow> charmap \<Rightarrow> exn + charmap" where
  "cmap_segment cmap base segX2 segment m =
     (let endCodes = base + 14; startCodes = endCodes + segX2 + 2; idDeltas = startCodes + segX2;
          idRangeOffsets = idDeltas + segX2; rangeOffsetAt = idRangeOffsets + segment * 2
      in and_then (readUInt16BE cmap (endCodes + segment * 2)) (\<lambda>end.
         and_then (readUInt16BE cmap (startCodes + segment * 2)) (\<lambda>start.
         and_then (readInt16BE cmap (idDeltas + segment * 2)) (\<lambda>delta.
         and_then (readUInt16BE cmap rangeOffsetAt) (\<lambda>rangeOffset.
         if start = 0xFFFF then Inr m
         else fold_try (segment_code cmap start delta rangeOffsetAt rangeOffset)
           [start..<min (Suc end) 0x10000] m)))))"

definition cmap_group :: "buffer \<Rightarrow> nat \<Rightarrow> nat \<Rightarrow> charmap \<Rightarrow> exn + charmap" where
  "cmap_group cmap base grp m =
     (let pos = base + 16 + grp * 12 in
      and_then (readUInt32BE cmap pos) (\<lambda>start.
      and_then (readUInt32BE cmap (pos + 4)) (\<lambda>end.
      and_then (readUInt32BE cmap (pos + 8)) (\<lambda>startGlyph.
      Inr (fold (\<lambda>ch m. m(ch \<mapsto> startGlyph + (ch - start))) [start..<Suc end] m)))))"

text \<open>\<open>segCount\<close> is half of a number that may be odd: the loop runs while twice the segment is below it.\<close>

definition parseCmap :: "buffer \<Rightarrow> exn + charmap" where
  "parseCmap cmap =
     and_then (readUInt16BE cmap 2) (\<lambda>numTables.
     and_then (fold_try (cmap_record cmap) [0..<numTables] None) (\<lambda>best.
     case best of
       None \<Rightarrow> Inl (OtherError (js ''font has no usable cmap subtable''))
     | Some (_, base) \<Rightarrow>
         and_then (readUInt16BE cmap base) (\<lambda>fmt.
         if fmt = 4 then
           and_then (readUInt16BE cmap (base + 6)) (\<lambda>segX2.
           fold_try (cmap_segment cmap base segX2) [0..<(segX2 + 1) div 2] Map.empty)
         else if fmt = 12 then
           and_then (readUInt32BE cmap (base + 12)) (\<lambda>numGroups.
           fold_try (cmap_group cmap base) [0..<numGroups] Map.empty)
         else Inl (OtherError (js ''unsupported cmap format'')))))"

section \<open>Simple glyphs\<close>

record GlyphPoint =
  gp_x :: num
  gp_y :: num
  gp_onCurve :: bool

definition byte_at :: "buffer \<Rightarrow> nat \<Rightarrow> nat" where
  "byte_at b i = (case buf_at b i of None \<Rightarrow> 0 | Some v \<Rightarrow> v)"

function read_flags :: "buffer \<Rightarrow> nat \<Rightarrow> nat \<Rightarrow> nat list \<Rightarrow> nat list \<times> nat" where
  "read_flags glyph pointCount pos flags =
     (if pointCount \<le> length flags then (flags, pos)
      else let flag = byte_at glyph pos in
        if bit flag 3 then
          read_flags glyph pointCount (pos + 2)
            (flags @ replicate (Suc (min (byte_at glyph (pos + 1)) (pointCount - Suc (length flags)))) flag)
        else read_flags glyph pointCount (pos + 1) (flags @ [flag]))"
  by pat_completeness auto
termination by (relation "measure (\<lambda>(_, n, _, fs). n - length fs)") auto

declare read_flags.simps [simp del]

text \<open>One coordinate: a byte with its sign in the flag, a signed word, or no change.\<close>

definition coordinate_step ::
  "buffer \<Rightarrow> nat \<Rightarrow> nat \<Rightarrow> nat \<Rightarrow> int option \<Rightarrow> nat \<Rightarrow> exn + int option \<times> nat"
where
  "coordinate_step glyph shortBit sameBit flag running pos =
     (if bit flag shortBit then
        Inr (case (running, buf_at glyph pos) of
            (Some v, Some d) \<Rightarrow> Some (if bit flag sameBit then v + int d else v - int d)
          | _ \<Rightarrow> None, pos + 1)
      else if \<not> bit flag sameBit then
        and_then (readInt16BE glyph pos) (\<lambda>d. Inr (map_option (\<lambda>v. v + d) running, pos + 2))
      else Inr (running, pos))"

text \<open>What \<open>Int32Array\<close> keeps of a number.\<close>

definition store_int32 :: "int option \<Rightarrow> int" where
  "store_int32 v = (case v of None \<Rightarrow> 0 | Some i \<Rightarrow> (i + 2 ^ 31) mod 2 ^ 32 - 2 ^ 31)"

fun coordinates ::
  "(int option \<Rightarrow> int) \<Rightarrow> buffer \<Rightarrow> nat \<Rightarrow> nat \<Rightarrow> nat list \<Rightarrow> int option \<Rightarrow> nat \<Rightarrow> exn + int list \<times> nat"
where
  "coordinates store glyph shortBit sameBit [] running pos = Inr ([], pos)"
| "coordinates store glyph shortBit sameBit (f # fs) running pos =
     and_then (coordinate_step glyph shortBit sameBit f running pos) (\<lambda>(running', pos').
     and_then (coordinates store glyph shortBit sameBit fs running' pos') (\<lambda>(vs, pos'').
     Inr (store running' # vs, pos'')))"

text \<open>A point; past the arrays its coordinates are \<open>undefined\<close> and it is off the curve.\<close>

definition glyph_point :: "nat list \<Rightarrow> int list \<Rightarrow> int list \<Rightarrow> nat \<Rightarrow> GlyphPoint" where
  "glyph_point flags xs ys index =
     \<lparr>gp_x = (if index < length xs then Some (of_int (xs ! index)) else None),
      gp_y = (if index < length ys then Some (of_int (ys ! index)) else None),
      gp_onCurve = (index < length flags \<and> bit (flags ! index) 0)\<rparr>"

fun cut_contours :: "(nat \<Rightarrow> GlyphPoint) \<Rightarrow> nat \<Rightarrow> nat list \<Rightarrow> GlyphPoint list list" where
  "cut_contours pt start [] = []"
| "cut_contours pt start (stop # stops) =
     (let contour = map pt [start..<Suc stop]
      in (if contour \<noteq> [] then [contour] else []) @ cut_contours pt (stop + 1) stops)"

fun read_end_points :: "buffer \<Rightarrow> nat list \<Rightarrow> exn + nat list" where
  "read_end_points glyph [] = Inr []"
| "read_end_points glyph (i # is) =
     and_then (readUInt16BE glyph (10 + i * 2)) (\<lambda>v.
     and_then (read_end_points glyph is) (\<lambda>vs. Inr (v # vs)))"

text \<open>The reader of a simple glyph, by the array it keeps coordinates in.\<close>

definition simple_glyph :: "(int option \<Rightarrow> int) \<Rightarrow> buffer \<Rightarrow> nat \<Rightarrow> exn + GlyphPoint list list" where
  "simple_glyph store glyph numberOfContours =
     and_then (read_end_points glyph [0..<numberOfContours]) (\<lambda>endPoints.
     let pointCount = (if endPoints = [] then 0 else last endPoints + 1);
         pos = 10 + numberOfContours * 2
     in and_then (readUInt16BE glyph pos) (\<lambda>instructions.
        let (flags, pos1) = read_flags glyph pointCount (pos + (2 + instructions)) []
        in and_then (coordinates store glyph 1 4 flags (Some 0) pos1) (\<lambda>(xs, pos2).
        and_then (coordinates store glyph 2 5 flags (Some 0) pos2) (\<lambda>(ys, pos3).
        Inr (cut_contours (glyph_point flags xs ys) 0 endPoints)))))"

definition readSimpleGlyph :: "buffer \<Rightarrow> nat \<Rightarrow> exn + GlyphPoint list list" where
  "readSimpleGlyph = simple_glyph store_int32"

section \<open>Fonts\<close>

record font =
  ft_unitsPerEm :: nat
  ft_capHeight :: int
  ft_numGlyphs :: nat
  ft_numberOfHMetrics :: nat
  ft_loca :: "nat list"
  ft_glyf :: buffer
  ft_hmtx :: buffer
  ft_cmap :: charmap

fun read_loca :: "bool \<Rightarrow> buffer \<Rightarrow> nat list \<Rightarrow> exn + nat list" where
  "read_loca longLoca locaTable [] = Inr []"
| "read_loca longLoca locaTable (i # is) =
     and_then (if longLoca then readUInt32BE locaTable (i * 4)
               else map_sum id (\<lambda>v. v * 2) (readUInt16BE locaTable (i * 2))) (\<lambda>v.
     and_then (read_loca longLoca locaTable is) (\<lambda>vs. Inr (v # vs)))"

definition cap_height :: "buffer option \<Rightarrow> buffer \<Rightarrow> exn + int" where
  "cap_height os2 hhea = (case os2 of
       None \<Rightarrow> readInt16BE hhea 4
     | Some b \<Rightarrow> and_then (readUInt16BE b 0) (\<lambda>version.
         if 2 \<le> version then readInt16BE b 88 else readInt16BE hhea 4))"

definition loadFont :: "(buffer \<Rightarrow> exn + buffer) \<Rightarrow> buffer \<Rightarrow> exn + font" where
  "loadFont inflate contents =
     and_then (decodeWoff inflate contents) (\<lambda>tables.
     and_then (requireTable tables ''head'') (\<lambda>head.
     and_then (requireTable tables ''maxp'') (\<lambda>maxp.
     and_then (requireTable tables ''hhea'') (\<lambda>hhea.
     and_then (requireTable tables ''hmtx'') (\<lambda>hmtx.
     and_then (requireTable tables ''glyf'') (\<lambda>glyf.
     and_then (requireTable tables ''loca'') (\<lambda>locaTable.
     and_then (readUInt16BE head 18) (\<lambda>unitsPerEm.
     and_then (readInt16BE head 50) (\<lambda>indexToLocFormat.
     and_then (readUInt16BE maxp 4) (\<lambda>numGlyphs.
     and_then (readUInt16BE hhea 34) (\<lambda>numberOfHMetrics.
     and_then (read_loca (indexToLocFormat = 1) locaTable [0..<Suc numGlyphs]) (\<lambda>loca.
     and_then (and_then (requireTable tables ''cmap'') parseCmap) (\<lambda>cmap.
     and_then (cap_height (tables (js ''OS/2'')) hhea) (\<lambda>capHeight.
     Inr \<lparr>ft_unitsPerEm = unitsPerEm, ft_capHeight = capHeight, ft_numGlyphs = numGlyphs,
       ft_numberOfHMetrics = numberOfHMetrics, ft_loca = loca, ft_glyf = glyf, ft_hmtx = hmtx,
       ft_cmap = cmap\<rparr>))))))))))))))"

section \<open>Composite glyphs\<close>

record transform =
  tf_a :: rat
  tf_b :: rat
  tf_c :: rat
  tf_d :: rat

definition f2dot14 :: "buffer \<Rightarrow> nat \<Rightarrow> exn + rat" where
  "f2dot14 glyph offset = map_sum id (\<lambda>i. of_int i / 16384) (readInt16BE glyph offset)"

text \<open>The placement of a component and the position behind it.\<close>

definition component_offset :: "buffer \<Rightarrow> nat \<Rightarrow> nat \<Rightarrow> exn + (int \<times> int) \<times> nat" where
  "component_offset glyph flags pos =
     (if bit flags 0 then
        and_then (readInt16BE glyph pos) (\<lambda>dx. and_then (readInt16BE glyph (pos + 2)) (\<lambda>dy. Inr ((dx, dy), pos + 4)))
      else
        and_then (readInt8 glyph pos) (\<lambda>dx. and_then (readInt8 glyph (pos + 1)) (\<lambda>dy. Inr ((dx, dy), pos + 2))))"

definition component_transform :: "buffer \<Rightarrow> nat \<Rightarrow> nat \<Rightarrow> exn + transform \<times> nat" where
  "component_transform glyph flags pos =
     (if bit flags 3 then
        and_then (f2dot14 glyph pos) (\<lambda>a. Inr (\<lparr>tf_a = a, tf_b = 0, tf_c = 0, tf_d = a\<rparr>, pos + 2))
      else if bit flags 6 then
        and_then (f2dot14 glyph pos) (\<lambda>a. and_then (f2dot14 glyph (pos + 2)) (\<lambda>d.
          Inr (\<lparr>tf_a = a, tf_b = 0, tf_c = 0, tf_d = d\<rparr>, pos + 4)))
      else if bit flags 7 then
        and_then (f2dot14 glyph pos) (\<lambda>a. and_then (f2dot14 glyph (pos + 2)) (\<lambda>b.
        and_then (f2dot14 glyph (pos + 4)) (\<lambda>c. and_then (f2dot14 glyph (pos + 6)) (\<lambda>d.
          Inr (\<lparr>tf_a = a, tf_b = b, tf_c = c, tf_d = d\<rparr>, pos + 8)))))
      else Inr (\<lparr>tf_a = 1, tf_b = 0, tf_c = 0, tf_d = 1\<rparr>, pos))"

definition combine :: "rat \<Rightarrow> num \<Rightarrow> rat \<Rightarrow> num \<Rightarrow> int \<Rightarrow> num" where
  "combine p x q y d = num_plus (num_plus (map_option ((*) p) x) (map_option ((*) q) y)) (Some (of_int d))"

definition move_point :: "transform \<Rightarrow> int \<times> int \<Rightarrow> GlyphPoint \<Rightarrow> GlyphPoint" where
  "move_point tf off pt =
     \<lparr>gp_x = combine (tf_a tf) (gp_x pt) (tf_c tf) (gp_y pt) (fst off),
      gp_y = combine (tf_b tf) (gp_x pt) (tf_d tf) (gp_y pt) (snd off), gp_onCurve = gp_onCurve pt\<rparr>"

text \<open>One turn of the component loop: the contours it adds, the next position, and whether more follow.\<close>

definition component_step ::
  "(nat \<Rightarrow> exn + GlyphPoint list list) \<Rightarrow> buffer \<Rightarrow> nat \<Rightarrow> exn + GlyphPoint list list \<times> nat \<times> bool"
where
  "component_step outlines glyph pos =
     and_then (readUInt16BE glyph pos) (\<lambda>flags.
     and_then (readUInt16BE glyph (pos + 2)) (\<lambda>componentId.
     and_then (component_offset glyph flags (pos + 4)) (\<lambda>(off, pos1).
     and_then (component_transform glyph flags pos1) (\<lambda>(tf, pos2).
     if \<not> bit flags 1 then Inl (OtherError (js ''point-matched component''))
     else and_then (outlines componentId) (\<lambda>cs.
       Inr (map (map (move_point tf off)) cs, pos2, bit flags 5))))))"

lemma component_step_advances:
  "component_step outlines glyph pos = Inr (cs, pos', again) \<Longrightarrow> pos < pos' \<and> pos < length glyph"
  unfolding component_step_def component_offset_def component_transform_def
  by (auto simp: and_then_Inr dest!: readBE_in_buffer split: if_splits)

function components ::
  "(nat \<Rightarrow> exn + GlyphPoint list list) \<Rightarrow> buffer \<Rightarrow> nat \<Rightarrow> exn + GlyphPoint list list"
where
  "components outlines glyph pos = (case component_step outlines glyph pos of
       Inl e \<Rightarrow> Inl e
     | Inr (cs, pos', again) \<Rightarrow>
         if again then and_then (components outlines glyph pos') (\<lambda>rest. Inr (cs @ rest)) else Inr cs)"
  by pat_completeness auto
termination
  by (relation "measure (\<lambda>(_, glyph, pos). length glyph - pos)") (auto dest!: component_step_advances)

declare components.simps [simp del]

text \<open>The outline of a glyph, with the number of levels of composition still allowed.\<close>

primrec outlines_at :: "nat \<Rightarrow> font \<Rightarrow> nat \<Rightarrow> exn + GlyphPoint list list" where
  "outlines_at 0 = (\<lambda>f glyphId. Inl (OtherError (js ''composite glyph nested too deeply'')))"
| "outlines_at (Suc levels) = (\<lambda>f glyphId.
     if ft_numGlyphs f \<le> glyphId then Inl (OtherError (js ''glyph out of range''))
     else let start = ft_loca f ! glyphId; stop = ft_loca f ! (glyphId + 1) in
       if stop \<le> start then Inr []
       else let glyph = subarray (ft_glyf f) start stop in
         and_then (readInt16BE glyph 0) (\<lambda>numberOfContours.
           if 0 \<le> numberOfContours then readSimpleGlyph glyph (nat numberOfContours)
           else components (outlines_at levels f) glyph 10))"

definition contoursOf :: "font \<Rightarrow> nat \<Rightarrow> exn + GlyphPoint list list" where
  "contoursOf = outlines_at 5"

definition glyphId :: "font \<Rightarrow> nat \<Rightarrow> exn + nat" where
  "glyphId f codePoint = (case ft_cmap f codePoint of
       None \<Rightarrow> Inl (OtherError (js ''font has no glyph''))
     | Some g \<Rightarrow> Inr g)"

definition advanceOf :: "font \<Rightarrow> nat \<Rightarrow> exn + nat" where
  "advanceOf f g =
     (if ft_numberOfHMetrics f = 0 then Inl out_of_range
      else readUInt16BE (ft_hmtx f) (min g (ft_numberOfHMetrics f - 1) * 4))"

section \<open>Coordinates\<close>

definition store_exact :: "int option \<Rightarrow> int" where
  "store_exact v = (case v of None \<Rightarrow> 0 | Some i \<Rightarrow> i)"

lemma store_int32_exact: "- (2 ^ 31) \<le> i \<Longrightarrow> i < 2 ^ 31 \<Longrightarrow> store_int32 (Some i) = i"
  by (simp add: store_int32_def)

text \<open>After \<open>k\<close> points a running coordinate is at most \<open>k\<close> steps from zero.\<close>

definition drift :: "nat \<Rightarrow> int option \<Rightarrow> bool" where
  "drift k v \<longleftrightarrow> (case v of None \<Rightarrow> True | Some i \<Rightarrow> - 32768 * int k \<le> i \<and> i \<le> 32767 * int k)"

lemma buf_at_bound: "buf_at b i = Some d \<Longrightarrow> d < 256"
  using byte_bound by (auto simp: buf_at_def split: if_splits)

lemma coordinate_step_drift:
  assumes "coordinate_step glyph s m flag v pos = Inr (v', pos')" and "drift k v"
  shows "drift (Suc k) v'"
proof (cases "bit flag s")
  case True
  with assms show ?thesis
    by (auto simp: coordinate_step_def drift_def dest!: buf_at_bound split: option.splits)
next
  case short: False
  show ?thesis
  proof (cases "bit flag m")
    case True
    with assms short show ?thesis by (auto simp: coordinate_step_def drift_def split: option.splits)
  next
    case False
    with assms short show ?thesis
      by (auto simp: coordinate_step_def drift_def and_then_Inr dest!: readInt16BE_bounds split: option.splits)
  qed
qed

lemma store_drift: "drift k v \<Longrightarrow> k \<le> 65536 \<Longrightarrow> store_int32 v = store_exact v"
  by (auto simp: drift_def store_exact_def store_int32_def split: option.splits)

lemma coordinates_exact:
  "drift k v \<Longrightarrow> k + length flags \<le> 65536 \<Longrightarrow>
     coordinates store_int32 glyph s m flags v pos = coordinates store_exact glyph s m flags v pos"
proof (induction flags arbitrary: k v pos)
  case (Cons f fs)
  show ?case
  proof (cases "coordinate_step glyph s m f v pos")
    case (Inr r)
    obtain v' pos' where r: "r = (v', pos')" by fastforce
    from coordinate_step_drift [OF Inr [unfolded r] Cons.prems(1)] have w: "drift (Suc k) v'" .
    from Cons.prems(2) have "Suc k + length fs \<le> 65536" by simp
    from Cons.IH [OF w this, of pos'] store_drift [OF w] Cons.prems(2) show ?thesis by (simp add: Inr r)
  qed simp
qed simp

lemma read_flags_length:
  "length flags \<le> n \<Longrightarrow> length (fst (read_flags glyph n pos flags)) = n"
proof (induction glyph n pos flags rule: read_flags.induct)
  case (1 glyph n pos flags)
  show ?case
  proof (cases "n \<le> length flags")
    case True
    with 1(3) show ?thesis by (simp add: read_flags.simps [of glyph n pos flags])
  next
    case False
    with 1 show ?thesis by (subst read_flags.simps) (simp add: Let_def)
  qed
qed

lemma read_end_points_bound: "read_end_points glyph is = Inr vs \<Longrightarrow> v \<in> set vs \<Longrightarrow> v < 65536"
  by (induction "is" arbitrary: vs) (auto simp: and_then_Inr dest!: readBE_bound)

lemma and_then_cong: "x = y \<Longrightarrow> (\<And>a. y = Inr a \<Longrightarrow> f a = g a) \<Longrightarrow> and_then x f = and_then y g"
  by (cases y) simp_all

text \<open>C39: Glyph coordinates never wrap. A glyph has at most 65536 points and a point moves a coordinate
  by at most a signed word, so what the 32-bit arrays keep is the exact running sum, for every buffer:
  the reader agrees with one that keeps unbounded integers, errors included.\<close>

theorem outline_coordinates_exact:
  "readSimpleGlyph glyph n = simple_glyph store_exact glyph n"
  unfolding readSimpleGlyph_def simple_glyph_def
proof (rule and_then_cong [OF refl])
  fix endPoints
  assume e: "read_end_points glyph [0..<n] = Inr endPoints"
  let ?n = "if endPoints = [] then 0 else last endPoints + 1"
  have n: "?n \<le> 65536"
    using read_end_points_bound [OF e, of "last endPoints"] by (cases "endPoints = []") auto
  have "drift 0 (Some 0)" by (simp add: drift_def)
  then have eq: "coordinates store_int32 glyph s m flags (Some 0) pos = coordinates store_exact glyph s m flags (Some 0) pos"
    if "length flags = ?n" for s m flags pos
    using that n coordinates_exact [of 0 "Some 0" flags] by simp
  have "length (fst (read_flags glyph ?n pos [])) = ?n" for pos
    by (rule read_flags_length) simp
  with eq show "(let pointCount = ?n; pos = 10 + n * 2 in and_then (readUInt16BE glyph pos) (\<lambda>instructions.
      let (flags, pos1) = read_flags glyph pointCount (pos + (2 + instructions)) []
      in and_then (coordinates store_int32 glyph 1 4 flags (Some 0) pos1) (\<lambda>(xs, pos2).
         and_then (coordinates store_int32 glyph 2 5 flags (Some 0) pos2) (\<lambda>(ys, pos3).
         Inr (cut_contours (glyph_point flags xs ys) 0 endPoints))))) =
    (let pointCount = ?n; pos = 10 + n * 2 in and_then (readUInt16BE glyph pos) (\<lambda>instructions.
      let (flags, pos1) = read_flags glyph pointCount (pos + (2 + instructions)) []
      in and_then (coordinates store_exact glyph 1 4 flags (Some 0) pos1) (\<lambda>(xs, pos2).
         and_then (coordinates store_exact glyph 2 5 flags (Some 0) pos2) (\<lambda>(ys, pos3).
         Inr (cut_contours (glyph_point flags xs ys) 0 endPoints)))))"
    by (auto simp: Let_def split_beta intro!: and_then_cong)
qed

section \<open>Character maps and cycles\<close>

lemma low16_bound: "low16 i < 65536"
  by (simp add: low16_def nat_less_iff)

definition bmp :: "charmap \<Rightarrow> bool" where
  "bmp m \<longleftrightarrow> (\<forall>c g. m c = Some g \<longrightarrow> c < 65536 \<and> 0 < g \<and> g < 65536)"

lemma segment_code_bmp:
  "segment_code cmap start delta roa ro ch m = Inr m' \<Longrightarrow> ch < 65536 \<Longrightarrow> bmp m \<Longrightarrow> bmp m'"
  using low16_bound
  by (auto simp: segment_code_def bmp_def Let_def and_then_Inr split: if_splits)

text \<open>A format 4 table maps only codes of the basic plane, and only to glyphs other than the missing
  one, whose ids fit sixteen bits.\<close>

lemma format4_bmp:
  assumes "fold_try (cmap_segment cmap base segX2) segs Map.empty = Inr m"
  shows "bmp m"
proof (rule fold_try_invariant [OF assms])
  show "bmp Map.empty" by (simp add: bmp_def)
  show "bmp m'" if m: "bmp m" and step: "cmap_segment cmap base segX2 segment m = Inr m'" for segment m m'
  proof -
    from step m consider "m' = m" | start delta roa ro n where
      "fold_try (segment_code cmap start delta roa ro) [start..<min n 0x10000] m = Inr m'"
      unfolding cmap_segment_def Let_def and_then_Inr by (metis Inr_inject)
    then show ?thesis
    proof cases
      case 2
      then show ?thesis using m
        by (rule fold_try_invariant [where P = bmp]) (auto intro: segment_code_bmp)
    qed (simp add: m)
  qed
qed

text \<open>A glyph whose first component is itself is reported at every level, not followed for ever.\<close>

lemma cyclic_glyph_rejected:
  assumes "g < ft_numGlyphs f" and "ft_loca f ! g < ft_loca f ! (g + 1)"
    and "glyph = subarray (ft_glyf f) (ft_loca f ! g) (ft_loca f ! (g + 1))"
    and "readInt16BE glyph 0 = Inr n" and "n < 0"
    and "readUInt16BE glyph 10 = Inr flags" and "readUInt16BE glyph 12 = Inr g" and "bit flags 1"
    and "component_offset glyph flags 14 = Inr (off, pos1)" and "component_transform glyph flags pos1 = Inr (tf, pos2)"
  shows "outlines_at levels f g = Inl (OtherError (js ''composite glyph nested too deeply''))"
proof (induction levels)
  case (Suc levels)
  then have "component_step (outlines_at levels f) glyph 10 = Inl (OtherError (js ''composite glyph nested too deeply''))"
    using assms(6-10) by (simp add: component_step_def)
  then have "components (outlines_at levels f) glyph 10 = Inl (OtherError (js ''composite glyph nested too deeply''))"
    by (simp add: components.simps [of _ glyph 10])
  with assms(1-5) show ?case by simp
qed simp

end
