(* ===== verification/Outlines.thy ===== *)
theory Outlines
  imports Woff
begin

text \<open>
  Text as polygons (the second half of \<open>apps/marketing-site/scripts/lib/shapes.mjs\<close>): quadratic
  segments flattened into polylines, TrueType contours closed with their implied midpoints, and the
  layout of one line.

  \<open>Math.hypot\<close> is a parameter. A coordinate that is not a number (\<open>None\<close>) makes the number of steps of
  a curve \<open>NaN\<close>, and its loop adds no point. Fonts with no units per em are outside the model.
\<close>

section \<open>Curves\<close>

definition CURVE_TOLERANCE :: rat where "CURVE_TOLERANCE = 2 / 10"

definition curve_at :: "rat \<Rightarrow> rat \<Rightarrow> rat \<Rightarrow> rat \<Rightarrow> rat" where
  "curve_at t from control to = (let s = 1 - t in s * s * from + 2 * s * t * control + t * t * to)"

definition curve_steps :: "(rat \<Rightarrow> rat \<Rightarrow> rat) \<Rightarrow> point \<Rightarrow> point \<Rightarrow> point \<Rightarrow> nat" where
  "curve_steps hypot from control to =
     (let span = hypot (fst control - fst from) (snd control - snd from) +
                 hypot (fst to - fst control) (snd to - snd control)
      in min 64 (max 2 (nat \<lceil>span / CURVE_TOLERANCE\<rceil>)))"

definition curve_points :: "(rat \<Rightarrow> rat \<Rightarrow> rat) \<Rightarrow> point \<Rightarrow> point \<Rightarrow> point \<Rightarrow> polygon" where
  "curve_points hypot from control to =
     (let steps = curve_steps hypot from control to in
      map (\<lambda>step. let t = of_nat step / of_nat steps
         in (curve_at t (fst from) (fst control) (fst to), curve_at t (snd from) (snd control) (snd to)))
        [1..<Suc steps])"

definition finite_point :: "num_point \<Rightarrow> point option" where
  "finite_point p = (case p of (Some x, Some y) \<Rightarrow> Some (x, y) | _ \<Rightarrow> None)"

definition num_of :: "point \<Rightarrow> num_point" where
  "num_of p = (Some (fst p), Some (snd p))"

definition quadraticTo ::
  "(rat \<Rightarrow> rat \<Rightarrow> rat) \<Rightarrow> num_polygon \<Rightarrow> num_point \<Rightarrow> num_point \<Rightarrow> num_point \<Rightarrow> num_polygon"
where
  "quadraticTo hypot out from control to =
     out @ (case (finite_point from, finite_point control, finite_point to) of
         (Some a, Some b, Some c) \<Rightarrow> map num_of (curve_points hypot a b c)
       | _ \<Rightarrow> [])"

section \<open>Contours\<close>

definition midpoint :: "num_point \<Rightarrow> num_point \<Rightarrow> num_point" where
  "midpoint p q = (half_sum (fst p) (fst q), half_sum (snd p) (snd q))"

record contour_state =
  ct_polygon :: num_polygon
  ct_cursor :: num_point
  ct_control :: "num_point option"

definition contour_step :: "(rat \<Rightarrow> rat \<Rightarrow> rat) \<Rightarrow> num_point \<times> bool \<Rightarrow> contour_state \<Rightarrow> contour_state" where
  "contour_step hypot pt st = (case pt of (p, onCurve) \<Rightarrow>
     if onCurve then
       (case ct_control st of
          Some c \<Rightarrow> st\<lparr>ct_polygon := quadraticTo hypot (ct_polygon st) (ct_cursor st) c p,
                      ct_cursor := p, ct_control := None\<rparr>
        | None \<Rightarrow> st\<lparr>ct_polygon := ct_polygon st @ [p], ct_cursor := p\<rparr>)
     else
       (case ct_control st of
          Some c \<Rightarrow> (let mid = midpoint c p in
            st\<lparr>ct_polygon := quadraticTo hypot (ct_polygon st) (ct_cursor st) c mid,
               ct_cursor := mid, ct_control := Some p\<rparr>)
        | None \<Rightarrow> st\<lparr>ct_control := Some p\<rparr>))"

text \<open>Where a contour starts, and the index its walk begins with.\<close>

definition contour_start :: "(num_point \<times> bool) list \<Rightarrow> num_point \<times> nat" where
  "contour_start pts =
     (if snd (hd pts) then (fst (hd pts), 1)
      else if snd (last pts) then (fst (last pts), 0)
      else (midpoint (fst (hd pts)) (fst (last pts)), 0))"

definition contourToPolygon ::
  "(rat \<Rightarrow> rat \<Rightarrow> rat) \<Rightarrow> GlyphPoint list \<Rightarrow> (num \<Rightarrow> num \<Rightarrow> num_point) \<Rightarrow> exn + num_polygon"
where
  "contourToPolygon hypot contour project =
     (if contour = [] then Inl (TypeError (js ''Cannot read properties of undefined''))
      else let pts = map (\<lambda>p. (project (gp_x p) (gp_y p), gp_onCurve p)) contour;
               (start, first) = contour_start pts;
               st = fold (contour_step hypot) (rotate first pts)
                      \<lparr>ct_polygon = [start], ct_cursor = start, ct_control = None\<rparr>
           in Inr (case ct_control st of
                Some c \<Rightarrow> quadraticTo hypot (ct_polygon st) (ct_cursor st) c start
              | None \<Rightarrow> ct_polygon st))"

section \<open>Lines of text\<close>

text \<open>The code points \<open>for ... of\<close> visits; a lone surrogate is one of its own.\<close>

fun code_points :: "jstr \<Rightarrow> nat list" where
  "code_points [] = []"
| "code_points [u] = [unat u]"
| "code_points (u # v # r) =
     (if is_high u \<and> is_low v
      then (0x10000 + (unat u - 0xD800) * 0x400 + (unat v - 0xDC00)) # code_points r
      else unat u # code_points (v # r))"

fun contours_to_polygons ::
  "(rat \<Rightarrow> rat \<Rightarrow> rat) \<Rightarrow> (num \<Rightarrow> num \<Rightarrow> num_point) \<Rightarrow> GlyphPoint list list \<Rightarrow> exn + num_polygon list"
where
  "contours_to_polygons hypot project [] = Inr []"
| "contours_to_polygons hypot project (c # cs) =
     (if 1 < length c then
        and_then (contourToPolygon hypot c project) (\<lambda>p.
        and_then (contours_to_polygons hypot project cs) (\<lambda>ps. Inr (p # ps)))
      else contours_to_polygons hypot project cs)"

definition project_point :: "rat \<Rightarrow> rat \<Rightarrow> rat \<Rightarrow> num \<Rightarrow> num \<Rightarrow> num_point" where
  "project_point origin baseline scale gx gy =
     (map_option (\<lambda>x. origin + x * scale) gx, map_option (\<lambda>y. baseline - y * scale) gy)"

definition text_step ::
  "(rat \<Rightarrow> rat \<Rightarrow> rat) \<Rightarrow> font \<Rightarrow> rat \<Rightarrow> rat \<Rightarrow> nat \<Rightarrow> rat \<times> num_polygon list \<Rightarrow> exn + rat \<times> num_polygon list"
where
  "text_step hypot f scale baseline codePoint st = (case st of (penX, polygons) \<Rightarrow>
     and_then (glyphId f codePoint) (\<lambda>g.
     and_then (contoursOf f g) (\<lambda>cs.
     and_then (contours_to_polygons hypot (project_point penX baseline scale) cs) (\<lambda>ps.
     and_then (advanceOf f g) (\<lambda>advance.
     Inr (penX + of_nat advance * scale, polygons @ ps))))))"

definition textPolygons ::
  "(rat \<Rightarrow> rat \<Rightarrow> rat) \<Rightarrow> font \<Rightarrow> jstr \<Rightarrow> rat \<Rightarrow> rat \<Rightarrow> rat \<Rightarrow> exn + num_polygon list"
where
  "textPolygons hypot f content px x baseline =
     (let scale = px / of_nat (ft_unitsPerEm f)
      in and_then (fold_try (text_step hypot f scale baseline) (code_points content) (x, [])) (\<lambda>(penX, polygons).
         Inr polygons))"

definition width_step :: "font \<Rightarrow> nat \<Rightarrow> nat \<Rightarrow> exn + nat" where
  "width_step f codePoint width =
     and_then (glyphId f codePoint) (\<lambda>g. and_then (advanceOf f g) (\<lambda>advance. Inr (width + advance)))"

definition textWidth :: "font \<Rightarrow> jstr \<Rightarrow> rat \<Rightarrow> exn + rat" where
  "textWidth f content px =
     and_then (fold_try (width_step f) (code_points content) 0) (\<lambda>width.
     Inr (of_nat width * px / of_nat (ft_unitsPerEm f)))"

section \<open>Behaviour\<close>

lemma curve_steps_bounds: "2 \<le> curve_steps hypot from control to" "curve_steps hypot from control to \<le> 64"
  by (simp_all add: curve_steps_def Let_def)

lemma curve_end: "curve_at 1 a b c = c"
  by (simp add: curve_at_def)

text \<open>A flattened curve stays between the least and the greatest of its three points, and ends at the
  last one.\<close>

lemma curve_between:
  assumes "0 \<le> t" "t \<le> 1" "lo \<le> a" "lo \<le> b" "lo \<le> c" "a \<le> hi" "b \<le> hi" "c \<le> hi"
  shows "lo \<le> curve_at t a b c" "curve_at t a b c \<le> hi"
proof -
  define s where "s = 1 - t"
  have s: "0 \<le> s" using assms(2) by (simp add: s_def)
  have one: "s * s + 2 * s * t + t * t = 1" unfolding s_def by (simp add: algebra_simps)
  have w: "0 \<le> s * s" "0 \<le> 2 * s * t" "0 \<le> t * t" using s assms(1) by auto
  have c: "curve_at t a b c = s * s * a + 2 * s * t * b + t * t * c"
    by (simp add: curve_at_def s_def Let_def)
  have "lo = s * s * lo + 2 * s * t * lo + t * t * lo" using one by (metis distrib_right mult_1)
  also have "\<dots> \<le> curve_at t a b c"
    unfolding c using w assms(3-5) by (intro add_mono mult_left_mono)
  finally show "lo \<le> curve_at t a b c" .
  have "curve_at t a b c \<le> s * s * hi + 2 * s * t * hi + t * t * hi"
    unfolding c using w assms(6-8) by (intro add_mono mult_left_mono)
  also have "\<dots> = hi" using one by (metis distrib_right mult_1)
  finally show "curve_at t a b c \<le> hi" .
qed

lemma curve_points_last:
  "curve_points hypot a b c \<noteq> []" "last (curve_points hypot a b c) = c"
proof -
  have s: "0 < curve_steps hypot a b c" using curve_steps_bounds(1) [of hypot a b c] by linarith
  then show "curve_points hypot a b c \<noteq> []" by (simp add: curve_points_def Let_def)
  from s show "last (curve_points hypot a b c) = c"
    by (simp add: curve_points_def Let_def last_map curve_end)
qed

text \<open>A polygon glyph is drawn as it is: without curves the contour's own points come out, closed.\<close>

lemma straight_fold:
  "\<forall>p \<in> set pts. snd p \<Longrightarrow> ct_control st = None \<Longrightarrow>
     ct_polygon (fold (contour_step hypot) pts st) = ct_polygon st @ map fst pts \<and>
     ct_control (fold (contour_step hypot) pts st) = None"
proof (induction pts arbitrary: st)
  case (Cons p pts)
  obtain q where p: "p = (q, True)" using Cons.prems(1) by (cases p) auto
  with Cons show ?case by (simp add: contour_step_def)
qed simp

lemma straight_contour:
  assumes "contour \<noteq> []" and "list_all gp_onCurve contour"
  shows "contourToPolygon hypot contour project =
    Inr (map (\<lambda>p. project (gp_x p) (gp_y p)) (contour @ [hd contour]))"
proof -
  obtain c cs where c: "contour = c # cs" using assms(1) by (cases contour) auto
  let ?pts = "map (\<lambda>p. (project (gp_x p) (gp_y p), gp_onCurve p)) contour"
  have on: "\<forall>p \<in> set (rotate 1 ?pts). snd p" using assms(2) by (auto simp: list_all_iff)
  let ?st = "\<lparr>ct_polygon = [project (gp_x c) (gp_y c)], ct_cursor = project (gp_x c) (gp_y c), ct_control = None\<rparr>"
  from straight_fold [OF on, of ?st hypot]
  have f: "ct_polygon (fold (contour_step hypot) (rotate 1 ?pts) ?st) =
      ct_polygon ?st @ map fst (rotate 1 ?pts)"
    "ct_control (fold (contour_step hypot) (rotate 1 ?pts) ?st) = None" by simp_all
  have "contour_start ?pts = (project (gp_x c) (gp_y c), 1)"
    using assms(2) by (simp add: c contour_start_def)
  with f show ?thesis
    unfolding contourToPolygon_def Let_def using assms(1) by (simp add: c comp_def)
qed

lemma text_step_width:
  assumes "text_step hypot f scale baseline cp (penX, ps) = Inr (penX', ps')"
  shows "\<exists>w'. width_step f cp w = Inr w' \<and> penX' = penX + (of_nat w' - of_nat w) * scale"
  using assms by (auto simp: text_step_def width_step_def and_then_Inr)

lemma text_fold_width:
  "fold_try (text_step hypot f scale baseline) cps (penX, ps) = Inr (penX', ps') \<Longrightarrow>
     \<exists>w'. fold_try (width_step f) cps w = Inr w' \<and> penX' = penX + (of_nat w' - of_nat w) * scale"
proof (induction cps arbitrary: penX ps w)
  case (Cons cp cps)
  from Cons.prems obtain p1 ps1 where s: "text_step hypot f scale baseline cp (penX, ps) = Inr (p1, ps1)"
    "fold_try (text_step hypot f scale baseline) cps (p1, ps1) = Inr (penX', ps')" by (auto simp: and_then_Inr)
  from text_step_width [OF s(1)] obtain w1 where w1: "width_step f cp w = Inr w1"
    "p1 = penX + (of_nat w1 - of_nat w) * scale" by blast
  from Cons.IH [OF s(2), of w1] obtain w' where "fold_try (width_step f) cps w1 = Inr w'"
    "penX' = p1 + (of_nat w' - of_nat w1) * scale" by blast
  with w1 show ?case by (auto simp: algebra_simps)
qed auto

text \<open>Measuring a line and drawing it agree: whenever the line can be drawn it can be measured, and the
  pen ends exactly its width behind the start.\<close>

lemma text_width_is_pen_travel:
  assumes "fold_try (text_step hypot f (px / of_nat (ft_unitsPerEm f)) baseline) (code_points content) (x, []) =
      Inr (penX, ps)"
  shows "textPolygons hypot f content px x baseline = Inr ps \<and>
    (\<exists>w. textWidth f content px = Inr w \<and> penX = x + w)"
  using text_fold_width [OF assms, of 0] assms by (auto simp: textPolygons_def textWidth_def Let_def)

end
