(* ===== verification/Painting.thy ===== *)
theory Painting
  imports Png_Format
begin

text \<open>
  What \<open>Canvas.paint\<close> and \<open>#addSpan\<close> of \<open>raster.mjs\<close> do to the pixels: the canvas keeps its shape,
  every channel stays between its old value and the colour painted, a span adds exactly its length
  to the coverage, and a rectangle on the pixel grid is painted without soft edges.
\<close>

section \<open>The shape of the canvas\<close>

lemma length_put_pixel [simp]: "length (put_pixel k color alpha pixels) = length pixels"
  by (cases color) (simp add: put_pixel_def Let_def)

lemma length_fold_same:
  assumes "\<And>c px. length (F c px) = length px"
  shows "length (fold F xs px) = length px"
  using assms by (induction xs arbitrary: px) simp_all

lemma length_paint_row [simp]: "length (paint_row w h es color row pixels) = length pixels"
  unfolding paint_row_def Let_def by (simp add: length_fold_same)

lemma length_paint_rows: "length (fold (paint_row w h es color) rows pixels) = length pixels"
  by (induction rows arbitrary: pixels) simp_all

lemma paint_shape [simp]:
  "cv_width (paint polygons color cv) = cv_width cv" "cv_height (paint polygons color cv) = cv_height cv"
  "length (cv_pixels (paint polygons color cv)) = length (cv_pixels cv)"
  by (simp_all add: paint_def Let_def length_paint_rows)

lemma paint_canvas_ok: "canvas_ok cv \<Longrightarrow> canvas_ok (paint polygons color cv)"
  by (simp add: canvas_ok_def)

section \<open>Blending\<close>

lemma round_half_even_bounds:
  assumes "of_int a \<le> r" "r \<le> of_int b"
  shows "a \<le> round_half_even r" "round_half_even r \<le> b"
proof -
  have f: "a \<le> \<lfloor>r\<rfloor>" using assms(1) by (simp add: le_floor_iff)
  have "\<lfloor>r\<rfloor> \<le> b" using assms(2) by (simp add: floor_le_iff)
  then have "\<lfloor>r\<rfloor> < b \<or> r = of_int b"
    using assms(2) floor_correct [of r] by (metis dual_order.antisym le_floor_iff linorder_not_less)
  moreover have "round_half_even r \<le> \<lfloor>r\<rfloor> + 1" "\<lfloor>r\<rfloor> \<le> round_half_even r"
    by (simp_all add: round_half_even_def Let_def)
  moreover have "round_half_even (of_int b) = b" by (simp add: round_half_even_def)
  ultimately show "a \<le> round_half_even r" "round_half_even r \<le> b" using f by auto
qed

lemma clamp_store_byte [simp]: "clamp_store (unsigned (b :: byte)) = b"
proof -
  have u: "(unsigned b :: rat) = of_nat (unat b)" by simp
  have le: "unat b \<le> 255" using byte_bound [of b] by simp
  have max: "(255 :: rat) \<le> of_nat (unat b) \<Longrightarrow> b = 255"
  proof -
    assume "(255 :: rat) \<le> of_nat (unat b)"
    then have "unat b = unat (255 :: byte)" using le by (simp del: of_nat_unat)
    then show "b = 255" by (rule unsigned_word_eqI)
  qed
  have zero: "of_nat (unat b) \<le> (0 :: rat) \<Longrightarrow> b = 0"
  proof -
    assume "of_nat (unat b) \<le> (0 :: rat)"
    then have "unat b = unat (0 :: byte)" by (simp del: of_nat_unat)
    then show "b = 0" by (rule unsigned_word_eqI)
  qed
  have "round_half_even (of_nat (unat b)) = int (unat b)"
    by (simp add: round_half_even_def del: of_nat_unat)
  then show ?thesis
    unfolding u clamp_store_def using max zero by (auto simp del: of_nat_unat) simp
qed

lemma clamp_store_bounds:
  assumes "of_nat m \<le> r" "r \<le> of_nat n" "n \<le> 255"
  shows "m \<le> unat (clamp_store r)" "unat (clamp_store r) \<le> n"
proof -
  have b: "int m \<le> round_half_even r" "round_half_even r \<le> int n"
    using assms(1,2) round_half_even_bounds [of "int m" r "int n"] by simp_all
  have "m \<le> n" using assms(1,2) by (metis of_nat_le_iff order_trans)
  have u: "unat (word_of_int (round_half_even r) :: byte) = nat (round_half_even r)"
  proof -
    have "take_bit 8 (round_half_even r) = round_half_even r"
      by (rule take_bit_int_eq_self) (use b assms(3) in linarith, use b assms(3) in simp)
    then show ?thesis by (simp add: unsigned_of_int)
  qed
  consider "r \<le> 0" | "0 < r" "255 \<le> r" | "0 < r" "r < 255" by linarith
  then have "m \<le> unat (clamp_store r) \<and> unat (clamp_store r) \<le> n"
  proof cases
    case 1
    then have "of_nat m \<le> (0 :: rat)" using assms(1) by linarith
    then show ?thesis using 1 by (simp add: clamp_store_def)
  next
    case 2
    then have "(255 :: rat) \<le> of_nat n" using assms(2) by linarith
    then have "n = 255" using assms(3) by (metis of_nat_le_iff of_nat_numeral le_antisym)
    then show ?thesis using 2 \<open>m \<le> n\<close> by (simp add: clamp_store_def)
  next
    case 3
    then show ?thesis using b u by (simp add: clamp_store_def nat_le_iff le_nat_iff)
  qed
  then show "m \<le> unat (clamp_store r)" "unat (clamp_store r) \<le> n" by simp_all
qed

lemma blend_between:
  fixes c :: byte
  assumes "0 \<le> t" "t \<le> 1"
  shows "min (unat p) (unat c) \<le> unat (blend p (of_nat (unat c)) t)"
    "unat (blend p (of_nat (unat c)) t) \<le> max (unat p) (unat c)"
proof -
  let ?p = "of_nat (unat p) :: rat" and ?c = "of_nat (unat c) :: rat"
  have v: "?p + (?c - ?p) * t = (1 - t) * ?p + t * ?c" by (simp add: algebra_simps)
  have "min ?p ?c = (1 - t) * min ?p ?c + t * min ?p ?c" by (simp add: algebra_simps)
  also have "\<dots> \<le> (1 - t) * ?p + t * ?c" using assms by (intro add_mono mult_left_mono) simp_all
  finally have lo: "min ?p ?c \<le> ?p + (?c - ?p) * t" by (simp only: v)
  have "(1 - t) * ?p + t * ?c \<le> (1 - t) * max ?p ?c + t * max ?p ?c"
    using assms by (intro add_mono mult_left_mono) simp_all
  then have hi: "?p + (?c - ?p) * t \<le> max ?p ?c" unfolding v by (simp add: algebra_simps)
  have m: "max (unat p) (unat c) \<le> 255" using byte_bound [of p] byte_bound [of c] by simp
  show "min (unat p) (unat c) \<le> unat (blend p (of_nat (unat c)) t)"
    "unat (blend p (of_nat (unat c)) t) \<le> max (unat p) (unat c)"
    unfolding blend_def using lo hi m
    by (intro clamp_store_bounds [where m = "min (unat p) (unat c)" and n = "max (unat p) (unat c)"];
        simp add: of_nat_min of_nat_max del: of_nat_unat)+
qed

lemma blend_full [simp]: "blend p (unsigned (c :: byte)) 1 = c"
  by (simp add: blend_def)

section \<open>Pixels move towards the colour\<close>

type_synonym rgb_bytes = "byte \<times> byte \<times> byte"

definition rgb_of :: "rgb_bytes \<Rightarrow> rgb" where
  "rgb_of c = (case c of (r, g, b) \<Rightarrow> (unsigned r, unsigned g, unsigned b))"

definition channel :: "rgb_bytes \<Rightarrow> nat \<Rightarrow> byte" where
  "channel c k = (case c of (r, g, b) \<Rightarrow> if k mod 3 = 0 then r else if k mod 3 = 1 then g else b)"

definition between :: "byte \<Rightarrow> byte \<Rightarrow> byte \<Rightarrow> bool" where
  "between a x c \<longleftrightarrow> min (unat a) (unat c) \<le> unat x \<and> unat x \<le> max (unat a) (unat c)"

definition moved :: "rgb_bytes \<Rightarrow> byte list \<Rightarrow> byte list \<Rightarrow> bool" where
  "moved c px px' \<longleftrightarrow> length px' = length px \<and> (\<forall>k < length px. between (px ! k) (px' ! k) (channel c k))"

lemma between_refl [simp]: "between a a c"
  by (simp add: between_def)

lemma between_trans: "between a x c \<Longrightarrow> between x y c \<Longrightarrow> between a y c"
  by (auto simp: between_def)

lemma moved_refl [simp]: "moved c px px"
  by (simp add: moved_def)

lemma moved_trans: "moved c px py \<Longrightarrow> moved c py pz \<Longrightarrow> moved c px pz"
  by (auto simp: moved_def intro: between_trans)

lemma moved_update:
  assumes "between (raw_at px k) v (channel c k)"
  shows "moved c px (px[k := v])"
proof -
  have "between (px ! i) (px[k := v] ! i) (channel c i)" if "i < length px" for i
    using that assms by (cases "i = k") (simp_all add: raw_at_def)
  then show ?thesis by (simp add: moved_def)
qed

lemma blend_moves:
  "0 \<le> t \<Longrightarrow> t \<le> 1 \<Longrightarrow> between p (blend p (unsigned c) t) c"
  using blend_between [of t p c] by (simp add: between_def)

lemma channel_simps:
  "k mod 3 = 0 \<Longrightarrow> channel (r, g, b) k = r"
  "k mod 3 = 0 \<Longrightarrow> channel (r, g, b) (Suc k) = g"
  "k mod 3 = 0 \<Longrightarrow> channel (r, g, b) (Suc (Suc k)) = b"
  by (simp_all add: channel_def mod_Suc)

lemma put_pixel_moved:
  assumes "k mod 3 = 0"
  shows "moved c px (put_pixel k (rgb_of c) alpha px)"
proof (cases "alpha \<le> 5 / 10000")
  case True
  then show ?thesis by (cases c) (simp add: put_pixel_def rgb_of_def)
next
  case False
  obtain r g b where c: "c = (r, g, b)" by (rule prod_cases3)
  let ?t = "if 1 \<le> alpha then 1 else alpha"
  have t: "0 \<le> ?t" "?t \<le> 1" using False by auto
  define p1 where "p1 = px[k := blend (raw_at px k) (unsigned r) ?t]"
  define p2 where "p2 = p1[Suc k := blend (raw_at p1 (Suc k)) (unsigned g) ?t]"
  define p3 where "p3 = p2[Suc (Suc k) := blend (raw_at p2 (Suc (Suc k))) (unsigned b) ?t]"
  have "moved c px p1" "moved c p1 p2" "moved c p2 p3"
    unfolding p1_def p2_def p3_def
    by (rule moved_update; simp only: c channel_simps [OF assms]; rule blend_moves [OF t])+
  moreover have "put_pixel k (rgb_of c) alpha px = p3"
    unfolding put_pixel_def rgb_of_def c prod.case Let_def p1_def p2_def p3_def using False by simp
  ultimately show ?thesis by (metis moved_trans)
qed

lemma fold_moved:
  "(\<And>x px. moved c px (F x px)) \<Longrightarrow> moved c px (fold F xs px)"
  by (induction xs arbitrary: px) (auto intro: moved_trans)

lemma paint_row_moved: "moved c px (paint_row w h es (rgb_of c) row px)"
  unfolding paint_row_def Let_def
  by (cases "bucket h es row = []") (auto intro!: fold_moved put_pixel_moved)

lemma paint_moved: "moved c (cv_pixels cv) (cv_pixels (paint polygons (rgb_of c) cv))"
  unfolding paint_def Let_def by (auto intro!: fold_moved paint_row_moved)

text \<open>Painting keeps the canvas well formed and never overshoots: width, height and the number of
  bytes are unchanged, and every channel of every pixel ends between its old value and the colour's,
  for any polygons whatsoever, in and outside the canvas.\<close>

theorem paint_between:
  "cv_width (paint polygons (rgb_of c) cv) = cv_width cv \<and>
   cv_height (paint polygons (rgb_of c) cv) = cv_height cv \<and>
   moved c (cv_pixels cv) (cv_pixels (paint polygons (rgb_of c) cv))"
  by (simp add: paint_moved)

section \<open>Coverage of a span\<close>

lemma sum_list_update:
  "i < length xs \<Longrightarrow> sum_list (xs[i := xs ! i + (v :: rat)]) = sum_list xs + v"
proof (induction xs arbitrary: i)
  case (Cons x xs)
  then show ?case by (cases i) simp_all
qed simp

lemma length_add_at [simp]: "length (add_at i v cov) = length cov"
  by (simp add: add_at_def)

lemma sum_add_at: "0 \<le> i \<Longrightarrow> i < int (length cov) \<Longrightarrow> sum_list (add_at i v cov) = sum_list cov + v"
  by (simp add: add_at_def sum_list_update nat_less_iff)

lemma length_fold_add_at [simp]: "length (fold (\<lambda>c. add_at c v) xs cov) = length cov"
  by (induction xs arbitrary: cov) simp_all

lemma sum_fold_add_at:
  "(\<forall>i \<in> set xs. 0 \<le> i \<and> i < int (length cov)) \<Longrightarrow>
     sum_list (fold (\<lambda>c. add_at c v) xs cov) = sum_list cov + of_nat (length xs) * v"
  by (induction xs arbitrary: cov) (simp_all add: sum_add_at algebra_simps)

lemma billionth_pos: "0 < (1 / 10 ^ 9 :: rat)"
  by simp

lemma span_indices:
  fixes start :: rat
  assumes "0 \<le> start" "start + 1 / 10 ^ 9 \<le> end" "end \<le> of_int columns"
  shows "0 \<le> \<lfloor>start\<rfloor>" "\<lfloor>start\<rfloor> \<le> min (columns - 1) \<lfloor>end - 1 / 10 ^ 9\<rfloor>"
proof -
  show "0 \<le> \<lfloor>start\<rfloor>" using assms(1) by simp
  have "start < of_int columns" using assms(2,3) billionth_pos by linarith
  then have "\<lfloor>start\<rfloor> \<le> columns - 1" by (metis floor_less_iff zle_diff1_eq)
  moreover have "\<lfloor>start\<rfloor> \<le> \<lfloor>end - 1 / 10 ^ 9\<rfloor>" using assms(2) by (intro floor_mono) linarith
  ultimately show "\<lfloor>start\<rfloor> \<le> min (columns - 1) \<lfloor>end - 1 / 10 ^ 9\<rfloor>" by simp
qed

text \<open>A span adds exactly its visible length to the coverage of a row: for spans of at least a
  billionth of a pixel the coverage grows by the length of the part inside the row, weighted.\<close>

theorem addSpan_conserves:
  assumes "length cov = nat columns"
    and "max 0 from + 1 / 10 ^ 9 \<le> min (of_int columns) to"
  shows "sum_list (addSpan weight columns (from, to) cov) =
    sum_list cov + (min (of_int columns) to - max 0 from) * weight"
proof -
  define start where "start = max 0 from"
  define stop where "stop = min (of_int columns) to"
  define i where "i = \<lfloor>start\<rfloor>"
  define j where "j = min (columns - 1) \<lfloor>stop - 1 / 10 ^ 9\<rfloor>"
  have s: "0 \<le> start" "start + 1 / 10 ^ 9 \<le> stop" "stop \<le> of_int columns"
    using assms(2) by (auto simp: start_def stop_def)
  then have pos: "\<not> stop \<le> start" using billionth_pos by linarith
  have ij: "0 \<le> i" "i \<le> j" "j \<le> columns - 1"
    using span_indices [OF s] by (simp_all add: i_def j_def)
  then have len: "int (length cov) = columns" using assms(1) by simp
  have unfold: "addSpan weight columns (from, to) cov =
      (if i = j then add_at i ((stop - start) * weight) cov
       else add_at j ((stop - of_int j) * weight) (fold (\<lambda>c. add_at c weight) [i + 1..j - 1]
              (add_at i ((of_int i + 1 - start) * weight) cov)))"
    using pos by (simp add: addSpan_def Let_def start_def stop_def i_def j_def)
  show ?thesis
  proof (cases "i = j")
    case True
    with ij len show ?thesis
      unfolding unfold by (simp add: sum_add_at start_def stop_def)
  next
    case False
    then have n: "rat_of_nat (length [i + 1..j - 1]) = of_int j - of_int i - 1"
      using ij by simp
    show ?thesis
      unfolding unfold using False ij len
      by (simp add: sum_add_at sum_fold_add_at n start_def stop_def algebra_simps)
  qed
qed

theorem addSpan_conserves_witness:
  "sum_list (addSpan (1 / 16) 4 (- 1, 5 / 2) [0, 0, 0, 0]) = 5 / 32"
  using addSpan_conserves [of "[0, 0, 0, 0]" 4 "- 1" "5 / 2" "1 / 16"] by simp

text \<open>Below that width the last column is computed left of the first one, and the span adds more than a
  whole pixel row twice: a sliver of a ten-billionth adds coverage two instead of its length.\<close>

lemma addSpan_sliver:
  "sum_list (addSpan 1 4 (2, 2 + 1 / 10 ^ 10) [0, 0, 0, 0]) = 2 + 1 / 10 ^ 10"
proof -
  have f: "\<lfloor>2 + 1 / 10 ^ 10 - 1 / 10 ^ 9 :: rat\<rfloor> = 1" by (simp add: floor_eq_iff)
  then show ?thesis
    by (simp add: addSpan_def Let_def add_at_def)
qed

end
