(* ===== verification/Og_Image.thy ===== *)
theory Og_Image
  imports Brand_Assets Outlines Painting
begin

text \<open>
  The social card script (\<open>apps/marketing-site/scripts/generate-og-image.mjs\<close>): its palette and
  geometry, the text it draws, and the sequence of paints up to the PNG.

  The three fonts and the lockup are read from files and are arguments, like \<open>inflate\<close>, \<open>deflate\<close>,
  \<open>Math.hypot\<close> and the trigonometric functions. A polygon with a coordinate that is not a number makes
  the bounds of a paint \<open>NaN\<close>, its loops run over nothing, and the canvas stays as it is
  (\<open>paint_outline\<close>). A lockup that is not finite is the parameter \<open>engine\<close>, as in the brand script.
\<close>

section \<open>Colours\<close>

text \<open>The remainder of numbers, with the sign of the dividend.\<close>

definition js_rem :: "rat \<Rightarrow> rat \<Rightarrow> rat" where
  "js_rem a b = a - b * of_int (if 0 \<le> a / b then \<lfloor>a / b\<rfloor> else \<lceil>a / b\<rceil>)"

definition hsl :: "rat \<Rightarrow> rat \<Rightarrow> rat \<Rightarrow> rgb" where
  "hsl hue saturation lightness =
     (let s = saturation / 100; l = lightness / 100;
          chroma = (1 - \<bar>2 * l - 1\<bar>) * s;
          sector = js_rem (js_rem hue 360 + 360) 360 / 60;
          second = chroma * (1 - \<bar>js_rem sector 2 - 1\<bar>);
          (r, g, b) =
            (if sector < 1 then (chroma, second, 0)
             else if sector < 2 then (second, chroma, 0)
             else if sector < 3 then (0, chroma, second)
             else if sector < 4 then (0, second, chroma)
             else if sector < 5 then (second, 0, chroma)
             else (chroma, 0, second));
          offset = l - chroma / 2
      in (of_int (js_round ((r + offset) * 255)), of_int (js_round ((g + offset) * 255)),
          of_int (js_round ((b + offset) * 255))))"

definition double_digits :: "jstr \<Rightarrow> jstr" where
  "double_digits s = concat (map (\<lambda>u. [u, u]) s)"

definition hex :: "jstr \<Rightarrow> exn + rgb" where
  "hex v =
     (let digits = without_hash v;
          full = (if length digits = 3 then double_digits digits else digits)
      in if hex_digits full
         then Inr (unsigned (hex_pair full 0), unsigned (hex_pair full 2), unsigned (hex_pair full 4))
         else Inl (OtherError (js ''unsupported colour'')))"

definition COLOR_background :: rgb where "COLOR_background = hsl 0 9 7"
definition COLOR_backgroundWeak :: rgb where "COLOR_backgroundWeak = hsl 0 6 10"
definition COLOR_borderWeak :: rgb where "COLOR_borderWeak = hsl 0 4 23"
definition COLOR_text :: rgb where "COLOR_text = hsl 0 4 71"
definition COLOR_textStrong :: rgb where "COLOR_textStrong = hsl 0 15 94"

section \<open>Geometry and copy\<close>

definition CARD_width :: nat where "CARD_width = 1200"
definition CARD_height :: nat where "CARD_height = 630"
definition FRAME_inset :: rat where "FRAME_inset = 40"
definition FRAME_thickness :: rat where "FRAME_thickness = 2"
definition CONTENT_left :: rat where "CONTENT_left = 104"
definition CONTENT_right :: rat where "CONTENT_right = of_nat CARD_width - 104"
definition HEADER_height :: rat where "HEADER_height = 128"
definition HEADER_lockupScale :: rat where "HEADER_lockupScale = 3 / 2"
definition HEADER_siteSize :: rat where "HEADER_siteSize = 20"
definition HEADLINE_size :: rat where "HEADLINE_size = 52"
definition HEADLINE_baselines :: "rat list" where "HEADLINE_baselines = [262, 332]"
definition SUBTITLE_size :: rat where "SUBTITLE_size = 21"
definition SUBTITLE_baselines :: "rat list" where "SUBTITLE_baselines = [390, 427]"
definition CHIP_y :: rat where "CHIP_y = 474"
definition CHIP_height :: rat where "CHIP_height = 60"
definition CHIP_radius :: rat where "CHIP_radius = 6"
definition CHIP_padding :: rat where "CHIP_padding = 22"
definition CHIP_size :: rat where "CHIP_size = 20"
definition META_size :: rat where "META_size = 17"

definition COPY_site :: jstr where "COPY_site = js ''fissionplane.dev''"

definition COPY_headline :: "jstr list" where
  "COPY_headline = [js ''Self-hosted sandboxes and'', js ''serverless functions'']"

definition COPY_subtitle :: "jstr list" where
  "COPY_subtitle =
     [js ''Run AI-generated and untrusted code in isolated Firecracker'',
      js ''microVMs on infrastructure you operate. Open source, Apache-2.0.'']"

definition COPY_install_prefix :: jstr where "COPY_install_prefix = js ''npm install ''"
definition COPY_install_package :: jstr where "COPY_install_package = js ''@fissionplane/sdk''"

definition COPY_meta :: jstr where
  "COPY_meta = js ''TypeScript '' @ [0xB7] @ js '' Python '' @ [0xB7] @ js '' Rust''"

section \<open>Drawing\<close>

text \<open>What \<open>Canvas.paint\<close> does with outlines that may hold \<open>NaN\<close>. An edge whose ends have the same height
  is skipped whatever its other coordinates are; any other edge with a \<open>NaN\<close> leaves nothing to paint.\<close>

definition num_edges :: "num_polygon \<Rightarrow> (num_point \<times> num_point) list" where
  "num_edges p = filter (\<lambda>(a, b). snd a = None \<or> snd a \<noteq> snd b) (zip p (rotate1 p))"

definition finite_edge :: "num_point \<times> num_point \<Rightarrow> bool" where
  "finite_edge e = (case e of ((a, b), (c, d)) \<Rightarrow> a \<noteq> None \<and> b \<noteq> None \<and> c \<noteq> None \<and> d \<noteq> None)"

definition or_zero :: "num \<Rightarrow> rat" where
  "or_zero v = (case v of None \<Rightarrow> 0 | Some r \<Rightarrow> r)"

definition paint_outline :: "num_polygon list \<Rightarrow> rgb \<Rightarrow> Canvas \<Rightarrow> Canvas" where
  "paint_outline ps color cv =
     (if list_all (\<lambda>p. list_all finite_edge (num_edges p)) ps
      then paint (map (map (\<lambda>(x, y). (or_zero x, or_zero y))) ps) color cv else cv)"

definition centredBaseline :: "font \<Rightarrow> rat \<Rightarrow> rat \<Rightarrow> rat" where
  "centredBaseline f px middle = middle + (of_int (ft_capHeight f) * px) / of_nat (ft_unitsPerEm f) / 2"

definition drawText ::
  "(rat \<Rightarrow> rat \<Rightarrow> rat) \<Rightarrow> font \<Rightarrow> jstr \<Rightarrow> rat \<Rightarrow> rat \<Rightarrow> rat \<Rightarrow> rgb \<Rightarrow> Canvas \<Rightarrow> exn + rat \<times> Canvas"
where
  "drawText hypot f content px x baseline color cv =
     and_then (textWidth f content px) (\<lambda>width.
     if x < CONTENT_left - 1 / 2 \<or> CONTENT_right + 1 / 2 < x + width
     then Inl (OtherError (js ''does not fit the content column''))
     else and_then (textPolygons hypot f content px x baseline) (\<lambda>ps.
       Inr (x + width, paint_outline ps color cv)))"

text \<open>One line of a block of text at the baseline of its index.\<close>

definition draw_lines ::
  "(rat \<Rightarrow> rat \<Rightarrow> rat) \<Rightarrow> font \<Rightarrow> jstr list \<Rightarrow> rat \<Rightarrow> rat list \<Rightarrow> rgb \<Rightarrow> Canvas \<Rightarrow> exn + Canvas"
where
  "draw_lines hypot f ls px baselines color =
     fold_try (\<lambda>(line, baseline) cv. map_sum id snd (drawText hypot f line px CONTENT_left baseline color cv))
       (zip ls baselines)"

section \<open>The card\<close>

definition inset_box :: box where
  "inset_box = \<lparr>bx_x = FRAME_inset, bx_y = FRAME_inset, bx_width = of_nat CARD_width - FRAME_inset * 2,
     bx_height = of_nat CARD_height - FRAME_inset * 2\<rparr>"

definition frame_and_rule :: "Canvas \<Rightarrow> Canvas" where
  "frame_and_rule cv =
     (let headerBottom = FRAME_inset + HEADER_height in
      paint [rectangle \<lparr>bx_x = FRAME_inset, bx_y = headerBottom - FRAME_thickness,
               bx_width = of_nat CARD_width - FRAME_inset * 2, bx_height = FRAME_thickness\<rparr>] COLOR_borderWeak
        (paint (frame inset_box FRAME_thickness) COLOR_borderWeak cv))"

definition headerMiddle :: rat where
  "headerMiddle = FRAME_inset + (HEADER_height - FRAME_thickness) / 2"

definition finite_svg :: "svg \<Rightarrow> bool" where
  "finite_svg sv \<longleftrightarrow> sv_width sv \<noteq> None \<and> sv_height sv \<noteq> None \<and> list_all (\<lambda>v. v \<noteq> None) (svg_numbers sv)"

definition place_lockup :: "svg \<Rightarrow> svg" where
  "place_lockup lockup = placeSvg lockup CONTENT_left
     (of_int (js_round (headerMiddle - (or_zero (sv_height lockup) * HEADER_lockupScale) / 2))) HEADER_lockupScale"

definition draw_lockup :: "(svg \<Rightarrow> Canvas \<Rightarrow> exn + Canvas) \<Rightarrow> svg \<Rightarrow> Canvas \<Rightarrow> exn + Canvas" where
  "draw_lockup engine lockup cv =
     (if \<not> isInteger (Some (of_nat (gridUnitOf lockup) * HEADER_lockupScale))
      then Inl (OtherError (js ''scale blurs the lockup grid''))
      else if \<not> finite_svg lockup then engine lockup cv
      else if CONTENT_right < CONTENT_left + or_zero (sv_width (place_lockup lockup))
      then Inl (OtherError (js ''lockup does not fit the content column''))
      else fold_try (\<lambda>shape cv. and_then (hex (sv_fill shape)) (\<lambda>color.
             Inr (paint_outline (sv_polygons shape) color cv))) (sv_shapes (place_lockup lockup)) cv)"

definition draw_chip :: "trigonometry \<Rightarrow> box \<Rightarrow> Canvas \<Rightarrow> Canvas" where
  "draw_chip tr chip cv =
     paint [roundedRectangle tr chip CHIP_radius,
            rev (roundedRectangle tr \<lparr>bx_x = bx_x chip + FRAME_thickness / 2, bx_y = bx_y chip + FRAME_thickness / 2,
              bx_width = bx_width chip - FRAME_thickness, bx_height = bx_height chip - FRAME_thickness\<rparr>
              (CHIP_radius - FRAME_thickness / 2))] COLOR_borderWeak
       (paint [roundedRectangle tr chip CHIP_radius] COLOR_backgroundWeak cv)"

definition install_chip :: "rat \<Rightarrow> box" where
  "install_chip installWidth =
     \<lparr>bx_x = CONTENT_left, bx_y = CHIP_y, bx_width = installWidth + CHIP_padding * 2, bx_height = CHIP_height\<rparr>"

record card_fonts =
  cf_regular :: font
  cf_medium :: font
  cf_bold :: font

text \<open>Everything drawn after the lockup, in order: the site, headline and subtitle, then the install chip
  with its two words and the line of SDKs.\<close>

definition draw_copy :: "(rat \<Rightarrow> rat \<Rightarrow> rat) \<Rightarrow> card_fonts \<Rightarrow> Canvas \<Rightarrow> exn + Canvas" where
  "draw_copy hypot fs cv =
     and_then (textWidth (cf_regular fs) COPY_site HEADER_siteSize) (\<lambda>siteWidth.
     and_then (drawText hypot (cf_regular fs) COPY_site HEADER_siteSize (CONTENT_right - siteWidth)
       (centredBaseline (cf_regular fs) HEADER_siteSize headerMiddle) COLOR_textStrong cv) (\<lambda>(x1, cv1).
     and_then (draw_lines hypot (cf_bold fs) COPY_headline HEADLINE_size HEADLINE_baselines COLOR_textStrong cv1) (\<lambda>cv2.
     draw_lines hypot (cf_regular fs) COPY_subtitle SUBTITLE_size SUBTITLE_baselines COLOR_text cv2)))"

definition draw_install ::
  "(rat \<Rightarrow> rat \<Rightarrow> rat) \<Rightarrow> trigonometry \<Rightarrow> card_fonts \<Rightarrow> Canvas \<Rightarrow> exn + Canvas"
where
  "draw_install hypot tr fs cv =
     and_then (textWidth (cf_regular fs) COPY_install_prefix CHIP_size) (\<lambda>w1.
     and_then (textWidth (cf_medium fs) COPY_install_package CHIP_size) (\<lambda>w2.
     let chip = install_chip (w1 + w2); chipMiddle = bx_y chip + bx_height chip / 2
     in and_then (drawText hypot (cf_regular fs) COPY_install_prefix CHIP_size (bx_x chip + CHIP_padding)
          (centredBaseline (cf_regular fs) CHIP_size chipMiddle) COLOR_text (draw_chip tr chip cv)) (\<lambda>(afterPrefix, cv1).
        and_then (drawText hypot (cf_medium fs) COPY_install_package CHIP_size afterPrefix
          (centredBaseline (cf_medium fs) CHIP_size chipMiddle) COLOR_textStrong cv1) (\<lambda>(x2, cv2).
        and_then (textWidth (cf_regular fs) COPY_meta META_size) (\<lambda>w3.
        map_sum id snd (drawText hypot (cf_regular fs) COPY_meta META_size (CONTENT_right - w3)
          (centredBaseline (cf_regular fs) META_size chipMiddle) COLOR_text cv2))))))"

definition og_image ::
  "(buffer \<Rightarrow> exn + buffer) \<Rightarrow> (buffer \<Rightarrow> buffer) \<Rightarrow> (rat \<Rightarrow> rat \<Rightarrow> rat) \<Rightarrow> trigonometry \<Rightarrow>
   (svg \<Rightarrow> Canvas \<Rightarrow> exn + Canvas) \<Rightarrow> buffer \<Rightarrow> buffer \<Rightarrow> buffer \<Rightarrow> jstr \<Rightarrow> exn + buffer"
where
  "og_image inflate deflate hypot tr engine font400 font500 font700 lockupSource =
     and_then (loadFont inflate font400) (\<lambda>regular.
     and_then (loadFont inflate font500) (\<lambda>medium.
     and_then (loadFont inflate font700) (\<lambda>bold.
     let fs = \<lparr>cf_regular = regular, cf_medium = medium, cf_bold = bold\<rparr>
     in and_then (loadSvg lockupSource) (\<lambda>lockup.
        and_then (draw_lockup engine lockup (frame_and_rule (new_Canvas CARD_width CARD_height COLOR_background))) (\<lambda>cv1.
        and_then (draw_copy hypot fs cv1) (\<lambda>cv2.
        and_then (draw_install hypot tr fs cv2) (\<lambda>cv3.
        toPng deflate cv3)))))))"

section \<open>The size of the card\<close>

text \<open>What the pages of the site declare of the card, in the \<open>og:image\<close> members of
  \<open>src/layouts/Layout.astro\<close>.\<close>

definition OG_IMAGE_WIDTH :: nat where "OG_IMAGE_WIDTH = 1200"
definition OG_IMAGE_HEIGHT :: nat where "OG_IMAGE_HEIGHT = 630"

definition card_canvas :: "Canvas \<Rightarrow> bool" where
  "card_canvas cv \<longleftrightarrow> cv_width cv = CARD_width \<and> cv_height cv = CARD_height \<and> canvas_ok cv"

lemma card_canvas_paint [simp]: "card_canvas (paint ps color cv) = card_canvas cv"
  by (simp add: card_canvas_def canvas_ok_def)

lemma card_canvas_outline [simp]: "card_canvas (paint_outline ps color cv) = card_canvas cv"
  by (simp add: paint_outline_def)

lemma card_canvas_new: "card_canvas (frame_and_rule (new_Canvas CARD_width CARD_height background))"
proof -
  have "card_canvas (new_Canvas CARD_width CARD_height background)"
    by (simp add: card_canvas_def new_Canvas_ok) (simp add: new_Canvas_def split: prod.split)
  then show ?thesis by (simp add: frame_and_rule_def Let_def)
qed

text \<open>A line of text lies in the content column or stops the script: the guard of \<open>drawText\<close>.\<close>

lemma drawText_card:
  assumes "drawText hypot f content px x baseline color cv = Inr (x', cv')"
  shows "card_canvas cv' = card_canvas cv" and "CONTENT_left - 1 / 2 \<le> x" and "x' \<le> CONTENT_right + 1 / 2"
  using assms by (auto simp: drawText_def and_then_Inr split: if_splits)

lemma drawText_keeps:
  "drawText hypot f content px x baseline color cv = Inr (x', cv') \<Longrightarrow> card_canvas cv \<Longrightarrow> card_canvas cv'"
  by (simp add: drawText_card(1))

lemma map_sum_Inr: "map_sum f g r = Inr y \<longleftrightarrow> (\<exists>z. r = Inr z \<and> y = g z)"
  by (cases r) auto

lemma draw_lines_card:
  assumes "draw_lines hypot f ls px baselines color cv = Inr cv'" and "card_canvas cv"
  shows "card_canvas cv'"
  using assms(1) unfolding draw_lines_def
  by (rule fold_try_invariant [where P = card_canvas, OF _ assms(2)])
    (auto simp: map_sum_Inr dest: drawText_keeps split: prod.splits)

lemma draw_lockup_card:
  assumes "draw_lockup engine lockup cv = Inr cv'" and "card_canvas cv"
    and "\<And>sv c c'. engine sv c = Inr c' \<Longrightarrow> card_canvas c \<Longrightarrow> card_canvas c'"
  shows "card_canvas cv'"
proof -
  have "card_canvas cv'" if "fold_try (\<lambda>shape cv. and_then (hex (sv_fill shape)) (\<lambda>color.
      Inr (paint_outline (sv_polygons shape) color cv))) shapes cv = Inr cv'" for shapes
    using that by (rule fold_try_invariant [where P = card_canvas, OF _ assms(2)]) (auto simp: and_then_Inr)
  with assms show ?thesis by (auto simp: draw_lockup_def split: if_splits)
qed

lemma draw_chip_card [simp]: "card_canvas (draw_chip tr chip cv) = card_canvas cv"
  by (simp add: draw_chip_def)

lemma draw_copy_card: "draw_copy hypot fs cv = Inr cv' \<Longrightarrow> card_canvas cv \<Longrightarrow> card_canvas cv'"
  by (auto simp: draw_copy_def and_then_Inr dest!: drawText_keeps draw_lines_card)

lemma draw_install_card: "draw_install hypot tr fs cv = Inr cv' \<Longrightarrow> card_canvas cv \<Longrightarrow> card_canvas cv'"
  by (auto simp: draw_install_def and_then_Inr Let_def map_sum_Inr dest!: drawText_keeps)

text \<open>The card the build writes has the size the pages declare: it is a PNG of 1200 by 630 pixels that
  reads back, whatever the fonts and the lockup are, or the script stops.\<close>

lemma og_image_size:
  assumes "og_image inflate deflate hypot tr engine font400 font500 font700 lockupSource = Inr png"
    and "\<And>raw. unzip (deflate raw) = raw"
    and "\<And>sv c c'. engine sv c = Inr c' \<Longrightarrow> card_canvas c \<Longrightarrow> card_canvas c'"
  shows "\<exists>raw. read_png unzip png = Some (OG_IMAGE_WIDTH, OG_IMAGE_HEIGHT, 2, raw)"
proof -
  from assms(1) obtain lockup fs cv1 cv2 cv3 where
      d: "draw_lockup engine lockup (frame_and_rule (new_Canvas CARD_width CARD_height COLOR_background)) = Inr cv1"
        "draw_copy hypot fs cv1 = Inr cv2" "draw_install hypot tr fs cv2 = Inr cv3" "toPng deflate cv3 = Inr png"
    by (auto simp: og_image_def and_then_Inr Let_def)
  have "card_canvas cv3"
    by (rule draw_install_card [OF d(3) draw_copy_card [OF d(2) draw_lockup_card [OF d(1) card_canvas_new assms(3)]]])
  then have "cv_width cv3 = OG_IMAGE_WIDTH" "cv_height cv3 = OG_IMAGE_HEIGHT"
    by (simp_all add: card_canvas_def CARD_width_def CARD_height_def OG_IMAGE_WIDTH_def OG_IMAGE_HEIGHT_def)
  with read_png_file [OF d(4) [unfolded toPng_def], of unzip] assms(2) show ?thesis by simp
qed

end
