(* ===== verification/Winding.thy ===== *)
theory Winding
  imports Brand_Assets
begin

text \<open>
  The non-zero winding rule both rasterisers follow, against its definition. The winding number of a
  point counts the edges that cross the horizontal line through it at or to the left of it, upward edges
  one way and downward edges the other. A sweep over sorted crossings finds exactly the points with a
  number other than zero, because around closed polygons the crossings of a line cancel.

  On artwork whose edges are axis-parallel and on whole coordinates the brand rasteriser therefore
  paints exactly the pixels whose centres the polygons wind around.
\<close>

section \<open>Winding numbers\<close>

definition winding_left :: "(rat \<times> int) list \<Rightarrow> rat \<Rightarrow> int" where
  "winding_left cs p = sum_list (map snd (filter (\<lambda>c. fst c \<le> p) cs))"

definition winding_number :: "polygon list \<Rightarrow> rat \<Rightarrow> rat \<Rightarrow> int" where
  "winding_number ps px py = winding_left (crossings (edges_of ps) py) px"

definition in_spans :: "(rat \<times> rat) list \<Rightarrow> rat \<Rightarrow> bool" where
  "in_spans sps p \<longleftrightarrow> (\<exists>(a, b) \<in> set sps. a \<le> p \<and> p < b)"

lemma in_spans_simps [simp]:
  "\<not> in_spans [] p"
  "in_spans ((a, b) # sps) p \<longleftrightarrow> a \<le> p \<and> p < b \<or> in_spans sps p"
  by (auto simp: in_spans_def)

lemma winding_left_Cons:
  "winding_left ((x, d) # cs) p = (if x \<le> p then d else 0) + winding_left cs p"
  by (simp add: winding_left_def)

lemma winding_left_far: "\<forall>c \<in> set cs. p < fst c \<Longrightarrow> winding_left cs p = 0"
  by (induction cs) (auto simp: winding_left_def)

text \<open>The sweep: inside a span (\<open>w \<noteq> 0\<close>) that began at \<open>s\<close>, and between spans.\<close>

lemma winding_spans_sweep:
  assumes "sorted (map fst cs)" and "w + sum_list (map snd cs) = 0"
    and "w \<noteq> 0 \<Longrightarrow> \<forall>c \<in> set cs. s \<le> fst c"
  shows "in_spans (winding_spans w s cs) p \<longleftrightarrow> w + winding_left cs p \<noteq> 0 \<and> (w \<noteq> 0 \<longrightarrow> s \<le> p)"
  using assms
proof (induction cs arbitrary: w s)
  case Nil
  then show ?case by (simp add: winding_left_def)
next
  case (Cons c cs)
  obtain x d where c: "c = (x, d)" by fastforce
  let ?s = "if w = 0 then x else s"
  have ge: "\<forall>c \<in> set cs. x \<le> fst c" using Cons.prems(1) by (auto simp: c)
  have s: "?s \<le> x" using Cons.prems(3) by (auto simp: c)
  have srt: "sorted (map fst cs)" and sm: "(w + d) + sum_list (map snd cs) = 0"
    using Cons.prems(1,2) by (simp_all add: c)
  have IH: "in_spans (winding_spans (w + d) ?s cs) p \<longleftrightarrow>
      w + d + winding_left cs p \<noteq> 0 \<and> (w + d \<noteq> 0 \<longrightarrow> ?s \<le> p)"
    by (rule Cons.IH [OF srt sm]) (use ge s in force)
  have far: "winding_left cs p = 0" if "p < x" using ge that by (intro winding_left_far) force
  show ?case
  proof (cases "x \<le> p")
    case True
    with IH s show ?thesis
      by (cases "w = 0") (auto simp: c winding_left_Cons Let_def)
  next
    case False
    with far have "winding_left cs p = 0" by simp
    with IH s False show ?thesis by (cases "w = 0") (auto simp: c winding_left_Cons Let_def)
  qed
qed

section \<open>Closed polygons\<close>

lemma sum_list_insort: "sum_list (map f (insort_key k x xs)) = f x + sum_list (map (f :: _ \<Rightarrow> int) xs)"
  by (induction xs) simp_all

lemma sum_list_sort: "sum_list (map f (sort_key k xs)) = sum_list (map (f :: _ \<Rightarrow> int) xs)"
  by (induction xs) (simp_all add: sum_list_insort)

lemma winding_left_sort: "winding_left (sort_key fst cs) p = winding_left cs p"
  unfolding winding_left_def by (metis filter_sort sum_list_sort)

text \<open>What an edge adds to the crossings of a line: the difference of the sides its ends are on.\<close>

definition side :: "rat \<Rightarrow> rat \<Rightarrow> int" where
  "side y v = (if v \<le> y then 1 else 0)"

definition edge_winding :: "rat \<Rightarrow> edge \<Rightarrow> int" where
  "edge_winding y e = side y (e_y0 e) - side y (e_y1 e)"

lemma crossings_total:
  "list_all (\<lambda>e. e_y0 e \<noteq> e_y1 e) es \<Longrightarrow> sum_list (map snd (crossings es y)) = sum_list (map (edge_winding y) es)"
proof (induction es)
  case (Cons e es)
  then show ?case
    by (auto simp: crossings_def edge_winding_def side_def e_from_def e_to_def min_def max_def)
qed (simp add: crossings_def)

lemma edges_upright: "list_all (\<lambda>e. e_y0 e \<noteq> e_y1 e) (edges_of ps)"
  by (auto simp: edges_of_def polygon_edges_def list_all_iff split: prod.splits if_splits)

lemma polygon_edges_sum:
  "sum_list (map (edge_winding y) (polygon_edges p)) =
     (\<Sum>i\<leftarrow>[0..<length p]. side y (snd (p ! i)) - side y (snd (p ! ((i + 1) mod length p))))"
proof -
  have "sum_list (map (edge_winding y) (concat (map f is))) = (\<Sum>i\<leftarrow>is. sum_list (map (edge_winding y) (f i)))"
    for f :: "nat \<Rightarrow> edge list" and "is" by (induction "is") simp_all
  then show ?thesis
    unfolding polygon_edges_def
    by (auto intro!: arg_cong [where f = sum_list] simp: edge_winding_def split: prod.splits)
qed

lemma rotate_sum: "(\<Sum>i\<leftarrow>[0..<length p]. f (p ! ((i + 1) mod length p))) = (\<Sum>i\<leftarrow>[0..<length p]. (f (p ! i) :: int))"
proof (cases "p = []")
  case False
  have "map (\<lambda>i. f (p ! ((i + 1) mod length p))) [0..<length p] = map f (rotate1 p)"
    using False by (intro nth_equalityI) (simp_all add: nth_rotate1)
  moreover have "map (\<lambda>i. f (p ! i)) [0..<length p] = map f p" by (intro nth_equalityI) simp_all
  moreover have "sum_list (map f (rotate1 p)) = sum_list (map f p)" by (cases p) simp_all
  ultimately show ?thesis by simp
qed simp

lemma polygon_edges_closed: "sum_list (map (edge_winding y) (polygon_edges p)) = 0"
  unfolding polygon_edges_sum
  using rotate_sum [of "\<lambda>v. side y (snd v)" p] by (simp add: sum_list_subtractf)

lemma crossings_cancel: "sum_list (map snd (crossings (edges_of ps) y)) = 0"
proof -
  have "sum_list (map (edge_winding y) (edges_of ps)) = 0"
    by (induction ps) (simp_all add: edges_of_def polygon_edges_closed)
  then show ?thesis by (simp add: crossings_total [OF edges_upright])
qed

lemma crossing_step: "c \<in> set (crossings es y) \<Longrightarrow> snd c \<noteq> 0"
  by (auto simp: crossings_def split: if_splits)

text \<open>The spans of a scanline cover exactly the points with a winding number other than zero.\<close>

lemma sample_spans_winding:
  "in_spans (sample_spans (edges_of ps) py) px \<longleftrightarrow> winding_number ps px py \<noteq> 0"
proof -
  let ?cs = "crossings (edges_of ps) py"
  have few: "?cs = []" if "length ?cs < 2"
  proof (cases ?cs)
    case (Cons c cs)
    with that have "?cs = [c]" by simp
    with crossings_cancel [of ps py] crossing_step [of c "edges_of ps" py] show ?thesis by simp
  qed
  have "in_spans (winding_spans 0 0 (sort_key fst ?cs)) px \<longleftrightarrow> winding_left ?cs px \<noteq> 0"
    using winding_spans_sweep [of "sort_key fst ?cs" 0 0 px] crossings_cancel [of ps py]
    by (simp add: winding_left_sort sum_list_sort)
  then show ?thesis
    using few by (auto simp: sample_spans_def winding_number_def Let_def winding_left_def)
qed

section \<open>Artwork on the pixel grid\<close>

definition whole :: "rat \<Rightarrow> bool" where
  "whole r \<longleftrightarrow> of_int \<lfloor>r\<rfloor> = r"

definition next_point :: "polygon \<Rightarrow> nat \<Rightarrow> point" where
  "next_point p i = p ! ((i + 1) mod length p)"

definition grid_polygon :: "polygon \<Rightarrow> bool" where
  "grid_polygon p \<longleftrightarrow> list_all (\<lambda>(x, y). whole x \<and> whole y) p \<and>
     list_all (\<lambda>i. fst (p ! i) = fst (next_point p i) \<or> snd (p ! i) = snd (next_point p i)) [0..<length p]"

definition upright :: "edge \<Rightarrow> bool" where
  "upright e \<longleftrightarrow> e_x0 e = e_x1 e \<and> whole (e_x0 e) \<and> whole (e_y0 e) \<and> whole (e_y1 e)"

lemma polygon_edge_cases:
  assumes "e \<in> set (polygon_edges p)"
  obtains i where "i < length p" "(e_x0 e, e_y0 e) = p ! i" "(e_x1 e, e_y1 e) = next_point p i" "e_y0 e \<noteq> e_y1 e"
proof -
  let ?f = "\<lambda>i. case (p ! i, next_point p i) of ((x0, y0), (x1, y1)) \<Rightarrow>
     if y0 = y1 then [] else [\<lparr>e_x0 = x0, e_y0 = y0, e_x1 = x1, e_y1 = y1\<rparr>]"
  have "polygon_edges p = concat (map ?f [0..<length p])" by (simp add: polygon_edges_def next_point_def)
  with assms obtain i where "i < length p" and e: "e \<in> set (?f i)" by fastforce
  moreover obtain x0 y0 x1 y1 where "p ! i = (x0, y0)" "next_point p i = (x1, y1)" by (meson surj_pair)
  ultimately show thesis using that [of i] e by (auto split: if_splits)
qed

lemma grid_upright:
  assumes "list_all grid_polygon ps" and "e \<in> set (edges_of ps)"
  shows "upright e"
proof -
  from assms(2) obtain p where p: "p \<in> set ps" "e \<in> set (polygon_edges p)" by (auto simp: edges_of_def)
  from assms(1) p(1) have g: "grid_polygon p" by (simp add: list_all_iff)
  from p(2) obtain i where i: "i < length p" "(e_x0 e, e_y0 e) = p ! i" "(e_x1 e, e_y1 e) = next_point p i"
    "e_y0 e \<noteq> e_y1 e" by (rule polygon_edge_cases)
  have n: "next_point p i \<in> set p" using i(1) unfolding next_point_def by (intro nth_mem mod_less_divisor) linarith
  from g i n show ?thesis
    unfolding grid_polygon_def upright_def list_all_iff
    by (metis (no_types, lifting) atLeast_upt case_prodD fst_conv lessThan_iff nth_mem snd_conv)
qed

lemma whole_le: "whole a \<Longrightarrow> of_int i \<le> p \<Longrightarrow> p < of_int i + 1 \<Longrightarrow> a \<le> p \<longleftrightarrow> a \<le> of_int i"
proof -
  assume a: "whole a" and p: "of_int i \<le> p" "p < of_int i + 1"
  then obtain k where k: "a = of_int k" by (metis whole_def)
  have "k \<le> i" if "a \<le> p"
    using that p(2) unfolding k by (metis add.commute le_less_trans of_int_1 of_int_add of_int_less_iff zless_add1_eq zle_add1_eq_le)
  with p(1) k show ?thesis by force
qed

text \<open>Inside a pixel the winding number does not change.\<close>

lemma crossings_pixel:
  assumes "\<forall>e \<in> set es. upright e" and "of_int j \<le> py" and "py < of_int j + 1"
  shows "crossings es py = map (\<lambda>e. (e_x0 e, if e_y1 e > e_y0 e then 1 else - 1))
    (filter (\<lambda>e. e_from e \<le> of_int j \<and> \<not> e_to e \<le> of_int j) es)"
proof -
  have "e_from e \<le> py \<longleftrightarrow> e_from e \<le> of_int j" "e_to e \<le> py \<longleftrightarrow> e_to e \<le> of_int j" if "e \<in> set es" for e
    using assms that whole_le [of _ j py] by (auto simp: upright_def e_from_def e_to_def min_def max_def)
  then have "filter (\<lambda>e. \<not> (py < e_from e \<or> e_to e \<le> py)) es =
      filter (\<lambda>e. e_from e \<le> of_int j \<and> \<not> e_to e \<le> of_int j) es"
    by (intro filter_cong) (auto simp: not_less)
  with assms(1) show ?thesis by (auto simp: crossings_def upright_def)
qed

lemma winding_number_pixel:
  assumes "list_all grid_polygon ps"
    and "of_int i \<le> px" "px < of_int i + 1" and "of_int j \<le> py" "py < of_int j + 1"
  shows "winding_number ps px py = winding_number ps (of_int i) (of_int j)"
proof -
  have u: "\<forall>e \<in> set (edges_of ps). upright e" using grid_upright assms(1) by blast
  have c: "crossings (edges_of ps) py = crossings (edges_of ps) (of_int j)"
    unfolding crossings_pixel [OF u assms(4,5)] by (rule crossings_pixel [OF u, symmetric]) simp_all
  have "whole (fst c)" if "c \<in> set (crossings (edges_of ps) (of_int j))" for c
    using that u by (auto simp: crossings_pixel [OF u, of j] upright_def)
  then have "filter (\<lambda>c. fst c \<le> px) (crossings (edges_of ps) (of_int j)) =
      filter (\<lambda>c. fst c \<le> of_int i) (crossings (edges_of ps) (of_int j))"
    using whole_le [OF _ assms(2,3)] by (intro filter_cong) auto
  then show ?thesis by (simp add: winding_number_def winding_left_def c)
qed

lemma winding_spans_ends:
  "(a, b) \<in> set (winding_spans w s cs) \<Longrightarrow> \<forall>c \<in> set cs. P (fst c) \<Longrightarrow> w \<noteq> 0 \<Longrightarrow> P s \<Longrightarrow> P a \<and> P b"
  "(a, b) \<in> set (winding_spans w s cs) \<Longrightarrow> \<forall>c \<in> set cs. P (fst c) \<Longrightarrow> w = 0 \<Longrightarrow> P a \<and> P b"
  by (induction w s cs rule: winding_spans.induct) (auto simp: Let_def split: if_splits)

lemma grid_spans_whole:
  assumes "list_all grid_polygon ps" and "(a, b) \<in> set (sample_spans (edges_of ps) (of_nat y + 1 / 2))"
  shows "whole a" "whole b"
proof -
  have u: "\<forall>e \<in> set (edges_of ps). upright e" using grid_upright assms(1) by blast
  have "crossings (edges_of ps) (of_nat y + 1 / 2) = map (\<lambda>e. (e_x0 e, if e_y1 e > e_y0 e then 1 else - 1))
    (filter (\<lambda>e. e_from e \<le> of_int (int y) \<and> \<not> e_to e \<le> of_int (int y)) (edges_of ps))"
    by (rule crossings_pixel [OF u]) simp_all
  with u have "\<forall>c \<in> set (sort_key fst (crossings (edges_of ps) (of_nat y + 1 / 2))). whole (fst c)"
    by (auto simp: upright_def)
  with winding_spans_ends(2) [of a b 0 0 _ whole] assms(2) show "whole a" "whole b"
    by (auto simp: sample_spans_def Let_def split: if_splits)
qed

section \<open>Pixels\<close>

definition pixel :: "buffer \<Rightarrow> nat \<Rightarrow> byte list" where
  "pixel rgba k = map (\<lambda>i. rgba ! (k * 4 + i)) [0, 1, 2, 3]"

fun opaque :: "rgb_bytes \<Rightarrow> byte list" where
  "opaque (red, green, blue) = [red, green, blue, 255]"

lemma length_put_rgba [simp]: "length (put_rgba color k rgba) = length rgba"
  by (simp add: put_rgba_def split: prod.splits)

lemma pixel_put_rgba:
  assumes "k * 4 + 3 < length rgba"
  shows "pixel (put_rgba color k rgba) k' = (if k' = k then opaque color else pixel rgba k')"
proof (cases "k' = k")
  case True
  obtain r g b where "color = (r, g, b)" by (rule prod_cases3)
  with True assms show ?thesis by (simp add: pixel_def put_rgba_def nth_list_update)
next
  case False
  then have "k * 4 + j \<noteq> k' * 4 + i" if "i < 4" "j < 4" for i j using that by presburger
  from this [of 0 0] this [of 0 1] this [of 0 2] this [of 0 3] this [of 1 0] this [of 1 1] this [of 1 2] this [of 1 3]
    this [of 2 0] this [of 2 1] this [of 2 2] this [of 2 3] this [of 3 0] this [of 3 1] this [of 3 2] this [of 3 3]
  have "put_rgba color k rgba ! (k' * 4 + i) = rgba ! (k' * 4 + i)" if "i \<in> {0, 1, 2, 3}" for i
    using that by (auto simp: put_rgba_def split: prod.splits)
  from this [of 0] this [of 1] this [of 2] this [of 3] False show ?thesis by (simp add: pixel_def)
qed

lemma pixel_fold_put:
  "\<forall>k \<in> set ks. k * 4 + 3 < length rgba \<Longrightarrow>
     pixel (fold (put_rgba color) ks rgba) k' = (if k' \<in> set ks then opaque color else pixel rgba k')"
  by (induction ks arbitrary: rgba) (auto simp: pixel_put_rgba)

lemma fold_concat: "fold f (concat xss) = fold (fold f) xss"
  by (induction xss) (simp_all add: fun_eq_iff)

text \<open>The pixels the rasteriser writes, in order.\<close>

definition span_pixels :: "nat \<Rightarrow> nat \<Rightarrow> rat \<times> rat \<Rightarrow> nat list" where
  "span_pixels width row sp =
     map (\<lambda>x. row * width + x) [nat (max 0 (js_round (fst sp)))..<nat (min (int width) (js_round (snd sp)))]"

definition written_pixels :: "nat \<Rightarrow> nat \<Rightarrow> polygon list \<Rightarrow> nat list" where
  "written_pixels width height ps =
     concat (map (\<lambda>row. concat (map (span_pixels width row) (sample_spans (edges_of ps) (of_nat row + 1 / 2)))) [0..<height])"

lemma fill_polygons_written:
  "fill_polygons width height ps color = fold (put_rgba color) (written_pixels width height ps)"
proof -
  have span: "fill_span width row color = (\<lambda>sp. fold (put_rgba color) (span_pixels width row sp))" for row
    by (auto simp: fun_eq_iff fill_span_def span_pixels_def fold_map comp_def)
  have row: "fill_row width (edges_of ps) color = (\<lambda>row. fold (put_rgba color)
      (concat (map (span_pixels width row) (sample_spans (edges_of ps) (of_nat row + 1 / 2)))))"
    unfolding fun_eq_iff fill_row_def span by (simp add: fold_concat fold_map comp_def)
  show ?thesis
    unfolding fun_eq_iff fill_polygons_def row by (simp add: written_pixels_def fold_concat fold_map comp_def)
qed

lemma span_pixels_iff:
  "k \<in> set (span_pixels width row sp) \<longleftrightarrow> (\<exists>x < width. k = row * width + x \<and>
     nat (max 0 (js_round (fst sp))) \<le> x \<and> x < nat (min (int width) (js_round (snd sp))))"
proof -
  have "x < width" if "x < nat (min (int width) z)" for x and z :: int using that by linarith
  then show ?thesis unfolding span_pixels_def set_map image_iff set_upt atLeastLessThan_iff Bex_def by blast
qed

lemma written_pixels_fit:
  assumes "k \<in> set (written_pixels width height ps)"
  shows "k < width * height"
proof -
  from assms obtain row sp where "row < height" and sp: "k \<in> set (span_pixels width row sp)"
    by (auto simp: written_pixels_def)
  from sp obtain x where "x < width" "k = row * width + x" unfolding span_pixels_iff by blast
  then have "k < row * width + width" by simp
  also have "\<dots> = Suc row * width" by simp
  also have "\<dots> \<le> height * width" using \<open>row < height\<close> by (intro mult_le_mono1) simp
  finally show ?thesis by (simp add: mult.commute)
qed

lemma js_round_whole: "whole r \<Longrightarrow> js_round r = \<lfloor>r\<rfloor>"
proof -
  assume "whole r"
  then obtain i where r: "r = of_int i" by (metis whole_def)
  have "\<lfloor>of_int i + 1 / 2 :: rat\<rfloor> = i" by (simp add: floor_eq_iff)
  then show ?thesis by (simp add: js_round_def r)
qed

lemma span_contains_centre:
  assumes "whole a" "whole b" "x < width"
  shows "nat (max 0 (js_round a)) \<le> x \<and> x < nat (min (int width) (js_round b)) \<longleftrightarrow>
    a \<le> of_nat x + 1 / 2 \<and> of_nat x + 1 / 2 < b"
proof -
  from assms obtain i j where a: "a = of_int i" and b: "b = of_int j" by (metis whole_def)
  have "\<lfloor>a\<rfloor> = i" "\<lfloor>b\<rfloor> = j" by (simp_all add: a b)
  then have r: "js_round a = i" "js_round b = j" using js_round_whole assms(1,2) by simp_all
  have cmp: "rat_of_int k \<le> of_nat x \<longleftrightarrow> k \<le> int x" for k
    by (metis of_int_le_iff of_int_of_nat_eq)
  have "a \<le> of_nat x + 1 / 2 \<longleftrightarrow> i \<le> int x"
    using whole_le [OF assms(1), of "int x" "of_nat x + 1 / 2"] by (simp add: a cmp)
  moreover have "b \<le> of_nat x + 1 / 2 \<longleftrightarrow> j \<le> int x"
    using whole_le [OF assms(2), of "int x" "of_nat x + 1 / 2"] by (simp add: b cmp)
  ultimately show ?thesis using assms(3) by (auto simp: r not_le)
qed

lemma row_pixel_inject:
  "x < (w :: nat) \<Longrightarrow> x' < w \<Longrightarrow> r * w + x = r' * w + x' \<longleftrightarrow> r = r' \<and> x = x'"
  by (metis add_diff_cancel_left' div_mult_self3 div_less add_0_right less_nat_zero_code mod_less mod_mult_self3)

lemma written_pixels_iff:
  assumes "list_all grid_polygon ps" and "x < width" and "y < height"
  shows "y * width + x \<in> set (written_pixels width height ps) \<longleftrightarrow>
    winding_number ps (of_nat x + 1 / 2) (of_nat y + 1 / 2) \<noteq> 0"
proof -
  let ?sps = "sample_spans (edges_of ps) (of_nat y + 1 / 2)"
  have "y * width + x \<in> set (written_pixels width height ps) \<longleftrightarrow>
      (\<exists>(a, b) \<in> set ?sps. nat (max 0 (js_round a)) \<le> x \<and> x < nat (min (int width) (js_round b)))"
  proof
    assume "y * width + x \<in> set (written_pixels width height ps)"
    then obtain row sp x' where r: "row < height" "sp \<in> set (sample_spans (edges_of ps) (of_nat row + 1 / 2))"
      "x' < width" "y * width + x = row * width + x'" "nat (max 0 (js_round (fst sp))) \<le> x'"
      "x' < nat (min (int width) (js_round (snd sp)))"
      by (auto simp: written_pixels_def span_pixels_iff)
    from row_pixel_inject [OF assms(2) r(3), of y row] r(4) have "row = y" "x' = x" by simp_all
    with r show "\<exists>(a, b) \<in> set ?sps. nat (max 0 (js_round a)) \<le> x \<and> x < nat (min (int width) (js_round b))"
      by (intro bexI [of _ sp]) (auto split: prod.splits)
  next
    assume "\<exists>(a, b) \<in> set ?sps. nat (max 0 (js_round a)) \<le> x \<and> x < nat (min (int width) (js_round b))"
    then obtain sp where sp: "sp \<in> set ?sps" "nat (max 0 (js_round (fst sp))) \<le> x"
      "x < nat (min (int width) (js_round (snd sp)))" by auto
    then have "y * width + x \<in> set (span_pixels width y sp)" unfolding span_pixels_iff using assms(2) by blast
    with sp(1) assms(3) show "y * width + x \<in> set (written_pixels width height ps)"
      unfolding written_pixels_def by (auto intro!: bexI [of _ y] bexI [of _ sp])
  qed
  also have "\<dots> \<longleftrightarrow> in_spans ?sps (of_nat x + 1 / 2)"
    unfolding in_spans_def
  proof (intro bex_cong refl)
    fix sp assume "sp \<in> set ?sps"
    then show "(case sp of (a, b) \<Rightarrow> nat (max 0 (js_round a)) \<le> x \<and> x < nat (min (int width) (js_round b))) \<longleftrightarrow>
        (case sp of (a, b) \<Rightarrow> a \<le> of_nat x + 1 / 2 \<and> of_nat x + 1 / 2 < b)"
      using span_contains_centre [of "fst sp" "snd sp" x width] grid_spans_whole [OF assms(1), of "fst sp" "snd sp" y]
        assms(2) by (simp add: split_beta)
  qed
  also have "\<dots> \<longleftrightarrow> winding_number ps (of_nat x + 1 / 2) (of_nat y + 1 / 2) \<noteq> 0"
    by (rule sample_spans_winding)
  finally show ?thesis .
qed

text \<open>C8: The brand rasteriser is exact on pixel art. For polygons with whole coordinates and
  axis-parallel edges, a pixel gets the colour, fully opaque, when the winding number of any point in it
  is not zero, and stays as it was otherwise. Sampling one line per row loses nothing.\<close>

theorem rasterizer_is_winding_rule:
  assumes "list_all grid_polygon ps" and "length rgba = width * height * 4"
    and "x < width" and "y < height"
    and "of_nat x \<le> px" "px < of_nat x + 1" and "of_nat y \<le> py" "py < of_nat y + 1"
  shows "pixel (fill_polygons width height ps color rgba) (y * width + x) =
    (if winding_number ps px py \<noteq> 0 then opaque color else pixel rgba (y * width + x))"
proof -
  have fit: "\<forall>k \<in> set (written_pixels width height ps). k * 4 + 3 < length rgba"
    using written_pixels_fit assms(2) by fastforce
  note cell = winding_number_pixel [OF assms(1), of "int x" _ "int y", unfolded of_int_of_nat_eq]
  have "winding_number ps px py = winding_number ps (of_nat x + 1 / 2) (of_nat y + 1 / 2)"
    by (rule trans [OF cell [OF assms(5-8)]], rule cell [symmetric]) simp_all
  then show ?thesis
    by (simp add: fill_polygons_written pixel_fold_put [OF fit] written_pixels_iff [OF assms(1,3,4)])
qed

theorem rasterizer_is_winding_rule_witness:
  "pixel (fill_polygons 2 1 [[(1, 0), (2, 0), (2, 1), (1, 1)]] (1, 2, 3) (alloc 8)) 1 = [1, 2, 3, 255] \<and>
   pixel (fill_polygons 2 1 [[(1, 0), (2, 0), (2, 1), (1, 1)]] (1, 2, 3) (alloc 8)) 0 = [0, 0, 0, 0]"
proof -
  let ?p = "[[(1, 0), (2, 0), (2, 1), (1, 1)]] :: polygon list"
  have g: "list_all grid_polygon ?p" by code_simp
  have w: "winding_number ?p (3 / 2) (1 / 2) \<noteq> 0" "winding_number ?p (1 / 2) (1 / 2) = 0" by code_simp+
  have "pixel (alloc 8) 0 = [0, 0, 0, 0]" by (simp add: pixel_def alloc_def)
  with w rasterizer_is_winding_rule [OF g, of "alloc 8" 2 1 1 0 "3 / 2" "1 / 2" "(1, 2, 3)"]
    rasterizer_is_winding_rule [OF g, of "alloc 8" 2 1 0 0 "1 / 2" "1 / 2" "(1, 2, 3)"]
  show ?thesis by (simp add: alloc_def)
qed

end
