(* ===== verification/Sharp.thy ===== *)
theory Sharp
  imports Winding Painting
begin

text \<open>
  Anti-aliased painting of artwork on the pixel grid (\<open>Canvas.paint\<close> of \<open>raster.mjs\<close>): sixteen equal
  scanlines per row, whole spans, so a pixel is covered not at all or completely. With the winding
  numbers of \<open>Winding\<close> this gives the exact picture: no soft edges, as the card's lockup relies on.
\<close>

section \<open>Whole spans\<close>

lemma nth_add_at:
  "k < length cov \<Longrightarrow> add_at i v cov ! k = cov ! k + (if int k = i then v else 0)"
  by (auto simp: add_at_def nth_list_update)

lemma nth_fold_add_at:
  "distinct is \<Longrightarrow> k < length cov \<Longrightarrow>
     fold (\<lambda>i. add_at i v) is cov ! k = cov ! k + (if int k \<in> set is then v else 0)"
  by (induction "is" arbitrary: cov) (auto simp: nth_add_at)

definition in_whole_span :: "int \<Rightarrow> rat \<times> rat \<Rightarrow> bool" where
  "in_whole_span i sp \<longleftrightarrow> fst sp \<le> of_int i \<and> of_int i < snd sp"

lemma addSpan_whole:
  assumes "k < length cov" and "length cov = nat columns"
  shows "addSpan v columns (of_int a, of_int b) cov ! k =
    cov ! k + (if a \<le> int k \<and> int k < b then v else 0)"
proof -
  define s where "s = max 0 a"
  define t where "t = min columns b"
  have st: "max 0 (of_int a) = (of_int s :: rat)" "min (of_int columns) (of_int b) = (of_int t :: rat)"
    unfolding s_def t_def by (simp_all add: max_def min_def)
  have k: "int k < columns" using assms by linarith
  show ?thesis
  proof (cases "t \<le> s")
    case True
    then have "\<not> (a \<le> int k \<and> int k < b)" using k by (auto simp: s_def t_def)
    with True show ?thesis unfolding addSpan_def prod.case st Let_def by auto
  next
    case False
    have "\<lfloor>of_int t - 1 / 10 ^ 9 :: rat\<rfloor> = t - 1" by (simp add: floor_eq_iff)
    moreover have "min (columns - 1) (t - 1) = t - 1" by (simp add: t_def)
    ultimately have last: "min (columns - 1) \<lfloor>of_int t - 1 / 10 ^ 9 :: rat\<rfloor> = t - 1" by simp
    have unfold: "addSpan v columns (of_int a, of_int b) cov =
        (if s = t - 1 then add_at s ((of_int t - of_int s) * v) cov
         else add_at (t - 1) ((of_int t - of_int (t - 1)) * v)
           (fold (\<lambda>c. add_at c v) [s + 1..t - 1 - 1] (add_at s ((of_int s + 1 - of_int s) * v) cov)))"
      unfolding addSpan_def prod.case st Let_def last floor_of_int using False by (simp only: of_int_le_iff if_False)
    have one: "(of_int t - of_int s) * v = v" if "s = t - 1" using that by simp
    have iff: "a \<le> int k \<and> int k < b \<longleftrightarrow> s \<le> int k \<and> int k \<le> t - 1" using k by (auto simp: s_def t_def)
    show ?thesis
    proof (cases "s = t - 1")
      case True
      then show ?thesis unfolding unfold iff one [OF True] using assms(1) by (auto simp: nth_add_at)
    next
      case ne: False
      have "int k \<in> set [s + 1..t - 1 - 1] \<longleftrightarrow> s + 1 \<le> int k \<and> int k \<le> t - 1 - 1" by simp
      with ne False show ?thesis unfolding unfold iff using assms(1)
        by (auto simp: nth_add_at nth_fold_add_at length_fold_add_at)
    qed
  qed
qed

lemma length_addSpan [simp]: "length (addSpan v columns sp cov) = length cov"
  by (simp add: addSpan_def Let_def split: prod.splits)

lemma fold_addSpan_whole:
  assumes "\<forall>(a, b) \<in> set sps. whole a \<and> whole b"
  shows "length cov = nat columns \<Longrightarrow> k < length cov \<Longrightarrow>
    fold (\<lambda>(a, b). addSpan v columns (a - of_int cf, b - of_int cf)) sps cov ! k =
      cov ! k + of_nat (length (filter (in_whole_span (int k + cf)) sps)) * v"
  using assms
proof (induction sps arbitrary: cov)
  case (Cons sp sps)
  obtain a b where sp: "sp = (a, b)" by fastforce
  with Cons.prems(3) have "whole a" "whole b" by simp_all
  then obtain i j where ij: "a = of_int i" "b = of_int j" by (metis whole_def)
  have "addSpan v columns (a - of_int cf, b - of_int cf) cov ! k =
      cov ! k + (if i - cf \<le> int k \<and> int k < j - cf then v else 0)"
    using addSpan_whole [OF Cons.prems(2,1), of v "i - cf" "j - cf"] by (simp add: ij)
  moreover have "in_whole_span (int k + cf) sp \<longleftrightarrow> i - cf \<le> int k \<and> int k < j - cf"
  proof -
    have "of_int i \<le> (of_int (int k + cf) :: rat) \<longleftrightarrow> i \<le> int k + cf" by (rule of_int_le_iff)
    moreover have "of_int (int k + cf) < (of_int j :: rat) \<longleftrightarrow> int k + cf < j" by (rule of_int_less_iff)
    ultimately show ?thesis by (auto simp: in_whole_span_def sp ij)
  qed
  ultimately show ?case using Cons by (simp add: sp algebra_simps)
qed simp

section \<open>A row of grid artwork\<close>

lemma crossings_bucket:
  assumes "rowFrom es \<le> row" "row \<le> rowTo h es" "of_int row \<le> y" "y < of_int row + 1"
  shows "crossings (bucket h es row) y = crossings es y"
proof -
  have "max (rowFrom es) \<lfloor>e_from e\<rfloor> \<le> row \<and> row \<le> min (rowTo h es) \<lceil>e_to e\<rceil>"
    if "\<not> (y < e_from e \<or> e_to e \<le> y)" for e
  proof -
    from that assms(4) have "e_from e < of_int (row + 1)" by simp
    then have "\<lfloor>e_from e\<rfloor> < row + 1" by (simp only: floor_less_iff)
    moreover from that assms(3) have "of_int row \<le> e_to e" by simp
    then have "row \<le> \<lceil>e_to e\<rceil>" by (metis ceiling_mono ceiling_of_int)
    ultimately show ?thesis using assms(1,2) by simp
  qed
  then have "filter (\<lambda>e. \<not> (y < e_from e \<or> e_to e \<le> y)) (bucket h es row) =
      filter (\<lambda>e. \<not> (y < e_from e \<or> e_to e \<le> y)) es"
    unfolding bucket_def filter_filter by (intro filter_cong) auto
  then show ?thesis by (simp only: crossings_def)
qed

lemma sample_spans_cong: "crossings es y = crossings es' y' \<Longrightarrow> sample_spans es y = sample_spans es' y'"
  by (simp add: sample_spans_def)

text \<open>All sixteen scanlines of a row see the same spans.\<close>

lemma row_samples:
  assumes "list_all grid_polygon ps" "rowFrom (edges_of ps) \<le> row" "row \<le> rowTo h (edges_of ps)" "0 \<le> row"
    and "sample < SUBSAMPLES"
  shows "sample_spans (bucket h (edges_of ps) row) (of_int row + (of_nat sample + 1 / 2) / of_nat SUBSAMPLES) =
    sample_spans (edges_of ps) (of_nat (nat row) + 1 / 2)"
proof -
  let ?y = "of_int row + (of_nat sample + 1 / 2) / of_nat SUBSAMPLES :: rat"
  have "of_nat sample + 1 / 2 < (16 :: rat)" using assms(5) by (simp add: SUBSAMPLES_def)
  then have y: "of_int row \<le> ?y" "?y < of_int row + 1" by (simp_all add: SUBSAMPLES_def)
  have r: "(of_nat (nat row) :: rat) = of_int row" using assms(4) by simp
  have u: "\<forall>e \<in> set (edges_of ps). upright e" using grid_upright assms(1) by blast
  have "crossings (bucket h (edges_of ps) row) ?y = crossings (edges_of ps) ?y"
    using crossings_bucket [OF assms(2,3) y] .
  also have "\<dots> = crossings (edges_of ps) (of_nat (nat row) + 1 / 2)"
    unfolding crossings_pixel [OF u y] r by (rule crossings_pixel [OF u, symmetric]) simp_all
  finally show ?thesis by (rule sample_spans_cong)
qed

definition cover_count :: "polygon list \<Rightarrow> int \<Rightarrow> nat \<Rightarrow> nat" where
  "cover_count ps i y = length (filter (in_whole_span i) (sample_spans (edges_of ps) (of_nat y + 1 / 2)))"

lemma row_coverage_length: "length (row_coverage w h es row) = nat (colTo w es - colFrom es + 1)"
proof -
  have inner: "length (fold (\<lambda>(a, b). addSpan v c (a - d, b - d)) sps cov) = length cov" for v c d sps cov
    by (induction sps arbitrary: cov) auto
  have "length (fold (\<lambda>sample cov. fold (\<lambda>(a, b). addSpan v c (a - d, b - d)) (f sample) cov) ss cov) = length cov"
    for v c d and f :: "nat \<Rightarrow> (rat \<times> rat) list" and ss cov
    by (induction ss arbitrary: cov) (simp_all add: inner)
  then show ?thesis by (simp add: row_coverage_def Let_def)
qed

lemma row_coverage_whole:
  assumes "list_all grid_polygon ps" "rowFrom (edges_of ps) \<le> row" "row \<le> rowTo h (edges_of ps)" "0 \<le> row"
    and "k < nat (colTo w (edges_of ps) - colFrom (edges_of ps) + 1)"
  shows "row_coverage w h (edges_of ps) row ! k =
    of_nat (cover_count ps (int k + colFrom (edges_of ps)) (nat row))"
proof -
  let ?es = "edges_of ps" and ?S = "sample_spans (edges_of ps) (of_nat (nat row) + 1 / 2)"
  let ?cf = "colFrom (edges_of ps)" and ?v = "1 / of_nat SUBSAMPLES :: rat"
  let ?columns = "colTo w ?es - ?cf + 1"
  let ?n = "of_nat (cover_count ps (int k + ?cf) (nat row)) :: rat"
  define q where "q = ?n * ?v"
  have S: "\<forall>(a, b) \<in> set ?S. whole a \<and> whole b" using grid_spans_whole [OF assms(1)] by blast
  have inner: "length (fold (\<lambda>(a, b). addSpan v c (a - d, b - d)) sps cov) = length cov" for v c d sps cov
    by (induction sps arbitrary: cov) auto
  have "fold (\<lambda>sample cov. fold (\<lambda>(a, b). addSpan ?v ?columns (a - of_int ?cf, b - of_int ?cf))
      (sample_spans (bucket h ?es row) (of_int row + (of_nat sample + 1 / 2) / of_nat SUBSAMPLES)) cov) ss cov ! k =
      cov ! k + of_nat (length ss) * q"
    if "\<forall>sample \<in> set ss. sample < SUBSAMPLES" "length cov = nat ?columns" for ss cov
    using that
  proof (induction ss arbitrary: cov)
    case (Cons sample ss)
    let ?cov = "fold (\<lambda>(a, b). addSpan ?v ?columns (a - of_int ?cf, b - of_int ?cf)) ?S cov"
    have "?cov ! k = cov ! k + q"
      unfolding q_def cover_count_def using assms(5) Cons.prems(2) by (intro fold_addSpan_whole [OF S]) simp_all
    moreover have "length ?cov = nat ?columns" using Cons.prems(2) by (simp add: inner)
    ultimately show ?case
      using Cons.IH [of ?cov] Cons.prems(1) row_samples [OF assms(1-4), of sample] by (simp add: algebra_simps)
  qed simp
  from this [of "[0..<SUBSAMPLES]" "replicate (nat ?columns) 0"] assms(5)
  have "row_coverage w h ?es row ! k = of_nat SUBSAMPLES * q" by (simp add: row_coverage_def Let_def)
  then show ?thesis by (simp add: q_def SUBSAMPLES_def)
qed

section \<open>Pixels\<close>

definition pixel3 :: "byte list \<Rightarrow> nat \<Rightarrow> byte \<times> byte \<times> byte" where
  "pixel3 px k = (px ! (k * 3), px ! (k * 3 + 1), px ! (k * 3 + 2))"

lemma pixel3_put:
  assumes "k * 3 + 2 < length px" and "alpha = 0 \<or> 1 \<le> alpha"
  shows "pixel3 (put_pixel (k * 3) (rgb_of c) alpha px) k' = (if k' = k \<and> alpha \<noteq> 0 then c else pixel3 px k')"
proof (cases "alpha = 0")
  case True
  then show ?thesis by (cases c) (simp add: put_pixel_def rgb_of_def)
next
  case False
  obtain r g b where c: "c = (r, g, b)" by (rule prod_cases3)
  from False assms(2) have a: "\<not> alpha \<le> 5 / 10000" "1 \<le> alpha" by auto
  have p: "put_pixel (k * 3) (rgb_of c) alpha px = px[k * 3 := r, k * 3 + 1 := g, k * 3 + 2 := b]"
    unfolding put_pixel_def rgb_of_def c prod.case Let_def using a by simp
  show ?thesis
  proof (cases "k' = k")
    case True
    with assms(1) False show ?thesis unfolding p pixel3_def by (simp add: nth_list_update c)
  next
    case ne: False
    then have "k * 3 + j \<noteq> k' * 3 + i" if "i < 3" "j < 3" for i j using that by presburger
    from this [of 0 0] this [of 0 1] this [of 0 2] this [of 1 0] this [of 1 1] this [of 1 2]
      this [of 2 0] this [of 2 1] this [of 2 2] ne show ?thesis unfolding p pixel3_def by simp
  qed
qed

lemma pixel3_fold_put:
  assumes "\<forall>col \<in> set cols. (base + col) * 3 + 2 < length px \<and> (cvg ! col = 0 \<or> 1 \<le> cvg ! col)"
  shows "pixel3 (fold (\<lambda>col. put_pixel (base * 3 + col * 3) (rgb_of c) (cvg ! col)) cols px) k =
    (if \<exists>col \<in> set cols. k = base + col \<and> cvg ! col \<noteq> 0 then c else pixel3 px k)"
  using assms
proof (induction cols arbitrary: px)
  case (Cons col cols)
  let ?px = "put_pixel ((base + col) * 3) (rgb_of c) (cvg ! col) px"
  have step: "put_pixel (base * 3 + col * 3) (rgb_of c) (cvg ! col) px = ?px" by (simp add: distrib_right)
  have IH: "pixel3 (fold (\<lambda>col. put_pixel (base * 3 + col * 3) (rgb_of c) (cvg ! col)) cols ?px) k =
      (if \<exists>col \<in> set cols. k = base + col \<and> cvg ! col \<noteq> 0 then c else pixel3 ?px k)"
    by (rule Cons.IH) (use Cons.prems in simp)
  have "pixel3 ?px k = (if k = base + col \<and> cvg ! col \<noteq> 0 then c else pixel3 px k)"
    using Cons.prems by (intro pixel3_put) simp_all
  then show ?case unfolding fold.simps comp_def step IH by auto
qed simp

lemma cover_count_zero: "cover_count ps i y = 0 \<longleftrightarrow> \<not> (\<exists>sp \<in> set (sample_spans (edges_of ps) (of_nat y + 1 / 2)). in_whole_span i sp)"
  by (auto simp: cover_count_def filter_empty_conv)

text \<open>A pixel is covered exactly when the polygons wind around it.\<close>

lemma cover_count_winding:
  assumes "list_all grid_polygon ps"
  shows "cover_count ps (int x) y \<noteq> 0 \<longleftrightarrow> winding_number ps (of_nat x + 1 / 2) (of_nat y + 1 / 2) \<noteq> 0"
proof -
  have cell: "winding_number ps (of_nat x) (of_nat y + 1 / 2) = winding_number ps (of_nat x + 1 / 2) (of_nat y + 1 / 2)"
    by (rule trans [OF winding_number_pixel [OF assms, of "int x" _ "int y"]
          winding_number_pixel [OF assms, of "int x" _ "int y", symmetric]]) simp_all
  have "cover_count ps (int x) y \<noteq> 0 \<longleftrightarrow> in_spans (sample_spans (edges_of ps) (of_nat y + 1 / 2)) (of_nat x)"
    by (simp add: cover_count_zero in_spans_def in_whole_span_def split_beta)
  then show ?thesis by (simp add: sample_spans_winding cell)
qed

lemma fold_min_le: "x \<in> set xs \<Longrightarrow> foldr min xs (y :: rat) \<le> x" "foldr min xs y \<le> y"
  by (induction xs) (auto simp: min_le_iff_disj)

lemma fold_max_ge: "x \<in> set xs \<Longrightarrow> x \<le> foldr max xs (y :: rat)" "y \<le> foldr max xs y"
  by (induction xs) (auto simp: le_max_iff_disj)

lemma min_of_le: "x \<in> set xs \<Longrightarrow> min_of xs \<le> x"
  by (cases xs) (auto simp: min_of_def fold_min_le)

lemma max_of_ge: "x \<in> set xs \<Longrightarrow> x \<le> max_of xs"
  by (cases xs) (auto simp: max_of_def fold_max_ge)

text \<open>A point with a winding number has a crossing on its left and one on its right, so it lies in the
  box the painter visits.\<close>

lemma winding_both_sides:
  assumes "winding_number ps px py \<noteq> 0"
  obtains a b where "a \<in> set (crossings (edges_of ps) py)" "fst a \<le> px" "b \<in> set (crossings (edges_of ps) py)" "px < fst b"
proof -
  let ?cs = "crossings (edges_of ps) py"
  have "\<exists>a \<in> set ?cs. fst a \<le> px"
  proof (rule ccontr)
    assume "\<not> ?thesis"
    then have "\<forall>c \<in> set ?cs. px < fst c" by force
    from winding_left_far [OF this] assms show False by (simp add: winding_number_def)
  qed
  moreover have "\<exists>b \<in> set ?cs. px < fst b"
  proof (rule ccontr)
    assume "\<not> ?thesis"
    then have "filter (\<lambda>c. fst c \<le> px) ?cs = ?cs" by (simp add: filter_id_conv not_less)
    with crossings_cancel [of ps py] assms show False by (simp add: winding_number_def winding_left_def)
  qed
  ultimately show thesis using that by blast
qed

lemma crossing_edge:
  assumes "\<forall>e \<in> set es. upright e" and "a \<in> set (crossings es py)"
  obtains e where "e \<in> set es" "e_from e \<le> py" "py < e_to e" "fst a = e_x0 e" "e_x1 e = e_x0 e"
proof -
  from assms(2) obtain e where "e \<in> set es" "e_from e \<le> py" "py < e_to e"
    "fst a = e_x0 e + ((py - e_y0 e) * (e_x1 e - e_x0 e)) / (e_y1 e - e_y0 e)"
    by (auto simp: crossings_def not_less not_le)
  moreover from this(1) assms(1) have "e_x1 e = e_x0 e" by (simp add: upright_def)
  ultimately show thesis using that by simp
qed

lemma winding_in_box:
  assumes "list_all grid_polygon ps" and "winding_number ps (of_nat x + 1 / 2) (of_nat y + 1 / 2) \<noteq> 0"
    and "x < w" "y < h"
  shows "edges_of ps \<noteq> []" "rowFrom (edges_of ps) \<le> int y" "int y \<le> rowTo h (edges_of ps)"
    "colFrom (edges_of ps) \<le> int x" "int x \<le> colTo w (edges_of ps)"
proof -
  let ?es = "edges_of ps" and ?py = "of_nat y + 1 / 2 :: rat" and ?px = "of_nat x + 1 / 2 :: rat"
  have u: "\<forall>e \<in> set ?es. upright e" using grid_upright assms(1) by blast
  obtain a b where ab: "a \<in> set (crossings ?es ?py)" "fst a \<le> ?px" "b \<in> set (crossings ?es ?py)" "?px < fst b"
    by (rule winding_both_sides [OF assms(2)])
  obtain e where e: "e \<in> set ?es" "e_from e \<le> ?py" "?py < e_to e" "fst a = e_x0 e" "e_x1 e = e_x0 e"
    by (rule crossing_edge [OF u ab(1)])
  obtain e' where e': "e' \<in> set ?es" "fst b = e_x0 e'" "e_x1 e' = e_x0 e'"
    by (rule crossing_edge [OF u ab(3)])
  from e(1) show "?es \<noteq> []" by auto
  have floor: "\<lfloor>m\<rfloor> \<le> int n" if "m \<le> of_nat n + 1 / 2" for m :: rat and n
  proof -
    from that have "m < of_int (int n + 1)" by simp
    then have "\<lfloor>m\<rfloor> < int n + 1" by (simp only: floor_less_iff)
    then show ?thesis by simp
  qed
  have ceiling: "int n \<le> \<lceil>m\<rceil>" if "of_nat n + 1 / 2 \<le> m" for m :: rat and n
  proof -
    from that have "of_int (int n) \<le> m" by simp
    then show ?thesis by (metis ceiling_mono ceiling_of_int)
  qed
  have "min_of (map e_from ?es) \<le> ?py" using e(1,2) min_of_le [of "e_from e" "map e_from ?es"] by simp
  then show "rowFrom ?es \<le> int y" using floor by (simp add: rowFrom_def)
  have "?py \<le> max_of (map e_to ?es)" using e(1,3) max_of_ge [of "e_to e" "map e_to ?es"] by simp
  then show "int y \<le> rowTo h ?es" using ceiling assms(4) by (simp add: rowTo_def)
  have "min_of (map (\<lambda>e. min (e_x0 e) (e_x1 e)) ?es) \<le> ?px"
    by (rule order_trans [OF min_of_le [of "min (e_x0 e) (e_x1 e)"]]) (use e(1,4,5) ab(2) in \<open>auto intro: rev_image_eqI [of e]\<close>)
  then show "colFrom ?es \<le> int x" using floor by (simp add: colFrom_def)
  have "?px \<le> max_of (map (\<lambda>e. max (e_x0 e) (e_x1 e)) ?es)"
    by (rule order_trans [OF _ max_of_ge [of "max (e_x0 e') (e_x1 e')"]]) (use e'(1-3) ab(4) in \<open>auto intro: rev_image_eqI [of e']\<close>)
  then show "int x \<le> colTo w ?es" using ceiling assms(3) by (simp add: colTo_def)
qed

section \<open>The picture\<close>

lemma paint_row_pixel:
  assumes g: "list_all grid_polygon ps" and row: "rowFrom (edges_of ps) \<le> row" "row \<le> rowTo h (edges_of ps)"
    and cols: "colFrom (edges_of ps) \<le> colTo w (edges_of ps)"
    and px: "length px = w * 3 * h" and xy: "x < w" "y < h"
  shows "pixel3 (paint_row w h (edges_of ps) (rgb_of c) row px) (y * w + x) =
    (if int y = row \<and> colFrom (edges_of ps) \<le> int x \<and> int x \<le> colTo w (edges_of ps) \<and> cover_count ps (int x) y \<noteq> 0
     then c else pixel3 px (y * w + x))"
proof -
  let ?es = "edges_of ps"
  define cf where "cf = nat (colFrom ?es)"
  define n where "n = nat (colTo w ?es - colFrom ?es + 1)"
  have r0: "0 \<le> row" "row < int h" using row by (simp_all add: rowFrom_def rowTo_def)
  have cf: "int cf = colFrom ?es" by (simp add: cf_def colFrom_def)
  have "colTo w ?es \<le> int w - 1" by (simp add: colTo_def)
  with cols cf have fit: "cf + n \<le> w" by (simp add: n_def)
  let ?cvg = "row_coverage w h ?es row"
  have cvg: "?cvg ! k = of_nat (cover_count ps (int (cf + k)) (nat row))" if "k < n" for k
    using row_coverage_whole [OF g row r0(1), of k w] that cf by (simp add: n_def add.commute)
  have ok: "(nat row * w + cf + k) * 3 + 2 < length px \<and> (?cvg ! k = 0 \<or> 1 \<le> ?cvg ! k)" if "k < n" for k
  proof
    have "nat row * w + cf + k < nat row * w + w" using fit that by simp
    also have "\<dots> = Suc (nat row) * w" by simp
    also have "\<dots> \<le> h * w" using r0 by (intro mult_le_mono1) simp
    finally show "(nat row * w + cf + k) * 3 + 2 < length px" by (simp add: px mult.commute mult.left_commute)
    show "?cvg ! k = 0 \<or> 1 \<le> ?cvg ! k" unfolding cvg [OF that] by (cases "cover_count ps (int (cf + k)) (nat row)") simp_all
  qed
  have row_eq: "paint_row w h ?es (rgb_of c) row px =
      fold (\<lambda>k. put_pixel ((nat row * w + cf) * 3 + k * 3) (rgb_of c) (?cvg ! k)) [0..<n] px"
    if "bucket h ?es row \<noteq> []"
    using that by (simp add: paint_row_def Let_def row_coverage_length n_def cf_def)
  have hit: "(\<exists>k \<in> set [0..<n]. y * w + x = nat row * w + cf + k \<and> ?cvg ! k \<noteq> 0) \<longleftrightarrow>
      int y = row \<and> colFrom ?es \<le> int x \<and> int x \<le> colTo w ?es \<and> cover_count ps (int x) y \<noteq> 0" (is "?L \<longleftrightarrow> ?R")
  proof
    assume ?L
    then obtain k where k: "k < n" "y * w + x = nat row * w + (cf + k)" "?cvg ! k \<noteq> 0" by auto
    have "cf + k < w" using fit k(1) by simp
    from row_pixel_inject [OF xy(1) this, of y "nat row"] k(2) have "y = nat row" "x = cf + k" by simp_all
    with k(1,3) cvg [OF k(1)] r0(1) cf show ?R by (auto simp: n_def)
  next
    assume r: ?R
    then have k: "x - cf < n" "cf \<le> x" using cf by (auto simp: n_def)
    from cvg [OF k(1)] k(2) r have "?cvg ! (x - cf) \<noteq> 0" by auto
    moreover have "y * w + x = nat row * w + cf + (x - cf)" using k(2) r by auto
    ultimately show ?L using k(1) by (intro bexI [of _ "x - cf"]) simp_all
  qed
  show ?thesis
  proof (cases "bucket h ?es row = []")
    case True
    have "cover_count ps (int x) y = 0" if "int y = row"
    proof -
      have "crossings ?es (of_nat y + 1 / 2) = crossings (bucket h ?es row) (of_nat y + 1 / 2)"
        by (rule crossings_bucket [OF row, symmetric]) (simp_all flip: that)
      with True show ?thesis by (simp add: cover_count_def sample_spans_def crossings_def)
    qed
    with True show ?thesis by (auto simp: paint_row_def)
  next
    case False
    show ?thesis unfolding row_eq [OF False] hit [symmetric]
      by (rule pixel3_fold_put) (use ok in auto)
  qed
qed

lemma paint_rows_pixel:
  assumes g: "list_all grid_polygon ps" and cols: "colFrom (edges_of ps) \<le> colTo w (edges_of ps)" and xy: "x < w" "y < h"
  shows "\<forall>row \<in> set rows. rowFrom (edges_of ps) \<le> row \<and> row \<le> rowTo h (edges_of ps) \<Longrightarrow> length px = w * 3 * h \<Longrightarrow>
    pixel3 (fold (paint_row w h (edges_of ps) (rgb_of c)) rows px) (y * w + x) =
    (if int y \<in> set rows \<and> colFrom (edges_of ps) \<le> int x \<and> int x \<le> colTo w (edges_of ps) \<and> cover_count ps (int x) y \<noteq> 0
     then c else pixel3 px (y * w + x))"
proof (induction rows arbitrary: px)
  case (Cons row rows)
  then have "rowFrom (edges_of ps) \<le> row" "row \<le> rowTo h (edges_of ps)" by simp_all
  from paint_row_pixel [OF g this cols Cons.prems(2) xy, of c] Cons show ?case by auto
qed simp

text \<open>C9: Painting artwork that sits on the pixel grid leaves no soft edges. Every pixel of the canvas
  ends with exactly the colour, when the winding number of the polygons in it is not zero, or exactly
  as it was: the sixteen sample lines and the partial coverages add up to all or nothing.\<close>

theorem paint_is_winding_rule:
  assumes "list_all grid_polygon ps" and "canvas_ok cv" and "x < cv_width cv" and "y < cv_height cv"
    and "of_nat x \<le> px" "px < of_nat x + 1" and "of_nat y \<le> py" "py < of_nat y + 1"
  shows "pixel3 (cv_pixels (paint ps (rgb_of c) cv)) (y * cv_width cv + x) =
    (if winding_number ps px py \<noteq> 0 then c else pixel3 (cv_pixels cv) (y * cv_width cv + x))"
proof -
  let ?es = "edges_of ps" and ?w = "cv_width cv" and ?h = "cv_height cv"
  let ?wind = "winding_number ps (of_nat x + 1 / 2) (of_nat y + 1 / 2) \<noteq> 0"
  note cell = winding_number_pixel [OF assms(1), of "int x" _ "int y", unfolded of_int_of_nat_eq]
  have "winding_number ps px py = winding_number ps (of_nat x + 1 / 2) (of_nat y + 1 / 2)"
    by (rule trans [OF cell [OF assms(5-8)]], rule cell [symmetric]) simp_all
  moreover have "pixel3 (cv_pixels (paint ps (rgb_of c) cv)) (y * ?w + x) =
      (if ?wind then c else pixel3 (cv_pixels cv) (y * ?w + x))"
  proof (cases "?es = [] \<or> rowTo ?h ?es < rowFrom ?es \<or> colTo ?w ?es < colFrom ?es")
    case True
    then have "\<not> ?wind" using winding_in_box [OF assms(1) _ assms(3,4)] by force
    with True show ?thesis by (auto simp: paint_def Let_def)
  next
    case False
    then have "paint ps (rgb_of c) cv = cv\<lparr>cv_pixels := fold (paint_row ?w ?h ?es (rgb_of c))
        [rowFrom ?es..rowTo ?h ?es] (cv_pixels cv)\<rparr>" by (simp add: paint_def Let_def)
    moreover have "?wind \<longleftrightarrow> int y \<in> set [rowFrom ?es..rowTo ?h ?es] \<and> colFrom ?es \<le> int x \<and>
        int x \<le> colTo ?w ?es \<and> cover_count ps (int x) y \<noteq> 0"
      using winding_in_box [OF assms(1) _ assms(3,4)] cover_count_winding [OF assms(1), of x y] by auto
    moreover have "colFrom ?es \<le> colTo ?w ?es" using False by simp
    ultimately show ?thesis
      using paint_rows_pixel [OF assms(1) _ assms(3,4), of "[rowFrom ?es..rowTo ?h ?es]" "cv_pixels cv" c] assms(2)
      by (simp add: canvas_ok_def)
  qed
  ultimately show ?thesis by simp
qed

theorem paint_is_winding_rule_witness:
  "pixel3 (cv_pixels (paint [[(1, 0), (2, 0), (2, 1), (1, 1)]] (rgb_of (1, 2, 3)) (new_Canvas 2 1 (9, 9, 9)))) 1 = (1, 2, 3)"
proof -
  let ?p = "[[(1, 0), (2, 0), (2, 1), (1, 1)]] :: polygon list"
  have g: "list_all grid_polygon ?p" by code_simp
  have w: "winding_number ?p (3 / 2) (1 / 2) \<noteq> 0" by code_simp
  have d: "cv_width (new_Canvas 2 1 (9, 9, 9)) = 2" "cv_height (new_Canvas 2 1 (9, 9, 9)) = 1"
    by (simp_all add: new_Canvas_def)
  from w d paint_is_winding_rule [OF g new_Canvas_ok, where width1 = 2 and height1 = 1 and x = 1 and y = 0 and px = "3 / 2"
      and py = "1 / 2" and c = "(1, 2, 3)" and background1 = "(9, 9, 9)"]
  show ?thesis by simp
qed

end
