(* ===== verification/Marketing.thy ===== *)
theory Marketing
  imports Contract
begin

text \<open>
  The marketing site's own logic (\<open>apps/marketing-site\<close>): the worker that proxies the documentation
  (\<open>worker/index.ts\<close>), the locale registry (\<open>src/i18n/locales.ts\<close>), and the constants of
  \<open>src/lib/site.ts\<close> and \<open>src/lib/analytics.ts\<close> that URLs and consent are built from.

  The platform's URL parser and serializer are parameters of the worker, as are the asset binding and
  \<open>fetch\<close>.
\<close>

section \<open>The documentation proxy\<close>

definition MINTLIFY_HOST :: jstr where "MINTLIFY_HOST = js ''opensandbox-4ac929f1.mintlify.site''"
definition PUBLIC_HOST :: jstr where "PUBLIC_HOST = js ''fissionplane.dev''"

definition isMintlifyPath :: "jstr \<Rightarrow> bool" where
  "isMintlifyPath p \<longleftrightarrow>
     p = js ''/docs'' \<or> starts_with (js ''/docs/'') p \<or> starts_with (js ''/mintlify-assets/'') p \<or>
     starts_with (js ''/_mintlify/'') p"

record url_parts =
  up_protocol :: jstr
  up_hostname :: jstr
  up_port :: jstr
  up_pathname :: jstr
  up_search :: jstr

text \<open>\<open>new URL(text)\<close> and the serializer behind \<open>href\<close>.\<close>

record url_platform =
  pl_parse :: "jstr \<Rightarrow> url_parts option"
  pl_href :: "url_parts \<Rightarrow> jstr"

definition upstream_url :: "url_parts \<Rightarrow> url_parts" where
  "upstream_url u = u\<lparr>up_hostname := MINTLIFY_HOST, up_protocol := js ''https:'', up_port := []\<rparr>"

fun set_headers :: "(jstr \<times> jstr) list \<Rightarrow> header_list \<Rightarrow> exn + header_list" where
  "set_headers [] hs = Inr hs"
| "set_headers ((n, v) # rest) hs = (case hdr_set n v hs of Inl e \<Rightarrow> Inl e | Inr hs' \<Rightarrow> set_headers rest hs')"

definition proxyMintlify ::
  "url_platform \<Rightarrow> (http_request \<Rightarrow> ('w, http_response) jio) \<Rightarrow> http_request \<Rightarrow> ('w, http_response) jio"
where
  "proxyMintlify pl fetch rq = (case pl_parse pl (rq_url rq) of
       None \<Rightarrow> throw (TypeError (js ''Invalid URL''))
     | Some u \<Rightarrow>
         bind_io (lift_io (set_headers
             [(js ''Host'', MINTLIFY_HOST), (js ''X-Forwarded-Host'', PUBLIC_HOST), (js ''X-Forwarded-Proto'', js ''https'')]
             (rq_headers rq)))
           (\<lambda>hs. fetch (rq\<lparr>rq_url := pl_href pl (upstream_url u), rq_headers := hs\<rparr>)))"

definition unavailable :: http_response where
  "unavailable = \<lparr>rs_status = 502, rs_headers = [], rs_json = Inl (OtherError (js ''SyntaxError'')),
     rs_bytes = map word_of_nat (utf8_encode (js ''Documentation is temporarily unavailable.''))\<rparr>"

definition worker_fetch ::
  "url_platform \<Rightarrow> (http_request \<Rightarrow> ('w, http_response) jio) \<Rightarrow> (http_request \<Rightarrow> ('w, http_response) jio) \<Rightarrow>
   http_request \<Rightarrow> ('w, http_response) jio"
where
  "worker_fetch pl assets fetch rq = (case pl_parse pl (rq_url rq) of
       None \<Rightarrow> throw (TypeError (js ''Invalid URL''))
     | Some u \<Rightarrow>
         if \<not> isMintlifyPath (up_pathname u) then assets rq
         else catch_io (proxyMintlify pl fetch rq) (\<lambda>e. ret unavailable))"

section \<open>Locales\<close>

definition DEFAULT_LOCALE :: jstr where "DEFAULT_LOCALE = js ''en''"

definition LOCALES :: "jstr list" where
  "LOCALES = map js [''en'', ''es'', ''de'', ''fr'', ''ja'', ''zh'']"

definition LOCALE_LABELS :: "(jstr \<times> jstr) list" where
  "LOCALE_LABELS =
     [(js ''en'', js ''English''), (js ''es'', js ''Espa'' @ [0xF1] @ js ''ol''), (js ''de'', js ''Deutsch''),
      (js ''fr'', js ''Fran'' @ [0xE7] @ js ''ais''), (js ''ja'', [0x65E5, 0x672C, 0x8A9E]),
      (js ''zh'', [0x7B80, 0x4F53, 0x4E2D, 0x6587])]"

definition LOCALE_TAGS :: "(jstr \<times> jstr) list" where
  "LOCALE_TAGS =
     [(js ''en'', js ''en''), (js ''es'', js ''es''), (js ''de'', js ''de''), (js ''fr'', js ''fr''),
      (js ''ja'', js ''ja''), (js ''zh'', js ''zh-CN'')]"

definition OG_LOCALES :: "(jstr \<times> jstr) list" where
  "OG_LOCALES =
     [(js ''en'', js ''en_US''), (js ''es'', js ''es_ES''), (js ''de'', js ''de_DE''), (js ''fr'', js ''fr_FR''),
      (js ''ja'', js ''ja_JP''), (js ''zh'', js ''zh_CN'')]"

definition isLocale :: "jstr \<Rightarrow> bool" where
  "isLocale v \<longleftrightarrow> v \<in> set LOCALES"

definition localePath :: "jstr \<Rightarrow> jstr \<Rightarrow> jstr" where
  "localePath locale' pagePath =
     (if locale' = DEFAULT_LOCALE then pagePath
      else js ''/'' @ locale' @ (if pagePath = js ''/'' then [] else pagePath))"

section \<open>Site constants\<close>

definition SITE_ORIGIN :: jstr where "SITE_ORIGIN = js ''https://fissionplane.dev''"
definition GITHUB_URL :: jstr where "GITHUB_URL = js ''https://github.com/ManuelAngel99/fissionplane''"
definition DOCS_URL :: jstr where "DOCS_URL = SITE_ORIGIN @ js ''/docs''"
definition CHANGELOG_URL :: jstr where "CHANGELOG_URL = GITHUB_URL @ js ''/releases''"
definition LICENSE_FILE_URL :: jstr where "LICENSE_FILE_URL = GITHUB_URL @ js ''/blob/main/LICENSE''"

section \<open>Behaviour\<close>

text \<open>A request outside the documentation is served by the assets untouched; one inside it goes to the
  documentation host over HTTPS with its path and query, or is answered 502: the worker itself never
  fails on it.\<close>

lemma worker_serves_assets:
  "pl_parse pl (rq_url rq) = Some u \<Longrightarrow> \<not> isMintlifyPath (up_pathname u) \<Longrightarrow>
     worker_fetch pl assets fetch rq = assets rq"
  by (simp add: worker_fetch_def)

lemma upstream_url_keeps_path:
  "up_pathname (upstream_url u) = up_pathname u" "up_search (upstream_url u) = up_search u"
  "up_hostname (upstream_url u) = MINTLIFY_HOST" "up_protocol (upstream_url u) = js ''https:''"
  by (simp_all add: upstream_url_def)

lemma worker_docs_never_throws:
  assumes "pl_parse pl (rq_url rq) = Some u" and "isMintlifyPath (up_pathname u)"
    and "worker_fetch pl assets fetch rq w = Some (x, w')"
  shows "\<exists>r. x = Inr r"
  using assms by (auto simp: worker_fetch_def catch_io_def split: option.splits sum.splits prod.splits)

text \<open>Every locale has a label, a tag and an Open Graph identifier, and no others are listed.\<close>

lemma locale_tables:
  "map fst LOCALE_LABELS = LOCALES" "map fst LOCALE_TAGS = LOCALES" "map fst OG_LOCALES = LOCALES"
  by (simp_all add: LOCALE_LABELS_def LOCALE_TAGS_def OG_LOCALES_def LOCALES_def)

lemma localePath_prefixed: "a \<noteq> DEFAULT_LOCALE \<Longrightarrow> starts_with (js ''/'' @ a) (localePath a p)"
  unfolding localePath_def by (simp flip: append_assoc)

lemma localePath_default: "localePath DEFAULT_LOCALE p = p"
  by (simp add: localePath_def)

text \<open>Two pages never share a path, as long as no page of the default locale lives below a locale's
  prefix.\<close>

lemma localePath_inject:
  assumes "isLocale a" "isLocale b" and "\<exists>t. p = js ''/'' @ t" "\<exists>t. q = js ''/'' @ t"
    and "\<forall>l \<in> set LOCALES. l \<noteq> DEFAULT_LOCALE \<longrightarrow>
      \<not> starts_with (js ''/'' @ l) p \<and> \<not> starts_with (js ''/'' @ l) q"
    and "localePath a p = localePath b q"
  shows "a = b \<and> p = q"
proof (cases "a = DEFAULT_LOCALE \<or> b = DEFAULT_LOCALE")
  case True
  then show ?thesis
  proof
    assume a: "a = DEFAULT_LOCALE"
    with assms(6) have p: "p = localePath b q" by (simp add: localePath_default)
    have "b = DEFAULT_LOCALE"
      using assms(2,5) localePath_prefixed [of b q] unfolding p isLocale_def by blast
    with a p show ?thesis by (simp add: localePath_default)
  next
    assume b: "b = DEFAULT_LOCALE"
    with assms(6) have q: "q = localePath a p" by (simp add: localePath_default)
    have "a = DEFAULT_LOCALE"
      using assms(1,5) localePath_prefixed [of a p] unfolding q isLocale_def by blast
    with b q show ?thesis by (simp add: localePath_default)
  qed
next
  case False
  have two: "length l = 2" if "l \<in> set LOCALES" for l
    using that by (auto simp: LOCALES_def)
  from False assms(1,2,6) have e: "a @ (if p = js ''/'' then [] else p) = b @ (if q = js ''/'' then [] else q)"
    by (simp add: localePath_def isLocale_def)
  moreover have "length a = length b" using assms(1,2) two by (simp add: isLocale_def)
  ultimately have "a = b" "(if p = js ''/'' then [] else p) = (if q = js ''/'' then [] else q)"
    by (simp_all add: append_eq_append_conv)
  with assms(3,4) show ?thesis by (auto split: if_splits simp: js_def)
qed

end
