(* ===== verification/Consent.thy ===== *)
theory Consent
  imports Marketing
begin

text \<open>
  The analytics consent of the marketing site: the constants of \<open>src/lib/analytics.ts\<close> and the
  script of \<open>src/components/ConsentBanner.astro\<close>.

  A browser has its privacy signals, the local storage of the site and the document it shows. Storage
  access may throw (private browsing), reading and writing separately. The document keeps what the
  script can observe of it: the scripts appended to its head, the \<open>data-consent\<close> attribute, the
  status lines, the buttons with a \<open>data-consent-action\<close> and the banner. A new document runs the
  script from its first line; \<open>location.reload()\<close> is a new document.
\<close>

section \<open>Constants\<close>

definition CF_BEACON_TOKEN :: jstr where "CF_BEACON_TOKEN = js ''5f8aa38a1203463d881387cfc4eb0bb4''"

definition CF_BEACON_SRC :: jstr where
  "CF_BEACON_SRC = js ''https://static.cloudflareinsights.com/beacon.min.js''"

definition CONSENT_STORAGE_KEY :: jstr where "CONSENT_STORAGE_KEY = js ''fp-consent:v1''"
definition CONSENT_GRANTED :: jstr where "CONSENT_GRANTED = js ''granted''"
definition CONSENT_DENIED :: jstr where "CONSENT_DENIED = js ''denied''"

section \<open>The document\<close>

datatype choice = Granted | Denied

datatype consent_state = Chosen choice | Unset | Signalled

fun choice_name :: "choice \<Rightarrow> jstr" where
  "choice_name Granted = CONSENT_GRANTED"
| "choice_name Denied = CONSENT_DENIED"

fun state_name :: "consent_state \<Rightarrow> jstr" where
  "state_name (Chosen c) = choice_name c"
| "state_name Unset = js ''unset''"
| "state_name Signalled = js ''signalled''"

text \<open>Which localized status line a state maps to.\<close>

fun STATUS_ATTRIBUTE :: "consent_state \<Rightarrow> jstr" where
  "STATUS_ATTRIBUTE (Chosen Granted) = js ''statusAllowed''"
| "STATUS_ATTRIBUTE (Chosen Denied) = js ''statusDeclined''"
| "STATUS_ATTRIBUTE Unset = js ''statusUndecided''"
| "STATUS_ATTRIBUTE Signalled = js ''statusSignalled''"

record navigator =
  nv_globalPrivacyControl :: jsval
  nv_doNotTrack :: "jstr option"

record local_storage =
  st_items :: "(jstr, jstr) alist"
  st_readable :: bool
  st_writable :: bool

record script =
  sc_type :: jstr
  sc_defer :: bool
  sc_src :: jstr
  sc_beacon :: jstr

record status_line =
  sl_dataset :: "(jstr, jstr) alist"
  sl_text :: jstr

record consent_control =
  cc_action :: jstr
  cc_pressed :: "jstr option"

text \<open>\<open>dc_banner\<close> is the \<open>hidden\<close> attribute of the banner, where the document has one.\<close>

record consent_document =
  dc_beaconLoaded :: bool
  dc_scripts :: "script list"
  dc_consent :: "jstr option"
  dc_statuses :: "status_line list"
  dc_controls :: "consent_control list"
  dc_banner :: "bool option"

record browser =
  br_navigator :: navigator
  br_storage :: local_storage
  br_document :: consent_document

section \<open>The script\<close>

definition browserRefuses :: "navigator \<Rightarrow> bool" where
  "browserRefuses nv \<longleftrightarrow> nv_globalPrivacyControl nv = JBool True \<or> nv_doNotTrack nv = Some (js ''1'')"

definition readChoice :: "local_storage \<Rightarrow> choice option" where
  "readChoice st =
     (if \<not> st_readable st then None
      else let stored = map_of (st_items st) CONSENT_STORAGE_KEY
        in if stored = Some CONSENT_GRANTED then Some Granted
           else if stored = Some CONSENT_DENIED then Some Denied
           else None)"

definition writeChoice :: "choice \<Rightarrow> local_storage \<Rightarrow> local_storage" where
  "writeChoice c st =
     (if st_writable st then st\<lparr>st_items := alist_set CONSENT_STORAGE_KEY (choice_name c) (st_items st)\<rparr> else st)"

definition beacon_script :: script where
  "beacon_script = \<lparr>sc_type = js ''module'', sc_defer = True, sc_src = CF_BEACON_SRC,
     sc_beacon = json_stringify (jobj [(''token'', JStr CF_BEACON_TOKEN)])\<rparr>"

definition loadBeacon :: "consent_document \<Rightarrow> consent_document" where
  "loadBeacon d =
     (if dc_beaconLoaded d then d
      else d\<lparr>dc_beaconLoaded := True, dc_scripts := dc_scripts d @ [beacon_script]\<rparr>)"

definition render_status :: "consent_state \<Rightarrow> status_line \<Rightarrow> status_line" where
  "render_status s l = l\<lparr>sl_text := with_default [] (map_of (sl_dataset l) (STATUS_ATTRIBUTE s))\<rparr>"

definition pressed :: "consent_state \<Rightarrow> jstr \<Rightarrow> bool" where
  "pressed s action \<longleftrightarrow>
     action = js ''allow'' \<and> s = Chosen Granted \<or> action = js ''decline'' \<and> s = Chosen Denied"

definition render_control :: "consent_state \<Rightarrow> consent_control \<Rightarrow> consent_control" where
  "render_control s c =
     (if cc_pressed c = None then c
      else c\<lparr>cc_pressed := Some (to_string (JBool (pressed s (cc_action c))))\<rparr>)"

definition render_consent :: "consent_state \<Rightarrow> consent_document \<Rightarrow> consent_document" where
  "render_consent s d = d\<lparr>dc_consent := Some (state_name s), dc_statuses := map (render_status s) (dc_statuses d),
     dc_controls := map (render_control s) (dc_controls d)\<rparr>"

definition set_banner :: "bool \<Rightarrow> consent_document \<Rightarrow> consent_document" where
  "set_banner hidden d = d\<lparr>dc_banner := map_option (\<lambda>_. hidden) (dc_banner d)\<rparr>"

definition apply_choice :: "choice \<Rightarrow> consent_document \<Rightarrow> consent_document" where
  "apply_choice c d = set_banner True (render_consent (Chosen c) (if c = Granted then loadBeacon d else d))"

text \<open>The statements at the end of the script, run once on every document the server delivers.\<close>

definition start_document :: "consent_document \<Rightarrow> browser \<Rightarrow> browser" where
  "start_document served b = b\<lparr>br_document :=
     (if browserRefuses (br_navigator b) then render_consent Signalled served
      else case readChoice (br_storage b) of
          Some c \<Rightarrow> apply_choice c served
        | None \<Rightarrow> set_banner False (render_consent Unset served))\<rparr>"

definition answer_consent :: "consent_document \<Rightarrow> choice \<Rightarrow> browser \<Rightarrow> browser" where
  "answer_consent served c b =
     (let b' = b\<lparr>br_storage := writeChoice c (br_storage b)\<rparr>
      in if c = Denied \<and> dc_beaconLoaded (br_document b) then start_document served b'
         else b'\<lparr>br_document := apply_choice c (br_document b)\<rparr>)"

text \<open>The click listener; the argument is the \<open>data-consent-action\<close> of the closest control.\<close>

definition consent_click :: "consent_document \<Rightarrow> jstr option \<Rightarrow> browser \<Rightarrow> browser" where
  "consent_click served action b =
     (if action = Some (js ''allow'') then answer_consent served Granted b
      else if action = Some (js ''decline'') then answer_consent served Denied b
      else b)"

section \<open>A visit\<close>

text \<open>What happens to a browser on the site: the visitor opens a document, clicks in it, answers in
  another tab, which writes the same storage, changes the browser's signals, or storage starts or stops
  working. Every document is served in the state of the pages: no script of ours, the banner hidden.\<close>

datatype visit_event =
    Open consent_document
  | Click "jstr option"
  | Other_tab choice
  | Signals navigator
  | Storage_access bool bool

definition served_ok :: "consent_document \<Rightarrow> bool" where
  "served_ok d \<longleftrightarrow> \<not> dc_beaconLoaded d \<and> dc_scripts d = []"

inductive visit :: "consent_document \<Rightarrow> browser \<Rightarrow> visit_event list \<Rightarrow> consent_document \<Rightarrow> browser \<Rightarrow> bool" where
  visit_start: "visit d b [] d b"
| visit_open: "visit d0 b0 es d b \<Longrightarrow> served_ok d' \<Longrightarrow> visit d0 b0 (es @ [Open d']) d' (start_document d' b)"
| visit_click: "visit d0 b0 es d b \<Longrightarrow> visit d0 b0 (es @ [Click a]) d (consent_click d a b)"
| visit_other_tab: "visit d0 b0 es d b \<Longrightarrow>
    visit d0 b0 (es @ [Other_tab c]) d (b\<lparr>br_storage := writeChoice c (br_storage b)\<rparr>)"
| visit_signals: "visit d0 b0 es d b \<Longrightarrow> visit d0 b0 (es @ [Signals nv]) d (b\<lparr>br_navigator := nv\<rparr>)"
| visit_storage: "visit d0 b0 es d b \<Longrightarrow>
    visit d0 b0 (es @ [Storage_access r w]) d (b\<lparr>br_storage := (br_storage b)\<lparr>st_readable := r, st_writable := w\<rparr>\<rparr>)"

text \<open>A visitor who has never answered and has just been served a first document.\<close>

definition first_visit :: "consent_document \<Rightarrow> browser \<Rightarrow> bool" where
  "first_visit d b \<longleftrightarrow> served_ok d \<and> map_of (st_items (br_storage b)) CONSENT_STORAGE_KEY = None \<and>
     br_document b = br_document (start_document d b)"

text \<open>The answers among the events of a visit, here or in another tab.\<close>

fun answer_of :: "visit_event \<Rightarrow> choice option" where
  "answer_of (Click a) =
     (if a = Some (js ''allow'') then Some Granted else if a = Some (js ''decline'') then Some Denied else None)"
| "answer_of (Other_tab c) = Some c"
| "answer_of _ = None"

definition last_answer :: "visit_event list \<Rightarrow> choice option" where
  "last_answer es = (case List.map_filter answer_of (rev es) of [] \<Rightarrow> None | c # _ \<Rightarrow> Some c)"

lemma last_answer_simps [simp]:
  "last_answer [] = None"
  "last_answer (es @ [e]) = (case answer_of e of None \<Rightarrow> last_answer es | Some c \<Rightarrow> Some c)"
  by (simp_all add: last_answer_def map_filter_simps split: option.splits)

definition allowed_step :: "visit_event \<Rightarrow> bool \<Rightarrow> bool" where
  "allowed_step e h = (case e of
       Open _ \<Rightarrow> False
     | Click a \<Rightarrow> if a = Some (js ''allow'') then True else if a = Some (js ''decline'') then False else h
     | _ \<Rightarrow> h)"

text \<open>Whether the last answer was \<^emph>\<open>allow\<close>, clicked in the document shown.\<close>

definition allowed_here :: "visit_event list \<Rightarrow> bool" where
  "allowed_here es = fold allowed_step es False"

lemma allowed_here_simps [simp]:
  "\<not> allowed_here []"
  "allowed_here (es @ [e]) = allowed_step e (allowed_here es)"
  by (simp_all add: allowed_here_def)

section \<open>The beacon and the answer\<close>

lemma consent_distinct [simp]: "CONSENT_DENIED \<noteq> CONSENT_GRANTED" "CONSENT_GRANTED \<noteq> CONSENT_DENIED"
  by (simp_all add: CONSENT_GRANTED_def CONSENT_DENIED_def)

lemma choice_name_inject [simp]: "choice_name c = choice_name c' \<longleftrightarrow> c = c'"
  by (cases c; cases c') (simp_all add: CONSENT_GRANTED_def CONSENT_DENIED_def)

lemma choice_name_granted [simp]:
  "choice_name c = CONSENT_GRANTED \<longleftrightarrow> c = Granted" "CONSENT_GRANTED = choice_name c \<longleftrightarrow> c = Granted"
  by (cases c; simp)+

lemma readChoice_eq:
  "readChoice st = Some c \<longleftrightarrow> st_readable st \<and> map_of (st_items st) CONSENT_STORAGE_KEY = Some (choice_name c)"
  by (cases c) (auto simp: readChoice_def Let_def CONSENT_GRANTED_def CONSENT_DENIED_def)

lemma readChoice_write:
  assumes "st_readable st" and "st_writable st"
  shows "readChoice (writeChoice c st) = Some c"
  using assms by (simp add: readChoice_eq writeChoice_def)

lemma stored_write:
  "map_of (st_items (writeChoice c st)) CONSENT_STORAGE_KEY =
     (if st_writable st then Some (choice_name c) else map_of (st_items st) CONSENT_STORAGE_KEY)"
  by (simp add: writeChoice_def)

lemma writeChoice_access [simp]:
  "st_readable (writeChoice c st) = st_readable st" "st_writable (writeChoice c st) = st_writable st"
  by (simp_all add: writeChoice_def)

definition beacon_present :: "consent_document \<Rightarrow> bool" where
  "beacon_present d \<longleftrightarrow> dc_beaconLoaded d \<and> dc_scripts d = [beacon_script]"

definition beacon_absent :: "consent_document \<Rightarrow> bool" where
  "beacon_absent d \<longleftrightarrow> \<not> dc_beaconLoaded d \<and> dc_scripts d = []"

lemma beacon_exclusive: "beacon_present d \<Longrightarrow> \<not> beacon_absent d"
  by (simp add: beacon_present_def beacon_absent_def)

lemma beacon_document [simp]:
  "beacon_present (render_consent s d) = beacon_present d" "beacon_absent (render_consent s d) = beacon_absent d"
  "beacon_present (set_banner h d) = beacon_present d" "beacon_absent (set_banner h d) = beacon_absent d"
  by (simp_all add: render_consent_def set_banner_def beacon_present_def beacon_absent_def)

lemma beacon_load: "beacon_present d \<or> beacon_absent d \<Longrightarrow> beacon_present (loadBeacon d)"
  by (auto simp: loadBeacon_def beacon_present_def beacon_absent_def)

lemma beacon_apply_granted: "beacon_present d \<or> beacon_absent d \<Longrightarrow> beacon_present (apply_choice Granted d)"
  by (simp add: apply_choice_def beacon_load)

lemma beacon_apply_denied [simp]:
  "beacon_present (apply_choice Denied d) = beacon_present d" "beacon_absent (apply_choice Denied d) = beacon_absent d"
  by (simp_all add: apply_choice_def)

text \<open>A new document carries the beacon exactly if the browser does not refuse and the stored answer
  was \<^emph>\<open>granted\<close>.\<close>

lemma start_document_beacon:
  assumes "served_ok d"
  shows "if \<not> browserRefuses (br_navigator b) \<and> readChoice (br_storage b) = Some Granted
    then beacon_present (br_document (start_document d b))
    else beacon_absent (br_document (start_document d b))"
proof -
  from assms have "beacon_absent d" by (simp add: served_ok_def beacon_absent_def)
  then show ?thesis
    by (cases "readChoice (br_storage b)" rule: option.exhaust; cases "the (readChoice (br_storage b))")
      (auto simp: start_document_def beacon_apply_granted)
qed

lemma start_document_rest [simp]:
  "br_navigator (start_document d b) = br_navigator b" "br_storage (start_document d b) = br_storage b"
  by (simp_all add: start_document_def)

lemma answer_consent_rest [simp]:
  "br_navigator (answer_consent d c b) = br_navigator b"
  "br_storage (answer_consent d c b) = writeChoice c (br_storage b)"
  by (simp_all add: answer_consent_def Let_def)

lemma visit_served: "visit d0 b0 es d b \<Longrightarrow> served_ok d0 \<Longrightarrow> served_ok d"
  by (induction rule: visit.induct) simp_all

lemma first_visit_absent:
  assumes "first_visit d b"
  shows "beacon_absent (br_document b)" "readChoice (br_storage b) = None"
proof -
  from assms show r: "readChoice (br_storage b) = None" by (simp add: readChoice_def first_visit_def)
  with start_document_beacon [of d b] assms show "beacon_absent (br_document b)"
    by (simp add: first_visit_def)
qed

lemma answer_consent_beacon:
  assumes "beacon_present (br_document b) \<or> beacon_absent (br_document b)" and "served_ok d"
  shows "beacon_present (br_document (answer_consent d c b)) \<or> beacon_absent (br_document (answer_consent d c b))"
    and "beacon_present (br_document (answer_consent d Granted b))"
    and "readChoice (writeChoice Denied (br_storage b)) \<noteq> Some Granted \<Longrightarrow>
      beacon_absent (br_document (answer_consent d Denied b))"
    and "beacon_present (br_document (answer_consent d Denied b)) \<Longrightarrow>
      map_of (st_items (br_storage b)) CONSENT_STORAGE_KEY = Some (choice_name Granted)"
proof -
  let ?b = "b\<lparr>br_storage := writeChoice Denied (br_storage b)\<rparr>"
  note start = start_document_beacon [OF assms(2), of ?b]
  have denied: "if dc_beaconLoaded (br_document b) then
      br_document (answer_consent d Denied b) = br_document (start_document d ?b)
    else beacon_absent (br_document (answer_consent d Denied b))"
    using assms(1) by (auto simp: answer_consent_def Let_def beacon_present_def)
  show granted: "beacon_present (br_document (answer_consent d Granted b))"
    using beacon_apply_granted [OF assms(1)] by (simp add: answer_consent_def Let_def)
  show "beacon_present (br_document (answer_consent d c b)) \<or> beacon_absent (br_document (answer_consent d c b))"
    using granted denied start by (cases c) (auto split: if_splits)
  show "beacon_absent (br_document (answer_consent d Denied b))"
    if "readChoice (writeChoice Denied (br_storage b)) \<noteq> Some Granted"
    using denied start that by (auto split: if_splits)
  show "map_of (st_items (br_storage b)) CONSENT_STORAGE_KEY = Some (choice_name Granted)"
    if p: "beacon_present (br_document (answer_consent d Denied b))"
  proof -
    from p have "readChoice (writeChoice Denied (br_storage b)) = Some Granted"
      using denied start by (auto split: if_splits dest: beacon_exclusive)
    then show ?thesis by (auto simp: readChoice_eq stored_write split: if_splits)
  qed
qed

lemma consent_click_cases:
  "consent_click d a b = (case answer_of (Click a) of None \<Rightarrow> b | Some c \<Rightarrow> answer_consent d c b)"
  by (simp add: consent_click_def)

lemma visit_beacon:
  assumes "visit d0 b0 es d b" and "first_visit d0 b0"
  shows "(beacon_present (br_document b) \<or> beacon_absent (br_document b)) \<and>
    (beacon_present (br_document b) \<or> map_of (st_items (br_storage b)) CONSENT_STORAGE_KEY = Some (choice_name Granted)
      \<longrightarrow> Some Granted \<in> answer_of ` set es)"
  using assms
proof (induction rule: visit.induct)
  case (visit_start d b)
  then show ?case using first_visit_absent [of d b] beacon_exclusive [of "br_document b"] by (auto simp: first_visit_def)
next
  case (visit_open d0 b0 es d b d')
  then show ?case using start_document_beacon [of d' b]
    by (auto simp: readChoice_eq split: if_splits dest: beacon_exclusive)
next
  case (visit_click d0 b0 es d b a)
  then have ok: "beacon_present (br_document b) \<or> beacon_absent (br_document b)" "served_ok d"
    using visit_served by (auto simp: first_visit_def)
  note this = answer_consent_beacon [OF ok] visit_click
  show ?case
  proof (cases "answer_of (Click a)")
    case None
    with visit_click show ?thesis by (auto simp: consent_click_cases simp del: answer_of.simps(1))
  next
    case (Some c)
    with answer_consent_beacon [OF ok] visit_click show ?thesis
      by (cases c) (auto simp: consent_click_cases stored_write simp del: answer_of.simps(1) split: if_splits)
  qed
qed (auto simp: stored_write split: if_splits)

lemma visit_answer:
  assumes "visit d0 b0 es d b" and "first_visit d0 b0"
    and "st_readable (br_storage b0)" and "st_writable (br_storage b0)"
    and "list_all (\<lambda>e. case e of Open _ \<Rightarrow> True | Click _ \<Rightarrow> True | _ \<Rightarrow> False) es"
  shows "st_readable (br_storage b) \<and> st_writable (br_storage b) \<and> br_navigator b = br_navigator b0 \<and>
    readChoice (br_storage b) = last_answer es \<and> (allowed_here es \<longrightarrow> last_answer es = Some Granted) \<and>
    (if last_answer es = Some Granted \<and> (allowed_here es \<or> \<not> browserRefuses (br_navigator b0))
     then beacon_present (br_document b) else beacon_absent (br_document b))"
  using assms
proof (induction rule: visit.induct)
  case (visit_start d b)
  then show ?case using first_visit_absent by auto
next
  case (visit_open d0 b0 es d b d')
  then show ?case using start_document_beacon [of d' b] by (auto simp: allowed_step_def)
next
  case (visit_click d0 b0 es d b a)
  then have ih: "st_readable (br_storage b)" "st_writable (br_storage b)" "br_navigator b = br_navigator b0"
      "readChoice (br_storage b) = last_answer es" "allowed_here es \<longrightarrow> last_answer es = Some Granted"
      "if last_answer es = Some Granted \<and> (allowed_here es \<or> \<not> browserRefuses (br_navigator b0))
       then beacon_present (br_document b) else beacon_absent (br_document b)"
    by auto
  then have ok: "beacon_present (br_document b) \<or> beacon_absent (br_document b)" "served_ok d"
    using visit_served [OF visit_click.hyps] visit_click.prems(1) by (auto simp: first_visit_def split: if_splits)
  show ?case
  proof (cases "answer_of (Click a)")
    case None
    with ih show ?thesis by (auto simp: consent_click_cases allowed_step_def split: if_splits)
  next
    case (Some c)
    with ih answer_consent_beacon [OF ok] show ?thesis
      by (cases c) (auto simp: consent_click_cases allowed_step_def readChoice_write split: if_splits)
  qed
qed auto

text \<open>C14: Nobody is measured without having said so. Whatever the visitor, other tabs, the signals and the
  storage do, from the first visit on a document that carries a script carries exactly one, the beacon,
  and \<^emph>\<open>allow\<close> was answered before.\<close>

theorem beacon_needs_allow:
  assumes "visit d0 b0 es d b" and "first_visit d0 b0" and "dc_scripts (br_document b) \<noteq> []"
  shows "dc_scripts (br_document b) = [beacon_script] \<and> (\<exists>e \<in> set es. answer_of e = Some Granted)"
proof -
  from visit_beacon [OF assms(1,2)] assms(3) have "beacon_present (br_document b)"
    by (auto simp: beacon_absent_def)
  with visit_beacon [OF assms(1,2)] show ?thesis by (force simp: beacon_present_def)
qed


definition plain_document :: consent_document where
  "plain_document = \<lparr>dc_beaconLoaded = False, dc_scripts = [], dc_consent = None, dc_statuses = [],
     dc_controls = [], dc_banner = Some True\<rparr>"

definition new_browser :: "jsval \<Rightarrow> browser" where
  "new_browser gpc = \<lparr>br_navigator = \<lparr>nv_globalPrivacyControl = gpc, nv_doNotTrack = None\<rparr>,
     br_storage = \<lparr>st_items = [], st_readable = True, st_writable = True\<rparr>,
     br_document = (if gpc = JBool True then render_consent Signalled plain_document
       else set_banner False (render_consent Unset plain_document))\<rparr>"

lemma new_browser_first: "first_visit plain_document (new_browser gpc)"
  by (simp add: first_visit_def new_browser_def served_ok_def plain_document_def start_document_def
      browserRefuses_def readChoice_def)

lemma visit_one_click:
  "visit plain_document (new_browser gpc) [Click a] plain_document (consent_click plain_document a (new_browser gpc))"
  using visit_click [OF visit_start] by simp

lemma allow_click_scripts:
  "dc_scripts (br_document (consent_click plain_document (Some (js ''allow'')) (new_browser gpc))) = [beacon_script]"
  by (simp add: consent_click_def answer_consent_def Let_def apply_choice_def set_banner_def render_consent_def
      loadBeacon_def new_browser_def plain_document_def)

theorem beacon_needs_allow_witness:
  "\<exists>e \<in> set [Click (Some (js ''allow''))]. answer_of e = Some Granted"
  using beacon_needs_allow [OF visit_one_click [of JUndefined "Some (js ''allow'')"] new_browser_first]
  by (simp add: allow_click_scripts)


section \<open>Limits\<close>

text \<open>A browser that sends a privacy signal is not asked, but the buttons of the privacy page still answer
  a click: the beacon is loaded although the signal is on, until the document is left.\<close>

lemma signalled_browser_measured:
  "browserRefuses (br_navigator (new_browser (JBool True)))"
  "dc_scripts (br_document (consent_click plain_document (Some (js ''allow'')) (new_browser (JBool True)))) = [beacon_script]"
  by (simp add: browserRefuses_def new_browser_def) (rule allow_click_scripts)

text \<open>Withdrawal does not reach further than the document and the storage do. When writing fails while
  \<^emph>\<open>granted\<close> is readable, the document that follows a refusal loads the beacon again.\<close>

lemma withdrawal_lost:
  assumes "served_ok d" and "\<not> browserRefuses (br_navigator b)" and "st_readable (br_storage b)"
    and "\<not> st_writable (br_storage b)"
    and "map_of (st_items (br_storage b)) CONSENT_STORAGE_KEY = Some CONSENT_GRANTED"
    and "dc_beaconLoaded (br_document b)"
  shows "dc_scripts (br_document (consent_click d (Some (js ''decline'')) b)) = [beacon_script]"
proof -
  from assms(3-5) have "readChoice (br_storage b) = Some Granted" by (simp add: readChoice_eq)
  with start_document_beacon [OF assms(1), of b] assms(2) have "beacon_present (br_document (start_document d b))" by simp
  moreover have "writeChoice Denied (br_storage b) = br_storage b" using assms(4) by (simp add: writeChoice_def)
  ultimately show ?thesis using assms(6)
    by (simp add: consent_click_def answer_consent_def beacon_present_def)
qed

text \<open>The banner: it is shown exactly while there is a question to ask, and an answer hides it.\<close>

lemma banner_shown_iff_unanswered:
  assumes "dc_banner d = Some True"
  shows "dc_banner (br_document (start_document d b)) =
     Some (browserRefuses (br_navigator b) \<or> readChoice (br_storage b) \<noteq> None)"
  using assms by (auto simp: start_document_def apply_choice_def set_banner_def render_consent_def
      loadBeacon_def split: option.splits)

lemma answer_hides_banner:
  assumes "dc_banner (br_document b) = Some h" and "\<not> (c = Denied \<and> dc_beaconLoaded (br_document b))"
  shows "dc_banner (br_document (answer_consent d c b)) = Some True"
  using assms by (auto simp: answer_consent_def Let_def apply_choice_def set_banner_def render_consent_def loadBeacon_def)

text \<open>At most one of the pressed-state buttons of a document is pressed, the one of the answer.\<close>

lemma pressed_exclusive: "\<not> (pressed s (js ''allow'') \<and> pressed s (js ''decline''))"
  by (auto simp: pressed_def)

end
