(* ===== verification/Contact.thy ===== *)
theory Contact
  imports Consent
begin

text \<open>
  The contact page of the marketing site: the script of \<open>src/components/ContactPage.astro\<close>, which
  sends the form with \<open>fetch\<close> and shows what Formspree answered, and the copy buttons of
  \<open>src/components/LandingPage.astro\<close>.

  A form keeps its controls in document order, the elements its fields are described by, the status line
  and the submit button. The submit handler is split at its \<open>await\<close>: \<open>submit_begin\<close> runs up to
  the request, \<open>submit_settle\<close> from the answer on, on the form as it is then. The bodies of error
  responses are arbitrary JSON values: a member of the wrong type raises a \<open>TypeError\<close>, which the
  handler catches. \<open>toUpperCase\<close> is a parameter.
\<close>

section \<open>The form\<close>

record form_control =
  fc_name :: jstr
  fc_id :: jstr
  fc_hidden :: bool
  fc_honeypot :: bool
  fc_describedby :: "jstr option"
  fc_invalid :: "jstr option"
  fc_value :: jstr
  fc_default :: jstr

record form_element =
  fe_id :: jstr
  fe_slot :: jstr
  fe_text :: jstr

record contact_form =
  cf_controls :: "form_control list"
  cf_elements :: "form_element list"
  cf_status :: jstr
  cf_state :: "jstr option"
  cf_disabled :: bool
  cf_label :: jstr
  cf_focus :: "jstr option"
  cf_sendingLabel :: "jstr option"
  cf_successMessage :: "jstr option"
  cf_errorMessage :: "jstr option"

definition formatMessage :: "(jstr \<Rightarrow> jstr) \<Rightarrow> jstr \<Rightarrow> jstr" where
  "formatMessage toUpperCase m =
     (let trimmed = js_trim m in case trimmed of [] \<Rightarrow> [] | u # us \<Rightarrow> toUpperCase [u] @ us)"

text \<open>\<open>s.split(/\s+/)\<close>\<close>

function split_spaces :: "jstr \<Rightarrow> jstr list" where
  "split_spaces s =
     (let a = takeWhile (\<lambda>u. \<not> is_space u) s; r = dropWhile (\<lambda>u. \<not> is_space u) s
      in if r = [] then [a] else a # split_spaces (dropWhile is_space r))"
  by auto
termination
proof (relation "measure length")
  fix s :: jstr and a r
  assume r: "r = dropWhile (\<lambda>u. \<not> is_space u) s" and ne: "r \<noteq> []"
  then have "is_space (hd r)" using hd_dropWhile by blast
  with ne have "length (dropWhile is_space r) < length r"
    by (cases r) (simp_all add: le_imp_less_Suc length_dropWhile_le)
  also have "\<dots> \<le> length s" by (simp add: r length_dropWhile_le)
  finally show "(dropWhile is_space r, s) \<in> measure length" by simp
qed simp

declare split_spaces.simps [simp del]

text \<open>\<open>form.elements.namedItem(name)\<close>; two controls of one name are a list and not an element.\<close>

definition answers_to :: "jstr \<Rightarrow> form_control \<Rightarrow> bool" where
  "answers_to n c \<longleftrightarrow> n \<noteq> [] \<and> (fc_name c = n \<or> fc_id c = n)"

definition namedItem :: "contact_form \<Rightarrow> jstr \<Rightarrow> form_control option" where
  "namedItem f n = (case filter (answers_to n) (cf_controls f) of [c] \<Rightarrow> Some c | _ \<Rightarrow> None)"

definition is_field_error :: "contact_form \<Rightarrow> jstr \<Rightarrow> bool" where
  "is_field_error f i \<longleftrightarrow> (\<exists>e \<in> set (cf_elements f). fe_id e = i \<and> fe_slot e = js ''field-error'')"

text \<open>The identifier of the element \<open>fieldErrorEl\<close> returns.\<close>

definition fieldErrorEl :: "contact_form \<Rightarrow> jstr \<Rightarrow> jstr option" where
  "fieldErrorEl f n = (case namedItem f n of
       None \<Rightarrow> None
     | Some c \<Rightarrow> (case fc_describedby c of
           None \<Rightarrow> None
         | Some d \<Rightarrow> if d = [] then None else List.find (is_field_error f) (split_spaces d)))"

definition set_element_text :: "jstr option \<Rightarrow> jstr \<Rightarrow> contact_form \<Rightarrow> contact_form" where
  "set_element_text i t f = (case i of
       None \<Rightarrow> f
     | Some i \<Rightarrow> f\<lparr>cf_elements := map (\<lambda>e. if fe_id e = i then e\<lparr>fe_text := t\<rparr> else e) (cf_elements f)\<rparr>)"

text \<open>The inputs and the text area the visitor sees.\<close>

definition visible_field :: "form_control \<Rightarrow> bool" where
  "visible_field c \<longleftrightarrow> \<not> fc_hidden c \<and> \<not> fc_honeypot c"

definition clearFieldErrors :: "contact_form \<Rightarrow> contact_form" where
  "clearFieldErrors f = fold (\<lambda>c g. set_element_text (fieldErrorEl g (fc_name c)) [] g)
     (filter visible_field (cf_controls f))
     (f\<lparr>cf_controls := map (\<lambda>c. if visible_field c then c\<lparr>fc_invalid := None\<rparr> else c) (cf_controls f)\<rparr>)"

definition setFieldError :: "(jstr \<Rightarrow> jstr) \<Rightarrow> jstr \<Rightarrow> jstr \<Rightarrow> contact_form \<Rightarrow> contact_form" where
  "setFieldError up n m f = (case namedItem f n of
       None \<Rightarrow> f
     | Some _ \<Rightarrow> set_element_text (fieldErrorEl f n) (formatMessage up m)
         (f\<lparr>cf_controls := map (\<lambda>c. if answers_to n c then c\<lparr>fc_invalid := Some (js ''true'')\<rparr> else c)
            (cf_controls f)\<rparr>))"

section \<open>The answer of Formspree\<close>

text \<open>\<open>x?.trim()\<close>\<close>

fun opt_trim :: "jsval \<Rightarrow> exn + jstr option" where
  "opt_trim JUndefined = Inr None"
| "opt_trim JNull = Inr None"
| "opt_trim (JStr s) = Inr (Some (js_trim s))"
| "opt_trim _ = Inl (TypeError (js ''trim is not a function''))"

text \<open>Keys of a \<open>Map\<close>: two objects are never the same key, although the model knows them by content.\<close>

fun same_key :: "jsval \<Rightarrow> jsval \<Rightarrow> bool" where
  "same_key (JArr _) _ = False"
| "same_key (JObj _) _ = False"
| "same_key a b = (a = b)"

fun push_message :: "jsval \<Rightarrow> jstr \<Rightarrow> (jsval \<times> jstr list) list \<Rightarrow> (jsval \<times> jstr list) list" where
  "push_message k m [] = [(k, [m])]"
| "push_message k m ((k', ms) # rest) =
     (if same_key k k' then (k', ms @ [m]) # rest else (k', ms) # push_message k m rest)"

fun collect_errors ::
  "jsval list \<Rightarrow> (jsval \<times> jstr list) list \<Rightarrow> jstr list \<Rightarrow> exn + (jsval \<times> jstr list) list \<times> jstr list"
where
  "collect_errors [] named forms = Inr (named, forms)"
| "collect_errors (e # es) named forms = (case read_prop ''message'' e of
       Inl x \<Rightarrow> Inl x
     | Inr m \<Rightarrow> (case opt_trim m of
           Inl x \<Rightarrow> Inl x
         | Inr msg \<Rightarrow>
             if with_default [] msg = [] then collect_errors es named forms
             else let field = prop_opt (js ''field'') e in
               if truthy field then collect_errors es (push_message field (with_default [] msg) named) forms
               else collect_errors es named (forms @ [with_default [] msg])))"

text \<open>\<open>for (const entry of body?.errors ?? [])\<close>; the characters of a string have no message.\<close>

fun entries_of :: "jsval \<Rightarrow> exn + jsval list" where
  "entries_of JUndefined = Inr []"
| "entries_of JNull = Inr []"
| "entries_of (JArr es) = Inr es"
| "entries_of (JStr s) = Inr []"
| "entries_of _ = Inl (TypeError (js ''errors is not iterable''))"

abbreviation join_spaces :: "jstr list \<Rightarrow> jstr" where
  "join_spaces \<equiv> join_with (js [CHR 0x20])"

text \<open>\<open>formatMessage(body?.error ?? "") || form.dataset.errorMessage || ""\<close>\<close>

definition general_error :: "(jstr \<Rightarrow> jstr) \<Rightarrow> jsval \<Rightarrow> contact_form \<Rightarrow> exn + jstr" where
  "general_error up body f =
     (let fallback = with_default [] (cf_errorMessage f) in
      case prop_opt (js ''error'') body of
        JUndefined \<Rightarrow> Inr fallback
      | JNull \<Rightarrow> Inr fallback
      | JStr s \<Rightarrow> Inr (if formatMessage up s = [] then fallback else formatMessage up s)
      | _ \<Rightarrow> Inl (TypeError (js ''trim is not a function'')))"

definition show_field_errors :: "(jstr \<Rightarrow> jstr) \<Rightarrow> (jsval \<times> jstr list) list \<Rightarrow> contact_form \<Rightarrow> contact_form" where
  "show_field_errors up named f =
     (let g = fold (\<lambda>(n, ms). setFieldError up (to_string n) (join_spaces ms)) named f in
      case List.find (\<lambda>c. fc_invalid c = Some (js ''true'')) (cf_controls g) of
        None \<Rightarrow> g
      | Some c \<Rightarrow> g\<lparr>cf_focus := Some (fc_name c)\<rparr>)"

definition set_status :: "string \<Rightarrow> jstr \<Rightarrow> contact_form \<Rightarrow> contact_form" where
  "set_status s t f = f\<lparr>cf_state := Some (js s), cf_status := t\<rparr>"

text \<open>The second component is the exception that leaves the function, if any.\<close>

definition applyFormspreeErrors ::
  "(jstr \<Rightarrow> jstr) \<Rightarrow> jsval \<Rightarrow> contact_form \<Rightarrow> contact_form \<times> exn option"
where
  "applyFormspreeErrors up body f =
     (case (case entries_of (prop_opt (js ''errors'') body) of
          Inl x \<Rightarrow> Inl x | Inr es \<Rightarrow> collect_errors es [] []) of
        Inl x \<Rightarrow> (f, Some x)
      | Inr (named, forms) \<Rightarrow>
          let g = show_field_errors up named f in
          if forms \<noteq> [] then (set_status ''error'' (join_spaces (map (formatMessage up) forms)) g, None)
          else if named = [] then
            (case general_error up body g of
               Inl x \<Rightarrow> (g\<lparr>cf_state := Some (js ''error'')\<rparr>, Some x)
             | Inr t \<Rightarrow> (set_status ''error'' t g, None))
          else (g, None))"

section \<open>The submit handler\<close>

text \<open>What the request came to: \<open>fetch\<close> failed, or it answered and its body was read, \<open>None\<close> where
  that is not JSON.\<close>

datatype submission = No_answer | Answer bool "jsval option"

definition submit_begin :: "jstr \<Rightarrow> contact_form \<Rightarrow> contact_form" where
  "submit_begin idleLabel f = clearFieldErrors
     (f\<lparr>cf_disabled := True, cf_label := with_default idleLabel (cf_sendingLabel f), cf_status := [], cf_state := None\<rparr>)"

definition submitted_data :: "contact_form \<Rightarrow> (jstr \<times> jstr) list" where
  "submitted_data f = map (\<lambda>c. (fc_name c, fc_value c)) (filter (\<lambda>c. fc_name c \<noteq> []) (cf_controls f))"

definition reset_form :: "contact_form \<Rightarrow> contact_form" where
  "reset_form f = f\<lparr>cf_controls := map (\<lambda>c. c\<lparr>fc_value := fc_default c\<rparr>) (cf_controls f)\<rparr>"

definition submission_shown :: "(jstr \<Rightarrow> jstr) \<Rightarrow> submission \<Rightarrow> contact_form \<Rightarrow> contact_form" where
  "submission_shown up s f =
     (let failed = (\<lambda>g. set_status ''error'' (with_default [] (cf_errorMessage g)) g) in
      case s of
        No_answer \<Rightarrow> failed f
      | Answer True body \<Rightarrow>
          (let g = clearFieldErrors (reset_form f) in set_status ''success'' (with_default [] (cf_successMessage g)) g)
      | Answer False body \<Rightarrow>
          (case applyFormspreeErrors up (with_default JNull body) f of
             (g, None) \<Rightarrow> g
           | (g, Some x) \<Rightarrow> failed g))"

definition submit_settle :: "(jstr \<Rightarrow> jstr) \<Rightarrow> jstr \<Rightarrow> submission \<Rightarrow> contact_form \<Rightarrow> contact_form" where
  "submit_settle up idleLabel s f = (submission_shown up s f)\<lparr>cf_disabled := False, cf_label := idleLabel\<rparr>"

definition error_fields :: "jsval \<Rightarrow> jsval list" where
  "error_fields body = (case entries_of (prop_opt (js ''errors'') body) of
       Inl _ \<Rightarrow> [] | Inr es \<Rightarrow> filter truthy (map (prop_opt (js ''field'')) es))"

text \<open>The visitor is told: an error in the status line or under a field.\<close>

definition told :: "contact_form \<Rightarrow> bool" where
  "told f \<longleftrightarrow> cf_state f = Some (js ''error'') \<and> cf_status f \<noteq> [] \<or>
     (\<exists>e \<in> set (cf_elements f). fe_slot e = js ''field-error'' \<and> fe_text e \<noteq> [])"

section \<open>Messages\<close>

definition legible :: "jstr \<Rightarrow> bool" where
  "legible m \<longleftrightarrow> (\<exists>u \<in> set m. \<not> is_space u)"

lemma legible_trim: "js_trim m \<noteq> [] \<longleftrightarrow> legible m"
proof -
  have "js_trim m = [] \<longleftrightarrow> (\<forall>u \<in> set (dropWhile is_space m). is_space u)"
    by (simp add: js_trim_def)
  also have "\<dots> \<longleftrightarrow> (\<forall>u \<in> set m. is_space u)"
    by (metis hd_dropWhile dropWhile_eq_Nil_conv list.set_sel(1) empty_iff list.set(1))
  finally show ?thesis by (auto simp: legible_def)
qed

lemma legible_js_trim: "js_trim m \<noteq> [] \<Longrightarrow> legible (js_trim m)"
  using js_trim_hd [of m] unfolding legible_def by (metis list.set_sel(1))

lemma legible_join: "m \<in> set ms \<Longrightarrow> legible m \<Longrightarrow> legible (join_spaces ms)"
  by (induction "js [CHR 0x20]" ms rule: join_with.induct) (auto simp: legible_def)

lemma formatMessage_legible:
  assumes "\<forall>u. up [u] \<noteq> []" and "legible m"
  shows "formatMessage up m \<noteq> []"
  using assms legible_trim [of m] by (auto simp: formatMessage_def Let_def split: list.splits)

lemma join_nonempty: "ms \<noteq> [] \<Longrightarrow> \<forall>m \<in> set ms. m \<noteq> [] \<Longrightarrow> join_spaces ms \<noteq> []"
  by (cases "(js [CHR 0x20], ms)" rule: join_with.cases) auto

lemma push_message_set:
  assumes "(k, ms) \<in> set (push_message k0 m kvs)" and "\<forall>(k, ms) \<in> set kvs. P k \<and> (\<exists>x \<in> set ms. legible x)"
    and "P k0" and "legible m"
  shows "P k \<and> (\<exists>x \<in> set ms. legible x)"
  using assms by (induction k0 m kvs rule: push_message.induct) (fastforce split: if_splits)+

lemma collect_errors_sound:
  assumes "collect_errors es named forms = Inr (named', forms')"
    and "\<forall>e \<in> set es. truthy (prop_opt (js ''field'') e) \<longrightarrow> P (prop_opt (js ''field'') e)"
    and "\<forall>(k, ms) \<in> set named. P k \<and> (\<exists>x \<in> set ms. legible x)" and "\<forall>m \<in> set forms. legible m"
  shows "(\<forall>(k, ms) \<in> set named'. P k \<and> (\<exists>x \<in> set ms. legible x)) \<and> (\<forall>m \<in> set forms'. legible m)"
  using assms
proof (induction es named forms rule: collect_errors.induct)
  case (2 e es named forms)
  from 2(4) obtain m t where m: "read_prop ''message'' e = Inr m" and t: "opt_trim m = Inr t"
    by (auto split: sum.splits)
  have leg: "legible (with_default [] t)" if "with_default [] t \<noteq> []"
    using t that legible_js_trim by (cases m) auto
  let ?k = "prop_opt (js ''field'') e"
  consider "with_default [] t = []" | "with_default [] t \<noteq> []" "truthy ?k" | "with_default [] t \<noteq> []" "\<not> truthy ?k" by auto
  then show ?case
  proof cases
    case 1
    with 2(1) [OF m t] 2(4-) m t show ?thesis by simp
  next
    case 2
    have "\<forall>(k, ms) \<in> set (push_message ?k (with_default [] t) named). P k \<and> (\<exists>x \<in> set ms. legible x)"
      using push_message_set [of _ _ ?k "with_default [] t" named P] "2.prems"(2,3) 2 leg by fastforce
    with "2.IH"(2) [OF m t 2(1) refl 2(2)] "2.prems" m t 2 show ?thesis by (simp add: Let_def)
  next
    case 3
    with "2.IH"(3) [OF m t 3(1) refl 3(2)] "2.prems" m t leg show ?thesis by (simp add: Let_def)
  qed
qed auto

section \<open>Fields\<close>

text \<open>What marks a control or writes a text leaves the names, the identifiers and the descriptions of the
  form alone, so that it leaves \<open>fieldErrorEl\<close> alone.\<close>

lemma namedItem_map:
  assumes "\<And>c. fc_name (h c) = fc_name c" and "\<And>c. fc_id (h c) = fc_id c"
  shows "namedItem (f\<lparr>cf_controls := map h (cf_controls f)\<rparr>) n = map_option h (namedItem f n)"
proof -
  have "filter (answers_to n) (map h (cf_controls f)) = map h (filter (answers_to n) (cf_controls f))"
    using assms by (simp add: filter_map o_def answers_to_def [abs_def])
  then show ?thesis by (simp add: namedItem_def split: list.splits)
qed

lemma fieldErrorEl_controls:
  assumes "\<And>c. fc_name (h c) = fc_name c" and "\<And>c. fc_id (h c) = fc_id c"
    and "\<And>c. fc_describedby (h c) = fc_describedby c"
  shows "fieldErrorEl (f\<lparr>cf_controls := map h (cf_controls f)\<rparr>) n = fieldErrorEl f n"
proof -
  have "is_field_error (f\<lparr>cf_controls := map h (cf_controls f)\<rparr>) = is_field_error f"
    by (simp add: fun_eq_iff is_field_error_def)
  then show ?thesis using assms(3)
    by (auto simp: fieldErrorEl_def namedItem_map [OF assms(1,2)] split: option.splits)
qed

lemma fieldErrorEl_text [simp]: "fieldErrorEl (set_element_text i t f) n = fieldErrorEl f n"
proof (cases i)
  case (Some j)
  have e: "is_field_error (set_element_text i t f) = is_field_error f"
    by (auto simp: fun_eq_iff is_field_error_def set_element_text_def Some simp del: if_image_distrib)
  have "namedItem (set_element_text i t f) n = namedItem f n"
    by (simp add: namedItem_def set_element_text_def Some)
  then show ?thesis unfolding fieldErrorEl_def e by (rule arg_cong)
qed (simp add: set_element_text_def)

lemma fieldErrorEl_setFieldError [simp]: "fieldErrorEl (setFieldError up n m f) n' = fieldErrorEl f n'"
  by (simp add: setFieldError_def fieldErrorEl_controls split: option.splits)

lemma fieldErrorEl_fold:
  "fieldErrorEl (fold (\<lambda>(n, ms). setFieldError up (to_string n) (join_spaces ms)) named f) n' = fieldErrorEl f n'"
  by (induction named arbitrary: f) (simp_all add: case_prod_beta)

definition told_field :: "contact_form \<Rightarrow> bool" where
  "told_field f \<longleftrightarrow> (\<exists>e \<in> set (cf_elements f). fe_slot e = js ''field-error'' \<and> fe_text e \<noteq> [])"

lemma fieldErrorEl_found: "fieldErrorEl f n = Some i \<Longrightarrow> is_field_error f i"
  by (auto simp: fieldErrorEl_def find_Some_iff split: option.splits if_splits)

lemma setFieldError_told:
  assumes "\<forall>u. up [u] \<noteq> []" and "fieldErrorEl f n \<noteq> None" and "legible m"
  shows "told_field (setFieldError up n m f)"
proof -
  from assms(2) obtain i where i: "fieldErrorEl f n = Some i" by auto
  then have "namedItem f n \<noteq> None" by (cases "namedItem f n") (simp_all add: fieldErrorEl_def)
  then show ?thesis using fieldErrorEl_found [OF i] formatMessage_legible [OF assms(1,3)] i
    by (auto simp: setFieldError_def set_element_text_def told_field_def is_field_error_def
        simp del: if_image_distrib)
qed

lemma show_field_errors_told:
  assumes "\<forall>u. up [u] \<noteq> []" and "named \<noteq> []"
    and "\<forall>(k, ms) \<in> set named. fieldErrorEl f (to_string k) \<noteq> None \<and> (\<exists>m \<in> set ms. legible m)"
  shows "told_field (show_field_errors up named f)"
proof -
  obtain init k ms where s: "named = init @ [(k, ms)]" using assms(2) by (cases named rule: rev_cases) auto
  with assms(3) have "fieldErrorEl f (to_string k) \<noteq> None" "legible (join_spaces ms)"
    by (auto intro: legible_join)
  then have "told_field (fold (\<lambda>(n, ms). setFieldError up (to_string n) (join_spaces ms)) named f)"
    by (simp add: s setFieldError_told [OF assms(1)] fieldErrorEl_fold)
  then show ?thesis by (auto simp: show_field_errors_def Let_def told_field_def split: option.splits)
qed

text \<open>The texts and the messages of the form are kept by what shows an error.\<close>

lemma errorMessage_show [simp]: "cf_errorMessage (show_field_errors up named f) = cf_errorMessage f"
proof -
  have "cf_errorMessage (setFieldError up n m g) = cf_errorMessage g" for n m g
    by (simp add: setFieldError_def set_element_text_def split: option.splits)
  then have "cf_errorMessage (fold (\<lambda>(n, ms). setFieldError up (to_string n) (join_spaces ms)) named f) = cf_errorMessage f"
    by (induction named arbitrary: f) (simp_all add: case_prod_beta)
  then show ?thesis by (simp add: show_field_errors_def Let_def split: option.splits)
qed

lemma general_error_told:
  "general_error up body f = Inr t \<Longrightarrow> cf_errorMessage f = Some m \<Longrightarrow> m \<noteq> [] \<Longrightarrow> t \<noteq> []"
  by (auto simp: general_error_def Let_def split: jsval.splits if_splits)

lemma told_cases: "told f \<longleftrightarrow> cf_state f = Some (js ''error'') \<and> cf_status f \<noteq> [] \<or> told_field f"
  by (simp add: told_def told_field_def)

lemma applyFormspreeErrors_told:
  assumes "\<forall>u. up [u] \<noteq> []" and "cf_errorMessage f = Some m" and "m \<noteq> []"
    and "\<forall>k \<in> set (error_fields body). fieldErrorEl f (to_string k) \<noteq> None"
    and "applyFormspreeErrors up body f = (g, x)"
  shows "x = None \<Longrightarrow> told g" and "cf_errorMessage g = Some m"
proof -
  let ?es = "entries_of (prop_opt (js ''errors'') body)"
  consider (bad) y where "g = f" "x = Some y"
    | (good) es named forms where "?es = Inr es" "collect_errors es [] [] = Inr (named, forms)"
    using assms(5) by (auto simp: applyFormspreeErrors_def split: sum.splits)
  then have "(x = None \<longrightarrow> told g) \<and> cf_errorMessage g = Some m"
  proof cases
    case bad
    with assms(2) show ?thesis by simp
  next
    case good
    let ?P = "\<lambda>k. fieldErrorEl f (to_string k) \<noteq> None"
    have "\<forall>e \<in> set es. truthy (prop_opt (js ''field'') e) \<longrightarrow> ?P (prop_opt (js ''field'') e)"
      using assms(4) good(1) by (auto simp: error_fields_def)
    from collect_errors_sound [OF good(2) this]
    have named: "\<forall>(k, ms) \<in> set named. ?P k \<and> (\<exists>x \<in> set ms. legible x)" and forms: "\<forall>m \<in> set forms. legible m"
      by simp_all
    have msgs: "join_spaces (map (formatMessage up) forms) \<noteq> []" if "forms \<noteq> []"
      using that forms formatMessage_legible [OF assms(1)] by (intro join_nonempty) auto
    have field: "told_field (show_field_errors up named f)" if "named \<noteq> []"
      using show_field_errors_told [OF assms(1) that named] .
    show ?thesis using assms(2,3,5) good msgs field
      by (auto simp: applyFormspreeErrors_def Let_def told_cases set_status_def general_error_told split: if_splits sum.splits)
  qed
  then show "x = None \<Longrightarrow> told g" and "cf_errorMessage g = Some m" by blast+
qed

section \<open>A submission\<close>

text \<open>However a submission ends, the button is usable again and has its label back; while it runs the
  button is disabled, so the form is not sent twice.\<close>

lemma submit_settle_ready:
  "\<not> cf_disabled (submit_settle up idleLabel s f)" "cf_label (submit_settle up idleLabel s f) = idleLabel"
  by (simp_all add: submit_settle_def)

definition fixed_parts :: "contact_form \<Rightarrow> bool \<times> jstr option \<times> jstr \<times> jstr option \<times> jstr option" where
  "fixed_parts f = (cf_disabled f, cf_state f, cf_status f, cf_errorMessage f, cf_successMessage f)"

lemma fixed_parts_clear: "fixed_parts (clearFieldErrors f) = fixed_parts f"
proof -
  have rest: "fixed_parts (fold (\<lambda>c g. set_element_text (fieldErrorEl g (fc_name c)) [] g) cs g) = fixed_parts g" for cs g
    by (induction cs arbitrary: g) (auto simp: set_element_text_def fixed_parts_def split: option.splits)
  show ?thesis unfolding clearFieldErrors_def rest by (simp add: fixed_parts_def)
qed

lemma clearFieldErrors_rest:
  "cf_disabled (clearFieldErrors f) = cf_disabled f" "cf_state (clearFieldErrors f) = cf_state f"
  "cf_successMessage (clearFieldErrors f) = cf_successMessage f"
  using fixed_parts_clear [of f] by (simp_all add: fixed_parts_def)

lemma submit_begin_busy: "cf_disabled (submit_begin idleLabel f)" "cf_state (submit_begin idleLabel f) = None"
  by (simp_all add: submit_begin_def clearFieldErrors_rest)

lemma submit_accepted:
  "cf_state (submit_settle up idleLabel (Answer True body) f) = Some (js ''success'')"
  "cf_status (submit_settle up idleLabel (Answer True body) f) = with_default [] (cf_successMessage f)"
  by (simp_all add: submit_settle_def submission_shown_def Let_def set_status_def clearFieldErrors_rest reset_form_def)

text \<open>C37: A message that was not accepted is never lost silently. Whatever Formspree answered, any JSON
  with any members or none, or if there was no answer at all, the form ends with its button enabled and
  an error in the status line or under a field, provided every field an error names has a place for it.\<close>

theorem failed_submission_told:
  assumes "s = No_answer \<or> s = Answer False answer" and "\<forall>u. up [u] \<noteq> []"
    and "cf_errorMessage f = Some m" and "m \<noteq> []"
    and "\<forall>k \<in> set (error_fields (with_default JNull answer)). fieldErrorEl f (to_string k) \<noteq> None"
  shows "told (submit_settle up idleLabel s f) \<and> \<not> cf_disabled (submit_settle up idleLabel s f)"
proof -
  have frame: "told (g\<lparr>cf_disabled := False, cf_label := idleLabel\<rparr>) = told g" for g by (simp add: told_def)
  obtain g x where g: "applyFormspreeErrors up (with_default JNull answer) f = (g, x)" by fastforce
  note shown = applyFormspreeErrors_told [OF assms(2-5) g]
  from assms(1) have "told (submission_shown up s f)"
  proof
    assume "s = No_answer"
    with assms(3,4) show ?thesis by (simp add: submission_shown_def Let_def told_def set_status_def)
  next
    assume "s = Answer False answer"
    with g shown assms(4) show ?thesis
      by (cases x) (simp_all add: submission_shown_def Let_def told_def set_status_def)
  qed
  then show ?thesis by (simp add: submit_settle_def frame)
qed

text \<open>The form of the page.\<close>

definition control :: "string \<Rightarrow> string \<Rightarrow> bool \<Rightarrow> bool \<Rightarrow> string option \<Rightarrow> string \<Rightarrow> form_control" where
  "control n i hidden honeypot d v = \<lparr>fc_name = js n, fc_id = js i, fc_hidden = hidden, fc_honeypot = honeypot,
     fc_describedby = map_option js d, fc_invalid = None, fc_value = js v, fc_default = js v\<rparr>"

definition contact_page :: "jstr \<Rightarrow> jstr \<Rightarrow> jstr \<Rightarrow> jstr \<Rightarrow> contact_form" where
  "contact_page label sending success error =
     \<lparr>cf_controls = [control ''_subject'' [] True False None ''New message from fissionplane.dev'',
        control ''_gotcha'' [] False True None [],
        control ''email'' ''contact-email'' False False (Some ''contact-email-error'') [],
        control ''message'' ''contact-message'' False False (Some ''contact-message-hint contact-message-error'') []],
      cf_elements = [\<lparr>fe_id = js ''contact-email-error'', fe_slot = js ''field-error'', fe_text = []\<rparr>,
        \<lparr>fe_id = js ''contact-message-hint'', fe_slot = js ''field-hint'', fe_text = []\<rparr>,
        \<lparr>fe_id = js ''contact-message-error'', fe_slot = js ''field-error'', fe_text = []\<rparr>],
      cf_status = [], cf_state = None, cf_disabled = False, cf_label = label, cf_focus = None,
      cf_sendingLabel = Some sending, cf_successMessage = Some success, cf_errorMessage = Some error\<rparr>"

definition sample_contact :: contact_form where
  "sample_contact = contact_page (js ''Send'') (js ''Sending'') (js ''Thanks'') (js ''Failed'')"

definition ascii_upper :: "jstr \<Rightarrow> jstr" where
  "ascii_upper s = map (\<lambda>u. if 0x61 \<le> u \<and> u \<le> 0x7A then u - 0x20 else u) s"

definition field_error_body :: "string \<Rightarrow> jsval" where
  "field_error_body n = jobj [(''errors'', JArr [jobj [(''field'', jtext n), (''message'', jtext ''is wrong'')]])]"

lemma contact_page_fields:
  "fieldErrorEl sample_contact (js ''email'') = Some (js ''contact-email-error'')"
  "fieldErrorEl sample_contact (js ''message'') = Some (js ''contact-message-error'')"
  "fieldErrorEl sample_contact (js ''name'') = None"
  by code_simp+

theorem failed_submission_told_witness:
  "told (submit_settle ascii_upper (js ''Send'') (Answer False (Some (field_error_body ''message''))) sample_contact) \<and>
   \<not> cf_disabled (submit_settle ascii_upper (js ''Send'') (Answer False (Some (field_error_body ''message''))) sample_contact)"
proof (rule failed_submission_told [OF disjI2 [OF refl]])
  show "\<forall>u. ascii_upper [u] \<noteq> []" by (simp add: ascii_upper_def)
  show "cf_errorMessage sample_contact = Some (js ''Failed'')" by (simp add: sample_contact_def contact_page_def)
  have "error_fields (field_error_body ''message'') = [jtext ''message'']" by code_simp
  then show "\<forall>k \<in> set (error_fields (with_default JNull (Some (field_error_body ''message'')))).
      fieldErrorEl sample_contact (to_string k) \<noteq> None" by (simp add: contact_page_fields)
qed simp

text \<open>The proviso is needed. An error for a field the form does not have marks nothing and is not shown in
  the status line either: the visitor sees a form that did nothing.\<close>

lemma unknown_field_error_silent:
  "\<not> told (submit_settle ascii_upper (js ''Send'') (Answer False (Some (field_error_body ''name''))) sample_contact)"
  by code_simp

text \<open>Nor is the mark on a control the visitor does not see ever cleared: an error for the honeypot leaves
  it invalid, and the next failure moves the focus to it.\<close>

lemma honeypot_keeps_mark:
  "cf_focus (submit_settle ascii_upper (js ''Send'') (Answer False (Some (field_error_body ''message'')))
     (submit_begin (js ''Send'')
       (submit_settle ascii_upper (js ''Send'') (Answer False (Some (field_error_body ''_gotcha''))) sample_contact))) =
   Some (js ''_gotcha'')"
  by code_simp

end
