(* ===== verification/Copy_Button.thy ===== *)
theory Copy_Button
  imports Platform
begin

text \<open>
  The copy buttons of \<open>src/components/LandingPage.astro\<close> of the marketing site and their toast, with
  the timers they set: a page has a clock, the clipboard, the toast with its one timer, the buttons, and
  the callbacks that will put a button back. A click is taken at the moment the clipboard has answered.
\<close>

record copy_button =
  cb_copy :: "jstr option"
  cb_toast :: "jstr option"
  cb_label :: "jstr option"
  cb_copied :: bool
  cb_copiedLabel :: "jstr option"
  cb_copyLabel :: "jstr option"

record reset_timer =
  rt_due :: int
  rt_button :: nat
  rt_restLabel :: "jstr option"

record toast =
  to_text :: jstr
  to_visible :: bool

record landing =
  la_now :: int
  la_clipboard :: jstr
  la_toast :: "toast option"
  la_toastTimer :: "int option"
  la_buttons :: "copy_button list"
  la_resets :: "reset_timer list"

text \<open>\<open>a || b\<close> on attributes: an absent and an empty one are both skipped.\<close>

definition or_else :: "jstr option \<Rightarrow> jstr \<Rightarrow> jstr" where
  "or_else a b = (case a of None \<Rightarrow> b | Some [] \<Rightarrow> b | Some s \<Rightarrow> s)"

definition showToast :: "jstr \<Rightarrow> landing \<Rightarrow> landing" where
  "showToast m l = (case la_toast l of
       None \<Rightarrow> l
     | Some _ \<Rightarrow> l\<lparr>la_toast := Some \<lparr>to_text = m, to_visible = True\<rparr>, la_toastTimer := Some (la_now l + 2400)\<rparr>)"

text \<open>The click handler of the button at an index; the flag says whether the clipboard took the text.\<close>

definition copy_click :: "bool \<Rightarrow> nat \<Rightarrow> landing \<Rightarrow> landing" where
  "copy_click ok i l =
     (if \<not> ok \<or> length (la_buttons l) \<le> i then l
      else let b = la_buttons l ! i;
               l1 = l\<lparr>la_clipboard := or_else (cb_copy b) []\<rparr>;
               l2 = (case cb_toast b of None \<Rightarrow> l1 | Some [] \<Rightarrow> l1 | Some m \<Rightarrow> showToast m l1);
               restLabel = cb_label b
        in l2\<lparr>la_buttons := (la_buttons l)[i := b\<lparr>cb_copied := True,
                 cb_label := Some (or_else (cb_copiedLabel b) (js ''Copied''))\<rparr>],
              la_resets := la_resets l @ [\<lparr>rt_due = la_now l + 2000, rt_button = i, rt_restLabel = restLabel\<rparr>]\<rparr>)"

definition fire_reset :: "reset_timer \<Rightarrow> copy_button list \<Rightarrow> copy_button list" where
  "fire_reset t bs = (let b = bs ! rt_button t in
     bs[rt_button t := b\<lparr>cb_copied := False,
        cb_label := Some (or_else (rt_restLabel t) (or_else (cb_copyLabel b) (js ''Copy install command'')))\<rparr>])"

text \<open>Time passes: the timers that are due run, in the order they were set.\<close>

definition let_pass :: "int \<Rightarrow> landing \<Rightarrow> landing" where
  "let_pass t l =
     (let fired = (\<lambda>r. rt_due r \<le> t);
          hide = (case la_toastTimer l of None \<Rightarrow> False | Some d \<Rightarrow> d \<le> t)
      in l\<lparr>la_now := t,
           la_toast := (if hide then map_option (\<lambda>x. x\<lparr>to_visible := False\<rparr>) (la_toast l) else la_toast l),
           la_toastTimer := (if hide then None else la_toastTimer l),
           la_buttons := fold fire_reset (filter fired (la_resets l)) (la_buttons l),
           la_resets := filter (\<lambda>r. \<not> fired r) (la_resets l)\<rparr>)"

inductive landing_run :: "landing \<Rightarrow> landing \<Rightarrow> bool" for l0 where
  run_start: "landing_run l0 l0"
| run_click: "landing_run l0 l \<Longrightarrow> landing_run l0 (copy_click ok i l)"
| run_wait: "landing_run l0 l \<Longrightarrow> la_now l \<le> t \<Longrightarrow> landing_run l0 (let_pass t l)"

section \<open>The toast\<close>

definition toast_shown :: "landing \<Rightarrow> bool" where
  "toast_shown l \<longleftrightarrow> (case la_toast l of None \<Rightarrow> False | Some x \<Rightarrow> to_visible x)"

text \<open>While the toast is visible its timer is set, and is at most 2400 ms away: however often the visitor
  copies, the toast goes 2400 ms after the last time.\<close>

definition toast_timed :: "landing \<Rightarrow> bool" where
  "toast_timed l \<longleftrightarrow> (toast_shown l \<longrightarrow> (\<exists>d. la_toastTimer l = Some d \<and> d \<le> la_now l + 2400))"

lemma showToast_timed: "toast_timed l \<Longrightarrow> toast_timed (showToast m l)"
  by (auto simp: showToast_def toast_timed_def toast_shown_def split: option.splits)

lemma copy_click_timed: "toast_timed l \<Longrightarrow> toast_timed (copy_click ok i l)"
proof -
  assume l: "toast_timed l"
  have frame: "toast_timed (x\<lparr>la_buttons := bs, la_resets := rs\<rparr>) = toast_timed x"
    "toast_timed (x\<lparr>la_clipboard := c\<rparr>) = toast_timed x" for x bs rs c
    by (simp_all add: toast_timed_def toast_shown_def)
  have "toast_timed (showToast m (l\<lparr>la_clipboard := c\<rparr>))" for m c
    by (rule showToast_timed) (simp add: frame l)
  with l show ?thesis by (auto simp: copy_click_def Let_def frame split: option.splits list.splits)
qed

lemma let_pass_timed: "toast_timed l \<Longrightarrow> la_now l \<le> t \<Longrightarrow> toast_timed (let_pass t l)"
  by (auto simp: toast_timed_def toast_shown_def let_pass_def Let_def split: option.splits)

lemma landing_run_timed: "landing_run l0 l \<Longrightarrow> toast_timed l0 \<Longrightarrow> toast_timed l"
  by (induction rule: landing_run.induct) (simp_all add: copy_click_timed let_pass_timed)

lemma toast_goes:
  assumes "landing_run l0 l" and "\<not> toast_shown l0" and "la_now l + 2400 \<le> t"
  shows "\<not> toast_shown (let_pass t l)"
proof -
  from assms(2) have "toast_timed l0" by (simp add: toast_timed_def)
  from landing_run_timed [OF assms(1) this] have "toast_timed l" .
  with assms(3) show ?thesis
    by (auto simp: toast_timed_def toast_shown_def let_pass_def Let_def split: option.splits)
qed

section \<open>The label\<close>

text \<open>A button that is clicked once and left alone for two seconds is as it was.\<close>

lemma copy_click_sets:
  assumes "i < length (la_buttons l)"
  shows "la_resets (copy_click True i l) =
      la_resets l @ [\<lparr>rt_due = la_now l + 2000, rt_button = i, rt_restLabel = cb_label (la_buttons l ! i)\<rparr>]"
    and "la_buttons (copy_click True i l) = (la_buttons l)[i := (la_buttons l ! i)\<lparr>cb_copied := True,
      cb_label := Some (or_else (cb_copiedLabel (la_buttons l ! i)) (js ''Copied''))\<rparr>]"
  using assms by (simp_all add: copy_click_def Let_def)

lemma fire_after_click:
  assumes "i < length bs" and "cb_label (bs ! i) = Some (u # us)" and "\<not> cb_copied (bs ! i)"
  shows "fire_reset \<lparr>rt_due = d, rt_button = i, rt_restLabel = Some (u # us)\<rparr>
     (bs[i := (bs ! i)\<lparr>cb_copied := True, cb_label := x\<rparr>]) = bs"
proof -
  have "(bs ! i)\<lparr>cb_copied := False, cb_label := Some (u # us)\<rparr> = bs ! i" using assms(2,3) by simp
  then show ?thesis using assms(1) by (simp add: fire_reset_def or_else_def)
qed

lemma label_restored:
  assumes "i < length (la_buttons l)" and "la_resets l = []" and "cb_label (la_buttons l ! i) = Some (u # us)"
    and "\<not> cb_copied (la_buttons l ! i)" and "la_now l + 2000 \<le> t"
  shows "la_buttons (let_pass t (copy_click ok i l)) = la_buttons l"
proof (cases ok)
  case True
  have "la_buttons (let_pass t (copy_click True i l)) =
      fold fire_reset (filter (\<lambda>r. rt_due r \<le> t) (la_resets (copy_click True i l))) (la_buttons (copy_click True i l))"
    by (simp add: let_pass_def Let_def)
  also have "\<dots> = la_buttons l"
    using assms(2,3,5) fire_after_click [OF assms(1,3,4)] by (simp add: copy_click_sets [OF assms(1)])
  finally show ?thesis using True by simp
next
  case False
  with assms(2) show ?thesis by (simp add: copy_click_def let_pass_def Let_def)
qed

definition sample_landing :: landing where
  "sample_landing = \<lparr>la_now = 0, la_clipboard = [], la_toast = None, la_toastTimer = None,
     la_buttons = [\<lparr>cb_copy = Some (js ''npm i''), cb_toast = None, cb_label = Some (js ''Copy''), cb_copied = False,
       cb_copiedLabel = None, cb_copyLabel = None\<rparr>], la_resets = []\<rparr>"

text \<open>A second click within two seconds takes the label \<^emph>\<open>Copied\<close> for the one to return to: the button
  is called \<^emph>\<open>Copied\<close> from then on.\<close>

lemma double_click_keeps_copied:
  "map cb_label (la_buttons (let_pass 9000 (copy_click True 0 (let_pass 1000 (copy_click True 0 sample_landing))))) =
     [Some (js ''Copied'')]"
  by code_simp

end
