(* ===== verification/Sitemap.thy ===== *)
theory Sitemap
  imports Marketing
begin

text \<open>
  The sitemap step of the marketing build, \<open>preserveRootSitemapSlash\<close> of \<open>astro.config.mjs\<close>: the
  sitemap plugin drops the slash of the root location, the step puts it back, and stops the build when
  there is not exactly one root location. \<open>split_str\<close> is \<open>s.split(sep)\<close> and \<open>replace_first\<close> is
  \<open>s.replace(sep, rep)\<close> for a separator that is not empty and a replacement without a dollar sign.
\<close>

function split_str :: "jstr \<Rightarrow> jstr \<Rightarrow> jstr \<Rightarrow> jstr list" where
  "split_str sep acc s =
     (if sep \<noteq> [] \<and> starts_with sep s then rev acc # split_str sep [] (drop (length sep) s)
      else case s of [] \<Rightarrow> [rev acc] | u # us \<Rightarrow> split_str sep (u # acc) us)"
  by auto
termination
proof (relation "measure (\<lambda>(sep, acc, s). length s)")
  fix sep acc s :: jstr
  assume a: "sep \<noteq> [] \<and> starts_with sep s"
  then have "s \<noteq> []" by (auto simp: starts_with_def)
  with a show "((sep, [], drop (length sep) s), (sep, acc, s)) \<in> measure (\<lambda>(sep, acc, s). length s)"
    by (cases sep; cases s) simp_all
qed simp_all

declare split_str.simps [simp del]

fun replace_first :: "jstr \<Rightarrow> jstr \<Rightarrow> jstr \<Rightarrow> jstr" where
  "replace_first sep rep [] = []"
| "replace_first sep rep (u # us) =
     (if starts_with sep (u # us) then rep @ drop (length sep) (u # us) else u # replace_first sep rep us)"

definition ROOT_LOC :: jstr where "ROOT_LOC = js ''<loc>'' @ SITE_ORIGIN @ js ''</loc>''"

definition ROOT_LOC_WITH_SLASH :: jstr where
  "ROOT_LOC_WITH_SLASH = js ''<loc>'' @ SITE_ORIGIN @ js ''/</loc>''"

definition preserveRootSitemapSlash :: "jstr \<Rightarrow> exn + jstr" where
  "preserveRootSitemapSlash sitemapXML =
     (let rootMatches = length (split_str ROOT_LOC [] sitemapXML) - 1
      in if rootMatches \<noteq> 1
         then Inl (OtherError (js ''Expected one root sitemap location, found '' @ show_nat rootMatches))
         else Inr (replace_first ROOT_LOC ROOT_LOC_WITH_SLASH sitemapXML))"

text \<open>The plugin's filter and the pages it lists.\<close>

fun has_part :: "jstr \<Rightarrow> jstr \<Rightarrow> bool" where
  "has_part sub [] = (sub = [])"
| "has_part sub (u # us) = (starts_with sub (u # us) \<or> has_part sub us)"

definition sitemap_lists :: "jstr \<Rightarrow> bool" where
  "sitemap_lists page \<longleftrightarrow> \<not> has_part (js ''/404'') page"

section \<open>Splitting and replacing\<close>

lemma starts_with_Nil [simp]: "starts_with sep [] \<longleftrightarrow> sep = []"
  by (auto simp: starts_with_def)

lemma split_str_here:
  "sep \<noteq> [] \<Longrightarrow> starts_with sep s \<Longrightarrow> split_str sep acc s = rev acc # split_str sep [] (drop (length sep) s)"
  by (subst split_str.simps) simp

lemma split_str_later:
  "\<not> (sep \<noteq> [] \<and> starts_with sep (u # us)) \<Longrightarrow> split_str sep acc (u # us) = split_str sep (u # acc) us"
  by (subst split_str.simps) auto

lemma split_str_end: "\<not> (sep \<noteq> [] \<and> starts_with sep []) \<Longrightarrow> split_str sep acc [] = [rev acc]"
  by (subst split_str.simps) auto


lemma split_str_nonempty [simp]: "split_str sep acc s \<noteq> []"
proof (induction sep acc s rule: split_str.induct)
  case (1 sep acc s)
  show ?case
  proof (cases "sep \<noteq> [] \<and> starts_with sep s")
    case True
    then show ?thesis by (subst split_str_here) simp_all
  next
    case False
    with "1.IH"(2) [OF False] show ?thesis
      by (cases s) (simp_all add: split_str_later split_str_end)
  qed
qed

lemma starts_with_split: "starts_with p s \<Longrightarrow> s = p @ drop (length p) s"
  unfolding starts_with_def by (metis append_take_drop_id)

lemma join_split_str: "join_with sep (split_str sep acc s) = rev acc @ s"
proof (induction sep acc s rule: split_str.induct)
  case (1 sep acc s)
  show ?case
  proof (cases "sep \<noteq> [] \<and> starts_with sep s")
    case True
    obtain q qs where "split_str sep [] (drop (length sep) s) = q # qs"
      using split_str_nonempty by (metis list.exhaust)
    moreover have "split_str sep acc s = rev acc # split_str sep [] (drop (length sep) s)"
      using True by (intro split_str_here) simp_all
    ultimately show ?thesis using "1.IH"(1) [OF True] True starts_with_split [of sep s] by simp
  next
    case False
    with "1.IH"(2) [OF False] show ?thesis by (cases s) (simp_all add: split_str_later split_str_end)
  qed
qed

lemma replace_first_split_str:
  assumes "sep \<noteq> []" and "split_str sep acc s = p # q # ps"
  shows "rev acc @ replace_first sep rep s = p @ rep @ join_with sep (q # ps)"
  using assms(2)
proof (induction s arbitrary: acc)
  case Nil
  with assms(1) show ?case by (simp add: split_str_end starts_with_def)
next
  case (Cons u us)
  show ?case
  proof (cases "starts_with sep (u # us)")
    case True
    with assms(1) Cons.prems have "p = rev acc" "split_str sep [] (drop (length sep) (u # us)) = q # ps"
      by (simp_all add: split_str_here)
    with join_split_str [of sep "[]" "drop (length sep) (u # us)"] True show ?thesis by simp
  next
    case False
    with assms(1) Cons.prems have "split_str sep (u # acc) us = p # q # ps" by (simp add: split_str_later)
    from Cons.IH [OF this] False show ?thesis by simp
  qed
qed

text \<open>The step either stops the build or gives the one root location its slash and leaves every other
  character of the sitemap as it was.\<close>

lemma sitemap_root_restored:
  assumes "preserveRootSitemapSlash xml = Inr out"
  shows "\<exists>before after. xml = before @ ROOT_LOC @ after \<and> out = before @ ROOT_LOC_WITH_SLASH @ after"
proof -
  let ?ps = "split_str ROOT_LOC [] xml"
  from assms have "length ?ps - 1 = 1" and out: "out = replace_first ROOT_LOC ROOT_LOC_WITH_SLASH xml"
    by (auto simp: preserveRootSitemapSlash_def Let_def split: if_splits)
  then have "length ?ps = Suc (Suc 0)" by (cases "length ?ps") simp_all
  then obtain a b where ps: "?ps = [a, b]" by (auto simp: length_Suc_conv)
  from join_split_str [of ROOT_LOC "[]" xml] ps have "xml = a @ ROOT_LOC @ b" by simp
  moreover have "out = a @ ROOT_LOC_WITH_SLASH @ b"
    using replace_first_split_str [OF _ ps, of ROOT_LOC_WITH_SLASH] out by (simp add: ROOT_LOC_def)
  ultimately show ?thesis by blast
qed

lemma sitemap_hides_404: "\<not> sitemap_lists (SITE_ORIGIN @ js ''/404'')" "sitemap_lists (SITE_ORIGIN @ js ''/brand'')"
  by code_simp+

end
