(* ===== verification/Sidebar.thy ===== *)
theory Sidebar
  imports Platform
begin

text \<open>
  The stateful components of the UI library: the sidebar provider of \<open>components/ui/sidebar.tsx\<close>, the
  hook \<open>hooks/use-mobile.ts\<close> it stands on, and the carousel of \<open>components/ui/carousel.tsx\<close>.

  A component keeps its React state and what its last rendering saw: a callback handed out by a rendering
  reads the values of that rendering, while a functional update of React's own setter reads the state.
  Rendering copies the state and the properties; events between two renderings run the same callbacks.
\<close>

section \<open>The sidebar\<close>

definition SIDEBAR_COOKIE_NAME :: jstr where "SIDEBAR_COOKIE_NAME = js ''sidebar_state''"
definition SIDEBAR_COOKIE_MAX_AGE :: nat where "SIDEBAR_COOKIE_MAX_AGE = 60 * 60 * 24 * 7"
definition SIDEBAR_KEYBOARD_SHORTCUT :: jstr where "SIDEBAR_KEYBOARD_SHORTCUT = js ''b''"
definition MOBILE_BREAKPOINT :: int where "MOBILE_BREAKPOINT = 768"

text \<open>The hook is undefined before its effect has run, and \<open>!!undefined\<close> is false.\<close>

definition useIsMobile :: "int option \<Rightarrow> bool" where
  "useIsMobile innerWidth = (case innerWidth of None \<Rightarrow> False | Some w \<Rightarrow> w < MOBILE_BREAKPOINT)"

text \<open>The properties: \<open>open\<close> is controlled from outside where given, and \<open>sp_owner\<close> says that
  \<open>onOpenChange\<close> is given.\<close>

record sidebar_props =
  sp_open :: "bool option"
  sp_owner :: bool

record sidebar =
  sb_open :: bool
  sb_openMobile :: bool
  sb_seen :: bool
  sb_mobile :: bool
  sb_props :: sidebar_props
  sb_cookie :: "jstr option"
  sb_asked :: "bool list"

definition new_sidebar :: "bool \<Rightarrow> sidebar_props \<Rightarrow> sidebar" where
  "new_sidebar defaultOpen p = \<lparr>sb_open = defaultOpen, sb_openMobile = False,
     sb_seen = with_default defaultOpen (sp_open p), sb_mobile = False, sb_props = p,
     sb_cookie = None, sb_asked = []\<rparr>"

definition render_sidebar :: "sidebar_props \<Rightarrow> int option \<Rightarrow> sidebar \<Rightarrow> sidebar" where
  "render_sidebar p width s = s\<lparr>sb_seen := with_default (sb_open s) (sp_open p), sb_mobile := useIsMobile width,
     sb_props := p\<rparr>"

definition sidebar_cookie :: "bool \<Rightarrow> jstr" where
  "sidebar_cookie b = SIDEBAR_COOKIE_NAME @ js ''='' @ to_string (JBool b) @ js ''; path=/; max-age='' @
     show_nat SIDEBAR_COOKIE_MAX_AGE"

text \<open>\<open>setOpen\<close> with a value or with a function of the value the rendering saw.\<close>

definition setOpen :: "(bool \<Rightarrow> bool) \<Rightarrow> sidebar \<Rightarrow> sidebar" where
  "setOpen change s =
     (let openState = change (sb_seen s);
          s' = (if sp_owner (sb_props s) then s\<lparr>sb_asked := sb_asked s @ [openState]\<rparr>
                else s\<lparr>sb_open := openState\<rparr>)
      in s'\<lparr>sb_cookie := Some (sidebar_cookie openState)\<rparr>)"

definition toggleSidebar :: "sidebar \<Rightarrow> sidebar" where
  "toggleSidebar s =
     (if sb_mobile s then s\<lparr>sb_openMobile := \<not> sb_openMobile s\<rparr> else setOpen (\<lambda>v. \<not> v) s)"

record key_event =
  ke_key :: jstr
  ke_meta :: bool
  ke_ctrl :: bool

text \<open>The flag says whether the browser's own action was prevented.\<close>

definition sidebar_key :: "key_event \<Rightarrow> sidebar \<Rightarrow> bool \<times> sidebar" where
  "sidebar_key e s =
     (if ke_key e = SIDEBAR_KEYBOARD_SHORTCUT \<and> (ke_meta e \<or> ke_ctrl e) then (True, toggleSidebar s)
      else (False, s))"

definition sidebar_state :: "sidebar \<Rightarrow> jstr" where
  "sidebar_state s = (if sb_seen s then js ''expanded'' else js ''collapsed'')"

datatype sidebar_view = Static_panel | Mobile_sheet bool | Desktop_panel jstr jstr

text \<open>What \<open>Sidebar\<close> renders, with \<open>data-state\<close> and \<open>data-collapsible\<close> on a desktop.\<close>

definition Sidebar_view :: "jstr \<Rightarrow> sidebar \<Rightarrow> sidebar_view" where
  "Sidebar_view collapsible s =
     (if collapsible = js ''none'' then Static_panel
      else if sb_mobile s then Mobile_sheet (sb_openMobile s)
      else Desktop_panel (sidebar_state s)
        (if sidebar_state s = js ''collapsed'' then collapsible else []))"

definition tooltip_hidden :: "sidebar \<Rightarrow> bool" where
  "tooltip_hidden s \<longleftrightarrow> sidebar_state s \<noteq> js ''collapsed'' \<or> sb_mobile s"

text \<open>The width of a skeleton row, from \<open>Math.random()\<close>.\<close>

definition skeleton_width :: "rat \<Rightarrow> jstr" where
  "skeleton_width random = show_int (\<lfloor>random * 40\<rfloor> + 50) @ js ''%''"

text \<open>A session of a provider that is neither controlled nor owned: events, each followed or not by a
  rendering.\<close>

inductive sidebar_run :: "sidebar \<Rightarrow> sidebar \<Rightarrow> bool" for s0 where
  sidebar_start: "sidebar_run s0 s0"
| sidebar_set: "sidebar_run s0 s \<Longrightarrow> sidebar_run s0 (setOpen change s)"
| sidebar_toggle: "sidebar_run s0 s \<Longrightarrow> sidebar_run s0 (toggleSidebar s)"
| sidebar_keydown: "sidebar_run s0 s \<Longrightarrow> sidebar_run s0 (snd (sidebar_key e s))"
| sidebar_render: "sidebar_run s0 s \<Longrightarrow> sidebar_run s0 (render_sidebar (sb_props s) width s)"

definition self_kept :: "sidebar \<Rightarrow> bool" where
  "self_kept s \<longleftrightarrow> sp_open (sb_props s) = None \<and> \<not> sp_owner (sb_props s)"

text \<open>The cookie of such a provider never lies: once written, it names the state the sidebar is in, at
  the latest from the next rendering on.\<close>

definition cookie_true :: "sidebar \<Rightarrow> bool" where
  "cookie_true s \<longleftrightarrow> sb_cookie s = None \<or> sb_cookie s = Some (sidebar_cookie (sb_open s))"

lemma setOpen_cookie: "self_kept s \<Longrightarrow> cookie_true (setOpen change s) \<and> self_kept (setOpen change s)"
  by (simp add: setOpen_def Let_def self_kept_def cookie_true_def)

lemma toggleSidebar_cookie:
  "self_kept s \<Longrightarrow> cookie_true s \<Longrightarrow> cookie_true (toggleSidebar s) \<and> self_kept (toggleSidebar s)"
  using setOpen_cookie [of s "\<lambda>v. \<not> v"] by (simp add: toggleSidebar_def self_kept_def cookie_true_def)

lemma sidebar_cookie_true:
  "sidebar_run s0 s \<Longrightarrow> self_kept s0 \<Longrightarrow> cookie_true s0 \<Longrightarrow> cookie_true s \<and> self_kept s"
proof (induction rule: sidebar_run.induct)
  case (sidebar_render s width)
  then show ?case by (simp add: render_sidebar_def cookie_true_def self_kept_def)
qed (simp_all add: setOpen_cookie toggleSidebar_cookie sidebar_key_def)

lemma rendered_state_is_cookie:
  assumes "sidebar_run (new_sidebar d p) s" and "sp_open p = None" and "\<not> sp_owner p" and "sb_cookie s = Some c"
  shows "c = sidebar_cookie (sb_seen (render_sidebar (sb_props s) width s))"
proof -
  have "self_kept (new_sidebar d p)" "cookie_true (new_sidebar d p)"
    using assms(2,3) by (simp_all add: new_sidebar_def self_kept_def cookie_true_def)
  from sidebar_cookie_true [OF assms(1) this] assms(4) show ?thesis
    by (simp add: cookie_true_def self_kept_def render_sidebar_def)
qed

lemma sidebar_cookie_inject [simp]: "sidebar_cookie a = sidebar_cookie b \<longleftrightarrow> a = b"
  by (cases a; cases b) (simp_all add: sidebar_cookie_def js_def u16_def)

text \<open>A toggle on a phone moves the sheet only; the state and the cookie of the desktop stay.\<close>

lemma mobile_toggle_local:
  "sb_mobile s \<Longrightarrow> sb_open (toggleSidebar s) = sb_open s \<and> sb_cookie (toggleSidebar s) = sb_cookie s"
  by (simp add: toggleSidebar_def)

text \<open>Two toggles in one rendering are one: the second reads the value the rendering saw. The sheet of a
  phone, toggled through React's setter, is back where it was.\<close>

lemma desktop_double_toggle: "\<not> sb_mobile s \<Longrightarrow> toggleSidebar (toggleSidebar s) =
    (let t = toggleSidebar s in if sp_owner (sb_props s) then t\<lparr>sb_asked := sb_asked t @ [\<not> sb_seen s]\<rparr> else t)"
  by (simp add: toggleSidebar_def setOpen_def Let_def)

lemma mobile_double_toggle: "sb_mobile s \<Longrightarrow> toggleSidebar (toggleSidebar s) = s"
  by (simp add: toggleSidebar_def)

text \<open>An owner that does not follow leaves a cookie of a state the sidebar was never in.\<close>

lemma owned_cookie_lies:
  assumes "\<not> sb_mobile s" and "sp_owner (sb_props s)" and "sp_open (sb_props s) = Some b" and "sb_seen s = b"
  shows "sb_cookie (render_sidebar (sb_props s) w (toggleSidebar s)) = Some (sidebar_cookie (\<not> b))"
    and "sb_seen (render_sidebar (sb_props s) w (toggleSidebar s)) = b"
  using assms by (simp_all add: toggleSidebar_def setOpen_def render_sidebar_def Let_def)

lemma skeleton_width_range:
  assumes "0 \<le> random" and "random < 1"
  shows "50 \<le> \<lfloor>random * 40\<rfloor> + 50 \<and> \<lfloor>random * 40\<rfloor> + 50 < (90 :: int)"
proof -
  from assms have "0 \<le> random * 40" "random * 40 < 40" by simp_all
  then have "0 \<le> \<lfloor>random * 40\<rfloor>" "\<lfloor>random * 40\<rfloor> < 40" by (simp_all add: floor_less_iff)
  then show ?thesis by simp
qed

section \<open>The carousel\<close>

text \<open>The library's carousel is a parameter: \<open>ca_limits\<close> tells whether it can scroll back and forth
  from a position. The subscriptions are those of \<open>onSelect\<close> to its two events.\<close>

record carousel =
  ca_position :: int
  ca_canScrollPrev :: bool
  ca_canScrollNext :: bool
  ca_reInit :: nat
  ca_select :: nat

definition onSelect :: "(int \<Rightarrow> bool \<times> bool) \<Rightarrow> carousel \<Rightarrow> carousel" where
  "onSelect limits c = c\<lparr>ca_canScrollPrev := fst (limits (ca_position c)),
     ca_canScrollNext := snd (limits (ca_position c))\<rparr>"

definition carousel_mount :: "(int \<Rightarrow> bool \<times> bool) \<Rightarrow> carousel \<Rightarrow> carousel" where
  "carousel_mount limits c =
     (let c' = onSelect limits c in c'\<lparr>ca_reInit := ca_reInit c' + 1, ca_select := ca_select c' + 1\<rparr>)"

definition carousel_unmount :: "carousel \<Rightarrow> carousel" where
  "carousel_unmount c = c\<lparr>ca_select := ca_select c - 1\<rparr>"

text \<open>The slide changed; \<open>onSelect\<close> runs once for each subscription.\<close>

definition carousel_moved :: "(int \<Rightarrow> bool \<times> bool) \<Rightarrow> int \<Rightarrow> carousel \<Rightarrow> carousel" where
  "carousel_moved limits p c = (onSelect limits ^^ ca_select c) (c\<lparr>ca_position := p\<rparr>)"

datatype carousel_key = Scroll_prev | Scroll_next | Other_key

definition carousel_keydown :: "jstr \<Rightarrow> carousel_key" where
  "carousel_keydown key =
     (if key = js ''ArrowLeft'' then Scroll_prev else if key = js ''ArrowRight'' then Scroll_next else Other_key)"

text \<open>\<open>orientation || (opts?.axis === "y" ? "vertical" : "horizontal")\<close>, the parameter having a default.\<close>

definition carousel_orientation :: "jstr option \<Rightarrow> jstr option \<Rightarrow> jstr" where
  "carousel_orientation orientation axis =
     (let o' = with_default (js ''horizontal'') orientation
      in if o' \<noteq> [] then o' else if axis = Some (js ''y'') then js ''vertical'' else js ''horizontal'')"

definition arrows_true :: "(int \<Rightarrow> bool \<times> bool) \<Rightarrow> carousel \<Rightarrow> bool" where
  "arrows_true limits c \<longleftrightarrow> (ca_canScrollPrev c, ca_canScrollNext c) = limits (ca_position c)"

lemma onSelect_arrows [simp]: "arrows_true limits (onSelect limits c)"
  by (simp add: arrows_true_def onSelect_def)

lemma onSelect_keeps [simp]:
  "ca_select (onSelect limits c) = ca_select c" "ca_position (onSelect limits c) = ca_position c"
  by (simp_all add: onSelect_def)

text \<open>While the carousel is mounted its arrows are enabled exactly where it can scroll.\<close>

lemma carousel_mount_arrows: "arrows_true limits (carousel_mount limits c)"
  using onSelect_arrows [of limits c] by (simp add: carousel_mount_def arrows_true_def Let_def)

lemma carousel_moved_arrows: "0 < ca_select c \<Longrightarrow> arrows_true limits (carousel_moved limits p c)"
  by (cases "ca_select c") (simp_all add: carousel_moved_def)

text \<open>Unmounting leaves the subscription to \<open>reInit\<close> behind, and the axis of the options is never
  looked at: the default orientation is always there.\<close>

lemma reInit_leaks: "ca_reInit (carousel_unmount (carousel_mount limits c)) = ca_reInit c + 1"
  "ca_select (carousel_unmount (carousel_mount limits c)) = ca_select c"
  by (simp_all add: carousel_unmount_def carousel_mount_def onSelect_def Let_def)

lemma axis_ignored: "carousel_orientation None axis = js ''horizontal''"
  by (simp add: carousel_orientation_def Let_def)

end
