(* ===== verification/Charts.thy ===== *)
theory Charts
  imports Encoding Errors
begin

text \<open>
  The pure parts of the UI library: the configuration lookups, the style sheet, the tooltip and the
  legend of \<open>components/ui/chart.tsx\<close>, the error list of \<open>components/ui/field.tsx\<close>, the icon of
  \<open>components/ui/toast.tsx\<close> and the thumbs of \<open>components/ui/slider.tsx\<close>.

  A React node is a JavaScript value or an element (\<open>'el\<close>). The configuration of a chart is an object
  literal, so that \<open>key in config\<close> also finds the members of \<open>Object.prototype\<close>; those are functions
  and objects without the members a chart item has (\<open>inherited_item\<close>).
\<close>

datatype 'el node = Value_node jsval | Element 'el

fun node_truthy :: "'el node \<Rightarrow> bool" where
  "node_truthy (Value_node v) = truthy v"
| "node_truthy (Element e) = True"

definition nullish_node :: "'el node \<Rightarrow> bool" where
  "nullish_node n \<longleftrightarrow> n = Value_node JUndefined \<or> n = Value_node JNull"

text \<open>\<open>a ?? b\<close>\<close>

definition node_or :: "'el node \<Rightarrow> 'el node \<Rightarrow> 'el node" where
  "node_or a b = (if nullish_node a then b else a)"

section \<open>Chart configuration\<close>

record 'el chart_item =
  it_label :: "'el node"
  it_icon :: "'el option"
  it_color :: "jstr option"
  it_theme :: "(jstr, jstr) alist option"

type_synonym 'el chart_config = "(jstr, 'el chart_item) alist"

definition inherited_item :: "'el chart_item" where
  "inherited_item = \<lparr>it_label = Value_node JUndefined, it_icon = None, it_color = None, it_theme = None\<rparr>"

definition OBJECT_MEMBERS :: "jstr list" where
  "OBJECT_MEMBERS = map js [''constructor'', ''__defineGetter__'', ''__defineSetter__'', ''hasOwnProperty'',
     ''__lookupGetter__'', ''__lookupSetter__'', ''isPrototypeOf'', ''propertyIsEnumerable'', ''toString'',
     ''valueOf'', ''__proto__'', ''toLocaleString'']"

text \<open>\<open>config[key]\<close>, and with it \<open>key in config\<close>.\<close>

definition config_at :: "'el chart_config \<Rightarrow> jstr \<Rightarrow> 'el chart_item option" where
  "config_at config key = (case map_of config key of
       Some it \<Rightarrow> Some it
     | None \<Rightarrow> if key \<in> set OBJECT_MEMBERS then Some inherited_item else None)"

definition getPayloadConfigFromPayload :: "'el chart_config \<Rightarrow> jsval \<Rightarrow> jstr \<Rightarrow> 'el chart_item option" where
  "getPayloadConfigFromPayload config payload key =
     (if \<not> (case payload of JObj _ \<Rightarrow> True | JArr _ \<Rightarrow> True | _ \<Rightarrow> False) then None
      else let payloadPayload = (case prop_opt (js ''payload'') payload of JObj fs \<Rightarrow> JObj fs | JArr vs \<Rightarrow> JArr vs | _ \<Rightarrow> JUndefined);
               configLabelKey = (case prop_opt key payload of
                   JStr s \<Rightarrow> s
                 | _ \<Rightarrow> (case prop_opt key payloadPayload of JStr s \<Rightarrow> s | _ \<Rightarrow> key))
           in if config_at config configLabelKey \<noteq> None then config_at config configLabelKey
              else config_at config key)"

section \<open>Chart style\<close>

definition THEMES :: "(jstr \<times> jstr) list" where
  "THEMES = [(js ''light'', []), (js ''dark'', js ''.dark'')]"

definition colored :: "'el chart_item \<Rightarrow> bool" where
  "colored it \<longleftrightarrow> (case it_theme it of Some _ \<Rightarrow> True | None \<Rightarrow> with_default [] (it_color it) \<noteq> [])"

definition theme_color :: "jstr \<Rightarrow> 'el chart_item \<Rightarrow> jstr" where
  "theme_color theme it = (case it_theme it of
       None \<Rightarrow> with_default [] (it_color it)
     | Some th \<Rightarrow> (case map_of th theme of None \<Rightarrow> with_default [] (it_color it) | Some c \<Rightarrow> c))"

definition color_line :: "jstr \<Rightarrow> jstr \<times> 'el chart_item \<Rightarrow> jstr" where
  "color_line theme ki = (case ki of (key, it) \<Rightarrow>
     let color = theme_color theme it in
     if color \<noteq> [] then js ''  --color-'' @ key @ js '': '' @ color @ js '';'' else [])"

definition theme_rule :: "jstr \<Rightarrow> (jstr \<times> 'el chart_item) list \<Rightarrow> jstr \<times> jstr \<Rightarrow> jstr" where
  "theme_rule i colorConfig tp = (case tp of (theme, prefix) \<Rightarrow>
     [10] @ prefix @ js '' [data-chart='' @ i @ js ''] {'' @ [10] @
     join_with [10] (map (color_line theme) colorConfig) @ [10] @ js ''}'' @ [10])"

definition ChartStyle :: "jstr \<Rightarrow> 'el chart_config \<Rightarrow> jstr option" where
  "ChartStyle i config =
     (let colorConfig = filter (\<lambda>(_, it). colored it) config
      in if colorConfig = [] then None else Some (join_with [10] (map (theme_rule i colorConfig) THEMES)))"

definition chart_id :: "jstr option \<Rightarrow> jstr \<Rightarrow> jstr" where
  "chart_id i uniqueId = js ''chart-'' @ with_default (filter (\<lambda>u. u \<noteq> u16 CHR '':'') uniqueId) i"

section \<open>Tooltip and legend\<close>

definition nullish :: "jsval \<Rightarrow> bool" where
  "nullish v \<longleftrightarrow> v = JUndefined \<or> v = JNull"

fun first_given :: "jsval list \<Rightarrow> jsval" where
  "first_given [] = jtext ''value''"
| "first_given (v # vs) = (if nullish v then first_given vs else v)"

definition given_key :: "jstr option \<Rightarrow> jsval" where
  "given_key k = (case k of None \<Rightarrow> JUndefined | Some s \<Rightarrow> JStr s)"

text \<open>\<open>tooltipLabel\<close>: the node shown above the rows or in them, if any. A label formatter decides alone.\<close>

definition tooltip_label ::
  "'el chart_config \<Rightarrow> bool \<Rightarrow> jsval list \<Rightarrow> jsval \<Rightarrow> jstr option \<Rightarrow> ('el node \<Rightarrow> jsval list \<Rightarrow> 'el node) option \<Rightarrow>
   'el node option"
where
  "tooltip_label config hideLabel payload label labelKey labelFormatter =
     (case payload of
        [] \<Rightarrow> None
      | item # _ \<Rightarrow>
          if hideLabel then None
          else let key = to_string (first_given [given_key labelKey, prop_opt (js ''dataKey'') item, prop_opt (js ''name'') item]);
                   itemConfig = getPayloadConfigFromPayload config item key;
                   shown = (case label of
                       JStr l \<Rightarrow> if with_default [] labelKey = []
                         then node_or (case config_at config l of None \<Rightarrow> Value_node JUndefined | Some it \<Rightarrow> it_label it)
                                (Value_node (JStr l))
                         else (case itemConfig of None \<Rightarrow> Value_node JUndefined | Some it \<Rightarrow> it_label it)
                     | _ \<Rightarrow> (case itemConfig of None \<Rightarrow> Value_node JUndefined | Some it \<Rightarrow> it_label it))
               in case labelFormatter of
                    Some f \<Rightarrow> Some (f shown payload)
                  | None \<Rightarrow> if node_truthy shown then Some shown else None)"

datatype indicator = Dot | Line | Dashed

text \<open>The label stands in the rows rather than above them.\<close>

definition nest_label :: "jsval list \<Rightarrow> indicator \<Rightarrow> bool" where
  "nest_label payload ind \<longleftrightarrow> length payload = 1 \<and> ind \<noteq> Dot"

definition shown_items :: "jsval list \<Rightarrow> jsval list" where
  "shown_items payload = filter (\<lambda>it. prop_opt (js ''type'') it \<noteq> jtext ''none'') payload"

datatype 'el row_mark = Icon_mark 'el | Color_mark jsval | No_mark

text \<open>A row is what the caller's formatter makes of the item, or its mark, its name and its value.\<close>

datatype 'el tooltip_row = Formatted "'el node" | Plain "'el row_mark" "'el node" "jsval option"

definition row_of ::
  "'el chart_config \<Rightarrow> jstr option \<Rightarrow> jstr option \<Rightarrow> bool \<Rightarrow> (jsval \<Rightarrow> nat \<Rightarrow> 'el node) option \<Rightarrow> nat \<Rightarrow> jsval \<Rightarrow>
   'el tooltip_row"
where
  "row_of config nameKey color hideIndicator formatter index item =
     (let key = to_string (first_given [given_key nameKey, prop_opt (js ''name'') item, prop_opt (js ''dataKey'') item]);
          itemConfig = getPayloadConfigFromPayload config item key;
          fill = prop_opt (js ''fill'') (prop_opt (js ''payload'') item);
          indicatorColor = (case color of Some c \<Rightarrow> JStr c | None \<Rightarrow> if nullish fill then prop_opt (js ''color'') item else fill);
          v = prop_opt (js ''value'') item;
          plain = Plain
            (case Option.bind itemConfig it_icon of
                Some e \<Rightarrow> Icon_mark e
              | None \<Rightarrow> if hideIndicator then No_mark else Color_mark indicatorColor)
            (node_or (case itemConfig of None \<Rightarrow> Value_node JUndefined | Some it \<Rightarrow> it_label it)
              (Value_node (prop_opt (js ''name'') item)))
            (if nullish v then None else Some v)
      in case formatter of
           None \<Rightarrow> plain
         | Some f \<Rightarrow> if v \<noteq> JUndefined \<and> truthy (prop_opt (js ''name'') item) then Formatted (f item index) else plain)"

definition ChartTooltipContent ::
  "bool \<Rightarrow> jsval list \<Rightarrow> indicator \<Rightarrow> 'el node option \<Rightarrow> (nat \<Rightarrow> jsval \<Rightarrow> 'el tooltip_row) \<Rightarrow>
   (bool \<times> 'el node option \<times> 'el tooltip_row list) option"
where
  "ChartTooltipContent active payload ind tooltipLabel row =
     (if \<not> active \<or> payload = [] then None
      else Some (nest_label payload ind, tooltipLabel,
        map (\<lambda>(i, it). row i it) (enumerate 0 (shown_items payload))))"

definition legend_row :: "'el chart_config \<Rightarrow> jstr option \<Rightarrow> bool \<Rightarrow> jsval \<Rightarrow> 'el row_mark \<times> 'el node" where
  "legend_row config nameKey hideIcon item =
     (let key = to_string (first_given [given_key nameKey, prop_opt (js ''dataKey'') item]);
          itemConfig = getPayloadConfigFromPayload config item key
      in (case Option.bind itemConfig it_icon of
             Some e \<Rightarrow> if hideIcon then Color_mark (prop_opt (js ''color'') item) else Icon_mark e
           | None \<Rightarrow> Color_mark (prop_opt (js ''color'') item),
          case itemConfig of None \<Rightarrow> Value_node JUndefined | Some it \<Rightarrow> it_label it))"

definition ChartLegendContent ::
  "'el chart_config \<Rightarrow> jsval list \<Rightarrow> jstr option \<Rightarrow> bool \<Rightarrow> ('el row_mark \<times> 'el node) list option"
where
  "ChartLegendContent config payload nameKey hideIcon =
     (if payload = [] then None else Some (map (legend_row config nameKey hideIcon) (shown_items payload)))"

section \<open>Other components\<close>

text \<open>An error is \<open>undefined\<close> or has a message that may be \<open>undefined\<close>.\<close>

type_synonym field_error = "jstr option option"

definition error_message :: "field_error \<Rightarrow> jstr option" where
  "error_message e = (case e of None \<Rightarrow> None | Some m \<Rightarrow> m)"

text \<open>\<open>[...new Map(errors.map((error) => [error?.message, error])).values()]\<close>\<close>

definition unique_errors :: "field_error list \<Rightarrow> field_error list" where
  "unique_errors errors = map snd (fold (\<lambda>e. alist_set (error_message e) e) errors [])"

datatype 'el error_content = No_content | Children "'el node" | Single_message "jstr option" | Message_list "jstr list"

definition FieldError_content :: "'el node \<Rightarrow> field_error list \<Rightarrow> 'el error_content" where
  "FieldError_content children errors =
     (if node_truthy children then Children children
      else if errors = [] then No_content
      else case unique_errors errors of
          [e] \<Rightarrow> Single_message (error_message e)
        | es \<Rightarrow> Message_list (filter (\<lambda>m. m \<noteq> []) (map (with_default [] \<circ> error_message) es)))"

definition FieldError_shown :: "'el error_content \<Rightarrow> bool" where
  "FieldError_shown c = (case c of No_content \<Rightarrow> False | Single_message m \<Rightarrow> with_default [] m \<noteq> [] | _ \<Rightarrow> True)"

datatype toast_icon = Check_circle | Info | Warning | X_circle | Spinner

definition ToastIcon :: "jstr option \<Rightarrow> toast_icon option" where
  "ToastIcon type =
     (if type = Some (js ''success'') then Some Check_circle
      else if type = Some (js ''info'') then Some Info
      else if type = Some (js ''warning'') then Some Warning
      else if type = Some (js ''error'') then Some X_circle
      else if type = Some (js ''loading'') then Some Spinner
      else None)"

definition slider_thumbs :: "jsval \<Rightarrow> jsval \<Rightarrow> nat" where
  "slider_thumbs v defaultValue = (case v of
       JArr vs \<Rightarrow> length vs
     | _ \<Rightarrow> (case defaultValue of JArr vs \<Rightarrow> length vs | _ \<Rightarrow> 2))"

section \<open>Error lists\<close>

lemma unique_errors_keys:
  assumes "distinct (map fst kvs)" and "\<forall>(k, e) \<in> set kvs. error_message e = k"
  shows "distinct (map fst (fold (\<lambda>e. alist_set (error_message e) e) errors kvs)) \<and>
    (\<forall>(k, e) \<in> set (fold (\<lambda>e. alist_set (error_message e) e) errors kvs). error_message e = k) \<and>
    fst ` set (fold (\<lambda>e. alist_set (error_message e) e) errors kvs) = fst ` set kvs \<union> error_message ` set errors"
  using assms
proof (induction errors arbitrary: kvs)
  case (Cons e errors)
  have "\<forall>(k, e') \<in> set (alist_set (error_message e) e kvs). error_message e' = k"
    using Cons.prems(2) by (induction "error_message e" e kvs rule: alist_set.induct) auto
  with Cons.IH [of "alist_set (error_message e) e kvs"] Cons.prems show ?case
    by (auto simp: distinct_alist_set)
qed simp

lemma unique_errors_messages:
  "distinct (map error_message (unique_errors errors)) \<and>
   set (map error_message (unique_errors errors)) = error_message ` set errors"
proof -
  let ?kvs = "fold (\<lambda>e. alist_set (error_message e) e) errors []"
  note keys = unique_errors_keys [of "[]" errors, simplified]
  have "map error_message (unique_errors errors) = map fst ?kvs"
    using keys by (auto simp: unique_errors_def)
  with keys show ?thesis by simp
qed

lemma member_filter_map: "m \<in> set (filter P (map f xs)) \<longleftrightarrow> P m \<and> (\<exists>x \<in> set xs. m = f x)"
  by auto

text \<open>A list of errors names every message there is once and no other.\<close>

lemma error_list_exact:
  assumes "FieldError_content children errors = Message_list ms"
  shows "distinct ms \<and> set ms = {m. m \<noteq> [] \<and> Some m \<in> error_message ` set errors}"
proof -
  let ?us = "map error_message (unique_errors errors)"
  have ms: "ms = filter (\<lambda>m. m \<noteq> []) (map (with_default []) ?us)"
    using assms by (auto simp: FieldError_content_def split: if_splits list.splits)
  have d: "distinct (filter (\<lambda>m. m \<noteq> []) (map (with_default []) xs))" if "distinct xs" for xs :: "jstr option list"
    using that by (induction xs) (auto simp: with_default_def split: option.splits)
  have "distinct ms" unfolding ms by (rule d) (simp only: unique_errors_messages)
  moreover have "set ms = {m. m \<noteq> [] \<and> Some m \<in> set ?us}"
  proof (rule set_eqI)
    fix m :: jstr
    have given: "m \<noteq> [] \<Longrightarrow> m = with_default [] x \<longleftrightarrow> x = Some m" for x by (cases x) auto
    have "m \<in> set ms \<longleftrightarrow> m \<noteq> [] \<and> (\<exists>x \<in> set ?us. m = with_default [] x)"
      unfolding ms by (rule member_filter_map)
    also have "\<dots> \<longleftrightarrow> m \<noteq> [] \<and> Some m \<in> set ?us"
      by (cases "m = []") (simp_all only: given simp_thms bex_triv_one_point1 bex_triv_one_point2)
    finally show "m \<in> set ms \<longleftrightarrow> m \<in> {m. m \<noteq> [] \<and> Some m \<in> set ?us}" by simp
  qed
  ultimately show ?thesis using unique_errors_messages [of errors] by simp
qed

text \<open>Two errors without a text are two distinct ones, \<open>undefined\<close> and the empty message: an alert with
  an empty list is shown.\<close>

lemma empty_alert:
  "FieldError_content (Value_node JUndefined) [None, Some (Some [])] = Message_list []"
  "FieldError_shown (Message_list [])"
  by (simp_all add: FieldError_content_def FieldError_shown_def unique_errors_def error_message_def)

section \<open>Charts\<close>

lemma ChartStyle_absent: "ChartStyle i config = None \<longleftrightarrow> (\<forall>it \<in> snd ` set config. \<not> colored it)"
  by (force simp: ChartStyle_def Let_def filter_empty_conv)

text \<open>The row of an item whose name is configured carries the configured label; one that is not
  configured carries its own name, also when it is called like a member every object inherits.\<close>

lemma row_of_name:
  assumes "prop_opt (js ''name'') item = JStr n" and "item = JObj fs"
    and "prop_opt n item = JUndefined" and "prop_opt (js ''payload'') item = JUndefined"
  shows "\<exists>mark v. row_of config None color hideIndicator None index item = Plain mark
    (case map_of config n of Some it \<Rightarrow> node_or (it_label it) (Value_node (JStr n)) | None \<Rightarrow> Value_node (JStr n)) v"
proof -
  have "getPayloadConfigFromPayload config item n = config_at config n"
    using assms by (simp add: getPayloadConfigFromPayload_def Let_def prop_opt_def)
  then show ?thesis using assms(1)
    by (simp add: row_of_def Let_def given_key_def nullish_def config_at_def inherited_item_def
        node_or_def nullish_node_def split: option.splits)
qed

lemma payload_config_known:
  assumes "getPayloadConfigFromPayload config payload key = Some it"
  shows "it = inherited_item \<or> it \<in> snd ` set config"
  using assms
  by (auto simp: getPayloadConfigFromPayload_def Let_def config_at_def split: if_splits option.splits
      dest!: map_of_SomeD intro: rev_image_eqI)

end
