(* ===== verification/Http.thy ===== *)
theory Http
  imports Platform
begin

text \<open>
  The SDK's request layer (\<open>sdks/typescript/src/http.ts\<close>, \<open>api/metadata.ts\<close>): default
  headers, the timeout that races every request, and the retry pipeline.

  \<open>createHttpFetch\<close> runs one request against the platform's \<open>fetch\<close>. \<open>send\<close> is
  \<open>RequestPipeline.send\<close>: its loop has no bound of its own (\<open>maxRetries\<close> may be any
  number), so \<open>send_loop\<close> is a partial function whose value \<open>None\<close> means that the
  promise never settles; \<open>send_settles\<close> shows that it does settle for a finite budget.
\<close>

section \<open>Package identity\<close>

definition sdkVersion :: jstr where
  "sdkVersion = js ''0.0.1-beta''"

definition userAgent :: jstr where
  "userAgent = js ''fissionplane-typescript/'' @ sdkVersion"

definition defaultHeaders :: "(jstr, jstr) alist" where
  "defaultHeaders = [(js ''User-Agent'', userAgent)]"

section \<open>Options\<close>

text \<open>Every method of the logger is optional; the fields say which are present.\<close>

record Logger =
  log_has_debug :: bool
  log_has_info :: bool
  log_has_warn :: bool
  log_has_error :: bool

definition no_logger :: Logger where
  "no_logger = \<lparr>log_has_debug = False, log_has_info = False, log_has_warn = False, log_has_error = False\<rparr>"

record RequestOptions =
  ro_requestTimeoutMs :: "jnum option"
  ro_signal :: "abort_signal option"
  ro_headers :: "(jstr, jstr) alist option"

definition no_request_options :: RequestOptions where
  "no_request_options = \<lparr>ro_requestTimeoutMs = None, ro_signal = None, ro_headers = None\<rparr>"

record RequestDefaults =
  rd_requestTimeoutMs :: "jnum option"
  rd_maxRetries :: "jnum option"
  rd_logger :: "Logger option"

definition DEFAULT_REQUEST_TIMEOUT_MS :: jnum where
  "DEFAULT_REQUEST_TIMEOUT_MS = Fin 60000"

definition DEFAULT_MAX_RETRIES :: jnum where
  "DEFAULT_MAX_RETRIES = Fin 2"

definition RETRY_BASE_DELAY_MS :: rat where "RETRY_BASE_DELAY_MS = 250"
definition RETRY_DELAY_FACTOR :: rat where "RETRY_DELAY_FACTOR = 2"
definition RETRY_MAX_DELAY_MS :: rat where "RETRY_MAX_DELAY_MS = 8000"

definition TIMEOUT_HEADER :: jstr where
  "TIMEOUT_HEADER = js ''x-fissionplane-request-timeout-ms''"

record CallInit =
  ci_signal :: "abort_signal option"
  ci_headers :: "(jstr, jstr) alist option"

record CallSpec =
  operation :: jstr
  idempotent :: bool
  options :: "RequestOptions option"

text \<open>\<open>describe\<close>: the message of an \<open>Error\<close>, the string form of anything else.\<close>

fun describe :: "exn \<Rightarrow> jstr" where
  "describe (Sdk e) = message e"
| "describe (TypeError m) = m"
| "describe (RangeError m) = m"
| "describe (StreamingProtocolError m) = m"
| "describe (OtherError m) = m"
| "describe (NonError v) = to_string v"

section \<open>createHttpFetch\<close>

text \<open>\<open>for (const [name, value] of Object.entries(defaultHeaders))\<close>: the default headers are
  constants the platform accepts, so \<open>Headers.set\<close> does not raise on them.\<close>

definition add_default_headers :: "header_list \<Rightarrow> header_list" where
  "add_default_headers hs =
     fold (\<lambda>(name, value) acc.
             if hdr_has name acc then acc
             else alist_set (ascii_lower name) (http_trim value) acc)
       defaultHeaders hs"

definition request_timeout_error :: "jstr \<Rightarrow> jnum \<Rightarrow> FissionPlaneError" where
  "request_timeout_error url ms =
     new_error FissionPlaneErrorC
       (js ''request to '' @ url @ js '' timed out after '' @ num_to_string ms @ js ''ms'')
       None (Some (js ''request_timeout'')) (Some True) None"

text \<open>The signal of the outbound request: it fires when the caller's signal does (at once
  if it already has) or when the deadline passes, whichever is first.\<close>

definition deadline_signal :: "abort_signal option \<Rightarrow> int \<Rightarrow> int \<Rightarrow> abort_signal" where
  "deadline_signal sig start deadline =
     (case sig of
        None \<Rightarrow> \<lparr>aborts_at = Some deadline, abort_reason = abort_error\<rparr>
      | Some s \<Rightarrow>
          (case aborts_at s of
             None \<Rightarrow> \<lparr>aborts_at = Some deadline, abort_reason = abort_error\<rparr>
           | Some a \<Rightarrow>
               if max a start \<le> deadline
               then \<lparr>aborts_at = Some (max a start), abort_reason = abort_reason s\<rparr>
               else \<lparr>aborts_at = Some deadline, abort_reason = abort_error\<rparr>))"

text \<open>The timeout that applies to a request: the per-call override carried by the internal
  header, or the client's default.\<close>

definition effective_timeout :: "jnum \<Rightarrow> http_request \<Rightarrow> jnum" where
  "effective_timeout requestTimeoutMs request =
     (case hdr_get TIMEOUT_HEADER (rq_headers request) of
        Some s \<Rightarrow> string_to_num s
      | None \<Rightarrow> requestTimeoutMs)"

definition outbound_headers :: "http_request \<Rightarrow> header_list" where
  "outbound_headers request = add_default_headers (hdr_delete TIMEOUT_HEADER (rq_headers request))"

definition outbound_request :: "http_request \<Rightarrow> int \<Rightarrow> int \<Rightarrow> http_request" where
  "outbound_request request start deadline =
     request\<lparr>rq_headers := outbound_headers request,
       rq_signal := Some (deadline_signal (rq_signal request) start deadline)\<rparr>"

definition createHttpFetch ::
  "jnum \<Rightarrow> 'n fetch_impl \<Rightarrow> http_request \<Rightarrow> (('n, 'z) runtime_scheme, http_response) jio"
where
  "createHttpFetch requestTimeoutMs send request w =
     (let headers = outbound_headers request;
          timeoutMs = effective_timeout requestTimeoutMs request
      in if \<not> is_finite timeoutMs \<or> num_le timeoutMs (Fin 0)
         then perform send (request\<lparr>rq_headers := headers\<rparr>) w
         else
           (let ms = (case timeoutMs of Fin r \<Rightarrow> r | _ \<Rightarrow> 0);
                deadline = now w + timer_delay ms;
                outbound = outbound_request request (now w) deadline;
                (n', settled) = send outbound (now w) (net w);
                expired = (Inl (Sdk (request_timeout_error (rq_url outbound) timeoutMs)),
                             w\<lparr>net := n', now := deadline\<rparr>)
            in case settled of
                 None \<Rightarrow> Some expired
               | Some (t, r) \<Rightarrow>
                   if max t (now w) \<le> deadline
                   then Some (r, w\<lparr>net := n', now := max t (now w)\<rparr>)
                   else Some expired))"

section \<open>The retry pipeline\<close>

definition shouldRetry :: "exn \<Rightarrow> bool \<Rightarrow> bool" where
  "shouldRetry error idem =
     (if \<not> idem then False
      else case error of
        Sdk e \<Rightarrow> retryable e
      | TypeError _ \<Rightarrow> True
      | _ \<Rightarrow> False)"

definition retry_window :: "nat \<Rightarrow> rat" where
  "retry_window attempt =
     min (RETRY_BASE_DELAY_MS * RETRY_DELAY_FACTOR ^ attempt) RETRY_MAX_DELAY_MS"

definition retryDelayMs :: "nat \<Rightarrow> ('n, 'z) runtime_scheme \<Rightarrow> rat \<times> ('n, 'z) runtime_scheme" where
  "retryDelayMs attempt w =
     (math_random w * retry_window attempt, w\<lparr>draws := Suc (draws w)\<rparr>)"

definition sleep :: "rat \<Rightarrow> abort_signal option \<Rightarrow> (('n, 'z) runtime_scheme, unit) jio" where
  "sleep ms sig w =
     (let fires = now w + timer_delay ms in
      case sig of
        None \<Rightarrow> Some (Inr (), w\<lparr>now := fires\<rparr>)
      | Some s \<Rightarrow>
          if aborted s (now w) then Some (Inl (abort_reason s), w)
          else (case aborts_at s of
              None \<Rightarrow> Some (Inr (), w\<lparr>now := fires\<rparr>)
            | Some a \<Rightarrow>
                if a < fires then Some (Inl (abort_reason s), w\<lparr>now := a\<rparr>)
                else Some (Inr (), w\<lparr>now := fires\<rparr>)))"

record RequestPipeline =
  requestTimeoutMs :: jnum
  maxRetries :: jnum
  logger :: Logger

definition new_RequestPipeline :: "RequestDefaults option \<Rightarrow> RequestPipeline" where
  "new_RequestPipeline defaults =
     \<lparr>requestTimeoutMs =
        with_default DEFAULT_REQUEST_TIMEOUT_MS (Option.bind defaults rd_requestTimeoutMs),
      maxRetries = with_default DEFAULT_MAX_RETRIES (Option.bind defaults rd_maxRetries),
      logger = with_default no_logger (Option.bind defaults rd_logger)\<rparr>"

definition init :: "RequestOptions option \<Rightarrow> CallInit" where
  "init opts =
     (let base = with_default [] (Option.bind opts ro_headers);
          headers = (case Option.bind opts ro_requestTimeoutMs of
              None \<Rightarrow> base
            | Some ms \<Rightarrow> alist_set TIMEOUT_HEADER (num_to_string ms) base)
      in \<lparr>ci_signal = Option.bind opts ro_signal,
          ci_headers = (if headers = [] then None else Some headers)\<rparr>)"

definition retry_message :: "RequestPipeline \<Rightarrow> CallSpec \<Rightarrow> exn \<Rightarrow> rat \<Rightarrow> nat \<Rightarrow> jstr" where
  "retry_message p spec error delayMs attempt =
     operation spec @ js '' failed ('' @ describe error @ js ''); '' @
     js ''retrying in '' @ show_int \<lfloor>delayMs + 1 / 2\<rfloor> @ js ''ms '' @
     js ''(attempt '' @ show_nat (attempt + 2) @ js '' of '' @
     num_to_string (num_add (maxRetries p) (Fin 1)) @ js '')''"

text \<open>The body of the \<open>catch\<close> clause that does not rethrow: draw the delay, log, sleep.\<close>

definition backoff ::
  "RequestPipeline \<Rightarrow> CallSpec \<Rightarrow> exn \<Rightarrow> nat \<Rightarrow> (('n, 'z) runtime_scheme, unit) jio"
where
  "backoff p spec error attempt w =
     (let (delayMs, w1) = retryDelayMs attempt w;
          w2 = log_debug (log_has_debug (logger p)) (retry_message p spec error delayMs attempt) w1
      in sleep delayMs (Option.bind (options spec) ro_signal) w2)"

partial_function (option) send_loop ::
  "RequestPipeline \<Rightarrow> CallSpec \<Rightarrow> (CallInit \<Rightarrow> (('n, 'z) runtime_scheme, 'a) jio) \<Rightarrow> nat \<Rightarrow>
   ('n, 'z) runtime_scheme \<Rightarrow> ((exn + 'a) \<times> ('n, 'z) runtime_scheme) option"
where
  "send_loop p spec run attempt w =
     (case run (init (options spec)) w of
        None \<Rightarrow> None
      | Some (Inr x, w') \<Rightarrow> Some (Inr x, w')
      | Some (Inl error, w') \<Rightarrow>
          (if num_le (maxRetries p) (num_of_nat attempt) \<or> \<not> shouldRetry error (idempotent spec)
           then Some (Inl error, w')
           else (case backoff p spec error attempt w' of
               None \<Rightarrow> None
             | Some (Inl reason, w'') \<Rightarrow> Some (Inl reason, w'')
             | Some (Inr u, w'') \<Rightarrow> send_loop p spec run (Suc attempt) w'')))"

definition send ::
  "RequestPipeline \<Rightarrow> CallSpec \<Rightarrow> (CallInit \<Rightarrow> (('n, 'z) runtime_scheme, 'a) jio) \<Rightarrow>
   (('n, 'z) runtime_scheme, 'a) jio"
where
  "send p spec run = send_loop p spec run 0"

section \<open>Delays\<close>

lemma retry_window_bounds: "250 \<le> retry_window attempt" "retry_window attempt \<le> 8000"
proof -
  have "(1 :: rat) \<le> 2 ^ attempt" by simp
  then show "250 \<le> retry_window attempt"
    by (simp add: retry_window_def RETRY_BASE_DELAY_MS_def RETRY_DELAY_FACTOR_def RETRY_MAX_DELAY_MS_def)
  show "retry_window attempt \<le> 8000"
    by (simp add: retry_window_def RETRY_MAX_DELAY_MS_def)
qed

lemma retryDelayMs_range:
  assumes "entropy_ok w"
  shows "0 \<le> fst (retryDelayMs attempt w)" and "fst (retryDelayMs attempt w) < retry_window attempt"
proof -
  have r: "0 \<le> math_random w" "math_random w < 1"
    using assms by (simp_all add: entropy_ok_def math_random_def)
  have win: "0 < retry_window attempt"
    using retry_window_bounds(1) [of attempt] by linarith
  from r win show "0 \<le> fst (retryDelayMs attempt w)"
    by (simp add: retryDelayMs_def)
  from r win show "fst (retryDelayMs attempt w) < retry_window attempt"
    by (simp add: retryDelayMs_def)
qed

lemma sleep_settles: "sleep ms sig w \<noteq> None"
  by (auto simp: sleep_def Let_def split: option.splits)

lemma sleep_frame:
  assumes "sleep ms sig w = Some (r, w')"
  shows "net w' = net w" "entropy w' = entropy w" "draws w' = draws w" "logged w' = logged w"
    "runtime.more w' = runtime.more w"
  using assms by (auto simp: sleep_def Let_def split: option.splits if_splits)

lemma sleep_clock:
  assumes "sleep ms sig w = Some (r, w')"
  shows "now w \<le> now w'" "now w' \<le> now w + timer_delay ms"
proof -
  note pos = timer_delay_pos [of ms]
  from assms pos show "now w \<le> now w'"
    by (auto simp: sleep_def Let_def aborted_def split: option.splits if_splits)
  from assms pos show "now w' \<le> now w + timer_delay ms"
    by (auto simp: sleep_def Let_def split: option.splits if_splits)
qed

lemma sleep_Inl:
  assumes "sleep ms sig w = Some (Inl e, w')"
  obtains s where "sig = Some s" and "e = abort_reason s" and "aborted s (now w')"
  using assms by (auto simp: sleep_def Let_def aborted_def split: option.splits if_splits)

lemma backoff_settles: "backoff p spec error attempt w \<noteq> None"
  by (simp add: backoff_def retryDelayMs_def sleep_settles)

lemma backoffE:
  assumes "backoff p spec error attempt w = Some (r, w')"
  obtains w2 where
    "sleep (fst (retryDelayMs attempt w)) (Option.bind (options spec) ro_signal) w2 = Some (r, w')"
    and "net w2 = net w" "now w2 = now w" "entropy w2 = entropy w"
    "runtime.more w2 = runtime.more w"
proof
  let ?d = "fst (retryDelayMs attempt w)"
  let ?w2 = "log_debug (log_has_debug (logger p)) (retry_message p spec error ?d attempt)
    (snd (retryDelayMs attempt w))"
  show "sleep ?d (Option.bind (options spec) ro_signal) ?w2 = Some (r, w')"
    using assms by (simp add: backoff_def Let_def split_beta)
  show "net ?w2 = net w" "now ?w2 = now w" "entropy ?w2 = entropy w"
    "runtime.more ?w2 = runtime.more w"
    by (simp_all add: retryDelayMs_def)
qed

lemma backoff_frame:
  assumes "backoff p spec error attempt w = Some (r, w')"
  shows "net w' = net w" "entropy w' = entropy w" "runtime.more w' = runtime.more w"
  using assms by (auto elim!: backoffE dest: sleep_frame)

lemma backoff_clock_mono:
  assumes "backoff p spec error attempt w = Some (r, w')"
  shows "now w \<le> now w'"
  using assms by (auto elim!: backoffE dest: sleep_clock(1))

lemma backoff_clock_bound:
  assumes "backoff p spec error attempt w = Some (r, w')" and "entropy_ok w"
  shows "now w' \<le> now w + 8000"
proof -
  let ?d = "fst (retryDelayMs attempt w)"
  have "?d \<le> 8000"
    using retryDelayMs_range(2) [OF assms(2), of attempt] retry_window_bounds(2) [of attempt]
    by linarith
  then have "timer_delay ?d \<le> 8000"
    by (intro timer_delay_bound) simp_all
  moreover have "now w' \<le> now w + timer_delay ?d"
    using assms(1) by (auto elim!: backoffE dest: sleep_clock(2))
  ultimately show ?thesis by linarith
qed

lemma backoff_Inl:
  assumes "backoff p spec error attempt w = Some (Inl e, w')"
  obtains s where "Option.bind (options spec) ro_signal = Some s"
    and "e = abort_reason s" and "aborted s (now w')"
  using assms by (auto elim!: backoffE elim: sleep_Inl)

section \<open>The retry loop\<close>

text \<open>One iteration, for each of its outcomes.\<close>

lemma send_loop_step:
  "run (init (options spec)) w = None \<Longrightarrow> send_loop p spec run k w = None"
  "run (init (options spec)) w = Some (Inr x, w') \<Longrightarrow> send_loop p spec run k w = Some (Inr x, w')"
  "run (init (options spec)) w = Some (Inl e, w') \<Longrightarrow>
     num_le (maxRetries p) (num_of_nat k) \<or> \<not> shouldRetry e (idempotent spec) \<Longrightarrow>
     send_loop p spec run k w = Some (Inl e, w')"
  "run (init (options spec)) w = Some (Inl e, w') \<Longrightarrow>
     \<not> num_le (maxRetries p) (num_of_nat k) \<Longrightarrow> shouldRetry e (idempotent spec) \<Longrightarrow>
     backoff p spec e k w' = Some (Inr u, w'') \<Longrightarrow>
     send_loop p spec run k w = send_loop p spec run (Suc k) w''"
  "run (init (options spec)) w = Some (Inl e, w') \<Longrightarrow>
     \<not> num_le (maxRetries p) (num_of_nat k) \<Longrightarrow> shouldRetry e (idempotent spec) \<Longrightarrow>
     backoff p spec e k w' = Some (Inl reason, w'') \<Longrightarrow>
     send_loop p spec run k w = Some (Inl reason, w'')"
  by (subst send_loop.simps, simp)+

lemma send_loop_cases:
  obtains (never) "run (init (options spec)) w = None"
    | (fulfilled) x w' where "run (init (options spec)) w = Some (Inr x, w')"
    | (rethrow) e w' where "run (init (options spec)) w = Some (Inl e, w')"
        "num_le (maxRetries p) (num_of_nat k) \<or> \<not> shouldRetry e (idempotent spec)"
    | (aborted) e w' reason w'' where "run (init (options spec)) w = Some (Inl e, w')"
        "\<not> num_le (maxRetries p) (num_of_nat k)" "shouldRetry e (idempotent spec)"
        "backoff p spec e k w' = Some (Inl reason, w'')"
    | (again) e w' u w'' where "run (init (options spec)) w = Some (Inl e, w')"
        "\<not> num_le (maxRetries p) (num_of_nat k)" "shouldRetry e (idempotent spec)"
        "backoff p spec e k w' = Some (Inr u, w'')"
proof (cases "run (init (options spec)) w")
  case None
  then show ?thesis by (rule never)
next
  case (Some rw)
  obtain r w' where rw: "rw = (r, w')" by (cases rw)
  show ?thesis
  proof (cases r)
    case (Inr x)
    with Some rw show ?thesis by (intro fulfilled) simp
  next
    case (Inl e)
    with Some rw have run: "run (init (options spec)) w = Some (Inl e, w')" by simp
    show ?thesis
    proof (cases "num_le (maxRetries p) (num_of_nat k) \<or> \<not> shouldRetry e (idempotent spec)")
      case True
      with run show ?thesis by (rule rethrow)
    next
      case False
      obtain b w'' where b: "backoff p spec e k w' = Some (b, w'')"
        using backoff_settles [of p spec e k w'] by auto
      with run False show ?thesis
        by (cases b) (auto intro: aborted again)
    qed
  qed
qed

lemma budget_left: "\<not> m \<le> rat_of_nat k \<Longrightarrow> int k < \<lceil>m\<rceil>"
  by (simp add: less_ceiling_iff)

text \<open>The interface the pipeline relies on: an attempt that always settles and never turns
  the clock back.\<close>

locale settling_attempt =
  fixes run :: "CallInit \<Rightarrow> (('n, 'z) runtime_scheme, 'a) jio" and spec :: CallSpec
  assumes attempt_settles: "settles (run (init (options spec))) w"
    and attempt_clock: "run (init (options spec)) w = Some (r, w') \<Longrightarrow> now w \<le> now w'"
begin

lemma loop_settles:
  assumes "maxRetries p = Fin m"
  shows "settles (send_loop p spec run k) w"
proof (induction "nat (\<lceil>m\<rceil> - int k)" arbitrary: k w rule: less_induct)
  case (less k w)
  show ?case
  proof (cases rule: send_loop_cases [where run = run and spec = spec and w = w and p = p and k = k])
    case never
    with attempt_settles [of w] show ?thesis by (simp add: settles_def)
  next
    case (again e w' u w'')
    then have "\<not> m \<le> of_nat k" using assms by simp
    then have "int k < \<lceil>m\<rceil>" by (rule budget_left)
    then have "settles (send_loop p spec run (Suc k)) w''"
      by (intro less.hyps) simp
    with again show ?thesis by (simp add: settles_def send_loop_step(4))
  qed (simp_all add: settles_def send_loop_step)
qed

lemma loop_clock:
  assumes "maxRetries p = Fin m" and "send_loop p spec run k w = Some (r, w')"
  shows "now w \<le> now w'"
  using assms(2)
proof (induction "nat (\<lceil>m\<rceil> - int k)" arbitrary: k w rule: less_induct)
  case (less k w)
  show ?case
  proof (cases rule: send_loop_cases [where run = run and spec = spec and w = w and p = p and k = k])
    case never
    with less.prems show ?thesis by (simp add: send_loop_step)
  next
    case (again e w1 u w2)
    then have "\<not> m \<le> of_nat k" using assms by simp
    then have k: "nat (\<lceil>m\<rceil> - int (Suc k)) < nat (\<lceil>m\<rceil> - int k)"
      using budget_left [of m k] by simp
    from again less.prems have "send_loop p spec run (Suc k) w2 = Some (r, w')"
      by (simp add: send_loop_step(4))
    with k have "now w2 \<le> now w'" by (rule less.hyps)
    moreover have "now w \<le> now w1" using again(1) by (rule attempt_clock)
    moreover have "now w1 \<le> now w2" using again(4) by (rule backoff_clock_mono)
    ultimately show ?thesis by linarith
  next
    case (aborted e w1 reason w2)
    with less.prems attempt_clock backoff_clock_mono show ?thesis
      by (fastforce simp: send_loop_step(5))
  qed (use less.prems attempt_clock in \<open>auto simp: send_loop_step\<close>)
qed

end

locale bounded_attempt = settling_attempt run spec
  for run :: "CallInit \<Rightarrow> (('n, 'z) runtime_scheme, 'a) jio" and spec :: CallSpec +
  fixes cost :: int
  assumes attempt_cost: "run (init (options spec)) w = Some (r, w') \<Longrightarrow> now w' \<le> now w + cost"
    and attempt_entropy: "run (init (options spec)) w = Some (r, w') \<Longrightarrow> entropy w' = entropy w"
begin

lemma cost_nonneg: "0 \<le> cost"
proof -
  fix w :: "('n, 'z) runtime_scheme"
  obtain r w' where "run (init (options spec)) w = Some (r, w')"
    using attempt_settles by (rule settlesE)
  then show ?thesis using attempt_cost attempt_clock by fastforce
qed

lemma loop_cost:
  assumes "maxRetries p = Fin m" and "send_loop p spec run k w = Some (r, w')" and "entropy_ok w"
  shows "now w' \<le> now w + (int (nat (\<lceil>m\<rceil> - int k)) + 1) * cost + int (nat (\<lceil>m\<rceil> - int k)) * 8000"
  using assms(2,3)
proof (induction "nat (\<lceil>m\<rceil> - int k)" arbitrary: k w rule: less_induct)
  case (less k w)
  let ?n = "\<lambda>k. int (nat (\<lceil>m\<rceil> - int k))"
  have one: "now w1 + ?n k * 8000 \<le> now w + (?n k + 1) * cost + ?n k * 8000"
    if "run (init (options spec)) w = Some (r1, w1)" for r1 w1
  proof -
    have "0 \<le> ?n k * cost" using cost_nonneg by simp
    with attempt_cost [OF that] show ?thesis by (simp add: algebra_simps)
  qed
  show ?case
  proof (cases rule: send_loop_cases [where run = run and spec = spec and w = w and p = p and k = k])
    case never
    with less.prems show ?thesis by (simp add: send_loop_step)
  next
    case (again e w1 u w2)
    then have "\<not> m \<le> of_nat k" using assms by simp
    then have k: "?n k = ?n (Suc k) + 1" using budget_left [of m k] by simp
    have "entropy w2 = entropy w"
      using attempt_entropy [OF again(1)] backoff_frame(2) [OF again(4)] by simp
    with less.prems have ok1: "entropy_ok w1" and ok2: "entropy_ok w2"
      using attempt_entropy [OF again(1)] by (simp_all add: entropy_ok_def)
    from again less.prems have "send_loop p spec run (Suc k) w2 = Some (r, w')"
      by (simp add: send_loop_step(4))
    with ok2 have "now w' \<le> now w2 + (?n (Suc k) + 1) * cost + ?n (Suc k) * 8000"
      using budget_left [OF \<open>\<not> m \<le> of_nat k\<close>] by (intro less.hyps) simp_all
    moreover have "now w2 \<le> now w1 + 8000" using again(4) ok1 by (rule backoff_clock_bound)
    moreover have "now w1 \<le> now w + cost" using again(1) by (rule attempt_cost)
    ultimately show ?thesis unfolding k by (simp add: algebra_simps)
  next
    case (aborted e w1 reason w2)
    then have "\<not> m \<le> of_nat k" using assms by simp
    then have k: "1 \<le> ?n k" using budget_left [of m k] by simp
    have "entropy_ok w1"
      using less.prems attempt_entropy [OF aborted(1)] by (simp add: entropy_ok_def)
    then have "now w2 \<le> now w1 + 8000" using aborted(4) by (intro backoff_clock_bound)
    moreover from aborted less.prems have "w' = w2" by (simp add: send_loop_step(5))
    ultimately have "now w' \<le> now w1 + 8000" by simp
    with one [OF aborted(1)] k show ?thesis by linarith
  next
    case (fulfilled x w1)
    with less.prems have "now w' = now w1" by (simp add: send_loop_step(2))
    with one [OF fulfilled] show ?thesis by linarith
  next
    case (rethrow e w1)
    with less.prems have "now w' = now w1" by (simp add: send_loop_step(3))
    with one [OF rethrow(1)] show ?thesis by linarith
  qed
qed

end

section \<open>createHttpFetch\<close>

lemma perform_clock: "perform impl rq w = Some (r, w') \<Longrightarrow> now w \<le> now w'"
  by (auto simp: perform_def split: prod.splits option.splits)

lemma createHttpFetch_disabled:
  assumes "\<not> is_finite (effective_timeout d rq) \<or> num_le (effective_timeout d rq) (Fin 0)"
  shows "createHttpFetch d impl rq w = perform impl (rq\<lparr>rq_headers := outbound_headers rq\<rparr>) w"
  using assms by (simp add: createHttpFetch_def Let_def)

text \<open>With a positive timeout the request settles no later than the timer, whatever the
  platform's \<open>fetch\<close> does.\<close>

lemma createHttpFetch_timed:
  assumes "effective_timeout d rq = Fin ms" and "0 < ms"
    and "deadline = now w + timer_delay ms"
    and "impl (outbound_request rq (now w) deadline) (now w) (net w) = (n', s)"
  shows "createHttpFetch d impl rq w =
     (case s of
        None \<Rightarrow> Some (Inl (Sdk (request_timeout_error (rq_url rq) (Fin ms))),
                     w\<lparr>net := n', now := deadline\<rparr>)
      | Some (t, r) \<Rightarrow>
          if max t (now w) \<le> deadline then Some (r, w\<lparr>net := n', now := max t (now w)\<rparr>)
          else Some (Inl (Sdk (request_timeout_error (rq_url rq) (Fin ms))),
                 w\<lparr>net := n', now := deadline\<rparr>))"
  using assms
  by (auto simp: createHttpFetch_def Let_def is_finite_def outbound_request_def split: option.splits)

lemma createHttpFetch_in_time:
  assumes "effective_timeout d rq = Fin ms" and "0 < ms"
  obtains r w' where "createHttpFetch d impl rq w = Some (r, w')"
    and "now w \<le> now w'" and "now w' \<le> now w + timer_delay ms"
proof -
  let ?D = "now w + timer_delay ms"
  obtain n' s where snd: "impl (outbound_request rq (now w) ?D) (now w) (net w) = (n', s)"
    by fastforce
  have "\<exists>r w'. createHttpFetch d impl rq w = Some (r, w') \<and> now w \<le> now w' \<and> now w' \<le> ?D"
    using timer_delay_pos [of ms] createHttpFetch_timed [where impl = impl and w = w, OF assms refl snd]
    by (auto split: option.splits)
  with that show thesis by blast
qed

definition without_override :: "http_request \<Rightarrow> http_request" where
  "without_override rq = rq\<lparr>rq_headers := hdr_delete TIMEOUT_HEADER (rq_headers rq)\<rparr>"

lemma effective_timeout_without_override [simp]: "effective_timeout d (without_override rq) = d"
  by (simp add: effective_timeout_def without_override_def)

text \<open>A request sent through \<open>createHttpFetch\<close> under a positive client timeout meets the
  pipeline's requirement, for every platform \<open>fetch\<close>.\<close>

interpretation timed_fetch: settling_attempt
  "\<lambda>i. createHttpFetch (num_of_nat (Suc k)) impl (without_override rq)" spec
  for k impl rq spec
proof unfold_locales
  fix w :: "('a, 'b) runtime_scheme"
  have "effective_timeout (num_of_nat (Suc k)) (without_override rq) = Fin (of_nat (Suc k))"
    by (rule effective_timeout_without_override)
  then obtain r w' where
    run: "createHttpFetch (num_of_nat (Suc k)) impl (without_override rq) w = Some (r, w')"
    and clock: "now w \<le> now w'"
    by (rule createHttpFetch_in_time) simp_all
  show "settles (createHttpFetch (num_of_nat (Suc k)) impl (without_override rq)) w"
    using run by (simp add: settles_def)
  show "now w \<le> now w1"
    if "createHttpFetch (num_of_nat (Suc k)) impl (without_override rq) w = Some (r1, w1)" for r1 w1
    using that run clock by simp
qed

lemma createHttpFetch_entropy:
  "createHttpFetch d impl rq w = Some (r, w') \<Longrightarrow> entropy w' = entropy w"
  by (auto simp: createHttpFetch_def perform_def Let_def split: prod.splits option.splits if_splits)

interpretation timed_fetch: bounded_attempt
  "\<lambda>i. createHttpFetch (num_of_nat (Suc k)) impl (without_override rq)" spec
  "timer_delay (of_nat (Suc k))"
  for k impl rq spec
proof unfold_locales
  fix w w1 :: "('a, 'b) runtime_scheme" and r1
  assume run1: "createHttpFetch (num_of_nat (Suc k)) impl (without_override rq) w = Some (r1, w1)"
  then show "entropy w1 = entropy w" by (rule createHttpFetch_entropy)
  have "effective_timeout (num_of_nat (Suc k)) (without_override rq) = Fin (of_nat (Suc k))"
    by (rule effective_timeout_without_override)
  then obtain r w' where
    "createHttpFetch (num_of_nat (Suc k)) impl (without_override rq) w = Some (r, w')"
    and "now w' \<le> now w + timer_delay (of_nat (Suc k))"
    by (rule createHttpFetch_in_time) simp_all
  with run1 show "now w1 \<le> now w + timer_delay (of_nat (Suc k))" by simp
qed

text \<open>Where the value or the failure of a settled call comes from: an attempt that succeeded,
  an attempt whose failure is final, or the caller's signal.\<close>

definition call_outcome ::
  "RequestPipeline \<Rightarrow> CallSpec \<Rightarrow> (CallInit \<Rightarrow> (('n, 'z) runtime_scheme, 'a) jio) \<Rightarrow>
   (exn + 'a) \<times> ('n, 'z) runtime_scheme \<Rightarrow> bool"
where
  "call_outcome p spec run = (\<lambda>(r, w').
     (\<exists>x w1. r = Inr x \<and> run (init (options spec)) w1 = Some (Inr x, w')) \<or>
     (\<exists>e w1 j. r = Inl e \<and> run (init (options spec)) w1 = Some (Inl e, w') \<and>
        (num_le (maxRetries p) (num_of_nat j) \<or> \<not> shouldRetry e (idempotent spec))) \<or>
     (\<exists>s. Option.bind (options spec) ro_signal = Some s \<and> r = Inl (abort_reason s) \<and>
        aborted s (now w')))"

lemma send_loop_outcome:
  assumes "send_loop p spec run k w = Some rw"
  shows "call_outcome p spec run rw"
proof (rule send_loop.raw_induct [where P = "\<lambda>p spec run k w. call_outcome p spec run", OF _ assms])
  fix f p spec run k w rw
  assume IH: "\<And>p spec run k w y. f p spec run k w = Some y \<Longrightarrow> call_outcome p spec run y"
    and eq: "(case run (init (options spec)) w of
        None \<Rightarrow> None
      | Some (Inl error, w') \<Rightarrow>
          if num_le (maxRetries p) (num_of_nat k) \<or> \<not> shouldRetry error (idempotent spec)
          then Some (Inl error, w')
          else case backoff p spec error k w' of
              None \<Rightarrow> None
            | Some (Inl reason, w'') \<Rightarrow> Some (Inl reason, w'')
            | Some (Inr u, w'') \<Rightarrow> f p spec run (Suc k) w''
      | Some (Inr x, w') \<Rightarrow> Some (Inr x, w')) = Some rw"
  show "call_outcome p spec run rw"
  proof (cases rule: send_loop_cases [where run = run and spec = spec and w = w and p = p and k = k])
    case never
    with eq show ?thesis by simp
  next
    case (fulfilled x w1)
    with eq have "rw = (Inr x, w1)" by simp
    with fulfilled show ?thesis by (auto simp: call_outcome_def)
  next
    case (rethrow e w1)
    with eq have "rw = (Inl e, w1)" by simp
    with rethrow show ?thesis by (auto simp: call_outcome_def)
  next
    case (aborted e w1 reason w2)
    with eq have "rw = (Inl reason, w2)" by simp
    with aborted(4) show ?thesis by (auto simp: call_outcome_def elim: backoff_Inl)
  next
    case (again e w1 u w2)
    with eq have "f p spec run (Suc k) w2 = Some rw" by simp
    then show ?thesis by (rule IH)
  qed
qed

text \<open>The number of attempts, counted by any tally of the network that every attempt
  increments.\<close>

lemma send_loop_tally:
  assumes "maxRetries p = Fin m"
    and step: "\<And>w r w'. run (init (options spec)) w = Some (r, w') \<Longrightarrow> tally (net w') = Suc (tally (net w))"
    and "send_loop p spec run k w = Some (r, w')"
  shows "tally (net w) < tally (net w') \<and> tally (net w') \<le> tally (net w) + nat (\<lceil>m\<rceil> - int k) + 1"
  using assms(3)
proof (induction "nat (\<lceil>m\<rceil> - int k)" arbitrary: k w rule: less_induct)
  case (less k w)
  show ?case
  proof (cases rule: send_loop_cases [where run = run and spec = spec and w = w and p = p and k = k])
    case never
    with less.prems show ?thesis by (simp add: send_loop_step)
  next
    case (again e w1 u w2)
    then have left: "int k < \<lceil>m\<rceil>" using assms(1) budget_left by simp
    then have "nat (\<lceil>m\<rceil> - int (Suc k)) < nat (\<lceil>m\<rceil> - int k)" by simp
    moreover from again less.prems have "send_loop p spec run (Suc k) w2 = Some (r, w')"
      by (simp add: send_loop_step(4))
    ultimately have "tally (net w2) < tally (net w') \<and>
        tally (net w') \<le> tally (net w2) + nat (\<lceil>m\<rceil> - int (Suc k)) + 1"
      by (rule less.hyps)
    moreover have "tally (net w2) = Suc (tally (net w))"
      using step [OF again(1)] backoff_frame(1) [OF again(4)] by simp
    ultimately show ?thesis using left by auto
  next
    case (aborted e w1 reason w2)
    with step [OF aborted(1)] backoff_frame(1) [OF aborted(4)] less.prems show ?thesis
      by (simp add: send_loop_step(5))
  next
    case (fulfilled x w1)
    with step [OF fulfilled] less.prems show ?thesis by (simp add: send_loop_step(2))
  next
    case (rethrow e w1)
    with step [OF rethrow(1)] less.prems show ?thesis by (simp add: send_loop_step(3))
  qed
qed

lemma userAgent_trimmed [simp]: "http_trim userAgent = userAgent"
  by (rule http_trim_idem)
    (simp add: userAgent_def sdkVersion_def js_def u16_def is_http_space_def)

lemma outbound_headers_facts:
  "hdr_get TIMEOUT_HEADER (outbound_headers rq) = None"
  "hdr_get (js ''User-Agent'') (outbound_headers rq) =
     Some (case hdr_get (js ''User-Agent'') (rq_headers rq) of
             None \<Rightarrow> http_trim userAgent | Some v \<Rightarrow> v)"
proof -
  have ne: "ascii_lower TIMEOUT_HEADER \<noteq> ascii_lower (js ''User-Agent'')"
    by (rule ascii_lower_neq_length) (simp add: TIMEOUT_HEADER_def)
  then show "hdr_get TIMEOUT_HEADER (outbound_headers rq) = None"
    by (simp add: outbound_headers_def add_default_headers_def defaultHeaders_def hdr_get_def
        hdr_delete_def)
  show "hdr_get (js ''User-Agent'') (outbound_headers rq) =
     Some (case hdr_get (js ''User-Agent'') (rq_headers rq) of
             None \<Rightarrow> http_trim userAgent | Some v \<Rightarrow> v)"
    using ne by (auto simp: outbound_headers_def add_default_headers_def defaultHeaders_def hdr_get_def
        hdr_delete_def hdr_has_def split: option.splits)
qed

text \<open>Only the outbound requests matter: platforms that agree on the requests whose other headers
  are the caller's are indistinguishable to the wrapper.\<close>

lemma outbound_headers_other:
  assumes "ascii_lower n \<noteq> ascii_lower TIMEOUT_HEADER" "ascii_lower n \<noteq> ascii_lower (js ''User-Agent'')"
  shows "hdr_get n (outbound_headers rq) = hdr_get n (rq_headers rq)"
  using assms by (simp add: outbound_headers_def add_default_headers_def defaultHeaders_def hdr_get_def
      hdr_delete_def)

lemma createHttpFetch_cong:
  assumes "\<And>rq' t n. rq_headers rq' = outbound_headers rq \<Longrightarrow> impl rq' t n = impl' rq' t n"
  shows "createHttpFetch d impl rq w = createHttpFetch d impl' rq w"
proof -
  have "impl (rq\<lparr>rq_headers := outbound_headers rq\<rparr>) t n = impl' (rq\<lparr>rq_headers := outbound_headers rq\<rparr>) t n"
    "impl (outbound_request rq t' u) t n = impl' (outbound_request rq t' u) t n" for t t' u n
    by (rule assms; simp add: outbound_request_def)+
  then show ?thesis by (simp add: createHttpFetch_def perform_def Let_def)
qed

text \<open>A request without headers, for concrete instances.\<close>

definition hung_request :: http_request where
  "hung_request = \<lparr>rq_method = js ''GET'', rq_url = js ''http://h/'', rq_headers = [],
     rq_body = NoBody, rq_signal = None\<rparr>"

lemma effective_timeout_hung_request [simp]: "effective_timeout d hung_request = d"
  by (simp add: effective_timeout_def hung_request_def hdr_get_def)

lemma send_single:
  assumes "\<not> idempotent spec"
  shows "send p spec run w = run (init (options spec)) w"
  by (cases rule: send_loop_cases [where run = run and spec = spec and w = w and p = p and k = 0])
    (use assms in \<open>simp_all add: send_def send_loop_step shouldRetry_def\<close>)

section \<open>Properties\<close>

text \<open>C1: A call that is not idempotent is attempted exactly once: the pipeline returns or
  throws whatever that one attempt does and leaves the world as the attempt left it, with no
  delay and no log line, for every retry budget.\<close>

theorem send_non_idempotent_once:
  assumes "\<not> idempotent spec"
  shows "send p spec run w = run (init (options spec)) w"
  using assms by (rule send_single)

theorem send_non_idempotent_once_witness:
  "send (new_RequestPipeline None) \<lparr>operation = [], idempotent = False, options = None\<rparr>
     (\<lambda>i w. Some (Inl (TypeError []), w\<lparr>net := Suc (net w)\<rparr>)) (idle_runtime 0) =
   Some (Inl (TypeError []) :: exn + unit, (idle_runtime 0)\<lparr>net := Suc 0\<rparr>)"
  by (subst send_non_idempotent_once) simp_all

text \<open>C10: With a finite retry budget the pipeline makes at least one and at most
  \<open>maxRetries + 1\<close> attempts, by any count the attempts themselves keep on the network.\<close>

theorem send_attempts_bounded:
  assumes "maxRetries p = Fin m"
    and "\<And>w r w'. run (init (options spec)) w = Some (r, w') \<Longrightarrow> tally (net w') = Suc (tally (net w))"
    and "send p spec run w = Some (r, w')"
  shows "tally (net w) < tally (net w') \<and> tally (net w') \<le> tally (net w) + nat \<lceil>m\<rceil> + 1"
  using send_loop_tally [where run = run and spec = spec and tally = tally and p = p and k = 0]
    assms by (simp add: send_def)

theorem send_attempts_bounded_witness:
  "\<exists>w'. send \<lparr>requestTimeoutMs = Fin 60000, maxRetries = Fin 1, logger = no_logger\<rparr>
       \<lparr>operation = [], idempotent = True, options = None\<rparr>
       (\<lambda>i w. Some (Inl (TypeError []), w\<lparr>net := Suc (net w)\<rparr>)) (idle_runtime 0) =
     Some (Inl (TypeError []) :: exn + unit, w') \<and> 0 < id (net w') \<and> id (net w') \<le> 2"
  (is "\<exists>w'. send ?p ?spec ?run ?w = Some (?r, w') \<and> _")
proof -
  have "settles (send ?p ?spec ?run) ?w"
    by (simp add: settles_def send_def send_loop.simps shouldRetry_def backoff_def retryDelayMs_def
        sleep_def log_debug_def Let_def no_logger_def)
  then obtain r w' where call: "send ?p ?spec ?run ?w = Some (r, w')" by (rule settlesE)
  then have "r = ?r" using send_loop_outcome [of ?p ?spec ?run 0] by (auto simp: send_def call_outcome_def)
  moreover have "id (net ?w) < id (net w') \<and> id (net w') \<le> id (net ?w) + nat \<lceil>1 :: rat\<rceil> + 1"
    by (rule send_attempts_bounded [OF _ _ call]) auto
  ultimately show ?thesis using call by auto
qed



text \<open>Under a positive client timeout and a finite retry budget \<open>m\<close>, a call settles for
  every platform \<open>fetch\<close>, even one that never answers, and does so within \<open>m + 1\<close> timeouts
  and \<open>m\<close> back-off windows of eight seconds.\<close>

theorem timed_send_settles_in_time:
  assumes "maxRetries p = Fin m" and "entropy_ok w" and "Suc k \<le> 2147483647"
  shows "\<exists>r w'. send p spec (\<lambda>i. createHttpFetch (num_of_nat (Suc k)) impl (without_override rq)) w
           = Some (r, w') \<and>
         now w' \<le> now w + (int (nat \<lceil>m\<rceil>) + 1) * int (Suc k) + int (nat \<lceil>m\<rceil>) * 8000"
proof -
  let ?run = "\<lambda>i. createHttpFetch (num_of_nat (Suc k)) impl (without_override rq)"
  obtain r w' where call: "send_loop p spec ?run 0 w = Some (r, w')"
    using timed_fetch.loop_settles [OF assms(1)] by (rule settlesE)
  have "timer_delay (of_nat (Suc k)) = int (Suc k)"
    using assms(3) by (intro timer_delay_of_nat) simp_all
  then have "now w' \<le> now w + (int (nat \<lceil>m\<rceil>) + 1) * int (Suc k) + int (nat \<lceil>m\<rceil>) * 8000"
    using timed_fetch.loop_cost [OF assms(1) call assms(2)] by simp
  with call show ?thesis unfolding send_def by blast
qed

theorem timed_send_settles_in_time_witness:
  "\<exists>r w'. send (new_RequestPipeline None) \<lparr>operation = [], idempotent = True, options = None\<rparr>
       (\<lambda>i. createHttpFetch (num_of_nat (Suc 999)) (\<lambda>rq t n. (n, None)) (without_override hung_request))
       (idle_runtime ()) = Some (r, w') \<and> now w' \<le> 19000"
proof -
  have "maxRetries (new_RequestPipeline None) = Fin 2"
    by (simp add: new_RequestPipeline_def DEFAULT_MAX_RETRIES_def)
  from timed_send_settles_in_time [OF this entropy_ok_idle_runtime, of 999] show ?thesis by simp
qed

text \<open>A request with a positive finite timeout settles no later than its timer even when the
  platform's \<open>fetch\<close> ignores its abort signal or never settles, and in the latter case it
  fails with the retryable \<open>request_timeout\<close> error.\<close>

theorem createHttpFetch_cannot_outlive_timeout:
  assumes "effective_timeout d rq = Fin ms" and "0 < ms"
  shows "\<exists>r w'. createHttpFetch d impl rq w = Some (r, w') \<and>
           now w \<le> now w' \<and> now w' \<le> now w + timer_delay ms \<and>
           (snd (impl (outbound_request rq (now w) (now w + timer_delay ms)) (now w) (net w)) = None
              \<longrightarrow> r = Inl (Sdk (request_timeout_error (rq_url rq) (Fin ms))) \<and>
                  now w' = now w + timer_delay ms \<and>
                  shouldRetry (Sdk (request_timeout_error (rq_url rq) (Fin ms))) True)"
proof -
  let ?D = "now w + timer_delay ms"
  obtain n' s where snd: "impl (outbound_request rq (now w) ?D) (now w) (net w) = (n', s)"
    by fastforce
  from createHttpFetch_in_time [OF assms] obtain r w' where
    call: "createHttpFetch d impl rq w = Some (r, w')"
    and clock: "now w \<le> now w'" "now w' \<le> ?D"
    by blast
  have "shouldRetry (Sdk (request_timeout_error (rq_url rq) (Fin ms))) True"
    by (simp add: shouldRetry_def request_timeout_error_def new_error_def)
  moreover have "r = Inl (Sdk (request_timeout_error (rq_url rq) (Fin ms))) \<and> now w' = ?D" if "s = None"
    using createHttpFetch_timed [where impl = impl and w = w, OF assms refl snd] that call by auto
  ultimately show ?thesis using call clock snd by auto
qed

theorem createHttpFetch_cannot_outlive_timeout_witness:
  "\<exists>r w'. createHttpFetch (Fin 1000) (\<lambda>rq t n. (n, None)) hung_request (idle_runtime ()) = Some (r, w') \<and>
     now w' = 1000 \<and> r = Inl (Sdk (request_timeout_error (rq_url hung_request) (Fin 1000)))"
proof -
  have d: "timer_delay 1000 = 1000" by (simp add: timer_delay_def)
  have "effective_timeout (Fin 1000) hung_request = Fin 1000" by simp
  from createHttpFetch_cannot_outlive_timeout [OF this, where impl = "\<lambda>rq t n. (n, None)" and w = "idle_runtime ()"]
  show ?thesis by (auto simp: d)
qed

text \<open>C17: The internal timeout header never leaves the process and every request names the SDK:
  two platforms that agree on the requests that have no timeout header and have a \<open>User-Agent\<close>
  (the caller's own, when the caller set one) are indistinguishable to the fetch wrapper.\<close>

theorem createHttpFetch_outbound_headers:
  assumes "\<And>rq' t n. hdr_get TIMEOUT_HEADER (rq_headers rq') = None \<Longrightarrow>
      hdr_get (js ''User-Agent'') (rq_headers rq') =
        Some (case hdr_get (js ''User-Agent'') (rq_headers rq) of
                None \<Rightarrow> userAgent | Some v \<Rightarrow> v) \<Longrightarrow>
      impl rq' t n = impl' rq' t n"
  shows "createHttpFetch d impl rq w = createHttpFetch d impl' rq w"
  by (rule createHttpFetch_cong, rule assms) (simp_all add: outbound_headers_facts split: option.splits)

theorem createHttpFetch_outbound_headers_witness:
  "createHttpFetch (Fin 5)
     (\<lambda>rq t n. if hdr_has TIMEOUT_HEADER (rq_headers rq) then (Suc n, None) else (n, None))
     hung_request (idle_runtime 0) =
   createHttpFetch (Fin 5) (\<lambda>rq t n. (n, None)) hung_request (idle_runtime 0)"
  by (rule createHttpFetch_outbound_headers) (simp add: hdr_has_def)

text \<open>A per-call timeout given as a whole number of milliseconds reaches the fetch wrapper
  unchanged: the request carrying the headers of the call's init fragment is timed by it, whatever
  the client's default and whatever other headers the call adds.\<close>

theorem per_call_timeout_round_trip:
  assumes "ro_requestTimeoutMs opts = Some (num_of_nat n)"
    and "ci_headers (init (Some opts)) = Some hs"
    and "headers_of_record hs [] = Inr hdrs"
    and "\<forall>k \<in> fst ` set (with_default [] (ro_headers opts)). ascii_lower k \<noteq> ascii_lower TIMEOUT_HEADER"
  shows "effective_timeout d (rq\<lparr>rq_headers := hdrs\<rparr>) = num_of_nat n"
proof -
  let ?base = "with_default [] (ro_headers opts)"
  have hs: "hs = alist_set TIMEOUT_HEADER (show_nat n) ?base"
    using assms(1,2) by (auto simp: init_def Let_def split: if_splits)
  have "TIMEOUT_HEADER \<notin> fst ` set ?base" using assms(4) by auto
  then have "hs = ?base @ [(TIMEOUT_HEADER, show_nat n)]"
    using hs by (simp add: alist_set_fresh)
  with assms(3) have "headers_of_record (?base @ [(TIMEOUT_HEADER, show_nat n)]) [] = Inr hdrs" by simp
  from headers_of_record_last [OF this assms(4)] show ?thesis by (simp add: effective_timeout_def http_trim_show_nat)
qed

theorem per_call_timeout_round_trip_witness:
  "effective_timeout (Fin 60000) (hung_request\<lparr>rq_headers := [(TIMEOUT_HEADER, show_nat 250)]\<rparr>) =
   num_of_nat 250"
proof (rule per_call_timeout_round_trip)
  let ?o = "no_request_options\<lparr>ro_requestTimeoutMs := Some (num_of_nat 250)\<rparr>"
  have d: "show_nat 250 = js ''250''"
    by (simp add: show_nat.simps digit_unit_def js_def u16_def)
  show "ro_requestTimeoutMs ?o = Some (num_of_nat 250)" by simp
  show "ci_headers (init (Some ?o)) = Some [(TIMEOUT_HEADER, show_nat 250)]"
    by (simp add: init_def no_request_options_def)
  show "headers_of_record [(TIMEOUT_HEADER, show_nat 250)] [] = Inr [(TIMEOUT_HEADER, show_nat 250)]"
    by (simp add: hdr_append_def hdr_set_def hdr_get_def d TIMEOUT_HEADER_def js_def u16_def
        valid_header_name_def valid_header_value_def token_unit_def ascii_lower_def
        ascii_lower_unit_def http_trim_def is_http_space_def)
  show "\<forall>k \<in> fst ` set (with_default [] (ro_headers ?o)). ascii_lower k \<noteq> ascii_lower TIMEOUT_HEADER"
    by (simp add: no_request_options_def)
qed

text \<open>A timeout above \<open>2147483647\<close> milliseconds overflows the platform's timer, which then fires
  after one millisecond: a request that needs longer than that fails as timed out.\<close>

lemma createHttpFetch_timer_overflow:
  assumes "effective_timeout d rq = Fin ms" and "2147483647 < ms"
    and "impl (outbound_request rq (now w) (now w + 1)) (now w) (net w) = (n', Some (t, r))"
    and "now w + 1 < t"
  shows "createHttpFetch d impl rq w =
     Some (Inl (Sdk (request_timeout_error (rq_url rq) (Fin ms))), w\<lparr>net := n', now := now w + 1\<rparr>)"
proof -
  have "now w + 1 = now w + timer_delay ms" "0 < ms" using assms(2) by (simp_all add: timer_delay_def)
  with createHttpFetch_timed [OF assms(1), of "now w + 1" w impl n' "Some (t, r)"] assms(3,4)
  show ?thesis by simp
qed

end
