(* ===== verification/Api_Client.thy ===== *)
theory Api_Client
  imports Http
begin

text \<open>
  The typed client both planes share (\<open>sdks/typescript/src/api/index.ts\<close>).

  \<open>openapi-fetch\<close> is a package the SDK depends on: \<open>createClient\<close> is a parameter of type
  \<open>openapi_fetch\<close>, which makes an \<open>api_client\<close> from a configuration and a fetch function.
  What the SDK relies on of it is the named hypothesis \<open>single_fetch\<close>: an operation is one
  request through the configured fetch, with the client's headers unless the call gives its own, and
  a decoded result. \<open>plain_client\<close> is a concrete function that meets it.
\<close>

section \<open>The client interface\<close>

record client_config =
  baseUrl :: jstr
  cfg_headers :: "(jstr, jstr) alist"

record api_call =
  ac_method :: jstr
  ac_path :: jstr
  ac_path_params :: "(jstr, jsval) alist"
  ac_query :: "(jstr, jsval) alist"
  ac_header_params :: "(jstr, jstr) alist"
  ac_body :: jsval
  ac_init :: CallInit

record api_result =
  ar_data :: jsval
  ar_error :: jsval
  ar_response :: http_response

type_synonym 'w http_fetch = "http_request \<Rightarrow> ('w, http_response) jio"
type_synonym 'w api_client = "api_call \<Rightarrow> ('w, api_result) jio"
type_synonym 'w openapi_fetch = "client_config \<Rightarrow> 'w http_fetch \<Rightarrow> 'w api_client"

text \<open>The call of an operation without parameters, query or body.\<close>

definition api_op :: "string \<Rightarrow> string \<Rightarrow> CallInit \<Rightarrow> api_call" where
  "api_op m p i =
     \<lparr>ac_method = js m, ac_path = js p, ac_path_params = [], ac_query = [], ac_header_params = [],
      ac_body = JUndefined, ac_init = i\<rparr>"

section \<open>createApiClient and unwrap\<close>

record ConnectionConfig = RequestDefaults +
  apiKey :: "jstr option"
  accessToken :: "jstr option"
  cc_baseUrl :: jstr

definition credential_headers :: "ConnectionConfig \<Rightarrow> (jstr, jstr) alist" where
  "credential_headers config =
     (case apiKey config of
        Some key \<Rightarrow> alist_set (js ''X-API-Key'') key defaultHeaders
      | None \<Rightarrow>
          (case accessToken config of
             Some tok \<Rightarrow> alist_set (js ''Authorization'') (js ''Bearer '' @ tok) defaultHeaders
           | None \<Rightarrow> defaultHeaders))"

definition createApiClient ::
  "('n, 'z) runtime_scheme openapi_fetch \<Rightarrow> 'n fetch_impl \<Rightarrow> ConnectionConfig \<Rightarrow>
   ('n, 'z) runtime_scheme api_client"
where
  "createApiClient createClient impl config =
     createClient \<lparr>baseUrl = cc_baseUrl config, cfg_headers = credential_headers config\<rparr>
       (createHttpFetch (with_default DEFAULT_REQUEST_TIMEOUT_MS (rd_requestTimeoutMs config)) impl)"

definition unwrap :: "api_result \<Rightarrow> exn + jsval" where
  "unwrap result =
     (if ar_error result \<noteq> JUndefined \<or> \<not> response_ok (ar_response result)
      then Inl (Sdk (errorFromResponse (rs_status (ar_response result)) (ar_error result)))
      else Inr (ar_data result))"

text \<open>\<open>unwrap(await client.METHOD(path, init))\<close>, the body of every attempt.\<close>

definition unwrapped :: "'w api_client \<Rightarrow> api_call \<Rightarrow> ('w, jsval) jio" where
  "unwrapped api c = bind_io (api c) (\<lambda>r. lift_io (unwrap r))"

section \<open>What the SDK relies on of openapi-fetch\<close>

definition names_header :: "jstr \<Rightarrow> (jstr, jstr) alist \<Rightarrow> bool" where
  "names_header n hs \<longleftrightarrow> (\<exists>k \<in> fst ` set hs. ascii_lower k = ascii_lower n)"

text \<open>The headers the call itself sets.\<close>

definition call_headers :: "api_call \<Rightarrow> (jstr, jstr) alist" where
  "call_headers c = ac_header_params c @ with_default [] (ci_headers (ac_init c))"

text \<open>The request carries the client's header under every name the call does not set itself, and no
  header that neither the client nor the call names, the body's \<open>Content-Type\<close> apart.\<close>

definition inherits_headers :: "client_config \<Rightarrow> api_call \<Rightarrow> http_request \<Rightarrow> bool" where
  "inherits_headers cfg c rq \<longleftrightarrow>
     (\<forall>n v. (n, v) \<in> set (cfg_headers cfg) \<longrightarrow> distinct (map (ascii_lower \<circ> fst) (cfg_headers cfg)) \<longrightarrow>
        \<not> names_header n (call_headers c) \<longrightarrow> hdr_get n (rq_headers rq) = Some (http_trim v)) \<and>
     (\<forall>n. \<not> names_header n (cfg_headers cfg) \<longrightarrow> \<not> names_header n (call_headers c) \<longrightarrow>
        ascii_lower n \<noteq> js ''content-type'' \<longrightarrow> hdr_get n (rq_headers rq) = None)"

definition single_fetch :: "'w openapi_fetch \<Rightarrow> bool" where
  "single_fetch createClient \<longleftrightarrow>
     (\<forall>cfg c.
        (\<exists>m. \<forall>fetch w. createClient cfg fetch c w = Some (Inl (TypeError m), w)) \<or>
        (\<exists>rq decode. inherits_headers cfg c rq \<and>
           (\<forall>fetch w. createClient cfg fetch c w =
              bind_io (fetch rq) (\<lambda>resp. lift_io (decode resp)) w)))"

lemma single_fetchE:
  assumes "single_fetch createClient"
  obtains (refused) m where "\<And>fetch w. createClient cfg fetch c w = Some (Inl (TypeError m), w)"
    | (sent) rq decode where "inherits_headers cfg c rq"
        "\<And>fetch w. createClient cfg fetch c w = bind_io (fetch rq) (\<lambda>resp. lift_io (decode resp)) w"
  using assms unfolding single_fetch_def by metis

text \<open>A client that meets the hypothesis: it sets the client's headers, then the call's, sends one
  request and decodes its JSON.\<close>

fun set_headers :: "(jstr, jstr) alist \<Rightarrow> header_list \<Rightarrow> exn + header_list" where
  "set_headers [] hs = Inr hs"
| "set_headers ((n, v) # kvs) hs =
     (case hdr_set n v hs of Inl e \<Rightarrow> Inl e | Inr hs' \<Rightarrow> set_headers kvs hs')"

definition plain_decode :: "http_response \<Rightarrow> exn + api_result" where
  "plain_decode resp =
     (case rs_json resp of
        Inl e \<Rightarrow> Inl e
      | Inr v \<Rightarrow>
          Inr (if response_ok resp then \<lparr>ar_data = v, ar_error = JUndefined, ar_response = resp\<rparr>
               else \<lparr>ar_data = JUndefined, ar_error = v, ar_response = resp\<rparr>))"

definition plain_client :: "'w openapi_fetch" where
  "plain_client cfg fetch c =
     (case set_headers (cfg_headers cfg @ call_headers c) [] of
        Inl e \<Rightarrow> throw (TypeError (js ''Invalid header''))
      | Inr hs \<Rightarrow>
          bind_io
            (fetch \<lparr>rq_method = ac_method c, rq_url = baseUrl cfg @ ac_path c, rq_headers = hs,
               rq_body = NoBody, rq_signal = ci_signal (ac_init c)\<rparr>)
            (\<lambda>resp. lift_io (plain_decode resp)))"

lemma set_headers_append:
  "set_headers (kvs @ kvs') hs =
     (case set_headers kvs hs of Inl e \<Rightarrow> Inl e | Inr hs' \<Rightarrow> set_headers kvs' hs')"
  by (induction kvs hs rule: set_headers.induct) (auto split: sum.splits)

lemma set_headers_other:
  assumes "set_headers kvs hs = Inr hs'" and "\<not> names_header n kvs"
  shows "hdr_get n hs' = hdr_get n hs"
  using assms
proof (induction kvs hs rule: set_headers.induct)
  case (2 k v kvs hs)
  then obtain hs1 where "hdr_set k v hs = Inr hs1" "set_headers kvs hs1 = Inr hs'"
    by (auto split: sum.splits)
  moreover from 2 have "\<not> names_header n kvs" "ascii_lower n \<noteq> ascii_lower k"
    by (auto simp: names_header_def)
  ultimately show ?case using 2 hdr_get_set_other [of k v hs hs1 n] by simp
qed simp

lemma set_headers_in:
  assumes "set_headers kvs hs = Inr hs'" and "(n, v) \<in> set kvs"
    and "distinct (map (ascii_lower \<circ> fst) kvs)"
  shows "hdr_get n hs' = Some (http_trim v)"
  using assms
proof (induction kvs hs rule: set_headers.induct)
  case (2 k u kvs hs)
  then obtain hs1 where hs1: "hdr_set k u hs = Inr hs1" "set_headers kvs hs1 = Inr hs'"
    by (auto split: sum.splits)
  show ?case
  proof (cases "(n, v) \<in> set kvs")
    case True
    with 2 hs1 show ?thesis by simp
  next
    case False
    with 2 have "k = n" "u = v" by auto
    moreover from 2 have "ascii_lower k \<notin> (ascii_lower \<circ> fst) ` set kvs" by simp
    ultimately have "\<not> names_header n kvs" unfolding names_header_def by (auto simp: image_iff)
    with hs1 \<open>k = n\<close> \<open>u = v\<close> show ?thesis
      using set_headers_other [OF hs1(2)] hdr_get_set_same [OF hs1(1)] by simp
  qed
qed simp

lemma plain_client_single_fetch: "single_fetch plain_client"
  unfolding single_fetch_def
proof (intro allI)
  fix cfg c
  show "(\<exists>m. \<forall>fetch w. plain_client cfg fetch c w = Some (Inl (TypeError m), w)) \<or>
    (\<exists>rq decode. inherits_headers cfg c rq \<and>
       (\<forall>fetch w. plain_client cfg fetch c w = bind_io (fetch rq) (\<lambda>resp. lift_io (decode resp)) w))"
  proof (cases "set_headers (cfg_headers cfg @ call_headers c) []")
    case (Inl e)
    then show ?thesis by (auto simp: plain_client_def)
  next
    case (Inr hs)
    then obtain hs1 where hs1: "set_headers (cfg_headers cfg) [] = Inr hs1"
      "set_headers (call_headers c) hs1 = Inr hs"
      by (auto simp: set_headers_append split: sum.splits)
    let ?rq = "\<lparr>rq_method = ac_method c, rq_url = baseUrl cfg @ ac_path c, rq_headers = hs,
               rq_body = NoBody, rq_signal = ci_signal (ac_init c)\<rparr>"
    have "inherits_headers cfg c ?rq"
      using set_headers_other [OF hs1(2)] set_headers_other [OF hs1(1)] set_headers_in [OF hs1(1)]
      by (simp add: inherits_headers_def hdr_get_def)
    then show ?thesis using Inr by (auto simp: plain_client_def)
  qed
qed

section \<open>Credentials\<close>

lemma credential_names:
  "\<not> names_header TIMEOUT_HEADER (credential_headers config)"
  "distinct (map (ascii_lower \<circ> fst) (credential_headers config))"
proof -
  have ne: "ascii_lower a \<noteq> ascii_lower b" if "length a \<noteq> length b" for a b
    using that by (rule ascii_lower_neq_length)
  have "ascii_lower (js ''User-Agent'') \<noteq> ascii_lower TIMEOUT_HEADER"
    "ascii_lower (js ''X-API-Key'') \<noteq> ascii_lower TIMEOUT_HEADER"
    "ascii_lower (js ''Authorization'') \<noteq> ascii_lower TIMEOUT_HEADER"
    "ascii_lower (js ''User-Agent'') \<noteq> ascii_lower (js ''X-API-Key'')"
    "ascii_lower (js ''User-Agent'') \<noteq> ascii_lower (js ''Authorization'')"
    by (rule ne, simp add: TIMEOUT_HEADER_def)+
  then show "\<not> names_header TIMEOUT_HEADER (credential_headers config)"
    "distinct (map (ascii_lower \<circ> fst) (credential_headers config))"
    by (auto simp: names_header_def credential_headers_def defaultHeaders_def split: option.splits)
qed

lemma authorization_name:
  "ascii_lower (js ''User-Agent'') \<noteq> ascii_lower (js ''Authorization'')"
  "ascii_lower (js ''X-API-Key'') \<noteq> ascii_lower (js ''Authorization'')"
  "ascii_lower (js ''Authorization'') \<noteq> js ''content-type''"
  by (rule ascii_lower_neq_length, simp)+ (simp add: ascii_lower_def js_def ascii_lower_unit_def u16_def)

lemma timeout_not_content_type: "ascii_lower TIMEOUT_HEADER \<noteq> js ''content-type''"
proof
  assume "ascii_lower TIMEOUT_HEADER = js ''content-type''"
  then have "length (ascii_lower TIMEOUT_HEADER) = length (js ''content-type'')" by simp
  then show False by (simp add: TIMEOUT_HEADER_def)
qed

section \<open>A control-plane attempt\<close>

lemma unwrapped_clock:
  assumes "single_fetch createClient"
    and "\<And>rq. inherits_headers cfg c rq \<Longrightarrow> effective_timeout d rq = Fin ms" and "0 < ms"
  obtains r w' where "unwrapped (createClient cfg (createHttpFetch d impl)) c w = Some (r, w')"
    and "now w \<le> now w'" and "now w' \<le> now w + timer_delay ms" and "entropy w' = entropy w"
  using assms(1)
proof (cases rule: single_fetchE [where cfg = cfg and c = c])
  case (refused m)
  then show ?thesis
    using timer_delay_pos [of ms] by (intro that) (simp_all add: unwrapped_def bind_io_cases)
next
  case (sent rq decode)
  obtain r w' where fetched: "createHttpFetch d impl rq w = Some (r, w')"
    and clock: "now w \<le> now w'" "now w' \<le> now w + timer_delay ms"
    using assms(2) [OF sent(1)] assms(3) by (rule createHttpFetch_in_time)
  have "entropy w' = entropy w" using fetched by (rule createHttpFetch_entropy)
  moreover obtain r' where "unwrapped (createClient cfg (createHttpFetch d impl)) c w = Some (r', w')"
  proof (cases r)
    case (Inl e)
    with fetched that show ?thesis by (simp add: unwrapped_def sent(2) bind_io_def)
  next
    case (Inr resp)
    with fetched that show ?thesis
      by (cases "decode resp") (simp_all add: unwrapped_def sent(2) bind_io_def)
  qed
  ultimately show ?thesis using clock that by blast
qed

text \<open>A call that sets no timeout of its own is timed by the client.\<close>

definition plain_options :: "RequestOptions option \<Rightarrow> bool" where
  "plain_options opts \<longleftrightarrow>
     Option.bind opts ro_requestTimeoutMs = None \<and>
     \<not> names_header TIMEOUT_HEADER (with_default [] (Option.bind opts ro_headers))"

lemma plain_options_init:
  assumes "plain_options opts"
  shows "\<not> names_header TIMEOUT_HEADER (with_default [] (ci_headers (init opts)))"
  using assms by (auto simp: plain_options_def init_def Let_def names_header_def)

lemma effective_timeout_inherited:
  assumes "inherits_headers cfg c rq" and "\<not> names_header TIMEOUT_HEADER (cfg_headers cfg)"
    and "\<not> names_header TIMEOUT_HEADER (call_headers c)"
  shows "effective_timeout d rq = d"
  using assms timeout_not_content_type by (simp add: inherits_headers_def effective_timeout_def)

lemma api_attempt_bounded:
  assumes "single_fetch createClient" and "rd_requestTimeoutMs config = Some (num_of_nat (Suc k))"
    and "\<not> names_header TIMEOUT_HEADER (call_headers (op (init (options spec))))"
  shows "bounded_attempt (\<lambda>i. unwrapped (createApiClient createClient impl config) (op i)) spec
           (timer_delay (of_nat (Suc k)))"
proof -
  let ?cfg = "\<lparr>baseUrl = cc_baseUrl config, cfg_headers = credential_headers config\<rparr>"
  let ?c = "op (init (options spec))"
  have run: "unwrapped (createApiClient createClient impl config) ?c =
      unwrapped (createClient ?cfg (createHttpFetch (num_of_nat (Suc k)) impl)) ?c"
    using assms(2) by (simp add: createApiClient_def)
  have eff: "effective_timeout (num_of_nat (Suc k)) rq = Fin (of_nat (Suc k))"
    if "inherits_headers ?cfg ?c rq" for rq
    by (rule effective_timeout_inherited [OF that _ assms(3)]) (simp add: credential_names)
  show ?thesis
  proof (unfold_locales, goal_cases)
    case (1 w)
    show ?case unfolding run settles_def
      by (rule unwrapped_clock [OF assms(1) eff]) auto
  next
    case (2 w r w')
    then show ?case unfolding run
      by (rule_tac unwrapped_clock [OF assms(1) eff, where w = w and impl = impl]) auto
  next
    case (3 w r w')
    then show ?case unfolding run
      by (rule_tac unwrapped_clock [OF assms(1) eff, where w = w and impl = impl]) auto
  next
    case (4 w r w')
    then show ?case unfolding run
      by (rule_tac unwrapped_clock [OF assms(1) eff, where w = w and impl = impl]) auto
  qed
qed

section \<open>Properties\<close>


text \<open>A configuration for concrete instances.\<close>

definition sample_config :: ConnectionConfig where
  "sample_config =
     \<lparr>rd_requestTimeoutMs = Some (num_of_nat 1000), rd_maxRetries = None, rd_logger = None,
      apiKey = Some (js ''k''), accessToken = None, cc_baseUrl = js ''http://h''\<rparr>"


text \<open>The typed client authenticates with exactly one credential, the API key when there is
  one: two platforms that agree on the requests that carry it and no bearer token are
  indistinguishable to every call that does not set those headers itself.\<close>

theorem createApiClient_credential:
  assumes "single_fetch createClient" and "apiKey config = Some key"
    and "\<not> names_header (js ''X-API-Key'') (call_headers c)"
    and "\<not> names_header (js ''Authorization'') (call_headers c)"
    and "\<And>rq t n. hdr_get (js ''X-API-Key'') (rq_headers rq) = Some (http_trim key) \<Longrightarrow>
           hdr_get (js ''Authorization'') (rq_headers rq) = None \<Longrightarrow> impl rq t n = impl' rq t n"
  shows "createApiClient createClient impl config c w = createApiClient createClient impl' config c w"
  using assms(1)
proof (cases rule: single_fetchE
    [where cfg = "\<lparr>baseUrl = cc_baseUrl config, cfg_headers = credential_headers config\<rparr>" and c = c])
  case (refused m)
  then show ?thesis by (simp add: createApiClient_def)
next
  case (sent rq decode)
  have h: "credential_headers config = [(js ''User-Agent'', userAgent), (js ''X-API-Key'', key)]"
    using assms(2) by (simp add: credential_headers_def defaultHeaders_def)
  have d: "distinct (map (ascii_lower \<circ> fst) (credential_headers config))"
    by (rule credential_names)
  have key: "hdr_get (js ''X-API-Key'') (rq_headers rq) = Some (http_trim key)"
    using sent(1) d assms(3) unfolding inherits_headers_def by (simp add: h)
  have auth: "hdr_get (js ''Authorization'') (rq_headers rq) = None"
    using sent(1) assms(4) authorization_name unfolding inherits_headers_def
    by (simp add: h names_header_def)
  have "createHttpFetch d impl rq w = createHttpFetch d impl' rq w" for d
    using key auth
    by (intro createHttpFetch_cong assms(5))
      (simp_all add: outbound_headers_other ascii_lower_neq_length authorization_name TIMEOUT_HEADER_def)
  then show ?thesis by (simp add: createApiClient_def sent(2) bind_io_def)
qed

theorem createApiClient_credential_witness:
  "createApiClient plain_client
     (\<lambda>rq t n. if hdr_has (js ''Authorization'') (rq_headers rq) then (Suc n, None) else (n, None))
     (sample_config\<lparr>accessToken := Some (js ''t'')\<rparr>) (api_op ''GET'' ''/v1/sandboxes'' (init None))
     (idle_runtime 0) =
   createApiClient plain_client (\<lambda>rq t n. (n, None))
     (sample_config\<lparr>accessToken := Some (js ''t'')\<rparr>) (api_op ''GET'' ''/v1/sandboxes'' (init None))
     (idle_runtime 0)"
  by (rule createApiClient_credential [where key = "js ''k''"])
    (simp_all add: plain_client_single_fetch sample_config_def names_header_def call_headers_def
      api_op_def init_def hdr_has_def)

text \<open>C18: A failed response is reported as exactly the error class of its status, and the pipeline
  replays an idempotent call after it precisely when the body says so or, when the body does not
  say, when the status is 429 or a server fault; a successful response never throws.\<close>

theorem unwrap_verdict:
  "(\<exists>v. unwrap r = Inr v) = (ar_error r = JUndefined \<and> rs_status (ar_response r) \<in> {200..299}) \<and>
   (\<forall>e. unwrap r = Inl e \<longrightarrow>
      (\<exists>f. e = Sdk f \<and> status f = Some (rs_status (ar_response r)) \<and>
         (\<forall>c. c \<noteq> FissionPlaneErrorC \<longrightarrow>
            (instance_of f c \<longleftrightarrow>
               (rs_status (ar_response r), c) \<in>
                 {(401, AuthenticationErrorC), (403, ForbiddenErrorC), (404, NotFoundErrorC),
                  (408, CommandTimeoutErrorC), (409, ConflictErrorC), (410, SnapshotExpiredErrorC),
                  (429, RateLimitErrorC)})) \<and>
         (shouldRetry e True \<longleftrightarrow>
            (case bool_member ''retryable'' (ar_error r) of
               Some b \<Rightarrow> b
             | None \<Rightarrow> rs_status (ar_response r) = 429 \<or> 500 \<le> rs_status (ar_response r)))))"
  by (auto simp: unwrap_def response_ok_def shouldRetry_def errorFromResponse_sel instance_of_def
      class_of_status_def split: option.splits)

theorem unwrap_verdict_witness:
  "\<exists>f. unwrap \<lparr>ar_data = JUndefined, ar_error = jobj [(''retryable'', JBool True)],
           ar_response = \<lparr>rs_status = 409, rs_headers = [], rs_json = Inr JNull, rs_bytes = []\<rparr>\<rparr> = Inl (Sdk f) \<and>
     instance_of f ConflictErrorC \<and> shouldRetry (Sdk f) True"
  (is "\<exists>f. unwrap ?r = _ \<and> _")
proof -
  have "\<not> (\<exists>v. unwrap ?r = Inr v)" by (simp add: unwrap_verdict jobj_def)
  then obtain e where e: "unwrap ?r = Inl e" by (cases "unwrap ?r") auto
  with unwrap_verdict [of ?r] show ?thesis
    by (auto simp: bool_member_def own_def jobj_def)
qed

end
