(* ===== verification/Dataplane.thy ===== *)
theory Dataplane
  imports Api_Client Encoding
begin

text \<open>
  The data plane (\<open>sdks/typescript/src/dataplane.ts\<close>) and the client cache its two modules
  share (\<open>Commands.dataplane\<close> and \<open>Commands.call\<close>, repeated in \<open>SandboxFiles\<close>).

  A \<open>TokenSource\<close> is an object with two readable members and an optional method: a record of
  functions of the world. A module's mutable fields live in the world too and are reached through a
  \<open>module_ref\<close>, the reference \<open>this\<close> of the module. The locales \<open>module_state\<close> and
  \<open>token_source\<close> are the laws the modules rely on; the sandbox handle provides them.

  The platform's host parser (the Unicode tables behind \<open>new URL\<close>) and the WebSocket factory
  are parameters.
\<close>

definition DEFAULT_AGENT_PORT :: jnum where
  "DEFAULT_AGENT_PORT = Fin 50000"

record 'w TokenSource =
  ts_info :: "'w \<Rightarrow> jsval"
  ts_token :: "'w \<Rightarrow> jsval"
  ts_mintToken :: "('w, jsval) jio option"

record DataPlaneOptions = RequestDefaults +
  dp_agentPort :: "jnum option"

type_synonym ('w, 'c) WebSocketFactory = "jstr \<Rightarrow> jstr list \<Rightarrow> ('w, 'c) jio"

text \<open>\<open>defaultWebSocketFactory\<close>: \<open>None\<close> is a platform without a global \<open>WebSocket\<close>.\<close>

definition defaultWebSocketFactory ::
  "('w, 'c) WebSocketFactory option \<Rightarrow> ('w, 'c) WebSocketFactory"
where
  "defaultWebSocketFactory global url protocols =
     (case global of
        None \<Rightarrow> throw (Sdk (new_error FissionPlaneErrorC
            (js ''WebSocket is unavailable; provide DataPlaneOptions.webSocket'') None None None None))
      | Some f \<Rightarrow> f url protocols)"

text \<open>A member read inside a template literal.\<close>

definition interp_prop :: "string \<Rightarrow> jsval \<Rightarrow> exn + jstr" where
  "interp_prop k v = map_sum id to_string (read_prop k v)"

section \<open>withFreshToken\<close>

definition log_remint ::
  "('n, 'z) runtime_scheme TokenSource \<Rightarrow> Logger \<Rightarrow> (('n, 'z) runtime_scheme, unit) jio"
where
  "log_remint sandbox lg w =
     (if \<not> log_has_debug lg then Some (Inr (), w)
      else case interp_prop ''sandbox_id'' (ts_info sandbox w) of
        Inl e \<Rightarrow> Some (Inl e, w)
      | Inr sid \<Rightarrow>
          Some (Inr (), log_debug True
            (js ''sandbox '' @ sid @ js '' rejected the capability token; '' @
             js ''minting a fresh one and replaying the request'') w))"

definition is_auth_error :: "exn \<Rightarrow> bool" where
  "is_auth_error error = (case error of Sdk e \<Rightarrow> instance_of e AuthenticationErrorC | _ \<Rightarrow> False)"

definition withFreshToken ::
  "('n, 'z) runtime_scheme TokenSource \<Rightarrow> Logger \<Rightarrow> (('n, 'z) runtime_scheme, 'a) jio \<Rightarrow>
   (('n, 'z) runtime_scheme, 'a) jio"
where
  "withFreshToken sandbox lg run =
     catch_io run (\<lambda>error.
       case ts_mintToken sandbox of
         None \<Rightarrow> throw error
       | Some mintToken \<Rightarrow>
           if \<not> is_auth_error error then throw error
           else bind_io (log_remint sandbox lg) (\<lambda>_. bind_io mintToken (\<lambda>_. run)))"

section \<open>Tokens and origins\<close>

definition capabilityToken :: "'w TokenSource \<Rightarrow> 'w \<Rightarrow> exn + jstr" where
  "capabilityToken sandbox w =
     (if ts_token sandbox w = JUndefined
      then (case interp_prop ''sandbox_id'' (ts_info sandbox w) of
              Inl e \<Rightarrow> Inl e
            | Inr sid \<Rightarrow> Inl (Sdk (new_error FissionPlaneErrorC
                (js ''sandbox '' @ sid @ js '' has no capability token; '' @
                 js ''obtain one via sandboxes.create, sandbox.resume, or sandbox.mintToken'')
                None None None None)))
      else interp_prop ''token'' (ts_token sandbox w))"

definition dataPlaneOrigin :: "'w TokenSource \<Rightarrow> jnum \<Rightarrow> 'w \<Rightarrow> exn + jstr" where
  "dataPlaneOrigin sandbox port w =
     (case interp_prop ''sandbox_id'' (ts_info sandbox w) of
        Inl e \<Rightarrow> Inl e
      | Inr sid \<Rightarrow>
          (case interp_prop ''domain'' (ts_info sandbox w) of
             Inl e \<Rightarrow> Inl e
           | Inr domain \<Rightarrow>
               Inr (js ''https://'' @ num_to_string port @ js ''-'' @ sid @ js ''.'' @ domain)))"

text \<open>\<open>base64Url\<close>: \<open>String.fromCharCode\<close> of every byte keeps the binary string within
  Latin-1, so \<open>btoa\<close> never raises here (\<open>base64Url_sextets\<close>).\<close>

definition base64Url :: "jstr \<Rightarrow> jstr" where
  "base64Url value =
     (let binary = map (\<lambda>byte. word_of_nat byte) (utf8_encode value)
      in case btoa binary of
           None \<Rightarrow> []
         | Some b \<Rightarrow>
             strip_padding (replace_all (u16 CHR ''/'') (u16 CHR ''_'')
               (replace_all (u16 CHR ''+'') (u16 CHR ''-'') b)))"

section \<open>URLs\<close>

record url =
  url_protocol :: jstr
  url_host :: jstr
  url_path :: jstr
  url_query :: "(jstr, jstr) alist"

type_synonym host_parser = "jstr \<Rightarrow> jstr option"

text \<open>\<open>new URL(path, origin)\<close> for an absolute path and an \<open>https\<close> origin; the host parser
  says what becomes of the authority, and its failure is the \<open>TypeError\<close> of \<open>new URL\<close>.\<close>

definition new_URL :: "host_parser \<Rightarrow> jstr \<Rightarrow> jstr \<Rightarrow> exn + url" where
  "new_URL parse_host path origin =
     (case parse_host (drop (length (js ''https://'')) origin) of
        None \<Rightarrow> Inl (TypeError (js ''Invalid URL''))
      | Some h \<Rightarrow> Inr \<lparr>url_protocol = js ''https:'', url_host = h, url_path = path, url_query = []\<rparr>)"

definition url_to_string :: "url \<Rightarrow> jstr" where
  "url_to_string u =
     url_protocol u @ js ''//'' @ url_host u @ url_path u @
     (if url_query u = [] then [] else js ''?'' @ form_urlencode (url_query u))"

definition set_params :: "(jstr, jsval) alist \<Rightarrow> url \<Rightarrow> url" where
  "set_params query u =
     u\<lparr>url_query := fold (\<lambda>(name, value) q.
         if value = JUndefined then q else alist_set name (to_string value) q) query (url_query u)\<rparr>"

definition openDataPlaneWebSocket ::
  "host_parser \<Rightarrow> ('w, 'c) WebSocketFactory option \<Rightarrow> 'w TokenSource \<Rightarrow> jnum \<Rightarrow>
   ('w, 'c) WebSocketFactory option \<Rightarrow> jstr \<Rightarrow> (jstr, jsval) alist \<Rightarrow> ('w, 'c) jio"
where
  "openDataPlaneWebSocket parse_host global sandbox port factory path query w =
     (case capabilityToken sandbox w of
        Inl e \<Rightarrow> Some (Inl e, w)
      | Inr token \<Rightarrow>
          (case dataPlaneOrigin sandbox port w of
             Inl e \<Rightarrow> Some (Inl e, w)
           | Inr origin \<Rightarrow>
               (case new_URL parse_host path origin of
                  Inl e \<Rightarrow> Some (Inl e, w)
                | Inr u \<Rightarrow>
                    with_default (defaultWebSocketFactory global) factory
                      (url_to_string (set_params query (u\<lparr>url_protocol := js ''wss:''\<rparr>)))
                      [js ''fissionplane.v1'', js ''fissionplane.token.'' @ base64Url token] w)))"

section \<open>A data-plane module\<close>

text \<open>The fields of \<open>Commands\<close> and of \<open>SandboxFiles\<close>: a cached client is known by its
  configuration, since its fetch is fixed by the constructor.\<close>

record dataplane_module =
  client :: "client_config option"
  clientToken :: "jstr option"
  agentPort :: jnum
  requests :: RequestPipeline

record 'w module_ref =
  mget :: "'w \<Rightarrow> dataplane_module"
  mput :: "dataplane_module \<Rightarrow> 'w \<Rightarrow> 'w"

definition new_dataplane_module :: "DataPlaneOptions option \<Rightarrow> dataplane_module" where
  "new_dataplane_module opts =
     \<lparr>client = None, clientToken = None,
      agentPort = with_default DEFAULT_AGENT_PORT (Option.bind opts dp_agentPort),
      requests = new_RequestPipeline (map_option RequestDefaults.truncate opts)\<rparr>"

definition token_config :: "jstr \<Rightarrow> jstr \<Rightarrow> client_config" where
  "token_config origin token =
     \<lparr>baseUrl = origin, cfg_headers = alist_set (js ''X-Sandbox-Token'') token defaultHeaders\<rparr>"

definition dataplane :: "'w TokenSource \<Rightarrow> 'w module_ref \<Rightarrow> ('w, client_config) jio" where
  "dataplane sandbox this w =
     (case capabilityToken sandbox w of
        Inl e \<Rightarrow> Some (Inl e, w)
      | Inr token \<Rightarrow>
          (let m = mget this w in
           if client m = None \<or> clientToken m \<noteq> Some token then
             (case dataPlaneOrigin sandbox (agentPort m) w of
                Inl e \<Rightarrow> Some (Inl e, w)
              | Inr origin \<Rightarrow>
                  (let c = token_config origin token
                   in Some (Inr c, mput this (m\<lparr>client := Some c, clientToken := Some token\<rparr>) w)))
           else Some (Inr (the (client m)), w)))"

definition module_fetch :: "'n fetch_impl \<Rightarrow> dataplane_module \<Rightarrow> ('n, 'z) runtime_scheme http_fetch" where
  "module_fetch impl m = createHttpFetch (requestTimeoutMs (requests m)) impl"

definition call ::
  "('n, 'z) runtime_scheme openapi_fetch \<Rightarrow> 'n fetch_impl \<Rightarrow> ('n, 'z) runtime_scheme TokenSource \<Rightarrow>
   ('n, 'z) runtime_scheme module_ref \<Rightarrow> CallSpec \<Rightarrow>
   (('n, 'z) runtime_scheme api_client \<Rightarrow> CallInit \<Rightarrow> (('n, 'z) runtime_scheme, 'a) jio) \<Rightarrow>
   (('n, 'z) runtime_scheme, 'a) jio"
where
  "call createClient impl sandbox this spec run w =
     (let m = mget this w in
      withFreshToken sandbox (logger (requests m))
        (bind_io (dataplane sandbox this) (\<lambda>cfg.
           send (requests m) spec (run (createClient cfg (module_fetch impl m))))) w)"

section \<open>Frames\<close>

text \<open>Requests, delays and log lines change the platform's part of the world only.\<close>

lemma createHttpFetch_more:
  "createHttpFetch d impl rq w = Some (r, w') \<Longrightarrow> runtime.more w' = runtime.more w"
  by (auto simp: createHttpFetch_def perform_def Let_def split: prod.splits option.splits if_splits)

lemma send_loop_more:
  assumes "send_loop p spec run k w = Some rw"
    and "\<And>w r w'. run (init (options spec)) w = Some (r, w') \<Longrightarrow> runtime.more w' = runtime.more w"
  shows "runtime.more (snd rw) = runtime.more w"
proof -
  let ?P = "\<lambda>(p :: RequestPipeline) spec run (k :: nat) w rw.
    (\<forall>w r w'. run (init (options spec)) w = Some (r, w') \<longrightarrow> runtime.more w' = runtime.more w) \<longrightarrow>
    runtime.more (snd rw) = runtime.more w"
  have "?P p spec run k w rw"
  proof (rule send_loop.raw_induct [where P = ?P, OF _ assms(1)], rule impI)
    fix f p spec run k w rw
    assume IH: "\<And>p spec run k w y. f p spec run k w = Some y \<Longrightarrow> ?P p spec run k w y"
      and eq: "(case run (init (options spec)) w of
          None \<Rightarrow> None
        | Some (Inl error, w') \<Rightarrow>
            if num_le (maxRetries p) (num_of_nat k) \<or> \<not> shouldRetry error (idempotent spec)
            then Some (Inl error, w')
            else case backoff p spec error k w' of
                None \<Rightarrow> None
              | Some (Inl reason, w'') \<Rightarrow> Some (Inl reason, w'')
              | Some (Inr u, w'') \<Rightarrow> f p spec run (Suc k) w''
        | Some (Inr x, w') \<Rightarrow> Some (Inr x, w')) = Some rw"
      and keep: "\<forall>w r w'. run (init (options spec)) w = Some (r, w') \<longrightarrow> runtime.more w' = runtime.more w"
    show "runtime.more (snd rw) = runtime.more w"
    proof (cases rule: send_loop_cases [where run = run and spec = spec and w = w and p = p and k = k])
      case (again e w1 u w2)
      with eq have "f p spec run (Suc k) w2 = Some rw" by simp
      with IH keep have "runtime.more (snd rw) = runtime.more w2" by blast
      also have "\<dots> = runtime.more w" using backoff_frame(3) [OF again(4)] keep again(1) by simp
      finally show ?thesis .
    next
      case (aborted e w1 reason w2)
      with eq have "rw = (Inl reason, w2)" by simp
      then show ?thesis using backoff_frame(3) [OF aborted(4)] keep aborted(1) by simp
    qed (use eq keep in auto)
  qed
  with assms(2) show ?thesis by blast
qed

lemma send_more:
  assumes "send p spec run w = Some (r, w')"
    and "\<And>w r w'. run (init (options spec)) w = Some (r, w') \<Longrightarrow> runtime.more w' = runtime.more w"
  shows "runtime.more w' = runtime.more w"
  using send_loop_more [OF assms(1) [unfolded send_def]] assms(2) by fastforce

lemma unwrapped_more:
  assumes "single_fetch createClient"
    and "unwrapped (createClient cfg (createHttpFetch d impl)) c w = Some (r, w')"
  shows "runtime.more w' = runtime.more w"
  using assms(1)
proof (cases rule: single_fetchE [where cfg = cfg and c = c])
  case (refused m)
  with assms(2) show ?thesis by (simp add: unwrapped_def bind_io_def)
next
  case (sent rq decode)
  with assms(2) show ?thesis
    by (auto simp: unwrapped_def bind_io_def split: option.splits sum.splits prod.splits
        dest!: createHttpFetch_more)
qed

text \<open>The ways a guarded computation ends.\<close>

lemma withFreshToken_result:
  assumes "withFreshToken sandbox lg run w = Some (r, w')"
  obtains (once) "run w = Some (r, w')"
    | (log_failed) e e' w1 where "run w = Some (Inl e, w1)" "is_auth_error e"
        "log_remint sandbox lg w1 = Some (Inl e', w')" "r = Inl e'"
    | (mint_failed) e e' w1 w2 m where "run w = Some (Inl e, w1)" "is_auth_error e"
        "log_remint sandbox lg w1 = Some (Inr (), w2)" "ts_mintToken sandbox = Some m"
        "m w2 = Some (Inl e', w')" "r = Inl e'"
    | (replayed) e t w1 w2 w3 m where "run w = Some (Inl e, w1)" "is_auth_error e"
        "log_remint sandbox lg w1 = Some (Inr (), w2)" "ts_mintToken sandbox = Some m"
        "m w2 = Some (Inr t, w3)" "run w3 = Some (r, w')"
  using assms unfolding withFreshToken_def catch_io_def bind_io_def
  by (auto split: option.splits sum.splits prod.splits if_splits)

lemma log_remint_more: "log_remint sandbox lg w = Some (r, w') \<Longrightarrow> runtime.more w' = runtime.more w"
  by (auto simp: log_remint_def split: if_splits sum.splits)

text \<open>What the runs and the mints keep, and does not depend on the platform, the guarded
  computation keeps.\<close>

lemma withFreshToken_keeps:
  assumes "withFreshToken sandbox lg run w = Some (r, w')" and "P w"
    and run: "\<And>w r w'. P w \<Longrightarrow> run w = Some (r, w') \<Longrightarrow> P w'"
    and platform: "\<And>w w'. P w \<Longrightarrow> runtime.more w' = runtime.more w \<Longrightarrow> P w'"
    and mint: "\<And>m w r w'. ts_mintToken sandbox = Some m \<Longrightarrow> P w \<Longrightarrow> m w = Some (r, w') \<Longrightarrow> P w'"
  shows "P w'"
  using assms(1)
proof (cases rule: withFreshToken_result)
  case once
  with assms(2) run show ?thesis by blast
next
  case (log_failed e e' w1)
  with assms(2) run platform log_remint_more show ?thesis by blast
next
  case (mint_failed e e' w1 w2 m)
  with assms(2) run platform log_remint_more have "P w2" by blast
  with mint_failed mint show ?thesis by blast
next
  case (replayed e t w1 w2 w3 m)
  with assms(2) run platform log_remint_more have "P w2" by blast
  with replayed mint have "P w3" by blast
  with replayed run show ?thesis by blast
qed

lemma call_keeps:
  assumes "call createClient impl sandbox this spec run w = Some (r, w')" and "P w"
    and attempts: "\<And>cfg m w r w'. run (createClient cfg (module_fetch impl m)) (init (options spec)) w = Some (r, w') \<Longrightarrow>
           runtime.more w' = runtime.more w"
    and dataplane: "\<And>w r w'. P w \<Longrightarrow> dataplane sandbox this w = Some (r, w') \<Longrightarrow> P w'"
    and platform: "\<And>w w'. P w \<Longrightarrow> runtime.more w' = runtime.more w \<Longrightarrow> P w'"
    and mint: "\<And>m w r w'. ts_mintToken sandbox = Some m \<Longrightarrow> P w \<Longrightarrow> m w = Some (r, w') \<Longrightarrow> P w'"
  shows "P w'"
proof -
  let ?m = "mget this w"
  let ?body = "bind_io (dataplane sandbox this) (\<lambda>cfg.
     send (requests ?m) spec (run (createClient cfg (module_fetch impl ?m))))"
  have body: "P w1" if "P w0" "?body w0 = Some (r0, w1)" for w0 r0 w1
  proof (cases "dataplane sandbox this w0")
    case None
    with that show ?thesis by (simp add: bind_io_cases)
  next
    case (Some p)
    obtain d w2 where p: "p = (d, w2)" by (cases p)
    with Some that(1) dataplane have ok2: "P w2" by blast
    show ?thesis
    proof (cases d)
      case (Inl e)
      with Some p that ok2 show ?thesis by (simp add: bind_io_cases)
    next
      case (Inr cfg)
      with Some p that have
        "send (requests ?m) spec (run (createClient cfg (module_fetch impl ?m))) w2 = Some (r0, w1)"
        by (simp add: bind_io_cases)
      then have "runtime.more w1 = runtime.more w2" by (rule send_more) (rule attempts)
      then show ?thesis using ok2 platform by blast
    qed
  qed
  have "withFreshToken sandbox (logger (requests ?m)) ?body w = Some (r, w')"
    using assms(1) by (simp add: call_def Let_def)
  then show ?thesis using assms(2) body platform mint by (rule withFreshToken_keeps)
qed

section \<open>The laws a module relies on\<close>

text \<open>The module's own fields are independent of the sandbox's identity and token.\<close>

text \<open>The cached client was made for the cached token.\<close>

definition cache_coherent :: "dataplane_module \<Rightarrow> bool" where
  "cache_coherent m \<longleftrightarrow>
     (\<forall>c. client m = Some c \<longrightarrow>
        (\<exists>origin token. clientToken m = Some token \<and> c = token_config origin token))"

lemma cache_coherent_new [simp]: "cache_coherent (new_dataplane_module opts)"
  by (simp add: cache_coherent_def new_dataplane_module_def)

locale module_state =
  fixes sandbox :: "'w TokenSource" and this :: "'w module_ref"
  assumes get_put: "mget this (mput this m w) = m"
    and token_put: "ts_token sandbox (mput this m w) = ts_token sandbox w"
    and info_put: "ts_info sandbox (mput this m w) = ts_info sandbox w"
begin

definition cache_ok :: "'w \<Rightarrow> bool" where
  "cache_ok w \<longleftrightarrow> cache_coherent (mget this w)"

lemma capability_put: "capabilityToken sandbox (mput this m w) = capabilityToken sandbox w"
  by (simp add: capabilityToken_def token_put info_put)

lemma dataplane_result:
  assumes "dataplane sandbox this w = Some (r, w')"
  obtains (failed) e where "r = Inl e" "w' = w"
    | (cached) c t where "r = Inr c" "w' = w" "client (mget this w) = Some c"
        "clientToken (mget this w) = Some t" "capabilityToken sandbox w = Inr t"
    | (fresh) origin t where "r = Inr (token_config origin t)" "capabilityToken sandbox w = Inr t"
        "dataPlaneOrigin sandbox (agentPort (mget this w)) w = Inr origin"
        "w' = mput this ((mget this w)\<lparr>client := Some (token_config origin t), clientToken := Some t\<rparr>) w"
  using assms unfolding dataplane_def Let_def
  by (auto split: sum.splits if_splits)

lemma dataplane_current:
  assumes "cache_ok w" and "dataplane sandbox this w = Some (Inr cfg, w')"
  shows "cache_ok w'" and "\<exists>origin t. capabilityToken sandbox w = Inr t \<and> cfg = token_config origin t"
    and "capabilityToken sandbox w' = capabilityToken sandbox w"
proof -
  from assms(2) have "cache_ok w' \<and>
      (\<exists>origin t. capabilityToken sandbox w = Inr t \<and> cfg = token_config origin t) \<and>
      capabilityToken sandbox w' = capabilityToken sandbox w"
  proof (cases rule: dataplane_result)
    case (cached c t)
    with assms(1) show ?thesis by (auto simp: cache_ok_def cache_coherent_def)
  next
    case (fresh origin t)
    then show ?thesis by (auto simp: cache_ok_def cache_coherent_def get_put capability_put)
  qed simp
  then show "cache_ok w'" "\<exists>origin t. capabilityToken sandbox w = Inr t \<and> cfg = token_config origin t"
    "capabilityToken sandbox w' = capabilityToken sandbox w" by blast+
qed

lemma dataplane_keeps_cache:
  assumes "cache_ok w" and "dataplane sandbox this w = Some (r, w')"
  shows "cache_ok w'"
  using assms(2)
proof (cases rule: dataplane_result)
  case (fresh origin t)
  then show ?thesis by (auto simp: cache_ok_def cache_coherent_def get_put)
qed (use assms(1) in simp_all)

end

text \<open>A source that can mint: the minted token is the armed one, and minting leaves the module's
  fields alone.\<close>

locale token_source = module_state sandbox this
  for sandbox :: "('n, 'z) runtime_scheme TokenSource" and this :: "('n, 'z) runtime_scheme module_ref" +
  fixes mint :: "(('n, 'z) runtime_scheme, jsval) jio"
  assumes minter: "ts_mintToken sandbox = Some mint"
    and mint_arms: "mint w = Some (Inr t, w') \<Longrightarrow> ts_token sandbox w' = t"
    and mint_module: "mint w = Some (r, w') \<Longrightarrow> mget this w' = mget this w"
    and module_more: "runtime.more w = runtime.more w' \<Longrightarrow> mget this w = mget this w'"
    and token_more: "runtime.more w = runtime.more w' \<Longrightarrow> ts_token sandbox w = ts_token sandbox w'"
begin

lemma cache_ok_cong: "mget this w' = mget this w \<Longrightarrow> cache_ok w' = cache_ok w"
  by (simp add: cache_ok_def)

text \<open>A module call keeps the cache coherent when its attempts only touch the platform.\<close>

lemma call_keeps_cache:
  assumes "call createClient impl sandbox this spec run w = Some (r, w')" and "cache_ok w"
    and "\<And>cfg m w r w'. run (createClient cfg (module_fetch impl m)) (init (options spec)) w = Some (r, w') \<Longrightarrow>
           runtime.more w' = runtime.more w"
  shows "cache_ok w'"
  using assms(1,2)
proof (rule call_keeps [where P = cache_ok])
  fix w r w' assume "cache_ok w" "dataplane sandbox this w = Some (r, w')"
  then show "cache_ok w'" by (rule dataplane_keeps_cache)
next
  fix w w' :: "('n, 'z) runtime_scheme" assume "cache_ok w" "runtime.more w' = runtime.more w"
  then show "cache_ok w'" using cache_ok_cong module_more by blast
next
  fix m w r w' assume a: "ts_mintToken sandbox = Some m" "cache_ok w" "m w = Some (r, w')"
  then have "mint w = Some (r, w')" using minter by simp
  with a(2) show "cache_ok w'" using cache_ok_cong mint_module by blast
qed (rule assms(3))

text \<open>A minted token is the one the next client is made for.\<close>

lemma minted_token_current:
  assumes "mint w = Some (Inr t, w1)" and "t \<noteq> JUndefined" and "interp_prop ''token'' t = Inr tok"
    and "cache_ok w" and "dataplane sandbox this w1 = Some (Inr cfg, w2)"
  shows "\<exists>origin. cfg = token_config origin tok"
proof -
  have "capabilityToken sandbox w1 = Inr tok"
    using mint_arms [OF assms(1)] assms(2,3) by (simp add: capabilityToken_def)
  moreover have "cache_ok w1" using assms(4) cache_ok_cong mint_module [OF assms(1)] by blast
  ultimately show ?thesis using dataplane_current(2) [OF _ assms(5)] by auto
qed

end

section \<open>Credentials in WebSocket subprotocols\<close>

lemma base64Url_sextets: "base64Url s = map b64url_unit (b64_sextets (utf8_encode s))"
proof -
  let ?bin = "map (\<lambda>byte. word_of_nat byte :: unit16) (utf8_encode s)"
  have u: "\<forall>b \<in> set (utf8_encode s). unat (word_of_nat b :: unit16) = b"
  proof
    fix b assume "b \<in> set (utf8_encode s)"
    then have "b < 65536" using utf8_encode_bytes [of b s] by simp
    then show "unat (word_of_nat b :: unit16) = b" by (simp add: unat_of_nat)
  qed
  then have "map unat ?bin = utf8_encode s" unfolding map_map comp_def by (intro map_idI) blast
  moreover have "list_all (\<lambda>u. unat u < 256) ?bin"
    using u utf8_encode_bytes [of _ s] unfolding list_all_iff set_map by (metis imageE)
  ultimately have "btoa ?bin = Some (b64_groups (utf8_encode s))" by (simp add: btoa_def)
  then show ?thesis using utf8_encode_bytes by (simp add: base64Url_def base64url_of_groups)
qed

lemma b64url_unit_token: "n < 64 \<Longrightarrow> token_unit (b64url_unit n)"
proof -
  assume "n < 64"
  then consider "n < 26" | "26 \<le> n" "n < 52" | "52 \<le> n" "n < 62" | "n = 62" | "n = 63" by linarith
  then show ?thesis
  proof cases
    case 3
    then have "48 \<le> n - 4" "n - 4 \<le> 57" by linarith+
    with 3 show ?thesis by (simp add: b64url_unit_def token_unit_def unat_b64_unit Let_def)
  qed (simp_all add: b64url_unit_def token_unit_def unat_b64_unit Let_def)
qed

text \<open>C20: The credential in the WebSocket handshake loses nothing: a receiver that decodes the
  subprotocol recovers the UTF-8 text of the token, and the encoded text has only characters that
  are allowed in a subprotocol name, for every token.\<close>

theorem base64Url_round_trip:
  "b64url_decode (base64Url token) = Some (utf8_encode token) \<and> list_all token_unit (base64Url token)"
proof
  have bytes: "\<forall>b \<in> set (utf8_encode token). b < 256" using utf8_encode_bytes by blast
  then show "b64url_decode (base64Url token) = Some (utf8_encode token)"
    by (simp add: base64Url_sextets b64url_decode_sextets)
  show "list_all token_unit (base64Url token)"
    using b64_sextets_bound [OF bytes] b64url_unit_token by (auto simp: base64Url_sextets list_all_iff)
qed

text \<open>C19: Token recovery is bounded: a guarded data-plane call runs once or twice and mints at most
  one token, it mints only when the first run failed with an authentication error, and it runs a
  second time only after that mint, by any counts the runs and the mints keep on the network.\<close>

theorem withFreshToken_recovers_once:
  assumes "\<And>w r w'. run w = Some (r, w') \<Longrightarrow>
      runs (net w') = Suc (runs (net w)) \<and> mints (net w') = mints (net w)"
    and "\<And>m w r w'. ts_mintToken sandbox = Some m \<Longrightarrow> m w = Some (r, w') \<Longrightarrow>
      mints (net w') = Suc (mints (net w)) \<and> runs (net w') = runs (net w)"
    and "withFreshToken sandbox lg run w = Some (r, w')"
  shows "runs (net w') \<in> {runs (net w) + 1, runs (net w) + 2} \<and>
     mints (net w') \<in> {mints (net w), mints (net w) + 1} \<and>
     (runs (net w') = runs (net w) + 2 \<longrightarrow> mints (net w') = mints (net w) + 1) \<and>
     (mints (net w') = mints (net w) + 1 \<longrightarrow> (\<exists>e w1. run w = Some (Inl e, w1) \<and> is_auth_error e))"
proof -
  have log: "net w2 = net w1" if "log_remint sandbox lg w1 = Some (r1, w2)" for w1 r1 w2
    using that by (auto simp: log_remint_def split: if_splits sum.splits)
  from assms(3) show ?thesis
  proof (cases rule: withFreshToken_result)
    case once
    with assms(1) [OF once] show ?thesis by auto
  next
    case (log_failed e e' w1)
    with assms(1) [OF log_failed(1)] log [OF log_failed(3)] show ?thesis by auto
  next
    case (mint_failed e e' w1 w2 m)
    with assms(1) [OF mint_failed(1)] log [OF mint_failed(3)] assms(2) [OF mint_failed(4,5)]
    show ?thesis by auto
  next
    case (replayed e t w1 w2 w3 m)
    with assms(1) [OF replayed(1)] log [OF replayed(3)] assms(2) [OF replayed(4,5)]
      assms(1) [OF replayed(6)]
    show ?thesis by auto
  qed
qed

text \<open>An agent that rejects the stale token and accepts the next one, for a concrete instance: the
  network is the pair of the runs and the mints so far.\<close>

definition stale_run :: "((nat \<times> nat) runtime, unit) jio" where
  "stale_run w =
     Some (if snd (net w) = 0 then Inl (Sdk (errorFromResponse 401 JUndefined)) else Inr (),
       w\<lparr>net := (Suc (fst (net w)), snd (net w))\<rparr>)"

definition stale_source :: "(nat \<times> nat) runtime TokenSource" where
  "stale_source =
     \<lparr>ts_info = (\<lambda>w. JUndefined), ts_token = (\<lambda>w. JUndefined),
      ts_mintToken = Some (\<lambda>w. Some (Inr JNull, w\<lparr>net := (fst (net w), Suc (snd (net w)))\<rparr>))\<rparr>"

theorem withFreshToken_recovers_once_witness:
  "\<exists>w'. withFreshToken stale_source no_logger stale_run (idle_runtime (0, 0)) = Some (Inr (), w') \<and>
     fst (net w') = 2 \<and> snd (net w') = 1"
proof -
  let ?w = "idle_runtime (0 :: nat, 0 :: nat)"
  let ?w' = "?w\<lparr>net := (2, 1)\<rparr>"
  have call: "withFreshToken stale_source no_logger stale_run (idle_runtime (0, 0)) = Some (Inr (), ?w')"
    by (simp add: withFreshToken_def catch_io_def bind_io_def stale_run_def stale_source_def
        log_remint_def no_logger_def is_auth_error_def instance_of_def errorFromResponse_sel
        class_of_status_def numeral_2_eq_2)
  have "fst (net ?w') \<in> {fst (net ?w) + 1, fst (net ?w) + 2} \<and>
     snd (net ?w') \<in> {snd (net ?w), snd (net ?w) + 1} \<and>
     (fst (net ?w') = fst (net ?w) + 2 \<longrightarrow> snd (net ?w') = snd (net ?w) + 1) \<and>
     (snd (net ?w') = snd (net ?w) + 1 \<longrightarrow> (\<exists>e w1. stale_run ?w = Some (Inl e, w1) \<and> is_auth_error e))"
    by (rule withFreshToken_recovers_once [OF _ _ call]) (auto simp: stale_run_def stale_source_def)
  with call show ?thesis by auto
qed

end
