(* ===== verification/Streaming.thy ===== *)
theory Streaming
  imports Json Http
begin

text \<open>
  WebSocket streams (\<open>sdks/typescript/src/streaming.ts\<close> and the native connection adapter of
  \<open>dataplane.ts\<close>).

  \<open>stream\<close> is the state of a \<open>StreamingEvents\<close> object. Beside its own fields it records what
  the object did to the outside: the frames given to \<open>socket.send\<close> (\<open>wire\<close>), the calls of
  \<open>socket.close\<close> (\<open>closes\<close>), the promises of \<open>next()\<close> in the order they were settled
  (\<open>settled\<close>, by call number) and the listener calls (\<open>heard\<close>); \<open>accepted\<close> and
  \<open>posted\<close> are the histories of accepted events and of frames passed to \<open>send\<close>. Every callback
  and method is a function on that state, and \<open>stream_step\<close> runs one of them.

  A listener is known by a number; what it does when called with an event is the parameter
  \<open>reacts\<close>, a list of reactions that may re-enter the stream: close it, send, call
  \<open>next()\<close>, unsubscribe, or throw.
\<close>

section \<open>State\<close>

datatype 't settlement = Value 't | Finished | Rejected exn

datatype reaction =
    RClose
  | RSend jsval
  | RNext
  | RUnsubscribe nat
  | RThrow exn

record 't stream =
  listeners :: "nat list"
  queue :: "'t list"
  pending :: "nat list"
  outbound :: "jstr list"
  handshake :: bool
  opened :: bool
  ended :: bool
  failure :: "exn option"
  next_id :: nat
  wire :: "jstr list"
  closes :: nat
  settled :: "(nat \<times> 't settlement) list"
  heard :: "(nat \<times> 't) list"
  accepted :: "'t list"
  posted :: "jstr list"

record StreamOptions =
  so_handshakeTimeoutMs :: "jnum option"
  so_signal :: "abort_signal option"

section \<open>Operations\<close>

definition clearHandshake :: "'t stream \<Rightarrow> 't stream" where
  "clearHandshake st = st\<lparr>handshake := False\<rparr>"

definition settle_all :: "'t settlement \<Rightarrow> 't stream \<Rightarrow> 't stream" where
  "settle_all how st =
     st\<lparr>settled := settled st @ map (\<lambda>p. (p, how)) (pending st), pending := []\<rparr>"

definition finish :: "'t stream \<Rightarrow> 't stream" where
  "finish st =
     (if ended st then st
      else settle_all Finished ((clearHandshake st)\<lparr>ended := True, outbound := []\<rparr>))"

definition fail :: "exn \<Rightarrow> 't stream \<Rightarrow> 't stream" where
  "fail error st =
     (if ended st then st
      else (let st1 = (clearHandshake st)
                  \<lparr>failure := (if error = NonError JUndefined then None else Some error),
                   ended := True, outbound := []\<rparr>;
                st2 = settle_all (Rejected error) st1
            in st2\<lparr>closes := Suc (closes st2)\<rparr>))"

definition close :: "'t stream \<Rightarrow> 't stream" where
  "close st = (if ended st then st else (finish st)\<lparr>closes := Suc (closes (finish st))\<rparr>)"

definition send_frame :: "jsval \<Rightarrow> 't stream \<Rightarrow> 't stream" where
  "send_frame frame st =
     (if ended st then st
      else (let encoded = json_stringify frame; st1 = st\<lparr>posted := posted st @ [encoded]\<rparr>
            in if opened st then st1\<lparr>wire := wire st @ [encoded]\<rparr>
               else st1\<lparr>outbound := outbound st @ [encoded]\<rparr>))"

definition onEvent :: "nat \<Rightarrow> 't stream \<Rightarrow> 't stream" where
  "onEvent l st = (if l \<in> set (listeners st) then st else st\<lparr>listeners := listeners st @ [l]\<rparr>)"

definition unsubscribe :: "nat \<Rightarrow> 't stream \<Rightarrow> 't stream" where
  "unsubscribe l st = st\<lparr>listeners := filter (\<lambda>x. x \<noteq> l) (listeners st)\<rparr>"

text \<open>\<open>next()\<close> of the async iterator: the promise is settled at once or joins the pending ones.\<close>

definition next_event :: "'t stream \<Rightarrow> 't stream" where
  "next_event st0 =
     (let i = next_id st0; st = st0\<lparr>next_id := Suc i\<rparr>
      in case queue st of
           e # q \<Rightarrow> st\<lparr>queue := q, settled := settled st @ [(i, Value e)]\<rparr>
         | [] \<Rightarrow>
             (case failure st of
                Some f \<Rightarrow> st\<lparr>settled := settled st @ [(i, Rejected f)]\<rparr>
              | None \<Rightarrow>
                  if ended st then st\<lparr>settled := settled st @ [(i, Finished)]\<rparr>
                  else st\<lparr>pending := pending st @ [i]\<rparr>))"

definition onOpen :: "jstr \<Rightarrow> 't stream \<Rightarrow> 't stream" where
  "onOpen protocol st0 =
     (let st = clearHandshake st0
      in if protocol \<noteq> js ''fissionplane.v1''
         then fail (StreamingProtocolError (js ''server did not select fissionplane.v1'')) st
         else st\<lparr>opened := True, wire := wire st @ outbound st, outbound := []\<rparr>)"

text \<open>Listener calls.\<close>

fun react :: "reaction list \<Rightarrow> 't stream \<Rightarrow> exn option \<times> 't stream" where
  "react [] st = (None, st)"
| "react (RClose # rs) st = react rs (close st)"
| "react (RSend frame # rs) st = react rs (send_frame frame st)"
| "react (RNext # rs) st = react rs (next_event st)"
| "react (RUnsubscribe l # rs) st = react rs (unsubscribe l st)"
| "react (RThrow e # rs) st = (Some e, st)"

text \<open>\<open>for (const listener of this.listeners) listener(event)\<close>: a listener removed before its
  turn is skipped, a throw ends the loop.\<close>

fun notify :: "(nat \<Rightarrow> 't \<Rightarrow> reaction list) \<Rightarrow> nat list \<Rightarrow> 't \<Rightarrow> 't stream \<Rightarrow> exn option \<times> 't stream" where
  "notify reacts [] event st = (None, st)"
| "notify reacts (l # ls) event st =
     (if l \<notin> set (listeners st) then notify reacts ls event st
      else case react (reacts l event) (st\<lparr>heard := heard st @ [(l, event)]\<rparr>) of
             (Some e, st') \<Rightarrow> (Some e, st')
           | (None, st') \<Rightarrow> notify reacts ls event st')"

definition deliver :: "'t \<Rightarrow> 't stream \<Rightarrow> 't stream" where
  "deliver event st0 =
     (let st = st0\<lparr>accepted := accepted st0 @ [event]\<rparr>
      in case pending st of
           p # ps \<Rightarrow> st\<lparr>pending := ps, settled := settled st @ [(p, Value event)]\<rparr>
         | [] \<Rightarrow> st\<lparr>queue := queue st @ [event]\<rparr>)"

definition receive ::
  "(jsval \<Rightarrow> exn + 't option) \<Rightarrow> (nat \<Rightarrow> 't \<Rightarrow> reaction list) \<Rightarrow> jsval \<Rightarrow> 't stream \<Rightarrow>
   exn option \<times> 't stream"
where
  "receive parse reacts data st =
     (case parse data of
        Inl e \<Rightarrow> (Some e, st)
      | Inr None \<Rightarrow> (None, st)
      | Inr (Some event) \<Rightarrow>
          if ended st then (None, st)
          else (case notify reacts (listeners st) event st of
              (Some e, st') \<Rightarrow> (Some e, st')
            | (None, st') \<Rightarrow> (None, deliver event st')))"

definition onMessage ::
  "(jsval \<Rightarrow> exn + 't option) \<Rightarrow> (nat \<Rightarrow> 't \<Rightarrow> reaction list) \<Rightarrow> jsval \<Rightarrow> 't stream \<Rightarrow> 't stream"
where
  "onMessage parse reacts data st =
     (case receive parse reacts data st of
        (None, st') \<Rightarrow> st'
      | (Some e, st') \<Rightarrow> fail e st')"

definition handshake_timeout :: "jnum \<Rightarrow> FissionPlaneError" where
  "handshake_timeout ms =
     new_error FissionPlaneErrorC
       (js ''WebSocket handshake did not complete within '' @ num_to_string ms @ js ''ms'')
       None (Some (js ''handshake_timeout'')) (Some True) None"

text \<open>The constructor arms the timer when the timeout is positive. \<open>addEventListener('abort')\<close>
  on a signal that has already fired never calls back, so such a signal has no effect.\<close>

definition handshake_ms :: "StreamOptions option \<Rightarrow> jnum" where
  "handshake_ms opts = with_default (Fin 0) (Option.bind opts so_handshakeTimeoutMs)"

definition new_StreamingEvents :: "StreamOptions option \<Rightarrow> 't stream" where
  "new_StreamingEvents opts =
     \<lparr>listeners = [], queue = [], pending = [], outbound = [], handshake = num_lt (Fin 0) (handshake_ms opts),
      opened = False, ended = False, failure = None, next_id = 0, wire = [], closes = 0, settled = [],
      heard = [], accepted = [], posted = []\<rparr>"

definition abort_will_fire :: "StreamOptions option \<Rightarrow> int \<Rightarrow> bool" where
  "abort_will_fire opts created =
     (case Option.bind opts so_signal of
        None \<Rightarrow> False
      | Some s \<Rightarrow> \<not> aborted s created \<and> aborts_at s \<noteq> None)"

section \<open>Steps\<close>

text \<open>What can happen to a stream: the four socket callbacks, the two timers, and the methods.\<close>

datatype action =
    Opened jstr
  | Message jsval
  | Closed
  | Errored exn
  | HandshakeExpired
  | Aborted
  | Next
  | Return
  | Close
  | Send jsval
  | Subscribe nat
  | Unsubscribe nat

fun stream_step ::
  "(jsval \<Rightarrow> exn + 't option) \<Rightarrow> (nat \<Rightarrow> 't \<Rightarrow> reaction list) \<Rightarrow> jnum \<Rightarrow> action \<Rightarrow> 't stream \<Rightarrow> 't stream"
where
  "stream_step parse reacts ms (Opened protocol) st = onOpen protocol st"
| "stream_step parse reacts ms (Message data) st = onMessage parse reacts data st"
| "stream_step parse reacts ms Closed st = finish st"
| "stream_step parse reacts ms (Errored e) st = fail e st"
| "stream_step parse reacts ms HandshakeExpired st =
     (if handshake st then fail (Sdk (handshake_timeout ms)) st else st)"
| "stream_step parse reacts ms Aborted st = close st"
| "stream_step parse reacts ms Next st = next_event st"
| "stream_step parse reacts ms Return st = close st"
| "stream_step parse reacts ms Close st = close st"
| "stream_step parse reacts ms (Send frame) st = send_frame frame st"
| "stream_step parse reacts ms (Subscribe l) st = onEvent l st"
| "stream_step parse reacts ms (Unsubscribe l) st = unsubscribe l st"

inductive reachable ::
  "(jsval \<Rightarrow> exn + 't option) \<Rightarrow> (nat \<Rightarrow> 't \<Rightarrow> reaction list) \<Rightarrow> StreamOptions option \<Rightarrow> 't stream \<Rightarrow> bool"
  for parse reacts opts
where
  created: "reachable parse reacts opts (new_StreamingEvents opts)"
| stepped: "reachable parse reacts opts st \<Longrightarrow>
     reachable parse reacts opts (stream_step parse reacts (handshake_ms opts) act st)"

text \<open>The platform's socket behind \<open>NativeWebSocketConnection\<close>: its four events are the four
  callbacks, in order and one for one.\<close>

datatype native_event = NativeOpen | NativeMessage jsval | NativeClose | NativeError jsval

definition native_action :: "jstr \<Rightarrow> native_event \<Rightarrow> action" where
  "native_action protocol ev =
     (case ev of
        NativeOpen \<Rightarrow> Opened protocol
      | NativeMessage data \<Rightarrow> Message data
      | NativeClose \<Rightarrow> Closed
      | NativeError event \<Rightarrow> Errored (NonError event))"

section \<open>Frame checks\<close>

definition parseJsonObject :: "jsval \<Rightarrow> exn + (jstr, jsval) alist" where
  "parseJsonObject data =
     (case data of
        JStr text \<Rightarrow>
          (case json_parse text of
             None \<Rightarrow> Inl (StreamingProtocolError (js ''received malformed JSON text frame''))
           | Some (JObj fs) \<Rightarrow> Inr fs
           | Some _ \<Rightarrow> Inl (StreamingProtocolError (js ''expected a JSON object frame'')))
      | _ \<Rightarrow> Inl (StreamingProtocolError (js ''expected a JSON text frame'')))"

definition member :: "(jstr, jsval) alist \<Rightarrow> string \<Rightarrow> jsval" where
  "member fs k = (case map_of fs (js k) of None \<Rightarrow> JUndefined | Some v \<Rightarrow> v)"

definition isPositiveInteger :: "jsval \<Rightarrow> bool" where
  "isPositiveInteger v = (case v of JNum n \<Rightarrow> is_integer n \<and> num_lt (Fin 0) n | _ \<Rightarrow> False)"

definition isNonNegativeInteger :: "jsval \<Rightarrow> bool" where
  "isNonNegativeInteger v = (case v of JNum n \<Rightarrow> is_integer n \<and> num_le (Fin 0) n | _ \<Rightarrow> False)"

section \<open>The stream invariant\<close>

definition handed_out :: "(nat \<times> 't settlement) list \<Rightarrow> 't list" where
  "handed_out ps = concat (map (\<lambda>(i, s). case s of Value v \<Rightarrow> [v] | _ \<Rightarrow> []) ps)"

lemma handed_out_simps [simp]:
  "handed_out [] = []"
  "handed_out (ps @ qs) = handed_out ps @ handed_out qs"
  "handed_out [(i, Value v)] = [v]"
  "handed_out [(i, Finished)] = []"
  "handed_out [(i, Rejected e)] = []"
  by (simp_all add: handed_out_def)

lemma handed_out_settle [simp]:
  "handed_out (map (\<lambda>p. (p, Finished)) ids) = []"
  "handed_out (map (\<lambda>p. (p, Rejected e)) ids) = []"
  by (simp_all add: handed_out_def)

text \<open>Promises of \<open>next()\<close> settle in call order; accepted events are those handed out followed
  by those still queued; consumers and events never wait for each other; an ended stream holds no
  promise, frame or timer; the wire has the posted frames in order; the socket is closed once.\<close>

definition promises_ok :: "'t stream \<Rightarrow> bool" where
  "promises_ok st \<longleftrightarrow>
     map fst (settled st) @ pending st = [0..<next_id st] \<and>
     handed_out (settled st) @ queue st = accepted st \<and>
     (pending st \<noteq> [] \<longrightarrow> queue st = [] \<and> \<not> ended st)"

definition frames_ok :: "'t stream \<Rightarrow> bool" where
  "frames_ok st \<longleftrightarrow>
     (opened st \<longrightarrow> outbound st = []) \<and> (\<not> opened st \<longrightarrow> wire st = []) \<and>
     (if ended st then \<exists>dropped. posted st = wire st @ dropped
      else posted st = wire st @ outbound st)"

definition end_ok :: "'t stream \<Rightarrow> bool" where
  "end_ok st \<longleftrightarrow>
     (ended st \<longrightarrow> pending st = [] \<and> outbound st = [] \<and> \<not> handshake st) \<and>
     (failure st \<noteq> None \<longrightarrow> ended st) \<and>
     closes st \<le> (if ended st then 1 else 0)"

definition stream_inv :: "'t stream \<Rightarrow> bool" where
  "stream_inv st \<longleftrightarrow> promises_ok st \<and> frames_ok st \<and> end_ok st"

lemmas stream_inv_defs = stream_inv_def promises_ok_def frames_ok_def end_ok_def

lemma stream_inv_new: "stream_inv (new_StreamingEvents opts)"
  by (simp add: stream_inv_defs new_StreamingEvents_def)

lemma stream_inv_heard [simp]: "stream_inv (st\<lparr>heard := h\<rparr>) = stream_inv st"
  by (simp add: stream_inv_defs)

lemma stream_inv_listeners [simp]: "stream_inv (st\<lparr>listeners := ls\<rparr>) = stream_inv st"
  by (simp add: stream_inv_defs)

lemma stream_inv_handshake: "stream_inv st \<Longrightarrow> stream_inv (clearHandshake st)"
  by (simp add: stream_inv_defs clearHandshake_def)

lemma stream_inv_finish: "stream_inv st \<Longrightarrow> stream_inv (finish st)"
  by (auto simp: stream_inv_defs finish_def clearHandshake_def settle_all_def comp_def)

lemma stream_inv_fail: "stream_inv st \<Longrightarrow> stream_inv (fail e st)"
  by (auto simp: stream_inv_defs fail_def clearHandshake_def settle_all_def comp_def Let_def)

lemma stream_inv_close: "stream_inv st \<Longrightarrow> stream_inv (close st)"
  by (auto simp: stream_inv_defs close_def finish_def clearHandshake_def settle_all_def comp_def)

lemma stream_inv_send: "stream_inv st \<Longrightarrow> stream_inv (send_frame frame st)"
  by (auto simp: stream_inv_defs send_frame_def Let_def)

lemma stream_inv_next: "stream_inv st \<Longrightarrow> stream_inv (next_event st)"
  by (auto simp: stream_inv_defs next_event_def Let_def split: list.splits option.splits)

lemma stream_inv_open: "stream_inv st \<Longrightarrow> stream_inv (onOpen protocol st)"
proof -
  assume inv: "stream_inv st"
  show ?thesis
  proof (cases "protocol = js ''fissionplane.v1''")
    case True
    with inv show ?thesis by (auto simp: stream_inv_defs onOpen_def clearHandshake_def)
  next
    case False
    with inv show ?thesis by (simp add: onOpen_def stream_inv_fail stream_inv_handshake)
  qed
qed

lemma stream_inv_deliver: "stream_inv st \<Longrightarrow> stream_inv (deliver event st)"
  by (auto simp: stream_inv_defs deliver_def Let_def split: list.splits)

lemma stream_inv_react: "stream_inv st \<Longrightarrow> stream_inv (snd (react rs st))"
  by (induction rs st rule: react.induct)
    (simp_all add: stream_inv_close stream_inv_send stream_inv_next unsubscribe_def)

lemma stream_inv_notify: "stream_inv st \<Longrightarrow> stream_inv (snd (notify reacts ls event st))"
proof (induction reacts ls event st rule: notify.induct)
  case (2 reacts l ls event st)
  have "stream_inv (snd (react (reacts l event) (st\<lparr>heard := heard st @ [(l, event)]\<rparr>)))"
    using 2 by (intro stream_inv_react) simp
  with 2 show ?case by (fastforce split: prod.splits option.splits)
qed simp

lemma stream_inv_receive: "stream_inv st \<Longrightarrow> stream_inv (snd (receive parse reacts data st))"
proof -
  assume inv: "stream_inv st"
  have "stream_inv st'" if "notify reacts (listeners st) event st = (r, st')" for event r st'
    using stream_inv_notify [OF inv, of reacts "listeners st" event] that by simp
  with inv show ?thesis
    by (auto simp: receive_def intro!: stream_inv_deliver split: sum.splits option.splits prod.splits)
qed

lemma stream_inv_message: "stream_inv st \<Longrightarrow> stream_inv (onMessage parse reacts data st)"
  using stream_inv_receive [of st parse reacts data]
  by (auto simp: onMessage_def stream_inv_fail split: prod.splits option.splits)

lemma stream_inv_step: "stream_inv st \<Longrightarrow> stream_inv (stream_step parse reacts ms act st)"
  by (cases act)
    (simp_all add: stream_inv_open stream_inv_message stream_inv_finish stream_inv_fail
      stream_inv_close stream_inv_next stream_inv_send onEvent_def unsubscribe_def)

lemma reachable_inv: "reachable parse reacts opts st \<Longrightarrow> stream_inv st"
  by (induction rule: reachable.induct) (simp_all add: stream_inv_new stream_inv_step)

section \<open>Ended streams\<close>

text \<open>Once ended, a stream puts nothing on the wire, does not close its socket again and keeps its
  failure, whatever happens to it.\<close>

definition quiet :: "'t stream \<Rightarrow> 't stream \<Rightarrow> bool" where
  "quiet st st' \<longleftrightarrow>
     ended st' \<and> wire st' = wire st \<and> closes st' = closes st \<and> failure st' = failure st \<and>
     accepted st' = accepted st \<and> outbound st' = []"

lemma quiet_step:
  assumes "ended st" and "outbound st = []"
  shows "quiet st (stream_step parse reacts ms act st)"
proof (cases act)
  case (Message data)
  then show ?thesis using assms
    by (auto simp: quiet_def onMessage_def receive_def fail_def split: sum.splits option.splits)
qed (use assms in \<open>auto simp: quiet_def onOpen_def finish_def fail_def close_def send_frame_def next_event_def
    onEvent_def unsubscribe_def clearHandshake_def Let_def split: list.splits option.splits\<close>)

lemma quiet_run:
  assumes "ended st" and "outbound st = []"
  shows "quiet st (fold (stream_step parse reacts ms) acts st)"
  using assms
proof (induction acts arbitrary: st)
  case (Cons act acts)
  let ?st1 = "stream_step parse reacts ms act st"
  have "quiet st ?st1" using Cons.prems by (rule quiet_step)
  moreover from this have "quiet ?st1 (fold (stream_step parse reacts ms) acts ?st1)"
    by (intro Cons.IH) (simp_all add: quiet_def)
  ultimately show ?case by (simp add: quiet_def)
qed (simp add: quiet_def)

section \<open>The parser interface\<close>

text \<open>A stream subclass supplies \<open>parse\<close>. It relies on one law: a frame the parser refuses is a
  protocol error, never another exception.\<close>

locale event_parser =
  fixes parse :: "jsval \<Rightarrow> exn + 't option"
  assumes parse_error: "parse data = Inl e \<Longrightarrow> \<exists>m. e = StreamingProtocolError m"
begin

lemma malformed_frame_fails:
  assumes "parse data = Inl e" and "\<not> ended st"
  shows "\<exists>m. failure (onMessage parse reacts data st) = Some (StreamingProtocolError m)"
    and "ended (onMessage parse reacts data st)"
    and "closes (onMessage parse reacts data st) = Suc (closes st)"
    and "settled (onMessage parse reacts data st) = settled st @ map (\<lambda>p. (p, Rejected e)) (pending st)"
    and "accepted (onMessage parse reacts data st) = accepted st"
  using assms parse_error [OF assms(1)]
  by (auto simp: onMessage_def receive_def fail_def settle_all_def clearHandshake_def Let_def)

lemma unknown_frame_ignored:
  assumes "parse data = Inr None"
  shows "onMessage parse reacts data st = st"
  using assms by (simp add: onMessage_def receive_def)

text \<open>Without listeners a valid event goes to the first waiting consumer, or is queued.\<close>

lemma valid_event_delivered:
  assumes "parse data = Inr (Some event)" and "\<not> ended st" and "listeners st = []"
  shows "onMessage parse reacts data st = deliver event st"
  using assms by (simp add: onMessage_def receive_def)

end

lemma parseJsonObject_error: "parseJsonObject data = Inl e \<Longrightarrow> \<exists>m. e = StreamingProtocolError m"
  by (auto simp: parseJsonObject_def split: jsval.splits option.splits)

section \<open>Properties\<close>

text \<open>A parser of bare text and listeners that do nothing, for concrete instances.\<close>

definition text_parse :: "jsval \<Rightarrow> exn + jstr option" where
  "text_parse data = (case data of JStr s \<Rightarrow> Inr (Some s) | _ \<Rightarrow> Inl (StreamingProtocolError []))"

definition no_reactions :: "nat \<Rightarrow> 't \<Rightarrow> reaction list" where
  "no_reactions l e = []"

lemma reachable_run:
  "reachable parse reacts opts st \<Longrightarrow>
     reachable parse reacts opts (fold (stream_step parse reacts (handshake_ms opts)) acts st)"
  by (induction acts arbitrary: st) (simp_all add: reachable.stepped)





text \<open>C27: A stream ends once: after its end no sequence of callbacks, timers and method calls puts
  a frame on the wire, accepts an event, closes the socket again or changes the failure that later
  \<open>next()\<close> calls are rejected with; every promise is settled and the handshake timer is off.\<close>

theorem stream_end_is_final:
  assumes "reachable parse reacts opts st" and "ended st"
  shows "pending st = [] \<and> \<not> handshake st \<and> closes st \<le> 1 \<and>
     quiet st (fold (stream_step parse reacts ms) acts st)"
proof -
  have "stream_inv st" using assms(1) by (rule reachable_inv)
  with assms(2) have "pending st = []" "\<not> handshake st" "closes st \<le> 1" "outbound st = []"
    by (simp_all add: stream_inv_defs)
  with quiet_run [OF assms(2)] show ?thesis by blast
qed

theorem stream_end_is_final_witness:
  "\<exists>st. reachable text_parse no_reactions None st \<and> ended st \<and> closes st = 1 \<and>
     quiet st (fold (stream_step text_parse no_reactions (Fin 0))
       [Opened (js ''fissionplane.v1''), Send JNull, Message (jtext ''a''), Close] st)"
proof -
  let ?st = "fold (stream_step text_parse no_reactions (handshake_ms None))
    [Next, Message JNull] (new_StreamingEvents None)"
  have r: "reachable text_parse no_reactions None ?st" by (intro reachable_run reachable.created)
  have e: "ended ?st" "closes ?st = 1"
    by (simp_all add: new_StreamingEvents_def next_event_def onMessage_def receive_def fail_def
        text_parse_def settle_all_def clearHandshake_def Let_def)
  from stream_end_is_final [OF r e(1)] r e show ?thesis by blast
qed

text \<open>A signal that fired before the stream was created never closes it: no abort callback follows.\<close>

lemma aborted_signal_never_fires:
  assumes "aborted s created"
  shows "\<not> abort_will_fire (Some \<lparr>so_handshakeTimeoutMs = ms, so_signal = Some s\<rparr>) created"
  using assms by (simp add: abort_will_fire_def)

end
