(* ===== verification/Commands.thy ===== *)
theory Commands
  imports Dataplane Streaming
begin

text \<open>
  Command execution inside a sandbox (\<open>sdks/typescript/src/commands.ts\<close>): the process stream's
  event parser and control frames, the process handle and the \<open>Commands\<close> module. The module's
  private \<open>dataplane\<close> and \<open>call\<close> are those of theory \<open>Dataplane\<close>.
\<close>

section \<open>Process stream events\<close>

datatype ProcessStreamEvent =
    Stdout jnum jstr
  | Stderr jnum jstr
  | Exit jnum jnum
  | Gap jnum jnum

definition parseProcessStreamEvent :: "jsval \<Rightarrow> exn + ProcessStreamEvent option" where
  "parseProcessStreamEvent data =
     (case parseJsonObject data of
        Inl e \<Rightarrow> Inl e
      | Inr msg \<Rightarrow>
          (case member msg ''type'' of
             JStr ty \<Rightarrow>
               if ty = js ''stdout'' \<or> ty = js ''stderr'' then
                 (case (member msg ''sequence'', member msg ''data'') of
                    (JNum n, JStr d) \<Rightarrow>
                      if isPositiveInteger (JNum n)
                      then Inr (Some (if ty = js ''stdout'' then Stdout n d else Stderr n d))
                      else Inl (StreamingProtocolError (js ''malformed known '' @ ty @ js '' frame''))
                  | _ \<Rightarrow> Inl (StreamingProtocolError (js ''malformed known '' @ ty @ js '' frame'')))
               else if ty = js ''exit'' then
                 (case (member msg ''sequence'', member msg ''exit_code'') of
                    (JNum n, JNum c) \<Rightarrow>
                      if isPositiveInteger (JNum n) \<and> is_integer c then Inr (Some (Exit n c))
                      else Inl (StreamingProtocolError (js ''malformed known exit frame''))
                  | _ \<Rightarrow> Inl (StreamingProtocolError (js ''malformed known exit frame'')))
               else if ty = js ''gap'' then
                 (case (member msg ''from_sequence'', member msg ''to_sequence'') of
                    (JNum a, JNum b) \<Rightarrow>
                      if isPositiveInteger (JNum a) \<and> isPositiveInteger (JNum b) then Inr (Some (Gap a b))
                      else Inl (StreamingProtocolError (js ''malformed known gap frame''))
                  | _ \<Rightarrow> Inl (StreamingProtocolError (js ''malformed known gap frame'')))
               else Inr None
           | _ \<Rightarrow> Inl (StreamingProtocolError (js ''process stream frame type must be a string''))))"

section \<open>ProcessAttachment\<close>

definition Signals :: "jstr list" where
  "Signals = [js ''SIGTERM'', js ''SIGKILL'', js ''SIGINT'', js ''SIGHUP'']"

definition sendInput :: "jstr \<Rightarrow> ProcessStreamEvent stream \<Rightarrow> ProcessStreamEvent stream" where
  "sendInput data = send_frame (jobj [(''type'', jtext ''input''), (''data'', JStr data)])"

definition closeStdin :: "ProcessStreamEvent stream \<Rightarrow> ProcessStreamEvent stream" where
  "closeStdin = send_frame (jobj [(''type'', jtext ''close_stdin'')])"

definition resize :: "jnum \<Rightarrow> jnum \<Rightarrow> ProcessStreamEvent stream \<Rightarrow> ProcessStreamEvent stream" where
  "resize cols rows =
     send_frame (jobj [(''type'', jtext ''resize''), (''cols'', JNum cols), (''rows'', JNum rows)])"

definition signal_process :: "jstr \<Rightarrow> ProcessStreamEvent stream \<Rightarrow> ProcessStreamEvent stream" where
  "signal_process sig = send_frame (jobj [(''type'', jtext ''signal''), (''signal'', JStr sig)])"

section \<open>Options\<close>

record RunCommandOptions = RequestOptions +
  rc_args :: "jstr list option"
  rc_cwd :: "jstr option"
  rc_env :: "(jstr, jstr) alist option"
  rc_stdin :: "jstr option"
  rc_timeoutSeconds :: "jnum option"

record StartProcessOptions = RequestOptions +
  sp_args :: "jstr list option"
  sp_cwd :: "jstr option"
  sp_env :: "(jstr, jstr) alist option"
  sp_pty :: "jsval option"

record AttachProcessOptions = RequestOptions +
  ap_after :: "jnum option"

definition jstrings :: "jstr list \<Rightarrow> jsval" where
  "jstrings xs = JArr (map JStr xs)"

definition jrecord :: "(jstr, jstr) alist \<Rightarrow> jsval" where
  "jrecord kvs = JObj (map (\<lambda>(k, v). (k, JStr v)) kvs)"

section \<open>The Commands module\<close>

definition Commands_run ::
  "('n, 'z) runtime_scheme openapi_fetch \<Rightarrow> 'n fetch_impl \<Rightarrow> ('n, 'z) runtime_scheme TokenSource \<Rightarrow>
   ('n, 'z) runtime_scheme module_ref \<Rightarrow> jstr \<Rightarrow> RunCommandOptions option \<Rightarrow>
   (('n, 'z) runtime_scheme, jsval) jio"
where
  "Commands_run createClient impl sandbox this command opts =
     call createClient impl sandbox this
       \<lparr>operation = js ''POST /commands'', idempotent = False,
        options = map_option RequestOptions.truncate opts\<rparr>
       (\<lambda>cl i. unwrapped cl ((api_op ''POST'' ''/commands'' i)\<lparr>ac_body := JObj (
          [(js ''command'', JStr command)] @
          opt_field (js ''args'') jstrings (Option.bind opts rc_args) @
          opt_field (js ''cwd'') JStr (Option.bind opts rc_cwd) @
          opt_field (js ''env'') jrecord (Option.bind opts rc_env) @
          opt_field (js ''stdin'') JStr (Option.bind opts rc_stdin) @
          opt_field (js ''timeout_seconds'') JNum (Option.bind opts rc_timeoutSeconds))\<rparr>))"

text \<open>A \<open>ProcessHandle\<close> is its \<open>info\<close>; it reaches the module it was made by.\<close>

record ProcessHandle =
  ph_info :: jsval

definition Commands_start ::
  "('n, 'z) runtime_scheme openapi_fetch \<Rightarrow> 'n fetch_impl \<Rightarrow> ('n, 'z) runtime_scheme TokenSource \<Rightarrow>
   ('n, 'z) runtime_scheme module_ref \<Rightarrow> jstr \<Rightarrow> StartProcessOptions option \<Rightarrow>
   (('n, 'z) runtime_scheme, ProcessHandle) jio"
where
  "Commands_start createClient impl sandbox this command opts =
     bind_io
       (call createClient impl sandbox this
         \<lparr>operation = js ''POST /processes'', idempotent = False,
          options = map_option RequestOptions.truncate opts\<rparr>
         (\<lambda>cl i. unwrapped cl ((api_op ''POST'' ''/processes'' i)\<lparr>ac_body := JObj (
            [(js ''command'', JStr command)] @
            opt_field (js ''args'') jstrings (Option.bind opts sp_args) @
            opt_field (js ''cwd'') JStr (Option.bind opts sp_cwd) @
            opt_field (js ''env'') jrecord (Option.bind opts sp_env) @
            opt_field (js ''pty'') id (Option.bind opts sp_pty))\<rparr>)))
       (\<lambda>process. ret \<lparr>ph_info = process\<rparr>)"

definition Commands_getProcess ::
  "('n, 'z) runtime_scheme openapi_fetch \<Rightarrow> 'n fetch_impl \<Rightarrow> ('n, 'z) runtime_scheme TokenSource \<Rightarrow>
   ('n, 'z) runtime_scheme module_ref \<Rightarrow> jsval \<Rightarrow> RequestOptions option \<Rightarrow>
   (('n, 'z) runtime_scheme, jsval) jio"
where
  "Commands_getProcess createClient impl sandbox this pid opts =
     call createClient impl sandbox this
       \<lparr>operation = js ''GET /processes/{pid}'', idempotent = True, options = opts\<rparr>
       (\<lambda>cl i. unwrapped cl ((api_op ''GET'' ''/processes/{pid}'' i)
          \<lparr>ac_path_params := [(js ''pid'', pid)]\<rparr>))"

definition Commands_get ::
  "('n, 'z) runtime_scheme openapi_fetch \<Rightarrow> 'n fetch_impl \<Rightarrow> ('n, 'z) runtime_scheme TokenSource \<Rightarrow>
   ('n, 'z) runtime_scheme module_ref \<Rightarrow> jsval \<Rightarrow> RequestOptions option \<Rightarrow>
   (('n, 'z) runtime_scheme, ProcessHandle) jio"
where
  "Commands_get createClient impl sandbox this pid opts =
     bind_io (Commands_getProcess createClient impl sandbox this pid opts)
       (\<lambda>process. ret \<lparr>ph_info = process\<rparr>)"

definition Commands_logs ::
  "('n, 'z) runtime_scheme openapi_fetch \<Rightarrow> 'n fetch_impl \<Rightarrow> ('n, 'z) runtime_scheme TokenSource \<Rightarrow>
   ('n, 'z) runtime_scheme module_ref \<Rightarrow> jsval \<Rightarrow> jnum option \<Rightarrow> RequestOptions option \<Rightarrow>
   (('n, 'z) runtime_scheme, jsval) jio"
where
  "Commands_logs createClient impl sandbox this pid after opts =
     call createClient impl sandbox this
       \<lparr>operation = js ''GET /processes/{pid}/logs'', idempotent = True, options = opts\<rparr>
       (\<lambda>cl i. unwrapped cl ((api_op ''GET'' ''/processes/{pid}/logs'' i)
          \<lparr>ac_path_params := [(js ''pid'', pid)], ac_query := opt_field (js ''after'') JNum after\<rparr>))"

text \<open>\<open>page.items\<close>\<close>

definition page_items :: "('w, jsval) jio \<Rightarrow> ('w, jsval) jio" where
  "page_items m = bind_io m (\<lambda>page. lift_io (read_prop ''items'' page))"

definition Commands_listProcesses ::
  "('n, 'z) runtime_scheme openapi_fetch \<Rightarrow> 'n fetch_impl \<Rightarrow> ('n, 'z) runtime_scheme TokenSource \<Rightarrow>
   ('n, 'z) runtime_scheme module_ref \<Rightarrow> RequestOptions option \<Rightarrow> (('n, 'z) runtime_scheme, jsval) jio"
where
  "Commands_listProcesses createClient impl sandbox this opts =
     page_items (call createClient impl sandbox this
       \<lparr>operation = js ''GET /processes'', idempotent = True, options = opts\<rparr>
       (\<lambda>cl i. unwrapped cl (api_op ''GET'' ''/processes'' i)))"

definition Commands_kill ::
  "('n, 'z) runtime_scheme openapi_fetch \<Rightarrow> 'n fetch_impl \<Rightarrow> ('n, 'z) runtime_scheme TokenSource \<Rightarrow>
   ('n, 'z) runtime_scheme module_ref \<Rightarrow> jsval \<Rightarrow> jstr option \<Rightarrow> RequestOptions option \<Rightarrow>
   (('n, 'z) runtime_scheme, unit) jio"
where
  "Commands_kill createClient impl sandbox this pid sig opts =
     bind_io (call createClient impl sandbox this
       \<lparr>operation = js ''DELETE /processes/{pid}'', idempotent = True, options = opts\<rparr>
       (\<lambda>cl i. unwrapped cl ((api_op ''DELETE'' ''/processes/{pid}'' i)
          \<lparr>ac_path_params := [(js ''pid'', pid)], ac_query := opt_field (js ''signal'') JStr sig\<rparr>)))
       (\<lambda>_. ret ())"

definition streamOptions :: "dataplane_module \<Rightarrow> RequestOptions option \<Rightarrow> StreamOptions" where
  "streamOptions m opts =
     \<lparr>so_handshakeTimeoutMs =
        Some (with_default (requestTimeoutMs (requests m)) (Option.bind opts ro_requestTimeoutMs)),
      so_signal = Option.bind opts ro_signal\<rparr>"

text \<open>An attached stream: the socket the factory returned and the state of the event stream.\<close>

definition Commands_attach ::
  "host_parser \<Rightarrow> ('w, 'c) WebSocketFactory option \<Rightarrow> ('w, 'c) WebSocketFactory option \<Rightarrow>
   'w TokenSource \<Rightarrow> 'w module_ref \<Rightarrow> jsval \<Rightarrow> AttachProcessOptions option \<Rightarrow>
   ('w, 'c \<times> ProcessStreamEvent stream) jio"
where
  "Commands_attach parse_host global webSocket sandbox this pid opts w =
     (let after = JNum (with_default (Fin 0) (Option.bind opts ap_after)); m = mget this w
      in if \<not> isNonNegativeInteger after
         then Some (Inl (RangeError (js ''after must be a non-negative integer'')), w)
         else bind_io
           (openDataPlaneWebSocket parse_host global sandbox (agentPort m) webSocket
             (js ''/processes/'' @ to_string pid @ js ''/stream'') [(js ''after'', after)])
           (\<lambda>socket. ret (socket, new_StreamingEvents
              (Some (streamOptions m (map_option RequestOptions.truncate opts))))) w)"

section \<open>ProcessHandle\<close>

definition pid :: "ProcessHandle \<Rightarrow> exn + jsval" where
  "pid h = read_prop ''pid'' (ph_info h)"

text \<open>Each method reads \<open>this.pid\<close> first; \<open>refresh\<close> also yields the updated handle.\<close>

definition with_pid :: "ProcessHandle \<Rightarrow> (jsval \<Rightarrow> ('w, 'a) jio) \<Rightarrow> ('w, 'a) jio" where
  "with_pid h f = bind_io (lift_io (pid h)) f"

definition ProcessHandle_refresh ::
  "('n, 'z) runtime_scheme openapi_fetch \<Rightarrow> 'n fetch_impl \<Rightarrow> ('n, 'z) runtime_scheme TokenSource \<Rightarrow>
   ('n, 'z) runtime_scheme module_ref \<Rightarrow> ProcessHandle \<Rightarrow> RequestOptions option \<Rightarrow>
   (('n, 'z) runtime_scheme, ProcessHandle \<times> jsval) jio"
where
  "ProcessHandle_refresh createClient impl sandbox commands h opts =
     with_pid h (\<lambda>p. bind_io (Commands_getProcess createClient impl sandbox commands p opts)
       (\<lambda>info. ret (h\<lparr>ph_info := info\<rparr>, info)))"

definition ProcessHandle_logs ::
  "('n, 'z) runtime_scheme openapi_fetch \<Rightarrow> 'n fetch_impl \<Rightarrow> ('n, 'z) runtime_scheme TokenSource \<Rightarrow>
   ('n, 'z) runtime_scheme module_ref \<Rightarrow> ProcessHandle \<Rightarrow> jnum option \<Rightarrow> RequestOptions option \<Rightarrow>
   (('n, 'z) runtime_scheme, jsval) jio"
where
  "ProcessHandle_logs createClient impl sandbox commands h after opts =
     with_pid h (\<lambda>p. Commands_logs createClient impl sandbox commands p after opts)"

definition ProcessHandle_attach ::
  "host_parser \<Rightarrow> ('w, 'c) WebSocketFactory option \<Rightarrow> ('w, 'c) WebSocketFactory option \<Rightarrow>
   'w TokenSource \<Rightarrow> 'w module_ref \<Rightarrow> ProcessHandle \<Rightarrow> AttachProcessOptions option \<Rightarrow>
   ('w, 'c \<times> ProcessStreamEvent stream) jio"
where
  "ProcessHandle_attach parse_host global webSocket sandbox commands h opts =
     with_pid h (\<lambda>p. Commands_attach parse_host global webSocket sandbox commands p opts)"

definition ProcessHandle_kill ::
  "('n, 'z) runtime_scheme openapi_fetch \<Rightarrow> 'n fetch_impl \<Rightarrow> ('n, 'z) runtime_scheme TokenSource \<Rightarrow>
   ('n, 'z) runtime_scheme module_ref \<Rightarrow> ProcessHandle \<Rightarrow> jstr option \<Rightarrow> RequestOptions option \<Rightarrow>
   (('n, 'z) runtime_scheme, unit) jio"
where
  "ProcessHandle_kill createClient impl sandbox commands h sig opts =
     with_pid h (\<lambda>p. Commands_kill createClient impl sandbox commands p sig opts)"

section \<open>The event parser\<close>

lemma parseProcessStreamEvent_error:
  "parseProcessStreamEvent data = Inl e \<Longrightarrow> \<exists>m. e = StreamingProtocolError m"
  unfolding parseProcessStreamEvent_def
  by (auto split: sum.splits jsval.splits if_splits dest: parseJsonObject_error)

interpretation process_events: event_parser parseProcessStreamEvent
  by unfold_locales (rule parseProcessStreamEvent_error)

definition positive_integer :: "jnum \<Rightarrow> bool" where
  "positive_integer n \<longleftrightarrow> (\<exists>i > 0. n = Fin (of_int i))"

lemma is_integer_iff: "is_integer n \<longleftrightarrow> (\<exists>i. n = Fin (of_int i))"
  by (cases n) (auto simp: is_integer_def intro: exI [of _ "\<lfloor>r\<rfloor>" for r])

lemma isPositiveInteger_iff: "isPositiveInteger v \<longleftrightarrow> (\<exists>n. v = JNum n \<and> positive_integer n)"
  by (cases v) (auto simp: isPositiveInteger_def positive_integer_def is_integer_iff)

text \<open>What the SDK promises its callers of an event, and the frame the agent sends for it.\<close>

fun event_ok :: "ProcessStreamEvent \<Rightarrow> bool" where
  "event_ok (Stdout n d) = positive_integer n"
| "event_ok (Stderr n d) = positive_integer n"
| "event_ok (Exit n c) = (positive_integer n \<and> is_integer c)"
| "event_ok (Gap a b) = (positive_integer a \<and> positive_integer b)"

fun process_frame :: "ProcessStreamEvent \<Rightarrow> (string \<times> jsval) list" where
  "process_frame (Stdout n d) = [(''type'', jtext ''stdout''), (''sequence'', JNum n), (''data'', JStr d)]"
| "process_frame (Stderr n d) = [(''type'', jtext ''stderr''), (''sequence'', JNum n), (''data'', JStr d)]"
| "process_frame (Exit n c) = [(''type'', jtext ''exit''), (''sequence'', JNum n), (''exit_code'', JNum c)]"
| "process_frame (Gap a b) = [(''type'', jtext ''gap''), (''from_sequence'', JNum a), (''to_sequence'', JNum b)]"

text \<open>Numbers below \<open>10^21\<close> print without an exponent.\<close>

definition small :: "jnum \<Rightarrow> bool" where
  "small n \<longleftrightarrow> (case n of Fin r \<Rightarrow> \<bar>r\<bar> < 10 ^ 21 | _ \<Rightarrow> False)"

fun event_small :: "ProcessStreamEvent \<Rightarrow> bool" where
  "event_small (Stdout n d) = small n"
| "event_small (Stderr n d) = small n"
| "event_small (Exit n c) = (small n \<and> small c)"
| "event_small (Gap a b) = (small a \<and> small b)"

lemma json_data_int: "is_integer n \<Longrightarrow> small n \<Longrightarrow> json_data (JNum n)"
  by (auto simp: is_integer_iff small_def)

lemma positive_integer_is_integer: "positive_integer n \<Longrightarrow> is_integer n"
  by (auto simp: positive_integer_def is_integer_iff)

lemma parseJsonObject_text: "json_data (JObj fs) \<Longrightarrow> parseJsonObject (JStr (json_stringify (JObj fs))) = Inr fs"
  using json_round_trip [of "JObj fs"] by (simp add: parseJsonObject_def del: json_stringify.simps)

lemma member_jobj [simp]:
  "member (map (\<lambda>(k, v). (js k, v)) fs) k = (case map_of fs k of None \<Rightarrow> JUndefined | Some v \<Rightarrow> v)"
  by (simp add: member_def)

text \<open>What the process parser accepts is sound: an event it returns has positive whole sequence
  numbers and a whole exit code, and every member it reports is the member of that name in the
  JSON object the frame's text denotes.\<close>

theorem parseProcessStreamEvent_sound:
  assumes "parseProcessStreamEvent data = Inr (Some ev)"
  shows "event_ok ev \<and>
     (\<exists>text fs. data = JStr text \<and> json_parse text = Some (JObj fs) \<and>
        list_all (\<lambda>(k, v). member fs k = v) (process_frame ev))"
proof -
  obtain fs where fs: "parseJsonObject data = Inr fs"
    using assms by (auto simp: parseProcessStreamEvent_def split: sum.splits)
  then obtain body where "data = JStr body" "json_parse body = Some (JObj fs)"
    by (auto simp: parseJsonObject_def split: jsval.splits option.splits)
  moreover have "event_ok ev \<and> list_all (\<lambda>(k, v). member fs k = v) (process_frame ev)"
    using assms fs unfolding parseProcessStreamEvent_def
    by (auto simp: isPositiveInteger_iff split: jsval.splits if_splits)
  ultimately show ?thesis by blast
qed

theorem parseProcessStreamEvent_sound_witness:
  "event_ok (Exit (Fin 3) (Fin 0)) \<and>
   (\<exists>text fs. JStr (json_stringify (jobj (process_frame (Exit (Fin 3) (Fin 0))))) = JStr text \<and>
      json_parse text = Some (JObj fs) \<and>
      list_all (\<lambda>(k, v). member fs k = v) (process_frame (Exit (Fin 3) (Fin 0))))"
proof (rule parseProcessStreamEvent_sound)
  let ?fs = "map (\<lambda>(k, v). (js k, v)) (process_frame (Exit (Fin 3) (Fin 0)))"
  have "json_data (JObj ?fs)" by simp
  then have "parseJsonObject (JStr (json_stringify (JObj ?fs))) = Inr ?fs" by (rule parseJsonObject_text)
  then show "parseProcessStreamEvent (JStr (json_stringify (jobj (process_frame (Exit (Fin 3) (Fin 0)))))) =
      Inr (Some (Exit (Fin 3) (Fin 0)))"
    by (simp add: parseProcessStreamEvent_def jobj_def isPositiveInteger_def is_integer_def
        member_def del: json_stringify.simps)
qed

text \<open>C28: No valid event is refused: parsing the JSON text of an event's frame gives back the event,
  for every event with positive whole sequence numbers below \<open>10^21\<close>.\<close>

theorem parseProcessStreamEvent_round_trip:
  assumes "event_ok ev" and "event_small ev"
  shows "parseProcessStreamEvent (JStr (json_stringify (jobj (process_frame ev)))) = Inr (Some ev)"
proof -
  let ?fs = "map (\<lambda>(k, v). (js k, v)) (process_frame ev)"
  have "json_data (JObj ?fs)"
    using assms json_data_int positive_integer_is_integer by (cases ev) auto
  then have "parseJsonObject (JStr (json_stringify (JObj ?fs))) = Inr ?fs" by (rule parseJsonObject_text)
  then show ?thesis using assms
    by (cases ev) (simp_all add: parseProcessStreamEvent_def jobj_def isPositiveInteger_iff
        member_def del: json_stringify.simps)
qed

theorem parseProcessStreamEvent_round_trip_witness:
  "parseProcessStreamEvent (JStr (json_stringify (jobj (process_frame (Stdout (Fin 7) (js ''a\"b'')))))) =
     Inr (Some (Stdout (Fin 7) (js ''a\"b'')))"
  by (rule parseProcessStreamEvent_round_trip)
    (auto simp: positive_integer_def small_def intro: exI [of _ 7])

section \<open>Attaching\<close>

lemma set_params_single:
  "value \<noteq> JUndefined \<Longrightarrow> url_query u = [] \<Longrightarrow>
     set_params [(name, value)] u = u\<lparr>url_query := [(name, to_string value)]\<rparr>"
  by (simp add: set_params_def)

lemma form_text_after: "form_text (js ''after'') = js ''after''"
  by (rule form_text_plain) (auto simp: js_def form_plain_def)



text \<open>The control frames of an attached process say what was asked: on an open stream each of
  the four methods puts one frame on the wire, and parsing that frame's text gives back its type
  and its arguments.\<close>

theorem control_frames_round_trip:
  fixes st :: "ProcessStreamEvent stream"
  assumes "\<not> ended st" and "opened st" and "is_integer cols \<and> small cols" and "is_integer rows \<and> small rows"
  shows "\<exists>input stdin size sig.
     wire (sendInput data st) = wire st @ [input] \<and>
     json_parse input = Some (jobj [(''type'', jtext ''input''), (''data'', JStr data)]) \<and>
     wire (closeStdin st) = wire st @ [stdin] \<and>
     json_parse stdin = Some (jobj [(''type'', jtext ''close_stdin'')]) \<and>
     wire (resize cols rows st) = wire st @ [size] \<and>
     json_parse size =
       Some (jobj [(''type'', jtext ''resize''), (''cols'', JNum cols), (''rows'', JNum rows)]) \<and>
     wire (signal_process s st) = wire st @ [sig] \<and>
     json_parse sig = Some (jobj [(''type'', jtext ''signal''), (''signal'', JStr s)])"
proof -
  have posts: "wire (send_frame f st) = wire st @ [json_stringify f]" for f
    using assms(1,2) by (simp add: send_frame_def Let_def)
  have "json_data (JNum cols)" "json_data (JNum rows)"
    using assms(3,4) json_data_int by blast+
  then have data: "json_data (jobj [(''type'', jtext ''input''), (''data'', JStr data)])"
    "json_data (jobj [(''type'', jtext ''close_stdin'')])"
    "json_data (jobj [(''type'', jtext ''resize''), (''cols'', JNum cols), (''rows'', JNum rows)])"
    "json_data (jobj [(''type'', jtext ''signal''), (''signal'', JStr s)])"
    by (simp_all add: jobj_def)
  show ?thesis
    unfolding sendInput_def closeStdin_def resize_def signal_process_def posts
    using data [THEN json_round_trip] by blast
qed

theorem control_frames_round_trip_witness:
  "\<exists>input. wire (sendInput (js ''ls'') (onOpen (js ''fissionplane.v1'') (new_StreamingEvents None))) = [input] \<and>
     json_parse input = Some (jobj [(''type'', jtext ''input''), (''data'', jtext ''ls'')])"
  using control_frames_round_trip [of "onOpen (js ''fissionplane.v1'') (new_StreamingEvents None)" "Fin 80" "Fin 24"
      "js ''ls'' "]
  by (auto simp: onOpen_def clearHandshake_def new_StreamingEvents_def is_integer_def small_def)

end
