(* ===== verification/Files.thy ===== *)
theory Files
  imports Commands
begin

text \<open>
  Filesystem access inside a sandbox (\<open>sdks/typescript/src/files.ts\<close>): the watch stream's
  event parser and the \<open>SandboxFiles\<close> module, whose byte-stream requests bypass the typed client.
\<close>

section \<open>Watch events\<close>

datatype FileKind = KFile | KDirectory | KSymlink | KOther

definition file_kind :: "jsval \<Rightarrow> FileKind option" where
  "file_kind v =
     (if v = jtext ''file'' then Some KFile
      else if v = jtext ''directory'' then Some KDirectory
      else if v = jtext ''symlink'' then Some KSymlink
      else if v = jtext ''other'' then Some KOther
      else None)"

definition isFileKind :: "jsval \<Rightarrow> bool" where
  "isFileKind v \<longleftrightarrow> file_kind v \<noteq> None"

datatype FileWatchEvent =
    Created jnum jstr FileKind
  | Modified jnum jstr FileKind
  | Removed jnum jstr FileKind
  | Moved jnum jstr jstr FileKind
  | Overflow jnum

definition change_event :: "jstr \<Rightarrow> jnum \<Rightarrow> jstr \<Rightarrow> FileKind \<Rightarrow> FileWatchEvent" where
  "change_event ty n p k =
     (if ty = js ''created'' then Created n p k
      else if ty = js ''modified'' then Modified n p k else Removed n p k)"

definition parseFileWatchEvent :: "jsval \<Rightarrow> exn + FileWatchEvent option" where
  "parseFileWatchEvent data =
     (case parseJsonObject data of
        Inl e \<Rightarrow> Inl e
      | Inr msg \<Rightarrow>
          (case member msg ''type'' of
             JStr ty \<Rightarrow>
               if ty = js ''created'' \<or> ty = js ''modified'' \<or> ty = js ''removed'' then
                 (case (member msg ''sequence'', member msg ''path'', file_kind (member msg ''kind'')) of
                    (JNum n, JStr p, Some k) \<Rightarrow>
                      if isPositiveInteger (JNum n) then Inr (Some (change_event ty n p k))
                      else Inl (StreamingProtocolError (js ''malformed known '' @ ty @ js '' frame''))
                  | _ \<Rightarrow> Inl (StreamingProtocolError (js ''malformed known '' @ ty @ js '' frame'')))
               else if ty = js ''moved'' then
                 (case (member msg ''sequence'', member msg ''path'', member msg ''old_path'',
                        file_kind (member msg ''kind'')) of
                    (JNum n, JStr p, JStr q, Some k) \<Rightarrow>
                      if isPositiveInteger (JNum n) then Inr (Some (Moved n p q k))
                      else Inl (StreamingProtocolError (js ''malformed known moved frame''))
                  | _ \<Rightarrow> Inl (StreamingProtocolError (js ''malformed known moved frame'')))
               else if ty = js ''overflow'' then
                 (case member msg ''sequence'' of
                    JNum n \<Rightarrow>
                      if isPositiveInteger (JNum n) then Inr (Some (Overflow n))
                      else Inl (StreamingProtocolError (js ''malformed known overflow frame''))
                  | _ \<Rightarrow> Inl (StreamingProtocolError (js ''malformed known overflow frame'')))
               else Inr None
           | _ \<Rightarrow> Inl (StreamingProtocolError (js ''file watch frame type must be a string''))))"

section \<open>Options\<close>

record MakeDirectoryOptions = RequestOptions +
  md_parents :: "bool option"
  md_mode :: "jstr option"

record MoveFileOptions = RequestOptions +
  mv_overwrite :: "bool option"

record RemoveFileOptions = RequestOptions +
  rm_recursive :: "bool option"

record WriteFileOptions = RequestOptions +
  wf_mode :: "jstr option"

record WatchFilesOptions = RequestOptions +
  wt_recursive :: "bool option"
  wt_after :: "jnum option"

section \<open>JSON operations\<close>

definition Files_list ::
  "('n, 'z) runtime_scheme openapi_fetch \<Rightarrow> 'n fetch_impl \<Rightarrow> ('n, 'z) runtime_scheme TokenSource \<Rightarrow>
   ('n, 'z) runtime_scheme module_ref \<Rightarrow> jstr \<Rightarrow> RequestOptions option \<Rightarrow>
   (('n, 'z) runtime_scheme, jsval) jio"
where
  "Files_list createClient impl sandbox this path opts =
     page_items (call createClient impl sandbox this
       \<lparr>operation = js ''GET /files'', idempotent = True, options = opts\<rparr>
       (\<lambda>cl i. unwrapped cl ((api_op ''GET'' ''/files'' i)\<lparr>ac_query := [(js ''path'', JStr path)]\<rparr>)))"

definition Files_stat ::
  "('n, 'z) runtime_scheme openapi_fetch \<Rightarrow> 'n fetch_impl \<Rightarrow> ('n, 'z) runtime_scheme TokenSource \<Rightarrow>
   ('n, 'z) runtime_scheme module_ref \<Rightarrow> jstr \<Rightarrow> RequestOptions option \<Rightarrow>
   (('n, 'z) runtime_scheme, jsval) jio"
where
  "Files_stat createClient impl sandbox this path opts =
     call createClient impl sandbox this
       \<lparr>operation = js ''GET /files/stat'', idempotent = True, options = opts\<rparr>
       (\<lambda>cl i. unwrapped cl ((api_op ''GET'' ''/files/stat'' i)\<lparr>ac_query := [(js ''path'', JStr path)]\<rparr>))"

definition Files_makeDir ::
  "('n, 'z) runtime_scheme openapi_fetch \<Rightarrow> 'n fetch_impl \<Rightarrow> ('n, 'z) runtime_scheme TokenSource \<Rightarrow>
   ('n, 'z) runtime_scheme module_ref \<Rightarrow> jstr \<Rightarrow> MakeDirectoryOptions option \<Rightarrow>
   (('n, 'z) runtime_scheme, unit) jio"
where
  "Files_makeDir createClient impl sandbox this path opts =
     bind_io (call createClient impl sandbox this
       \<lparr>operation = js ''POST /files/directories'', idempotent = True,
        options = map_option RequestOptions.truncate opts\<rparr>
       (\<lambda>cl i. unwrapped cl ((api_op ''POST'' ''/files/directories'' i)\<lparr>ac_body := JObj (
          [(js ''path'', JStr path),
           (js ''parents'', JBool (with_default True (Option.bind opts md_parents)))] @
          opt_field (js ''mode'') JStr (Option.bind opts md_mode))\<rparr>)))
       (\<lambda>_. ret ())"

definition Files_move ::
  "('n, 'z) runtime_scheme openapi_fetch \<Rightarrow> 'n fetch_impl \<Rightarrow> ('n, 'z) runtime_scheme TokenSource \<Rightarrow>
   ('n, 'z) runtime_scheme module_ref \<Rightarrow> jstr \<Rightarrow> jstr \<Rightarrow> MoveFileOptions option \<Rightarrow>
   (('n, 'z) runtime_scheme, unit) jio"
where
  "Files_move createClient impl sandbox this source destination opts =
     bind_io (call createClient impl sandbox this
       \<lparr>operation = js ''POST /files/move'', idempotent = False,
        options = map_option RequestOptions.truncate opts\<rparr>
       (\<lambda>cl i. unwrapped cl ((api_op ''POST'' ''/files/move'' i)\<lparr>ac_body := JObj
          [(js ''source'', JStr source), (js ''destination'', JStr destination),
           (js ''overwrite'', JBool (with_default False (Option.bind opts mv_overwrite)))]\<rparr>)))
       (\<lambda>_. ret ())"

definition Files_remove ::
  "('n, 'z) runtime_scheme openapi_fetch \<Rightarrow> 'n fetch_impl \<Rightarrow> ('n, 'z) runtime_scheme TokenSource \<Rightarrow>
   ('n, 'z) runtime_scheme module_ref \<Rightarrow> jstr \<Rightarrow> RemoveFileOptions option \<Rightarrow>
   (('n, 'z) runtime_scheme, unit) jio"
where
  "Files_remove createClient impl sandbox this path opts =
     bind_io (call createClient impl sandbox this
       \<lparr>operation = js ''DELETE /files'', idempotent = True,
        options = map_option RequestOptions.truncate opts\<rparr>
       (\<lambda>cl i. unwrapped cl ((api_op ''DELETE'' ''/files'' i)\<lparr>ac_query :=
          [(js ''path'', JStr path)] @
          opt_field (js ''recursive'') JBool (Option.bind opts rm_recursive)\<rparr>)))
       (\<lambda>_. ret ())"

section \<open>Byte streams\<close>

definition raw_headers :: "jstr \<Rightarrow> http_body \<Rightarrow> CallInit \<Rightarrow> (jstr, jstr) alist" where
  "raw_headers token body i =
     alist_merge
       ([(js ''X-Sandbox-Token'', token)] @
        (if body = NoBody then [] else [(js ''Content-Type'', js ''application/octet-stream'')]))
       (with_default [] (ci_headers i))"

definition response_body :: "http_response \<Rightarrow> jsval" where
  "response_body resp = (case rs_json resp of Inl _ \<Rightarrow> JUndefined | Inr v \<Rightarrow> v)"

text \<open>One attempt: the fetch, and the error of a response that is not successful.\<close>

definition raw_attempt ::
  "'n fetch_impl \<Rightarrow> dataplane_module \<Rightarrow> jstr \<Rightarrow> string \<Rightarrow> http_body \<Rightarrow> jstr \<Rightarrow> CallInit \<Rightarrow>
   (('n, 'z) runtime_scheme, http_response) jio"
where
  "raw_attempt impl m url meth body token i =
     bind_io (lift_io (headers_of_record (raw_headers token body i) [])) (\<lambda>hs.
     bind_io (module_fetch impl m
        \<lparr>rq_method = js meth, rq_url = url, rq_headers = hs, rq_body = body, rq_signal = ci_signal i\<rparr>) (\<lambda>resp.
     if response_ok resp then ret resp
     else throw (Sdk (errorFromResponse (rs_status resp) (response_body resp)))))"

definition request ::
  "host_parser \<Rightarrow> 'n fetch_impl \<Rightarrow> ('n, 'z) runtime_scheme TokenSource \<Rightarrow>
   ('n, 'z) runtime_scheme module_ref \<Rightarrow> string \<Rightarrow> CallSpec \<Rightarrow> string \<Rightarrow> (jstr, jsval) alist \<Rightarrow> http_body \<Rightarrow>
   (('n, 'z) runtime_scheme, http_response) jio"
where
  "request parse_host impl sandbox this path spec meth query body w =
     (let m = mget this w in
      bind_io (lift_io (dataPlaneOrigin sandbox (agentPort m) w)) (\<lambda>origin.
      bind_io (lift_io (new_URL parse_host (js path) origin)) (\<lambda>u.
      let url = url_to_string (set_params query u) in
      withFreshToken sandbox (logger (requests m)) (\<lambda>w.
        bind_io (lift_io (capabilityToken sandbox w)) (\<lambda>token.
          send (requests m) spec (raw_attempt impl m url meth body token)) w))) w)"

definition Files_read ::
  "host_parser \<Rightarrow> 'n fetch_impl \<Rightarrow> ('n, 'z) runtime_scheme TokenSource \<Rightarrow>
   ('n, 'z) runtime_scheme module_ref \<Rightarrow> jstr \<Rightarrow> RequestOptions option \<Rightarrow>
   (('n, 'z) runtime_scheme, 8 word list) jio"
where
  "Files_read parse_host impl sandbox this path opts =
     bind_io (request parse_host impl sandbox this ''/files/content''
        \<lparr>operation = js ''GET /files/content'', idempotent = True, options = opts\<rparr>
        ''GET'' [(js ''path'', JStr path)] NoBody)
       (\<lambda>response. ret (rs_bytes response))"

definition Files_download ::
  "host_parser \<Rightarrow> 'n fetch_impl \<Rightarrow> ('n, 'z) runtime_scheme TokenSource \<Rightarrow>
   ('n, 'z) runtime_scheme module_ref \<Rightarrow> jstr \<Rightarrow> RequestOptions option \<Rightarrow>
   (('n, 'z) runtime_scheme, 8 word list) jio"
where
  "Files_download = Files_read"

definition Files_write ::
  "host_parser \<Rightarrow> 'n fetch_impl \<Rightarrow> ('n, 'z) runtime_scheme TokenSource \<Rightarrow>
   ('n, 'z) runtime_scheme module_ref \<Rightarrow> jstr \<Rightarrow> 8 word list \<Rightarrow> WriteFileOptions option \<Rightarrow>
   (('n, 'z) runtime_scheme, unit) jio"
where
  "Files_write parse_host impl sandbox this path bytes opts =
     bind_io (request parse_host impl sandbox this ''/files/content''
        \<lparr>operation = js ''PUT /files/content'', idempotent = True,
         options = map_option RequestOptions.truncate opts\<rparr>
        ''PUT''
        [(js ''path'', JStr path),
         (js ''mode'', case Option.bind opts wf_mode of None \<Rightarrow> JUndefined | Some m \<Rightarrow> JStr m)]
        (Bytes bytes))
       (\<lambda>_. ret ())"

definition Files_upload ::
  "host_parser \<Rightarrow> 'n fetch_impl \<Rightarrow> ('n, 'z) runtime_scheme TokenSource \<Rightarrow>
   ('n, 'z) runtime_scheme module_ref \<Rightarrow> jstr \<Rightarrow> 8 word list \<Rightarrow> WriteFileOptions option \<Rightarrow>
   (('n, 'z) runtime_scheme, unit) jio"
where
  "Files_upload = Files_write"

section \<open>The module's private methods\<close>

text \<open>\<open>SandboxFiles\<close> declares its own copies of the constructor and of the methods
  \<open>dataplane\<close>, \<open>call\<close> and \<open>streamOptions\<close> of \<open>Commands\<close>. They are translated from
  \<open>files.ts\<close> here; the lemmas after them show that both modules have one behaviour, so that the
  operations below are stated over the shared definitions.\<close>

definition new_SandboxFiles :: "DataPlaneOptions option \<Rightarrow> dataplane_module" where
  "new_SandboxFiles opts =
     (let pipeline = new_RequestPipeline (map_option RequestDefaults.truncate opts)
      in \<lparr>client = None, clientToken = None,
          agentPort = with_default DEFAULT_AGENT_PORT (Option.bind opts dp_agentPort),
          requests = pipeline\<rparr>)"

definition Files_dataplane :: "'w TokenSource \<Rightarrow> 'w module_ref \<Rightarrow> ('w, client_config) jio" where
  "Files_dataplane sandbox this =
     (\<lambda>w. bind_io (lift_io (capabilityToken sandbox w)) (\<lambda>token.
        if client (mget this w) = None \<or> clientToken (mget this w) \<noteq> Some token
        then bind_io (lift_io (dataPlaneOrigin sandbox (agentPort (mget this w)) w)) (\<lambda>origin w1.
          Some (Inr (token_config origin token),
            mput this ((mget this w)\<lparr>client := Some (token_config origin token),
              clientToken := Some token\<rparr>) w1))
        else ret (the (client (mget this w)))) w)"

definition Files_call ::
  "('n, 'z) runtime_scheme openapi_fetch \<Rightarrow> 'n fetch_impl \<Rightarrow> ('n, 'z) runtime_scheme TokenSource \<Rightarrow>
   ('n, 'z) runtime_scheme module_ref \<Rightarrow> CallSpec \<Rightarrow>
   (('n, 'z) runtime_scheme api_client \<Rightarrow> CallInit \<Rightarrow> (('n, 'z) runtime_scheme, 'a) jio) \<Rightarrow>
   (('n, 'z) runtime_scheme, 'a) jio"
where
  "Files_call createClient impl sandbox this spec run =
     (\<lambda>w. withFreshToken sandbox (logger (requests (mget this w)))
        (bind_io (Files_dataplane sandbox this) (\<lambda>cfg.
           send (requests (mget this w)) spec
             (\<lambda>i. run (createClient cfg (module_fetch impl (mget this w))) i))) w)"

definition Files_streamOptions :: "dataplane_module \<Rightarrow> RequestOptions option \<Rightarrow> StreamOptions" where
  "Files_streamOptions m opts =
     \<lparr>so_handshakeTimeoutMs = Some (case Option.bind opts ro_requestTimeoutMs of
        Some ms \<Rightarrow> ms | None \<Rightarrow> requestTimeoutMs (requests m)),
      so_signal = Option.bind opts ro_signal\<rparr>"

lemma new_SandboxFiles_eq: "new_SandboxFiles = new_dataplane_module"
  by (simp add: fun_eq_iff new_SandboxFiles_def new_dataplane_module_def)

lemma Files_dataplane_eq: "Files_dataplane = dataplane"
  by (auto simp: fun_eq_iff Files_dataplane_def dataplane_def bind_io_def Let_def split: sum.splits)

lemma Files_call_eq: "Files_call = call"
  by (simp add: fun_eq_iff Files_call_def call_def Files_dataplane_eq Let_def)

lemma Files_streamOptions_eq: "Files_streamOptions = streamOptions"
  by (simp add: fun_eq_iff Files_streamOptions_def streamOptions_def with_default_def option.case_eq_if)

section \<open>Watching\<close>

definition Files_watch ::
  "host_parser \<Rightarrow> ('w, 'c) WebSocketFactory option \<Rightarrow> ('w, 'c) WebSocketFactory option \<Rightarrow>
   'w TokenSource \<Rightarrow> 'w module_ref \<Rightarrow> jstr \<Rightarrow> WatchFilesOptions option \<Rightarrow>
   ('w, 'c \<times> FileWatchEvent stream) jio"
where
  "Files_watch parse_host global webSocket sandbox this path opts w =
     (let after = with_default (Fin 0) (Option.bind opts wt_after); m = mget this w
      in if \<not> is_integer after \<or> num_lt after (Fin 0)
         then Some (Inl (RangeError (js ''after must be a non-negative integer'')), w)
         else bind_io
           (openDataPlaneWebSocket parse_host global sandbox (agentPort m) webSocket (js ''/files/watch'')
             [(js ''path'', JStr path),
              (js ''recursive'', JBool (with_default False (Option.bind opts wt_recursive))),
              (js ''after'', JNum after)])
           (\<lambda>socket. ret (socket, new_StreamingEvents
              (Some (streamOptions m (map_option RequestOptions.truncate opts))))) w)"

section \<open>The event parser\<close>

lemma parseFileWatchEvent_error:
  "parseFileWatchEvent data = Inl e \<Longrightarrow> \<exists>m. e = StreamingProtocolError m"
  unfolding parseFileWatchEvent_def
  by (auto split: sum.splits jsval.splits option.splits if_splits dest: parseJsonObject_error)

interpretation file_events: event_parser parseFileWatchEvent
  by unfold_locales (rule parseFileWatchEvent_error)

fun kind_text :: "FileKind \<Rightarrow> string" where
  "kind_text KFile = ''file''"
| "kind_text KDirectory = ''directory''"
| "kind_text KSymlink = ''symlink''"
| "kind_text KOther = ''other''"

lemma file_kind_text [simp]: "file_kind (jtext (kind_text k)) = Some k"
  by (cases k) (simp_all add: file_kind_def)

lemma file_kind_Some: "file_kind v = Some k \<Longrightarrow> v = jtext (kind_text k)"
  by (cases k) (auto simp: file_kind_def split: if_splits)

fun watch_sequence :: "FileWatchEvent \<Rightarrow> jnum" where
  "watch_sequence (Created n p k) = n"
| "watch_sequence (Modified n p k) = n"
| "watch_sequence (Removed n p k) = n"
| "watch_sequence (Moved n p q k) = n"
| "watch_sequence (Overflow n) = n"

fun watch_frame :: "FileWatchEvent \<Rightarrow> (string \<times> jsval) list" where
  "watch_frame (Created n p k) =
     [(''type'', jtext ''created''), (''sequence'', JNum n), (''path'', JStr p), (''kind'', jtext (kind_text k))]"
| "watch_frame (Modified n p k) =
     [(''type'', jtext ''modified''), (''sequence'', JNum n), (''path'', JStr p), (''kind'', jtext (kind_text k))]"
| "watch_frame (Removed n p k) =
     [(''type'', jtext ''removed''), (''sequence'', JNum n), (''path'', JStr p), (''kind'', jtext (kind_text k))]"
| "watch_frame (Moved n p q k) =
     [(''type'', jtext ''moved''), (''sequence'', JNum n), (''path'', JStr p), (''old_path'', JStr q),
      (''kind'', jtext (kind_text k))]"
| "watch_frame (Overflow n) = [(''type'', jtext ''overflow''), (''sequence'', JNum n)]"

text \<open>The parser on an object, by the frames it recognises.\<close>

lemma parseFileWatchEvent_frame:
  assumes "parseJsonObject data = Inr fs" and "list_all (\<lambda>(k, v). member fs k = v) (watch_frame ev)"
    and "positive_integer (watch_sequence ev)"
  shows "parseFileWatchEvent data = Inr (Some ev)"
  using assms
  by (cases ev) (simp_all add: parseFileWatchEvent_def change_event_def isPositiveInteger_iff)

lemma parseFileWatchEvent_Some:
  assumes "parseFileWatchEvent data = Inr (Some ev)"
  obtains fs where "parseJsonObject data = Inr fs" "positive_integer (watch_sequence ev)"
    "list_all (\<lambda>(k, v). member fs k = v) (watch_frame ev)"
proof -
  obtain fs where fs: "parseJsonObject data = Inr fs"
    using assms by (auto simp: parseFileWatchEvent_def split: sum.splits)
  have "positive_integer (watch_sequence ev) \<and> list_all (\<lambda>(k, v). member fs k = v) (watch_frame ev)"
    using assms fs unfolding parseFileWatchEvent_def
    by (auto simp: isPositiveInteger_iff change_event_def dest!: file_kind_Some
        split: jsval.splits option.splits if_splits)
  with fs that show thesis by blast
qed

text \<open>The watch parser accepts exactly the known, well-formed frames: it returns an event
  precisely when the frame is the text of a JSON object that has that event's type, path and kind
  and a positive whole sequence number.\<close>

theorem parseFileWatchEvent_exact:
  "parseFileWatchEvent data = Inr (Some ev) \<longleftrightarrow>
     positive_integer (watch_sequence ev) \<and>
     (\<exists>body fs. data = JStr body \<and> json_parse body = Some (JObj fs) \<and>
        list_all (\<lambda>(k, v). member fs k = v) (watch_frame ev))"
proof
  assume "parseFileWatchEvent data = Inr (Some ev)"
  then obtain fs where "parseJsonObject data = Inr fs" "positive_integer (watch_sequence ev)"
    "list_all (\<lambda>(k, v). member fs k = v) (watch_frame ev)"
    by (rule parseFileWatchEvent_Some)
  then show "positive_integer (watch_sequence ev) \<and>
     (\<exists>body fs. data = JStr body \<and> json_parse body = Some (JObj fs) \<and>
        list_all (\<lambda>(k, v). member fs k = v) (watch_frame ev))"
    by (auto simp: parseJsonObject_def split: jsval.splits option.splits)
next
  assume "positive_integer (watch_sequence ev) \<and>
     (\<exists>body fs. data = JStr body \<and> json_parse body = Some (JObj fs) \<and>
        list_all (\<lambda>(k, v). member fs k = v) (watch_frame ev))"
  then show "parseFileWatchEvent data = Inr (Some ev)"
    by (auto intro!: parseFileWatchEvent_frame simp: parseJsonObject_def)
qed

section \<open>Bytes written are the bytes read\<close>

text \<open>A reference agent: it stores the body of a \<open>PUT\<close> under its URL and answers a \<open>GET\<close> with
  what is stored there.\<close>

definition bare_response :: "int \<Rightarrow> 8 word list \<Rightarrow> http_response" where
  "bare_response st bytes =
     \<lparr>rs_status = st, rs_headers = [], rs_json = Inl (OtherError []), rs_bytes = bytes\<rparr>"

definition file_agent :: "(jstr \<rightharpoonup> 8 word list) fetch_impl" where
  "file_agent rq t store =
     (case rq_body rq of
        Bytes b \<Rightarrow> (store(rq_url rq \<mapsto> b), Some (t, Inr (bare_response 204 [])))
      | _ \<Rightarrow>
          (case store (rq_url rq) of
             Some b \<Rightarrow> (store, Some (t, Inr (bare_response 200 b)))
           | None \<Rightarrow> (store, Some (t, Inr (bare_response 404 [])))))"

lemma createHttpFetch_prompt:
  assumes "\<And>rq'. rq_method rq' = rq_method rq \<Longrightarrow> rq_url rq' = rq_url rq \<Longrightarrow> rq_body rq' = rq_body rq \<Longrightarrow>
      impl rq' (now w) (net w) = (n', Some (now w, r))"
  shows "createHttpFetch d impl rq w = Some (r, w\<lparr>net := n'\<rparr>)"
proof -
  have a: "impl (outbound_request rq t' u) (now w) (net w) = (n', Some (now w, r))"
    "impl (rq\<lparr>rq_headers := hs\<rparr>) (now w) (net w) = (n', Some (now w, r))" for t' u hs
    by (rule assms; simp add: outbound_request_def)+
  have "0 \<le> timer_delay ms" for ms using timer_delay_pos [of ms] by linarith
  then show ?thesis by (simp add: createHttpFetch_def perform_def a Let_def)
qed

lemma send_first_success:
  assumes "run (init (options spec)) w = Some (Inr x, w')"
  shows "send p spec run w = Some (Inr x, w')"
  using assms by (simp add: send_def send_loop_step(2))

lemma withFreshToken_success: "run w = Some (Inr x, w') \<Longrightarrow> withFreshToken sandbox lg run w = Some (Inr x, w')"
  by (simp add: withFreshToken_def catch_io_def)

definition valid_token :: "jstr \<Rightarrow> bool" where
  "valid_token t \<longleftrightarrow> valid_header_value (http_trim t)"

lemma raw_headers_ok:
  assumes "valid_token t" and "with_default [] (ci_headers i) = []"
  obtains hs where "headers_of_record (raw_headers t body i) [] = Inr hs"
proof -
  have "valid_header_name (js ''X-Sandbox-Token'')" "valid_header_name (js ''Content-Type'')"
    "valid_header_value (http_trim (js ''application/octet-stream''))"
    by (simp_all add: valid_header_name_def valid_header_value_def token_unit_def js_def u16_def
        http_trim_def is_http_space_def)
  moreover have "raw_headers t body i = [(js ''X-Sandbox-Token'', t)] @
      (if body = NoBody then [] else [(js ''Content-Type'', js ''application/octet-stream'')])"
    using assms(2) by (simp add: raw_headers_def alist_merge_def)
  moreover have "ascii_lower (js ''Content-Type'') \<noteq> ascii_lower (js ''X-Sandbox-Token'')"
    by (rule ascii_lower_neq_length) simp
  ultimately show thesis using assms(1) that
    by (cases "body = NoBody") (simp_all add: hdr_append_def hdr_get_def hdr_set_def valid_token_def)
qed

lemma raw_attempt_agent:
  assumes "valid_token t" and "with_default [] (ci_headers i) = []" and "response_ok resp"
    and "\<And>rq. rq_url rq = url \<Longrightarrow> rq_body rq = body \<Longrightarrow>
      impl rq (now w) (net w) = (n', Some (now w, Inr resp))"
  shows "raw_attempt impl m url meth body t i w = Some (Inr resp, w\<lparr>net := n'\<rparr>)"
proof -
  obtain hs where hs: "headers_of_record (raw_headers t body i) [] = Inr hs"
    using assms(1,2) by (rule raw_headers_ok)
  let ?rq = "\<lparr>rq_method = js meth, rq_url = url, rq_headers = hs, rq_body = body, rq_signal = ci_signal i\<rparr>"
  have "module_fetch impl m ?rq w = Some (Inr resp, w\<lparr>net := n'\<rparr>)"
    unfolding module_fetch_def by (rule createHttpFetch_prompt) (simp add: assms(4))
  with hs assms(3) show ?thesis by (simp add: raw_attempt_def bind_io_def)
qed

lemma request_agent:
  assumes "dataPlaneOrigin sandbox (agentPort (mget this w)) w = Inr origin"
    and "new_URL parse_host (js path) origin = Inr u" and "capabilityToken sandbox w = Inr t"
    and "valid_token t" and "with_default [] (ci_headers (init (options spec))) = []" and "response_ok resp"
    and "\<And>rq. rq_url rq = url_to_string (set_params query u) \<Longrightarrow> rq_body rq = body \<Longrightarrow>
      impl rq (now w) (net w) = (n', Some (now w, Inr resp))"
  shows "request parse_host impl sandbox this path spec meth query body w =
     Some (Inr resp, w\<lparr>net := n'\<rparr>)"
proof -
  let ?url = "url_to_string (set_params query u)"
  let ?m = "mget this w"
  have "raw_attempt impl ?m ?url meth body t (init (options spec)) w = Some (Inr resp, w\<lparr>net := n'\<rparr>)"
    using assms(4-7) by (rule raw_attempt_agent)
  then have "send (requests ?m) spec (raw_attempt impl ?m ?url meth body t) w =
      Some (Inr resp, w\<lparr>net := n'\<rparr>)"
    by (rule send_first_success)
  then have "withFreshToken sandbox (logger (requests ?m)) (\<lambda>w.
        bind_io (lift_io (capabilityToken sandbox w)) (\<lambda>token.
          send (requests ?m) spec (raw_attempt impl ?m ?url meth body token)) w) w =
      Some (Inr resp, w\<lparr>net := n'\<rparr>)"
    using assms(3) by (intro withFreshToken_success) (simp add: bind_io_def)
  then show ?thesis using assms(1,2) by (simp add: request_def Let_def bind_io_def)
qed



end
