(* ===== verification/Ports.thy ===== *)
theory Ports
  imports Commands
begin

text \<open>
  Port exposure records of one sandbox (\<open>sdks/typescript/src/ports.ts\<close>), on the control plane.
\<close>

record SandboxPorts =
  sp_sandboxId :: jsval
  sp_requests :: RequestPipeline

definition new_SandboxPorts :: "jsval \<Rightarrow> RequestDefaults option \<Rightarrow> SandboxPorts" where
  "new_SandboxPorts sandboxId defaults =
     \<lparr>sp_sandboxId = sandboxId, sp_requests = new_RequestPipeline defaults\<rparr>"

definition Ports_list ::
  "('n, 'z) runtime_scheme api_client \<Rightarrow> SandboxPorts \<Rightarrow> RequestOptions option \<Rightarrow>
   (('n, 'z) runtime_scheme, jsval) jio"
where
  "Ports_list api this opts =
     page_items (send (sp_requests this)
       \<lparr>operation = js ''GET /v1/sandboxes/{sandboxId}/ports'', idempotent = True, options = opts\<rparr>
       (\<lambda>i. unwrapped api ((api_op ''GET'' ''/v1/sandboxes/{sandboxId}/ports'' i)
          \<lparr>ac_path_params := [(js ''sandboxId'', sp_sandboxId this)]\<rparr>)))"

definition Ports_expose ::
  "('n, 'z) runtime_scheme api_client \<Rightarrow> SandboxPorts \<Rightarrow> jnum \<Rightarrow> jstr \<Rightarrow> RequestOptions option \<Rightarrow>
   (('n, 'z) runtime_scheme, jsval) jio"
where
  "Ports_expose api this port visibility opts =
     send (sp_requests this)
       \<lparr>operation = js ''PUT /v1/sandboxes/{sandboxId}/ports/{port}'', idempotent = True, options = opts\<rparr>
       (\<lambda>i. unwrapped api ((api_op ''PUT'' ''/v1/sandboxes/{sandboxId}/ports/{port}'' i)
          \<lparr>ac_path_params := [(js ''sandboxId'', sp_sandboxId this), (js ''port'', JNum port)],
           ac_body := jobj [(''visibility'', JStr visibility)]\<rparr>))"

definition Ports_unexpose ::
  "('n, 'z) runtime_scheme api_client \<Rightarrow> SandboxPorts \<Rightarrow> jnum \<Rightarrow> RequestOptions option \<Rightarrow>
   (('n, 'z) runtime_scheme, unit) jio"
where
  "Ports_unexpose api this port opts =
     bind_io (send (sp_requests this)
       \<lparr>operation = js ''DELETE /v1/sandboxes/{sandboxId}/ports/{port}'', idempotent = True, options = opts\<rparr>
       (\<lambda>i. unwrapped api ((api_op ''DELETE'' ''/v1/sandboxes/{sandboxId}/ports/{port}'' i)
          \<lparr>ac_path_params := [(js ''sandboxId'', sp_sandboxId this), (js ''port'', JNum port)]\<rparr>)))
       (\<lambda>_. ret ())"

end
