(* ===== verification/Sandbox.thy ===== *)
theory Sandbox
  imports Files Ports
begin

text \<open>
  Sandbox handles and the sandbox collection (\<open>sdks/typescript/src/sandbox.ts\<close>).

  A \<open>Sandbox\<close> is the record of the handle's fields with the state of its three modules. The
  methods of a handle run in a \<open>sandbox_world\<close>, the runtime extended by the handle they are
  called on (\<open>self\<close>), so that assignments to \<open>this.info\<close> and \<open>this.token\<close> are updates of the
  world. \<open>sandbox_source\<close> is the handle as the \<open>TokenSource\<close> of its data-plane modules.
\<close>

section \<open>Data\<close>

record Sandbox =
  sb_info :: jsval
  sb_token :: jsval
  sb_requests :: RequestPipeline
  sb_ports :: SandboxPorts
  sb_commands :: dataplane_module
  sb_files :: dataplane_module

record 'n sandbox_world = "'n runtime" +
  self :: Sandbox

definition new_Sandbox :: "jsval \<Rightarrow> jsval \<Rightarrow> DataPlaneOptions option \<Rightarrow> exn + Sandbox" where
  "new_Sandbox info token opts =
     (case read_prop ''sandbox_id'' info of
        Inl e \<Rightarrow> Inl e
      | Inr sid \<Rightarrow>
          (let defaults = map_option RequestDefaults.truncate opts
           in Inr \<lparr>sb_info = info, sb_token = token, sb_requests = new_RequestPipeline defaults,
                sb_ports = new_SandboxPorts sid defaults,
                sb_commands = new_dataplane_module opts, sb_files = new_dataplane_module opts\<rparr>))"

record ResumeSandboxOptions = RequestOptions +
  rs_deadlineSeconds :: "jnum option"

record MintTokenOptions = RequestOptions +
  mt_ttlSeconds :: "jnum option"
  mt_ports :: "jnum list option"

record CreateSandboxOptions = RequestOptions +
  cs_idempotencyKey :: "jstr option"

record ListSandboxesOptions = RequestOptions +
  ls_state :: "jstr option"
  ls_name :: "jstr option"
  ls_metadata :: "(jstr, jstr) alist option"
  ls_limit :: "jnum option"
  ls_cursor :: jsval

section \<open>The handle\<close>

definition sandboxId :: "Sandbox \<Rightarrow> exn + jsval" where
  "sandboxId sb = read_prop ''sandbox_id'' (sb_info sb)"

definition hostname :: "jnum \<Rightarrow> Sandbox \<Rightarrow> exn + jstr" where
  "hostname port sb =
     (case interp_prop ''sandbox_id'' (sb_info sb) of
        Inl e \<Rightarrow> Inl e
      | Inr sid \<Rightarrow>
          (case interp_prop ''domain'' (sb_info sb) of
             Inl e \<Rightarrow> Inl e
           | Inr domain \<Rightarrow> Inr (num_to_string port @ js ''-'' @ sid @ js ''.'' @ domain)))"

definition set_info :: "jsval \<Rightarrow> ('n sandbox_world, unit) jio" where
  "set_info info w = Some (Inr (), w\<lparr>self := (self w)\<lparr>sb_info := info\<rparr>\<rparr>)"

definition set_token :: "jsval \<Rightarrow> ('n sandbox_world, unit) jio" where
  "set_token token w = Some (Inr (), w\<lparr>self := (self w)\<lparr>sb_token := token\<rparr>\<rparr>)"

text \<open>One attempt of a control-plane operation on this sandbox; \<open>this.sandboxId\<close> is read in it.\<close>

definition sandbox_attempt ::
  "'n sandbox_world api_client \<Rightarrow> string \<Rightarrow> string \<Rightarrow> jsval \<Rightarrow> CallInit \<Rightarrow> ('n sandbox_world, jsval) jio"
where
  "sandbox_attempt api meth path body i w =
     (case sandboxId (self w) of
        Inl e \<Rightarrow> Some (Inl e, w)
      | Inr sid \<Rightarrow>
          unwrapped api ((api_op meth path i)
            \<lparr>ac_path_params := [(js ''sandboxId'', sid)], ac_body := body\<rparr>) w)"

definition sandbox_send ::
  "'n sandbox_world api_client \<Rightarrow> string \<Rightarrow> string \<Rightarrow> bool \<Rightarrow> jsval \<Rightarrow> RequestOptions option \<Rightarrow>
   ('n sandbox_world, jsval) jio"
where
  "sandbox_send api meth path idem body opts w =
     send (sb_requests (self w))
       \<lparr>operation = js (meth @ '' '' @ path), idempotent = idem, options = opts\<rparr>
       (sandbox_attempt api meth path body) w"

definition Sandbox_refresh ::
  "'n sandbox_world api_client \<Rightarrow> RequestOptions option \<Rightarrow> ('n sandbox_world, jsval) jio"
where
  "Sandbox_refresh api opts =
     bind_io (sandbox_send api ''GET'' ''/v1/sandboxes/{sandboxId}'' True JUndefined opts)
       (\<lambda>info. bind_io (set_info info) (\<lambda>_. ret info))"

definition Sandbox_pause ::
  "'n sandbox_world api_client \<Rightarrow> RequestOptions option \<Rightarrow> ('n sandbox_world, jsval) jio"
where
  "Sandbox_pause api opts =
     bind_io (sandbox_send api ''POST'' ''/v1/sandboxes/{sandboxId}/pause'' False JUndefined opts)
       (\<lambda>info. bind_io (set_info info) (\<lambda>_. ret info))"

definition Sandbox_resume ::
  "'n sandbox_world api_client \<Rightarrow> ResumeSandboxOptions option \<Rightarrow> ('n sandbox_world, jsval) jio"
where
  "Sandbox_resume api opts =
     bind_io (sandbox_send api ''POST'' ''/v1/sandboxes/{sandboxId}/resume'' False
         (JObj (opt_field (js ''deadline_seconds'') JNum (Option.bind opts rs_deadlineSeconds)))
         (map_option RequestOptions.truncate opts)) (\<lambda>result.
     bind_io (lift_io (read_prop ''sandbox'' result)) (\<lambda>info.
     bind_io (set_info info) (\<lambda>_.
     bind_io (lift_io (read_prop ''token'' result)) (\<lambda>token.
     bind_io (set_token token) (\<lambda>_. ret info)))))"

definition Sandbox_extendDeadline ::
  "'n sandbox_world api_client \<Rightarrow> jnum \<Rightarrow> RequestOptions option \<Rightarrow> ('n sandbox_world, jsval) jio"
where
  "Sandbox_extendDeadline api deadlineSeconds opts =
     bind_io (sandbox_send api ''POST'' ''/v1/sandboxes/{sandboxId}/deadline'' False
         (jobj [(''deadline_seconds'', JNum deadlineSeconds)]) opts)
       (\<lambda>info. bind_io (set_info info) (\<lambda>_. ret info))"

definition Sandbox_mintToken ::
  "'n sandbox_world api_client \<Rightarrow> MintTokenOptions option \<Rightarrow> ('n sandbox_world, jsval) jio"
where
  "Sandbox_mintToken api opts =
     bind_io (sandbox_send api ''POST'' ''/v1/sandboxes/{sandboxId}/token'' False
         (JObj (opt_field (js ''ttl_seconds'') JNum (Option.bind opts mt_ttlSeconds) @
                opt_field (js ''ports'') (\<lambda>ps. JArr (map JNum ps)) (Option.bind opts mt_ports)))
         (map_option RequestOptions.truncate opts))
       (\<lambda>token. bind_io (set_token token) (\<lambda>_. ret token))"

definition Sandbox_delete ::
  "'n sandbox_world api_client \<Rightarrow> RequestOptions option \<Rightarrow> ('n sandbox_world, unit) jio"
where
  "Sandbox_delete api opts =
     bind_io (sandbox_send api ''DELETE'' ''/v1/sandboxes/{sandboxId}'' True JUndefined opts) (\<lambda>_. ret ())"

section \<open>The handle as a token source\<close>

definition sandbox_source :: "'n sandbox_world api_client \<Rightarrow> 'n sandbox_world TokenSource" where
  "sandbox_source api =
     \<lparr>ts_info = (\<lambda>w. sb_info (self w)), ts_token = (\<lambda>w. sb_token (self w)),
      ts_mintToken = Some (Sandbox_mintToken api None)\<rparr>"

definition commands_ref :: "'n sandbox_world module_ref" where
  "commands_ref =
     \<lparr>mget = (\<lambda>w. sb_commands (self w)), mput = (\<lambda>m w. w\<lparr>self := (self w)\<lparr>sb_commands := m\<rparr>\<rparr>)\<rparr>"

definition files_ref :: "'n sandbox_world module_ref" where
  "files_ref =
     \<lparr>mget = (\<lambda>w. sb_files (self w)), mput = (\<lambda>m w. w\<lparr>self := (self w)\<lparr>sb_files := m\<rparr>\<rparr>)\<rparr>"

lemma sandbox_source_sel [simp]:
  "ts_info (sandbox_source api) w = sb_info (self w)"
  "ts_token (sandbox_source api) w = sb_token (self w)"
  "ts_mintToken (sandbox_source api) = Some (Sandbox_mintToken api None)"
  by (simp_all add: sandbox_source_def)

lemma module_ref_sel [simp]:
  "mget commands_ref w = sb_commands (self w)"
  "mput commands_ref m w = w\<lparr>self := (self w)\<lparr>sb_commands := m\<rparr>\<rparr>"
  "mget files_ref w = sb_files (self w)"
  "mput files_ref m w = w\<lparr>self := (self w)\<lparr>sb_files := m\<rparr>\<rparr>"
  by (simp_all add: commands_ref_def files_ref_def)

interpretation commands_state: module_state "sandbox_source api" commands_ref for api
  by unfold_locales (simp_all add: sandbox_source_def commands_ref_def)

interpretation files_state: module_state "sandbox_source api" files_ref for api
  by unfold_locales (simp_all add: sandbox_source_def files_ref_def)

section \<open>The collection\<close>

record Sandboxes =
  sx_options :: "DataPlaneOptions option"
  sx_requests :: RequestPipeline

definition new_Sandboxes :: "DataPlaneOptions option \<Rightarrow> Sandboxes" where
  "new_Sandboxes opts =
     \<lparr>sx_options = opts, sx_requests = new_RequestPipeline (map_option RequestDefaults.truncate opts)\<rparr>"

definition Sandboxes_create ::
  "('n, 'z) runtime_scheme api_client \<Rightarrow> Sandboxes \<Rightarrow> jsval \<Rightarrow> CreateSandboxOptions option \<Rightarrow>
   (('n, 'z) runtime_scheme, Sandbox) jio"
where
  "Sandboxes_create api this body opts =
     bind_io (send (sx_requests this)
       \<lparr>operation = js ''POST /v1/sandboxes'',
        idempotent = (Option.bind opts cs_idempotencyKey \<noteq> None),
        options = map_option RequestOptions.truncate opts\<rparr>
       (\<lambda>i. unwrapped api ((api_op ''POST'' ''/v1/sandboxes'' i)
          \<lparr>ac_header_params := opt_field (js ''Idempotency-Key'') id (Option.bind opts cs_idempotencyKey),
           ac_body := body\<rparr>))) (\<lambda>result.
     bind_io (lift_io (read_prop ''sandbox'' result)) (\<lambda>info.
     bind_io (lift_io (read_prop ''token'' result)) (\<lambda>token.
     lift_io (new_Sandbox info token (sx_options this)))))"

definition Sandboxes_get ::
  "('n, 'z) runtime_scheme api_client \<Rightarrow> Sandboxes \<Rightarrow> jstr \<Rightarrow> RequestOptions option \<Rightarrow>
   (('n, 'z) runtime_scheme, Sandbox) jio"
where
  "Sandboxes_get api this sid opts =
     bind_io (send (sx_requests this)
       \<lparr>operation = js ''GET /v1/sandboxes/{sandboxId}'', idempotent = True, options = opts\<rparr>
       (\<lambda>i. unwrapped api ((api_op ''GET'' ''/v1/sandboxes/{sandboxId}'' i)
          \<lparr>ac_path_params := [(js ''sandboxId'', JStr sid)]\<rparr>)))
       (\<lambda>info. lift_io (new_Sandbox info JUndefined (sx_options this)))"

text \<open>\<open>page.items.map(...)\<close>: anything but an array raises.\<close>

fun new_handles :: "DataPlaneOptions option \<Rightarrow> jsval list \<Rightarrow> exn + Sandbox list" where
  "new_handles opts [] = Inr []"
| "new_handles opts (info # infos) =
     (case new_Sandbox info JUndefined opts of
        Inl e \<Rightarrow> Inl e
      | Inr sb \<Rightarrow> map_sum id ((#) sb) (new_handles opts infos))"

definition map_items :: "DataPlaneOptions option \<Rightarrow> jsval \<Rightarrow> exn + Sandbox list" where
  "map_items opts v =
     (case v of
        JArr infos \<Rightarrow> new_handles opts infos
      | _ \<Rightarrow> Inl (TypeError (js ''page.items.map is not a function'')))"

record sandbox_page =
  pg_items :: "Sandbox list"
  pg_nextCursor :: jsval

definition list_query :: "ListSandboxesOptions option \<Rightarrow> (jstr, jsval) alist" where
  "list_query opts =
     opt_field (js ''state'') JStr (Option.bind opts ls_state) @
     opt_field (js ''name'') JStr (Option.bind opts ls_name) @
     opt_field (js ''metadata'') (\<lambda>md. JStr (form_urlencode md)) (Option.bind opts ls_metadata) @
     opt_field (js ''limit'') JNum (Option.bind opts ls_limit) @
     (case opts of
        None \<Rightarrow> []
      | Some o' \<Rightarrow> if ls_cursor o' = JUndefined then [] else [(js ''cursor'', ls_cursor o')])"

definition Sandboxes_list ::
  "('n, 'z) runtime_scheme api_client \<Rightarrow> Sandboxes \<Rightarrow> ListSandboxesOptions option \<Rightarrow>
   (('n, 'z) runtime_scheme, sandbox_page) jio"
where
  "Sandboxes_list api this opts =
     bind_io (send (sx_requests this)
       \<lparr>operation = js ''GET /v1/sandboxes'', idempotent = True,
        options = map_option RequestOptions.truncate opts\<rparr>
       (\<lambda>i. unwrapped api ((api_op ''GET'' ''/v1/sandboxes'' i)\<lparr>ac_query := list_query opts\<rparr>))) (\<lambda>page.
     bind_io (lift_io (read_prop ''items'' page)) (\<lambda>infos.
     bind_io (lift_io (map_items (sx_options this) infos)) (\<lambda>handles.
     bind_io (lift_io (read_prop ''next_cursor'' page)) (\<lambda>c.
     ret \<lparr>pg_items = handles, pg_nextCursor = nullish_to_undefined c\<rparr>))))"

definition no_list_options :: ListSandboxesOptions where
  "no_list_options =
     \<lparr>ro_requestTimeoutMs = None, ro_signal = None, ro_headers = None, ls_state = None, ls_name = None,
      ls_metadata = None, ls_limit = None, ls_cursor = JUndefined\<rparr>"

definition page_options :: "ListSandboxesOptions option \<Rightarrow> jsval \<Rightarrow> ListSandboxesOptions option" where
  "page_options opts cursor = Some ((with_default no_list_options opts)\<lparr>ls_cursor := cursor\<rparr>)"

definition page_message :: "nat \<Rightarrow> sandbox_page \<Rightarrow> jstr" where
  "page_message n page =
     js ''sandboxes.iterate fetched page '' @ show_nat n @ js '' ('' @ show_nat (length (pg_items page)) @
     js '' sandboxes, '' @
     (if pg_nextCursor page \<noteq> JUndefined then js ''more follow'' else js ''last page'') @ js '')''"

text \<open>The generator, drained: the handles it yields, and the failure that ended it if one did. The
  number of pages is the server's, so the loop is a partial function.\<close>

partial_function (option) iterate_from ::
  "('n, 'z) runtime_scheme api_client \<Rightarrow> Sandboxes \<Rightarrow> ListSandboxesOptions option \<Rightarrow> jsval \<Rightarrow> nat \<Rightarrow>
   Sandbox list \<Rightarrow> ('n, 'z) runtime_scheme \<Rightarrow>
   ((Sandbox list \<times> exn option) \<times> ('n, 'z) runtime_scheme) option"
where
  "iterate_from api this opts cursor pageNumber yielded w =
     (case Sandboxes_list api this (page_options opts cursor) w of
        None \<Rightarrow> None
      | Some (Inl e, w') \<Rightarrow> Some ((yielded, Some e), w')
      | Some (Inr page, w') \<Rightarrow>
          (let n = Suc pageNumber;
               w'' = log_debug (log_has_debug (logger (sx_requests this))) (page_message n page) w'
           in if pg_nextCursor page = JUndefined then Some ((yielded @ pg_items page, None), w'')
              else iterate_from api this opts (pg_nextCursor page) n (yielded @ pg_items page) w''))"

definition Sandboxes_iterate ::
  "('n, 'z) runtime_scheme api_client \<Rightarrow> Sandboxes \<Rightarrow> ListSandboxesOptions option \<Rightarrow> ('n, 'z) runtime_scheme \<Rightarrow>
   ((Sandbox list \<times> exn option) \<times> ('n, 'z) runtime_scheme) option"
where
  "Sandboxes_iterate api this opts w = iterate_from api this opts JUndefined 0 [] w"

section \<open>Frames\<close>

lemma self_more: "runtime.more w' = runtime.more w \<Longrightarrow> self w' = self (w :: 'n sandbox_world)"
  by (cases w; cases w') (simp add: sandbox_world.defs)

abbreviation control_plane ::
  "'n sandbox_world openapi_fetch \<Rightarrow> 'n fetch_impl \<Rightarrow> ConnectionConfig \<Rightarrow> 'n sandbox_world api_client"
where
  "control_plane createClient impl config \<equiv> createApiClient createClient impl config"

lemma sandbox_send_self:
  assumes "single_fetch createClient"
    and "sandbox_send (control_plane createClient impl config) meth path idem body opts w = Some (r, w')"
  shows "self w' = self w"
proof -
  have "runtime.more w' = runtime.more w"
    using assms(2) unfolding sandbox_send_def
  proof (rule send_more)
    fix w r w'
    assume "sandbox_attempt (control_plane createClient impl config) meth path body
      (init (options \<lparr>operation = js (meth @ '' '' @ path), idempotent = idem, options = opts\<rparr>)) w = Some (r, w')"
    then show "runtime.more w' = runtime.more w"
      by (auto simp: sandbox_attempt_def createApiClient_def split: sum.splits
          dest!: unwrapped_more [OF assms(1)])
  qed
  then show ?thesis by (rule self_more)
qed

text \<open>What each lifecycle operation leaves in the handle.\<close>

lemma lifecycle_result:
  assumes "single_fetch createClient" and api: "api = control_plane createClient impl config"
  shows "Sandbox_refresh api o1 w = Some (r, w') \<Longrightarrow>
      self w' = (case r of Inl _ \<Rightarrow> self w | Inr info \<Rightarrow> (self w)\<lparr>sb_info := info\<rparr>)"
    and "Sandbox_pause api o1 w = Some (r, w') \<Longrightarrow>
      self w' = (case r of Inl _ \<Rightarrow> self w | Inr info \<Rightarrow> (self w)\<lparr>sb_info := info\<rparr>)"
    and "Sandbox_extendDeadline api d o1 w = Some (r, w') \<Longrightarrow>
      self w' = (case r of Inl _ \<Rightarrow> self w | Inr info \<Rightarrow> (self w)\<lparr>sb_info := info\<rparr>)"
    and "Sandbox_mintToken api o2 w = Some (r, w') \<Longrightarrow>
      self w' = (case r of Inl _ \<Rightarrow> self w | Inr token \<Rightarrow> (self w)\<lparr>sb_token := token\<rparr>)"
    and "Sandbox_delete api o1 w = Some (rd, w') \<Longrightarrow> self w' = self w"
  unfolding Sandbox_refresh_def Sandbox_pause_def Sandbox_extendDeadline_def Sandbox_mintToken_def
    Sandbox_delete_def bind_io_def set_info_def set_token_def api
  by (auto split: option.splits sum.splits prod.splits dest!: sandbox_send_self [OF assms(1)])

lemma read_prop_other: "read_prop k v = Inr x \<Longrightarrow> \<exists>y. read_prop k' v = Inr y"
  by (cases v) (auto simp: read_prop_def)

lemma resume_result:
  assumes "single_fetch createClient"
    and "Sandbox_resume (control_plane createClient impl config) opts w = Some (r, w')"
  shows "case r of
      Inl _ \<Rightarrow> self w' = self w
    | Inr info \<Rightarrow> (\<exists>token. self w' = (self w)\<lparr>sb_info := info, sb_token := token\<rparr>)"
  using assms(2) unfolding Sandbox_resume_def bind_io_def set_info_def set_token_def
  by (auto split: option.splits sum.splits prod.splits
      dest!: sandbox_send_self [OF assms(1)] dest: read_prop_other [where k' = "''token''"])

lemma sandbox_token_source:
  assumes "single_fetch createClient"
  shows "token_source (sandbox_source (control_plane createClient impl config)) commands_ref
      (Sandbox_mintToken (control_plane createClient impl config) None)"
    and "token_source (sandbox_source (control_plane createClient impl config)) files_ref
      (Sandbox_mintToken (control_plane createClient impl config) None)"
  by (unfold_locales; auto simp: sandbox_source_def commands_ref_def files_ref_def
      dest!: lifecycle_result(4) [OF assms refl] self_more split: sum.splits)+

interpretation plain_commands: token_source
  "sandbox_source (control_plane plain_client impl config)" commands_ref
  "Sandbox_mintToken (control_plane plain_client impl config) None" for impl config
  by (rule sandbox_token_source [OF plain_client_single_fetch])

interpretation plain_files: token_source
  "sandbox_source (control_plane plain_client impl config)" files_ref
  "Sandbox_mintToken (control_plane plain_client impl config) None" for impl config
  by (rule sandbox_token_source [OF plain_client_single_fetch])

section \<open>The handle invariant\<close>

text \<open>Both modules' cached clients carry the token they were made for.\<close>

definition handle_ok :: "Sandbox \<Rightarrow> bool" where
  "handle_ok sb \<longleftrightarrow> cache_coherent (sb_commands sb) \<and> cache_coherent (sb_files sb)"

text \<open>A step of a handle: a lifecycle operation, a typed data-plane call of either module (every
  operation of \<open>Commands\<close> and of \<open>SandboxFiles\<close> is one), or a byte-stream request.\<close>

inductive handle_step ::
  "'n sandbox_world openapi_fetch \<Rightarrow> 'n fetch_impl \<Rightarrow> ConnectionConfig \<Rightarrow>
   'n sandbox_world \<Rightarrow> 'n sandbox_world \<Rightarrow> bool"
  for createClient impl config
where
  refresh: "Sandbox_refresh (control_plane createClient impl config) opts w = Some (r, w') \<Longrightarrow>
    handle_step createClient impl config w w'"
| pause: "Sandbox_pause (control_plane createClient impl config) opts w = Some (r, w') \<Longrightarrow>
    handle_step createClient impl config w w'"
| resume: "Sandbox_resume (control_plane createClient impl config) ropts w = Some (r, w') \<Longrightarrow>
    handle_step createClient impl config w w'"
| extend: "Sandbox_extendDeadline (control_plane createClient impl config) d opts w = Some (r, w') \<Longrightarrow>
    handle_step createClient impl config w w'"
| mint: "Sandbox_mintToken (control_plane createClient impl config) mopts w = Some (r, w') \<Longrightarrow>
    handle_step createClient impl config w w'"
| delete: "Sandbox_delete (control_plane createClient impl config) opts w = Some (rd, w') \<Longrightarrow>
    handle_step createClient impl config w w'"
| commands: "call createClient impl (sandbox_source (control_plane createClient impl config)) commands_ref spec
      (\<lambda>cl i. unwrapped cl (op i)) w = Some (r, w') \<Longrightarrow> handle_step createClient impl config w w'"
| files: "call createClient impl (sandbox_source (control_plane createClient impl config)) files_ref spec
      (\<lambda>cl i. unwrapped cl (op i)) w = Some (r, w') \<Longrightarrow> handle_step createClient impl config w w'"
| bytes: "request parse_host impl (sandbox_source (control_plane createClient impl config)) files_ref path
      spec meth query body w = Some (resp, w') \<Longrightarrow> handle_step createClient impl config w w'"

inductive handle_reachable ::
  "'n sandbox_world openapi_fetch \<Rightarrow> 'n fetch_impl \<Rightarrow> ConnectionConfig \<Rightarrow> 'n sandbox_world \<Rightarrow> bool"
  for createClient impl config
where
  fresh: "new_Sandbox info token opts = Inr (self w) \<Longrightarrow> handle_reachable createClient impl config w"
| step: "handle_reachable createClient impl config w \<Longrightarrow> handle_step createClient impl config w w' \<Longrightarrow>
    handle_reachable createClient impl config w'"

lemma handle_ok_caches:
  assumes "handle_ok (self w)"
  shows "commands_state.cache_ok w" "files_state.cache_ok w"
  unfolding commands_state.cache_ok_def files_state.cache_ok_def
  using assms by (simp_all add: handle_ok_def commands_ref_def files_ref_def)

lemma new_Sandbox_ok: "new_Sandbox info token opts = Inr sb \<Longrightarrow> handle_ok sb"
  by (auto simp: new_Sandbox_def handle_ok_def Let_def split: sum.splits)

lemma handle_ok_more:
  "handle_ok (self w) \<Longrightarrow> runtime.more w' = runtime.more w \<Longrightarrow> handle_ok (self (w' :: 'n sandbox_world))"
  by (metis self_more)

lemma handle_ok_dataplane:
  "handle_ok (self w) \<Longrightarrow> dataplane (sandbox_source api) commands_ref w = Some (r, w') \<Longrightarrow> handle_ok (self w')"
  "handle_ok (self w) \<Longrightarrow> dataplane (sandbox_source api) files_ref w = Some (r, w') \<Longrightarrow> handle_ok (self w')"
  by (auto simp: handle_ok_def cache_coherent_def dataplane_def Let_def commands_ref_def files_ref_def
      split: sum.splits if_splits)

lemma handle_ok_mint:
  assumes "single_fetch createClient" and "ts_mintToken (sandbox_source (control_plane createClient impl config)) = Some m"
    and "handle_ok (self w)" and "m w = Some (r, w')"
  shows "handle_ok (self w')"
  using assms lifecycle_result(4) [OF assms(1) refl, of impl config None w r w']
  by (auto simp: sandbox_source_def handle_ok_def split: sum.splits)

lemma typed_attempt_more:
  assumes "single_fetch createClient"
    and "unwrapped (createClient cfg (module_fetch impl m)) c w = Some (r, w')"
  shows "runtime.more w' = runtime.more w"
  using assms unfolding module_fetch_def by (rule unwrapped_more)

lemma raw_attempt_more:
  "raw_attempt impl m url meth body token i w = Some (r, w') \<Longrightarrow> runtime.more w' = runtime.more w"
  by (auto simp: raw_attempt_def module_fetch_def bind_io_def dest!: createHttpFetch_more
      split: option.splits sum.splits prod.splits if_splits)

lemma handle_ok_request:
  assumes "single_fetch createClient" and "handle_ok (self w)"
    and "request parse_host impl (sandbox_source (control_plane createClient impl config)) files_ref path
      spec meth query body w = Some (resp, w')"
  shows "handle_ok (self w')"
proof -
  let ?src = "sandbox_source (control_plane createClient impl config)"
  let ?m = "mget files_ref w"
  let ?run = "\<lambda>url w. bind_io (lift_io (capabilityToken ?src w)) (\<lambda>token.
          send (requests ?m) spec (raw_attempt impl ?m url meth body token)) w"
  have body: "handle_ok (self w1)" if "handle_ok (self w0)" "?run url w0 = Some (r, w1)" for url w0 r w1
  proof (cases "capabilityToken ?src w0")
    case (Inl e)
    with that show ?thesis by (simp add: bind_io_def)
  next
    case (Inr token)
    with that have "send (requests ?m) spec (raw_attempt impl ?m url meth body token) w0 = Some (r, w1)"
      by (simp add: bind_io_def)
    then have "runtime.more w1 = runtime.more w0" by (rule send_more) (rule raw_attempt_more)
    with that(1) show ?thesis by (rule handle_ok_more)
  qed
  have guarded: "handle_ok (self w1)" if "withFreshToken ?src lg (?run url) w = Some (r, w1)" for lg url r w1
    using that assms(2) body handle_ok_more handle_ok_mint [OF assms(1)]
    by (rule withFreshToken_keeps [where P = "\<lambda>w. handle_ok (self w)"])
  show ?thesis
    using assms(2,3) guarded unfolding request_def Let_def bind_io_def [of "lift_io _"] lift_io_apply
    by (auto split: sum.splits)
qed

lemma handle_ok_call:
  assumes "single_fetch createClient" and "handle_ok (self w)" and "this \<in> {commands_ref, files_ref}"
    and "call createClient impl (sandbox_source (control_plane createClient impl config)) this spec
      (\<lambda>cl i. unwrapped cl (op i)) w = Some (r, w')"
  shows "handle_ok (self w')"
  using assms(4)
proof (rule call_keeps [where P = "\<lambda>w. handle_ok (self w)"])
  fix w r w'
  assume "handle_ok (self w)"
    "dataplane (sandbox_source (control_plane createClient impl config)) this w = Some (r, w')"
  with assms(3) show "handle_ok (self w')" using handle_ok_dataplane by auto
next
  fix m w r w'
  assume "ts_mintToken (sandbox_source (control_plane createClient impl config)) = Some m"
    "handle_ok (self w)" "m w = Some (r, w')"
  then show "handle_ok (self w')" by (rule handle_ok_mint [OF assms(1)])
qed (fact assms(2), rule typed_attempt_more [OF assms(1)], assumption, rule handle_ok_more)

lemma handle_step_ok:
  assumes "single_fetch createClient" and "handle_step createClient impl config w w'" and "handle_ok (self w)"
  shows "handle_ok (self w')"
  using assms(2,3)
proof (cases rule: handle_step.cases)
  case (commands spec op r)
  from handle_ok_call [OF assms(1,3) _ this] show ?thesis by simp
next
  case (files spec op r)
  from handle_ok_call [OF assms(1,3) _ this] show ?thesis by simp
next
  case (bytes parse_host path spec meth query body resp)
  from handle_ok_request [OF assms(1,3) this] show ?thesis .
next
  case (resume ropts r)
  with resume_result [OF assms(1) resume] assms(3) show ?thesis
    by (auto simp: handle_ok_def split: sum.splits)
qed (use assms(3) lifecycle_result [OF assms(1) refl] in \<open>fastforce simp: handle_ok_def split: sum.splits\<close>)+

section \<open>Properties\<close>

text \<open>C3: Data-plane requests always present the handle's current token: after any sequence of
  lifecycle operations, command calls and file calls on a handle, successful or not, the client
  either module uses next carries the token the handle holds at that moment.\<close>

theorem handle_client_current:
  assumes "single_fetch createClient" and "handle_reachable createClient impl config w"
    and "this = commands_ref \<or> this = files_ref"
    and "dataplane (sandbox_source api) this w = Some (Inr cfg, w')"
  shows "\<exists>token. capabilityToken (sandbox_source api) w = Inr token \<and>
     map_of (cfg_headers cfg) (js ''X-Sandbox-Token'') = Some token"
proof -
  have "handle_ok (self w)"
    using assms(2) by induction (auto intro: new_Sandbox_ok handle_step_ok [OF assms(1)])
  then have ok: "commands_state.cache_ok w" "files_state.cache_ok w"
    by (rule handle_ok_caches)+
  from assms(3) obtain origin token where "capabilityToken (sandbox_source api) w = Inr token"
    "cfg = token_config origin token"
    using commands_state.dataplane_current(2) [OF ok(1)] files_state.dataplane_current(2) [OF ok(2)]
      assms(4) by blast
  then show ?thesis by (simp add: token_config_def)
qed

text \<open>A sample handle for concrete instances.\<close>

definition sample_info :: jsval where
  "sample_info = jobj [(''sandbox_id'', jtext ''s''), (''domain'', jtext ''d'')]"

definition sample_handle :: Sandbox where
  "sample_handle =
     \<lparr>sb_info = sample_info, sb_token = jobj [(''token'', jtext ''t'')],
      sb_requests = new_RequestPipeline None, sb_ports = new_SandboxPorts (jtext ''s'') None,
      sb_commands = new_dataplane_module None, sb_files = new_dataplane_module None\<rparr>"

definition sample_world :: "Sandbox \<Rightarrow> unit sandbox_world" where
  "sample_world sb = runtime.extend (idle_runtime ()) (sandbox_world.fields sb)"

lemma self_sample_world [simp]: "self (sample_world sb) = sb"
  by (simp add: sample_world_def idle_runtime_def runtime.defs sandbox_world.defs)

lemma sample_handle_sel:
  "sb_info sample_handle = sample_info" "sb_token sample_handle = jobj [(''token'', jtext ''t'')]"
  "sb_commands sample_handle = new_dataplane_module None" "sb_files sample_handle = new_dataplane_module None"
  by (simp_all add: sample_handle_def)

text \<open>A control plane that answers every request with the same body.\<close>

definition answering :: "jsval \<Rightarrow> 'n fetch_impl" where
  "answering v rq t n =
     (n, Some (t, Inr \<lparr>rs_status = 200, rs_headers = [], rs_json = Inr v, rs_bytes = []\<rparr>))"

lemma sample_headers: "\<exists>hs. set_headers (credential_headers sample_config) [] = Inr hs"
  by (simp add: credential_headers_def sample_config_def defaultHeaders_def userAgent_def sdkVersion_def
      hdr_set_def valid_header_name_def valid_header_value_def token_unit_def js_def u16_def
      http_trim_def is_http_space_def)

lemma answering_call:
  assumes "call_headers c = []"
  shows "unwrapped (createApiClient plain_client (answering v) sample_config) c w = Some (Inr v, w)"
proof -
  obtain hs where hs: "set_headers (credential_headers sample_config) [] = Inr hs"
    using sample_headers by blast
  have "createHttpFetch d (answering v) rq w =
      Some (Inr \<lparr>rs_status = 200, rs_headers = [], rs_json = Inr v, rs_bytes = []\<rparr>, w\<lparr>net := net w\<rparr>)" for d rq
    by (rule createHttpFetch_prompt) (simp add: answering_def)
  with hs assms show ?thesis
    by (simp add: unwrapped_def createApiClient_def plain_client_def bind_io_def plain_decode_def
        response_ok_def unwrap_def)
qed

lemma new_sample_handle: "new_Sandbox sample_info (jobj [(''token'', jtext ''t'')]) None = Inr sample_handle"
  by (simp add: new_Sandbox_def sample_info_def sample_handle_def)

theorem handle_client_current_witness:
  "\<exists>cfg w'. dataplane (sandbox_source (control_plane plain_client (\<lambda>rq t n. (n, None)) sample_config))
       commands_ref (sample_world sample_handle) = Some (Inr cfg, w') \<and>
     map_of (cfg_headers cfg) (js ''X-Sandbox-Token'') = Some (js ''t'')"
proof -
  let ?api = "control_plane plain_client (\<lambda>rq t n. (n, None)) sample_config"
  let ?w = "sample_world sample_handle"
  have tok: "capabilityToken (sandbox_source ?api) ?w = Inr (js ''t'')"
    by (simp add: capabilityToken_def sandbox_source_def sample_handle_def interp_prop_def jobj_def read_prop_def)
  obtain cfg w' where client: "dataplane (sandbox_source ?api) commands_ref ?w = Some (Inr cfg, w')"
    using tok by (simp add: dataplane_def new_dataplane_module_def dataPlaneOrigin_def interp_prop_def
        sample_handle_sel sample_info_def Let_def)
  have "handle_reachable plain_client (\<lambda>rq t n. (n, None)) sample_config ?w"
    using new_sample_handle by (intro handle_reachable.fresh) simp
  from handle_client_current [OF plain_client_single_fetch this _ client] tok client show ?thesis by auto
qed



text \<open>A freshly minted token is used at once: the client a command call makes after a successful
  mint carries that token, even when a client for the old token was cached.\<close>

theorem minted_token_used:
  assumes "single_fetch createClient" and "api = control_plane createClient impl config"
    and "handle_ok (self w)" and "Sandbox_mintToken api None w = Some (Inr t, w1)"
    and "t \<noteq> JUndefined" and "interp_prop ''token'' t = Inr token"
    and "dataplane (sandbox_source api) commands_ref w1 = Some (Inr cfg, w2)"
  shows "\<exists>origin. cfg = token_config origin token"
proof -
  have "commands_state.cache_ok w" using assms(3) by (rule handle_ok_caches)
  from token_source.minted_token_current [OF sandbox_token_source(1) [OF assms(1)]
      assms(4) [unfolded assms(2)] assms(5,6) this assms(7) [unfolded assms(2)]]
  show ?thesis .
qed

theorem minted_token_used_witness:
  "\<exists>cfg w1 w2 origin.
     Sandbox_mintToken (control_plane plain_client (answering (jobj [(''token'', jtext ''u'')])) sample_config) None
       (sample_world sample_handle) = Some (Inr (jobj [(''token'', jtext ''u'')]), w1) \<and>
     dataplane (sandbox_source (control_plane plain_client (answering (jobj [(''token'', jtext ''u'')])) sample_config))
       commands_ref w1 = Some (Inr cfg, w2) \<and> cfg = token_config origin (js ''u'')"
proof -
  let ?t = "jobj [(''token'', jtext ''u'')]"
  let ?api = "control_plane plain_client (answering ?t) sample_config"
  let ?w = "sample_world sample_handle"
  let ?w1 = "?w\<lparr>self := sample_handle\<lparr>sb_token := ?t\<rparr>\<rparr>"
  have mint: "Sandbox_mintToken ?api None ?w = Some (Inr ?t, ?w1)"
    by (simp add: Sandbox_mintToken_def bind_io_def sandbox_send_def send_single sandbox_attempt_def
        sandboxId_def sample_handle_sel sample_info_def answering_call call_headers_def api_op_def init_def
        set_token_def)
  have tok: "interp_prop ''token'' ?t = Inr (js ''u'')" by (simp add: interp_prop_def)
  then have "capabilityToken (sandbox_source ?api) ?w1 = Inr (js ''u'')"
    by (simp add: capabilityToken_def jobj_def)
  then obtain cfg w2 where client: "dataplane (sandbox_source ?api) commands_ref ?w1 = Some (Inr cfg, w2)"
    by (simp add: dataplane_def new_dataplane_module_def dataPlaneOrigin_def interp_prop_def
        sample_handle_sel sample_info_def Let_def)
  have "\<exists>origin. cfg = token_config origin (js ''u'')"
    using plain_client_single_fetch refl _ mint _ tok client
    by (rule minted_token_used) (simp_all add: sample_handle_sel handle_ok_def jobj_def)
  with mint client show ?thesis by blast
qed

section \<open>Unarmed handles\<close>

lemma new_Sandbox_sel:
  assumes "new_Sandbox info token opts = Inr sb"
  shows "sb_token sb = token" "sb_info sb = info" "\<exists>sid. read_prop ''sandbox_id'' (sb_info sb) = Inr sid"
  using assms by (auto simp: new_Sandbox_def Let_def split: sum.splits)

lemma call_unarmed:
  assumes "sb_token (self w) = JUndefined" and "read_prop ''sandbox_id'' (sb_info (self w)) = Inr sid"
  shows "\<exists>e. call createClient impl (sandbox_source api) this spec run w = Some (Inl (Sdk e), w)"
proof -
  have "\<exists>e. capabilityToken (sandbox_source api) w = Inl (Sdk e) \<and> \<not> is_auth_error (Sdk e)"
    using assms by (simp add: capabilityToken_def interp_prop_def is_auth_error_def instance_of_def new_error_def)
  then obtain e where "capabilityToken (sandbox_source api) w = Inl (Sdk e)" "\<not> is_auth_error (Sdk e)" by blast
  then show ?thesis
    by (simp add: call_def Let_def withFreshToken_def catch_io_def bind_io_def dataplane_def)
qed



section \<open>Creation\<close>

text \<open>A create without an idempotency key is never replayed: it is one request, whose result is
  the handle or the failure, for every retry budget.\<close>

theorem create_without_key_once:
  assumes "Option.bind opts cs_idempotencyKey = None"
  shows "Sandboxes_create api this body opts =
     bind_io (unwrapped api ((api_op ''POST'' ''/v1/sandboxes'' (init (map_option RequestOptions.truncate opts)))
        \<lparr>ac_body := body\<rparr>)) (\<lambda>result.
     bind_io (lift_io (read_prop ''sandbox'' result)) (\<lambda>info.
     bind_io (lift_io (read_prop ''token'' result)) (\<lambda>token.
     lift_io (new_Sandbox info token (sx_options this)))))"
proof -
  have a: "(api_op ''POST'' ''/v1/sandboxes'' i)\<lparr>ac_header_params := [], ac_body := body\<rparr> =
      (api_op ''POST'' ''/v1/sandboxes'' i)\<lparr>ac_body := body\<rparr>" for i
    by (simp add: api_op_def)
  show ?thesis
    by (rule ext) (simp add: Sandboxes_create_def assms bind_io_def send_single a)
qed

theorem create_without_key_once_witness:
  "\<exists>sb. Sandboxes_create
       (createApiClient plain_client
          (answering (jobj [(''sandbox'', sample_info), (''token'', jobj [(''token'', jtext ''t'')])])) sample_config)
       (new_Sandboxes None) (jobj [(''template'', jtext ''base'')]) None (idle_runtime ()) =
     Some (Inr sb, idle_runtime ()) \<and> sb_token sb = jobj [(''token'', jtext ''t'')]"
  by (subst create_without_key_once)
    (simp_all add: bind_io_def answering_call call_headers_def api_op_def init_def new_Sandbox_def
      sample_info_def Let_def)

section \<open>Iteration\<close>

text \<open>The pages a server serves from a cursor on, in order, each fetched from the world the previous
  one left; the chain ends at the first page without a next cursor.\<close>

inductive page_chain ::
  "('n, 'z) runtime_scheme api_client \<Rightarrow> Sandboxes \<Rightarrow> ListSandboxesOptions option \<Rightarrow> jsval \<Rightarrow> nat \<Rightarrow>
   ('n, 'z) runtime_scheme \<Rightarrow> sandbox_page list \<Rightarrow> ('n, 'z) runtime_scheme \<Rightarrow> bool"
  for api this opts
where
  last_page: "Sandboxes_list api this (page_options opts cursor) w = Some (Inr page, w') \<Longrightarrow>
    pg_nextCursor page = JUndefined \<Longrightarrow>
    page_chain api this opts cursor n w [page]
      (log_debug (log_has_debug (logger (sx_requests this))) (page_message (Suc n) page) w')"
| next_page: "Sandboxes_list api this (page_options opts cursor) w = Some (Inr page, w') \<Longrightarrow>
    pg_nextCursor page \<noteq> JUndefined \<Longrightarrow>
    page_chain api this opts (pg_nextCursor page) (Suc n)
      (log_debug (log_has_debug (logger (sx_requests this))) (page_message (Suc n) page) w') pages w'' \<Longrightarrow>
    page_chain api this opts cursor n w (page # pages) w''"

lemma iterate_chain:
  "page_chain api this opts cursor n w pages w' \<Longrightarrow>
     iterate_from api this opts cursor n ys w = Some ((ys @ concat (map pg_items pages), None), w')"
proof (induction arbitrary: ys rule: page_chain.induct)
  case (last_page cursor w page w' n)
  then show ?case by (subst iterate_from.simps) simp
next
  case (next_page cursor w page w' n pages w'')
  then show ?case by (subst iterate_from.simps) simp
qed

lemma iterate_complete:
  assumes "iterate_from api this opts cursor n ys w = Some rw" and "snd (fst rw) = None"
  shows "\<exists>pages. page_chain api this opts cursor n w pages (snd rw) \<and>
     fst (fst rw) = ys @ concat (map pg_items pages)"
proof -
  let ?P = "\<lambda>api this opts cursor n ys w rw. snd (fst rw) = None \<longrightarrow>
    (\<exists>pages. page_chain api this opts cursor n w pages (snd rw) \<and>
       fst (fst rw) = ys @ concat (map pg_items pages))"
  have "?P api this opts cursor n ys w rw"
  proof (rule iterate_from.raw_induct [where P = ?P, OF _ assms(1)], rule impI)
    fix f api this opts cursor n ys w rw
    assume IH: "\<And>api this opts cursor n ys w y. f api this opts cursor n ys w = Some y \<Longrightarrow>
        ?P api this opts cursor n ys w y"
      and eq: "(case Sandboxes_list api this (page_options opts cursor) w of
         None \<Rightarrow> None | Some (Inl e, w') \<Rightarrow> Some ((ys, Some e), w')
         | Some (Inr page, w') \<Rightarrow>
             let n = Suc n;
                 w'' = log_debug (log_has_debug (logger (sx_requests this))) (page_message n page) w'
             in if pg_nextCursor page = JUndefined then Some ((ys @ pg_items page, None), w'')
                else f api this opts (pg_nextCursor page) n (ys @ pg_items page) w'') = Some rw"
      and ok: "snd (fst rw) = None"
    from eq ok obtain page w' where
      page: "Sandboxes_list api this (page_options opts cursor) w = Some (Inr page, w')"
      by (auto split: option.splits prod.splits sum.splits)
    let ?w'' = "log_debug (log_has_debug (logger (sx_requests this))) (page_message (Suc n) page) w'"
    show "\<exists>pages. page_chain api this opts cursor n w pages (snd rw) \<and>
       fst (fst rw) = ys @ concat (map pg_items pages)"
    proof (cases "pg_nextCursor page = JUndefined")
      case True
      with eq page have "rw = ((ys @ pg_items page, None), ?w'')" by simp
      moreover have "page_chain api this opts cursor n w [page] ?w''" using page True by (rule last_page)
      ultimately show ?thesis by (intro exI [of _ "[page]"]) simp
    next
      case False
      with eq page have "f api this opts (pg_nextCursor page) (Suc n) (ys @ pg_items page) ?w'' = Some rw" by simp
      with IH ok obtain pages where
        chain: "page_chain api this opts (pg_nextCursor page) (Suc n) ?w'' pages (snd rw)"
        and ys: "fst (fst rw) = (ys @ pg_items page) @ concat (map pg_items pages)"
        by blast
      have "page_chain api this opts cursor n w (page # pages) (snd rw)"
        using page False chain by (rule next_page)
      with ys show ?thesis by (intro exI [of _ "page # pages"]) simp
    qed
  qed
  with assms(2) show ?thesis by blast
qed


section \<open>Filters\<close>

text \<open>The metadata filter loses nothing: whatever pairs the caller filters by, the single query
  value they are packed into parses back to the same pairs in the same order.\<close>

theorem metadata_filter_round_trip:
  assumes "ls_metadata opts = Some md"
  shows "\<exists>packed. map_of (list_query (Some opts)) (js ''metadata'') = Some (JStr packed) \<and>
     form_parse packed = map (\<lambda>(k, v). (Some (utf8_encode k), Some (utf8_encode v))) md"
  using assms by (auto simp: list_query_def opt_field_def form_round_trip split: option.splits)

theorem metadata_filter_round_trip_witness:
  "\<exists>packed. map_of (list_query (Some (no_list_options\<lparr>ls_metadata := Some [(js ''a&b'', js ''1=2'')]\<rparr>)))
       (js ''metadata'') = Some (JStr packed) \<and>
     form_parse packed = [(Some (utf8_encode (js ''a&b'')), Some (utf8_encode (js ''1=2'')))]"
  using metadata_filter_round_trip [of "no_list_options\<lparr>ls_metadata := Some [(js ''a&b'', js ''1=2'')]\<rparr>"]
  by simp

text \<open>The data plane is reached at the sandbox's own published host: the origin the modules use is
  the handle's \<open>hostname\<close> for the agent port, over \<open>https\<close>.\<close>

theorem origin_is_hostname:
  "dataPlaneOrigin (sandbox_source api) port w = map_sum id ((@) (js ''https://'')) (hostname port (self w))"
  by (auto simp: dataPlaneOrigin_def hostname_def split: sum.splits)

end
