(* ===== verification/Templates.thy ===== *)
theory Templates
  imports Sandbox
begin

text \<open>
  The template registry and template builds (\<open>sdks/typescript/src/templates.ts\<close>).

  A build handle's methods run in a \<open>build_world\<close>, the runtime extended by the handle. The polling
  loop of \<open>wait\<close> is a partial function: without \<open>timeoutMs\<close> it runs as long as the build does.
\<close>

section \<open>Build handles\<close>

record 'n build_world = "'n runtime" +
  tb_info :: jsval
  tb_requests :: RequestPipeline

record WaitForBuildOptions = RequestOptions +
  wb_pollIntervalMs :: "jnum option"
  wb_timeoutMs :: "jnum option"

text \<open>\<open>setTimeout\<close> with any number: what is not finite is set to one millisecond.\<close>

definition realSleep :: "jnum \<Rightarrow> (('n, 'z) runtime_scheme, unit) jio" where
  "realSleep ms w =
     Some (Inr (), w\<lparr>now := now w + (case ms of Fin r \<Rightarrow> timer_delay r | _ \<Rightarrow> 1)\<rparr>)"

definition build_attempt ::
  "'n build_world api_client \<Rightarrow> string \<Rightarrow> (jstr, jsval) alist \<Rightarrow> CallInit \<Rightarrow> ('n build_world, jsval) jio"
where
  "build_attempt api path query i w =
     (case read_prop ''build_id'' (tb_info w) of
        Inl e \<Rightarrow> Some (Inl e, w)
      | Inr bid \<Rightarrow>
          unwrapped api ((api_op ''GET'' path i)
            \<lparr>ac_path_params := [(js ''buildId'', bid)], ac_query := query\<rparr>) w)"

definition TemplateBuild_refresh ::
  "'n build_world api_client \<Rightarrow> RequestOptions option \<Rightarrow> ('n build_world, jsval) jio"
where
  "TemplateBuild_refresh api opts w =
     bind_io (send (tb_requests w)
        \<lparr>operation = js ''GET /v1/templates/builds/{buildId}'', idempotent = True, options = opts\<rparr>
        (build_attempt api ''/v1/templates/builds/{buildId}'' []))
       (\<lambda>info w. Some (Inr info, w\<lparr>tb_info := info\<rparr>)) w"

definition TemplateBuild_logs ::
  "'n build_world api_client \<Rightarrow> jnum option \<Rightarrow> RequestOptions option \<Rightarrow> ('n build_world, jsval \<times> jsval) jio"
where
  "TemplateBuild_logs api offset opts w =
     bind_io (send (tb_requests w)
        \<lparr>operation = js ''GET /v1/templates/builds/{buildId}/logs'', idempotent = True, options = opts\<rparr>
        (build_attempt api ''/v1/templates/builds/{buildId}/logs'' (opt_field (js ''offset'') JNum offset)))
       (\<lambda>page. bind_io (lift_io (read_prop ''entries'' page)) (\<lambda>entries.
          bind_io (lift_io (read_prop ''next_offset'' page)) (\<lambda>next. ret (entries, next)))) w"

text \<open>The members of a build representation, \<open>undefined\<close> when absent.\<close>

abbreviation build_prop :: "string \<Rightarrow> jsval \<Rightarrow> jsval" where
  "build_prop k info \<equiv> prop_opt (js k) info"

definition build_failed_error :: "jsval \<Rightarrow> FissionPlaneError" where
  "build_failed_error info =
     (let err = build_prop ''error'' info;
          shown = (if err = JUndefined \<or> err = JNull then js ''no error reported'' else to_string err)
      in new_template_build_error
           (js ''template build '' @ to_string (build_prop ''build_id'' info) @ js '' failed: '' @ shown)
           (if err = JUndefined \<or> err = JNull then None else Some (to_string err)))"

definition build_timeout_error :: "jsval \<Rightarrow> jnum \<Rightarrow> FissionPlaneError" where
  "build_timeout_error info timeoutMs =
     new_error FissionPlaneErrorC
       (js ''template build '' @ to_string (build_prop ''build_id'' info) @
        js '' did not reach a terminal status within '' @ num_to_string timeoutMs @
        js ''ms (last status: '' @ to_string (build_prop ''status'' info) @
        js ''); the build keeps running '' @ [0x2014] @ js '' call wait() or refresh() again'')
       None None None None"

partial_function (option) wait_loop ::
  "'n build_world api_client \<Rightarrow> (jnum \<Rightarrow> ('n build_world, unit) jio) \<Rightarrow> WaitForBuildOptions option \<Rightarrow>
   jnum \<Rightarrow> jnum option \<Rightarrow> 'n build_world \<Rightarrow> ((exn + jsval) \<times> 'n build_world) option"
where
  "wait_loop api delay opts pollIntervalMs deadline w =
     (case TemplateBuild_refresh api (map_option RequestOptions.truncate opts) w of
        None \<Rightarrow> None
      | Some (Inl e, w1) \<Rightarrow> Some (Inl e, w1)
      | Some (Inr info, w1) \<Rightarrow>
          (case read_prop ''status'' info of
             Inl e \<Rightarrow> Some (Inl e, w1)
           | Inr st \<Rightarrow>
               if st = jtext ''succeeded'' then Some (Inr info, w1)
               else if st = jtext ''failed'' then Some (Inl (Sdk (build_failed_error info)), w1)
               else if (case deadline of None \<Rightarrow> False | Some d \<Rightarrow> num_le d (Fin (of_int (now w1))))
               then Some (Inl (Sdk (build_timeout_error info
                      (with_default NaN (Option.bind opts wb_timeoutMs)))), w1)
               else (case delay pollIntervalMs w1 of
                   None \<Rightarrow> None
                 | Some (Inl e, w2) \<Rightarrow> Some (Inl e, w2)
                 | Some (Inr u, w2) \<Rightarrow> wait_loop api delay opts pollIntervalMs deadline w2)))"

definition TemplateBuild_wait ::
  "'n build_world api_client \<Rightarrow> (jnum \<Rightarrow> ('n build_world, unit) jio) \<Rightarrow> WaitForBuildOptions option \<Rightarrow>
   ('n build_world, jsval) jio"
where
  "TemplateBuild_wait api delay opts w =
     wait_loop api delay opts
       (with_default (Fin 2000) (Option.bind opts wb_pollIntervalMs))
       (map_option (num_add (Fin (of_int (now w)))) (Option.bind opts wb_timeoutMs)) w"

section \<open>The registry\<close>

record TemplateBuild =
  bh_info :: jsval
  bh_requests :: RequestPipeline

definition new_TemplateBuild :: "jsval \<Rightarrow> RequestDefaults option \<Rightarrow> TemplateBuild" where
  "new_TemplateBuild info defaults = \<lparr>bh_info = info, bh_requests = new_RequestPipeline defaults\<rparr>"

record Templates =
  tp_defaults :: "RequestDefaults option"
  tp_requests :: RequestPipeline

definition new_Templates :: "RequestDefaults option \<Rightarrow> Templates" where
  "new_Templates defaults = \<lparr>tp_defaults = defaults, tp_requests = new_RequestPipeline defaults\<rparr>"

record ListTemplatesOptions = RequestOptions +
  lt_limit :: "jnum option"
  lt_cursor :: "jstr option"

definition Templates_list ::
  "('n, 'z) runtime_scheme api_client \<Rightarrow> Templates \<Rightarrow> ListTemplatesOptions option \<Rightarrow>
   (('n, 'z) runtime_scheme, jsval \<times> jsval) jio"
where
  "Templates_list api this opts =
     bind_io (send (tp_requests this)
       \<lparr>operation = js ''GET /v1/templates'', idempotent = True,
        options = map_option RequestOptions.truncate opts\<rparr>
       (\<lambda>i. unwrapped api ((api_op ''GET'' ''/v1/templates'' i)\<lparr>ac_query :=
          opt_field (js ''limit'') JNum (Option.bind opts lt_limit) @
          opt_field (js ''cursor'') JStr (Option.bind opts lt_cursor)\<rparr>))) (\<lambda>page.
     bind_io (lift_io (read_prop ''items'' page)) (\<lambda>items.
     bind_io (lift_io (read_prop ''next_cursor'' page)) (\<lambda>c.
     ret (items, nullish_to_undefined c))))"

definition Templates_get ::
  "('n, 'z) runtime_scheme api_client \<Rightarrow> Templates \<Rightarrow> jstr \<Rightarrow> RequestOptions option \<Rightarrow>
   (('n, 'z) runtime_scheme, jsval) jio"
where
  "Templates_get api this template opts =
     send (tp_requests this)
       \<lparr>operation = js ''GET /v1/templates/{template}'', idempotent = True, options = opts\<rparr>
       (\<lambda>i. unwrapped api ((api_op ''GET'' ''/v1/templates/{template}'' i)
          \<lparr>ac_path_params := [(js ''template'', JStr template)]\<rparr>))"

definition Templates_build ::
  "('n, 'z) runtime_scheme api_client \<Rightarrow> Templates \<Rightarrow> jsval \<Rightarrow> RequestOptions option \<Rightarrow>
   (('n, 'z) runtime_scheme, TemplateBuild) jio"
where
  "Templates_build api this body opts =
     bind_io (send (tp_requests this)
       \<lparr>operation = js ''POST /v1/templates/builds'', idempotent = False, options = opts\<rparr>
       (\<lambda>i. unwrapped api ((api_op ''POST'' ''/v1/templates/builds'' i)\<lparr>ac_body := body\<rparr>)))
       (\<lambda>info. ret (new_TemplateBuild info (tp_defaults this)))"

definition Templates_getBuild ::
  "('n, 'z) runtime_scheme api_client \<Rightarrow> Templates \<Rightarrow> jstr \<Rightarrow> RequestOptions option \<Rightarrow>
   (('n, 'z) runtime_scheme, TemplateBuild) jio"
where
  "Templates_getBuild api this buildId opts =
     bind_io (send (tp_requests this)
       \<lparr>operation = js ''GET /v1/templates/builds/{buildId}'', idempotent = True, options = opts\<rparr>
       (\<lambda>i. unwrapped api ((api_op ''GET'' ''/v1/templates/builds/{buildId}'' i)
          \<lparr>ac_path_params := [(js ''buildId'', JStr buildId)]\<rparr>)))
       (\<lambda>info. ret (new_TemplateBuild info (tp_defaults this)))"

definition Templates_delete ::
  "('n, 'z) runtime_scheme api_client \<Rightarrow> Templates \<Rightarrow> jstr \<Rightarrow> RequestOptions option \<Rightarrow>
   (('n, 'z) runtime_scheme, unit) jio"
where
  "Templates_delete api this template opts =
     bind_io (send (tp_requests this)
       \<lparr>operation = js ''DELETE /v1/templates/{template}'', idempotent = True, options = opts\<rparr>
       (\<lambda>i. unwrapped api ((api_op ''DELETE'' ''/v1/templates/{template}'' i)
          \<lparr>ac_path_params := [(js ''template'', JStr template)]\<rparr>)))
       (\<lambda>_. ret ())"

section \<open>The polling loop\<close>

text \<open>What polling relies on: re-reading the build always settles and, like the delay, never turns the
  clock back; the delay takes time.\<close>

locale poller =
  fixes api :: "'n build_world api_client" and delay :: "jnum \<Rightarrow> ('n build_world, unit) jio"
    and opts :: "WaitForBuildOptions option" and ok :: "'n build_world \<Rightarrow> bool"
  assumes refresh_settles: "ok w \<Longrightarrow> settles (TemplateBuild_refresh api (map_option RequestOptions.truncate opts)) w"
    and refresh_clock: "ok w \<Longrightarrow>
      TemplateBuild_refresh api (map_option RequestOptions.truncate opts) w = Some (r, w') \<Longrightarrow>
      now w \<le> now w' \<and> ok w'"
    and delay_settles: "ok w \<Longrightarrow> \<exists>r w'. delay ms w = Some (r, w') \<and> now w < now w' \<and> ok w'"
begin

lemma wait_loop_settles:
  assumes "deadline = Fin D" and "ok w"
  shows "settles (wait_loop api delay opts ms (Some deadline)) w"
  using assms(2)
proof (induction "nat (\<lceil>D\<rceil> - now w)" arbitrary: w rule: less_induct)
  case (less w)
  obtain r w1 where ref: "TemplateBuild_refresh api (map_option RequestOptions.truncate opts) w = Some (r, w1)"
    using refresh_settles [OF less.prems] by (rule settlesE)
  with less.prems have clock: "now w \<le> now w1" and ok1: "ok w1" using refresh_clock by blast+
  show ?case
  proof (cases r)
    case (Inl e)
    with ref show ?thesis unfolding settles_def by (subst wait_loop.simps) simp
  next
    case (Inr info)
    show ?thesis
    proof (cases "read_prop ''status'' info")
      case (Inl e)
      with ref Inr show ?thesis unfolding settles_def by (subst wait_loop.simps) simp
    next
      case st: (Inr st)
      obtain r2 w2 where sl: "delay ms w1 = Some (r2, w2)" "now w1 < now w2" "ok w2"
        using delay_settles [OF ok1] by blast
      have "settles (wait_loop api delay opts ms (Some deadline)) w2" if "\<not> num_le deadline (Fin (of_int (now w1)))"
      proof (rule less.hyps [OF _ sl(3)])
        from that assms(1) have "of_int (now w1) < D" by simp
        then have "now w1 < \<lceil>D\<rceil>" by (simp add: less_ceiling_iff)
        with sl(2) clock show "nat (\<lceil>D\<rceil> - now w2) < nat (\<lceil>D\<rceil> - now w)" by linarith
      qed
      with ref Inr st sl show ?thesis unfolding settles_def
        by (subst wait_loop.simps) (auto split: sum.splits)
    qed
  qed
qed

end

definition finite_retries :: "'n build_world \<Rightarrow> bool" where
  "finite_retries w \<longleftrightarrow> (\<exists>m. maxRetries (tb_requests w) = Fin m)"

lemma build_attempt_settling:
  assumes "single_fetch createClient" and "rd_requestTimeoutMs config = Some (num_of_nat (Suc k))"
    and "plain_options (options spec)"
  shows "settling_attempt (build_attempt (createApiClient createClient impl config) path query) spec"
proof -
  let ?cfg = "\<lparr>baseUrl = cc_baseUrl config, cfg_headers = credential_headers config\<rparr>"
  let ?c = "\<lambda>bid. (api_op ''GET'' path (init (options spec)))\<lparr>ac_path_params := [(js ''buildId'', bid)], ac_query := query\<rparr>"
  have run: "unwrapped (createApiClient createClient impl config) (?c bid) =
      unwrapped (createClient ?cfg (createHttpFetch (num_of_nat (Suc k)) impl)) (?c bid)" for bid
    using assms(2) by (simp add: createApiClient_def)
  have eff: "effective_timeout (num_of_nat (Suc k)) rq = Fin (of_nat (Suc k))"
    if "inherits_headers ?cfg (?c bid) rq" for bid rq
    by (rule effective_timeout_inherited [OF that])
      (use plain_options_init [OF assms(3)] in \<open>simp_all add: credential_names call_headers_def api_op_def\<close>)
  have one: "\<exists>r w'. build_attempt (createApiClient createClient impl config) path query (init (options spec)) w =
      Some (r, w') \<and> now w \<le> now w'" for w
  proof (cases "read_prop ''build_id'' (tb_info w)")
    case (Inr bid)
    show ?thesis unfolding build_attempt_def Inr sum.case run
      by (rule unwrapped_clock [OF assms(1) eff [of bid], where w = w and impl = impl]) auto
  qed (simp add: build_attempt_def)
  show ?thesis
  proof
    fix w r w'
    show "settles (build_attempt (createApiClient createClient impl config) path query (init (options spec))) w"
      using one [of w] by (auto simp: settles_def)
    assume "build_attempt (createApiClient createClient impl config) path query (init (options spec)) w = Some (r, w')"
    with one [of w] show "now w \<le> now w'" by auto
  qed
qed

lemma build_attempt_requests:
  assumes "single_fetch createClient"
    and "build_attempt (createApiClient createClient impl config) path query i w = Some (r, w')"
  shows "runtime.more w' = runtime.more w"
  using assms(2) by (auto simp: build_attempt_def createApiClient_def split: sum.splits
      dest!: unwrapped_more [OF assms(1)])

lemma requests_more: "runtime.more w' = runtime.more w \<Longrightarrow> tb_requests w' = tb_requests (w :: 'n build_world)"
  by (cases w; cases w') (simp add: build_world.defs)

lemma registry_poller:
  assumes "single_fetch createClient" and "rd_requestTimeoutMs config = Some (num_of_nat (Suc k))"
    and "plain_options (map_option RequestOptions.truncate opts)"
  shows "poller (createApiClient createClient impl config) realSleep opts finite_retries"
proof
  let ?api = "createApiClient createClient impl config"
  let ?opts = "map_option RequestOptions.truncate opts"
  let ?spec = "\<lparr>operation = js ''GET /v1/templates/builds/{buildId}'', idempotent = True, options = ?opts\<rparr>"
  let ?run = "build_attempt ?api ''/v1/templates/builds/{buildId}'' []"
  fix w :: "'a build_world"
  assume "finite_retries w"
  then obtain m where m: "maxRetries (tb_requests w) = Fin m" by (auto simp: finite_retries_def)
  have att: "settling_attempt ?run ?spec"
    by (rule build_attempt_settling [OF assms(1,2)]) (simp add: assms(3))
  have "settles (send (tb_requests w) ?spec ?run) w"
    unfolding send_def by (rule settling_attempt.loop_settles [OF att m])
  then show "settles (TemplateBuild_refresh ?api ?opts) w"
    by (auto simp: settles_def TemplateBuild_refresh_def bind_io_def split: sum.splits)
  show "now w \<le> now w' \<and> finite_retries w'" if "TemplateBuild_refresh ?api ?opts w = Some (r, w')" for r w'
  proof -
    obtain r1 w1 where sent: "send (tb_requests w) ?spec ?run w = Some (r1, w1)"
      using \<open>settles (send (tb_requests w) ?spec ?run) w\<close> by (rule settlesE)
    have "now w \<le> now w1"
      by (rule settling_attempt.loop_clock [OF att m sent [unfolded send_def]])
    moreover have "tb_requests w1 = tb_requests w"
      by (rule requests_more, rule send_more [OF sent], rule build_attempt_requests [OF assms(1)])
    moreover have "now w' = now w1 \<and> tb_requests w' = tb_requests w1"
      using that sent by (auto simp: TemplateBuild_refresh_def bind_io_def split: sum.splits)
    ultimately show ?thesis using m by (simp add: finite_retries_def)
  qed
  show "\<exists>r w'. realSleep ms w = Some (r, w') \<and> now w < now w' \<and> finite_retries w'" for ms
  proof -
    have "0 < (case ms of Fin r \<Rightarrow> timer_delay r | _ \<Rightarrow> 1)"
      using timer_delay_pos by (cases ms) (simp_all add: order_less_le_trans [OF zero_less_one])
    then show ?thesis using m by (simp add: realSleep_def finite_retries_def)
  qed
qed

interpretation plain_poller: poller
  "createApiClient plain_client impl (config\<lparr>rd_requestTimeoutMs := Some (num_of_nat (Suc k))\<rparr>)"
  realSleep None finite_retries for impl config k
  by (rule registry_poller [where k = k]) (simp_all add: plain_client_single_fetch plain_options_def names_header_def)

text \<open>Where the result of a finished wait comes from.\<close>

definition wait_outcome :: "'n build_world api_client \<Rightarrow> (jnum \<Rightarrow> ('n build_world, unit) jio) \<Rightarrow>
   WaitForBuildOptions option \<Rightarrow> jnum option \<Rightarrow> (exn + jsval) \<times> 'n build_world \<Rightarrow> bool"
where
  "wait_outcome api delay opts deadline = (\<lambda>(r, w').
     (\<forall>info. r = Inr info \<longrightarrow> read_prop ''status'' info = Inr (jtext ''succeeded'') \<and> tb_info w' = info) \<and>
     (\<forall>e. r = Inl (Sdk e) \<and> cls e = TemplateBuildErrorC \<longrightarrow>
        read_prop ''status'' (tb_info w') = Inr (jtext ''failed'') \<or>
        (\<exists>w1. TemplateBuild_refresh api (map_option RequestOptions.truncate opts) w1 = Some (r, w')) \<or>
        (\<exists>ms w1. delay ms w1 = Some (Inl (Sdk e), w'))))"

lemma refresh_stores:
  "TemplateBuild_refresh api opts w = Some (Inr info, w') \<Longrightarrow> tb_info w' = info"
  by (auto simp: TemplateBuild_refresh_def bind_io_def split: option.splits prod.splits sum.splits)

lemma read_prop_Inl: "read_prop k v = Inl e \<Longrightarrow> \<exists>m. e = TypeError m"
  by (auto simp: read_prop_def split: option.splits)

lemma wait_loop_outcome:
  assumes "wait_loop api delay opts ms deadline w = Some rw"
  shows "wait_outcome api delay opts deadline rw"
proof (rule wait_loop.raw_induct [where P = "\<lambda>api delay opts ms deadline w. wait_outcome api delay opts deadline",
      OF _ assms])
  fix f api delay opts ms deadline w rw
  assume IH: "\<And>api delay opts ms deadline w y. f api delay opts ms deadline w = Some y \<Longrightarrow>
      wait_outcome api delay opts deadline y"
    and eq: "(case TemplateBuild_refresh api (map_option RequestOptions.truncate opts) w of
        None \<Rightarrow> None
      | Some (Inl e, w1) \<Rightarrow> Some (Inl e, w1)
      | Some (Inr info, w1) \<Rightarrow>
          (case read_prop ''status'' info of
             Inl e \<Rightarrow> Some (Inl e, w1)
           | Inr st \<Rightarrow>
               if st = jtext ''succeeded'' then Some (Inr info, w1)
               else if st = jtext ''failed'' then Some (Inl (Sdk (build_failed_error info)), w1)
               else if (case deadline of None \<Rightarrow> False | Some d \<Rightarrow> num_le d (Fin (of_int (now w1))))
               then Some (Inl (Sdk (build_timeout_error info
                      (with_default NaN (Option.bind opts wb_timeoutMs)))), w1)
               else (case delay ms w1 of
                   None \<Rightarrow> None
                 | Some (Inl e, w2) \<Rightarrow> Some (Inl e, w2)
                 | Some (Inr u, w2) \<Rightarrow> f api delay opts ms deadline w2))) = Some rw"
  show "wait_outcome api delay opts deadline rw"
  proof (cases "TemplateBuild_refresh api (map_option RequestOptions.truncate opts) w")
    case None
    with eq show ?thesis by simp
  next
    case (Some p)
    obtain r w1 where p: "p = (r, w1)" by (cases p)
    show ?thesis
    proof (cases r)
      case (Inl e)
      with eq Some p have "rw = (Inl e, w1)" by simp
      with Some p Inl show ?thesis by (auto simp: wait_outcome_def)
    next
      case (Inr info)
      with Some p have stored: "tb_info w1 = info" using refresh_stores by blast
      show ?thesis
      proof (cases "read_prop ''status'' info")
        case (Inl e)
        with eq Some p Inr have "rw = (Inl e, w1)" by simp
        with read_prop_Inl [OF Inl] show ?thesis by (auto simp: wait_outcome_def)
      next
        case st: (Inr st)
        let ?expired = "case deadline of None \<Rightarrow> False | Some d \<Rightarrow> num_le d (Fin (of_int (now w1)))"
        consider (success) "st = jtext ''succeeded''" | (failed) "st = jtext ''failed''"
          | (expired) "st \<noteq> jtext ''succeeded''" "st \<noteq> jtext ''failed''" ?expired
          | (polling) "st \<noteq> jtext ''succeeded''" "st \<noteq> jtext ''failed''" "\<not> ?expired" by blast
        then show ?thesis
        proof cases
          case success
          with eq Some p Inr st have "rw = (Inr info, w1)" by simp
          with stored st success show ?thesis by (simp add: wait_outcome_def)
        next
          case failed
          with eq Some p Inr st have "rw = (Inl (Sdk (build_failed_error info)), w1)" by simp
          with stored st failed show ?thesis by (simp add: wait_outcome_def)
        next
          case expired
          with eq Some p Inr st have "rw = (Inl (Sdk (build_timeout_error info
              (with_default NaN (Option.bind opts wb_timeoutMs)))), w1)" by simp
          then show ?thesis by (simp add: wait_outcome_def build_timeout_error_def new_error_def)
        next
          case polling
          with eq Some p Inr st have "(case delay ms w1 of None \<Rightarrow> None | Some (Inl e, w2) \<Rightarrow> Some (Inl e, w2)
              | Some (Inr u, w2) \<Rightarrow> f api delay opts ms deadline w2) = Some rw" by simp
          then consider (stopped) e w2 where "rw = (Inl e, w2)" "delay ms w1 = Some (Inl e, w2)"
            | (again) w2 where "f api delay opts ms deadline w2 = Some rw"
            by (auto split: option.splits sum.splits prod.splits)
          then show ?thesis
          proof cases
            case stopped
            then show ?thesis by (auto simp: wait_outcome_def)
          next
            case (again w2)
            then show ?thesis by (rule IH)
          qed
        qed
      qed
    qed
  qed
qed

section \<open>Properties\<close>


definition sample_build :: "jsval \<Rightarrow> unit build_world" where
  "sample_build info = runtime.extend (idle_runtime ()) (build_world.fields info (new_RequestPipeline None))"

definition wait_for :: "jnum \<Rightarrow> WaitForBuildOptions" where
  "wait_for ms =
     \<lparr>ro_requestTimeoutMs = None, ro_signal = None, ro_headers = None, wb_pollIntervalMs = None,
      wb_timeoutMs = Some ms\<rparr>"

lemma sample_build_sel [simp]:
  "tb_info (sample_build info) = info" "tb_requests (sample_build info) = new_RequestPipeline None"
  by (simp_all add: sample_build_def idle_runtime_def runtime.defs build_world.defs)


text \<open>C32: What \<open>wait\<close> reports is true: it returns only the representation of a build whose status is
  \<open>succeeded\<close>, which is then the one the handle holds, and it raises the build failure of its own
  only when the handle holds a build whose status is \<open>failed\<close>.\<close>

theorem wait_reports_truth:
  assumes "TemplateBuild_wait api realSleep opts w = Some (r, w')"
  shows "(\<forall>info. r = Inr info \<longrightarrow>
        read_prop ''status'' info = Inr (jtext ''succeeded'') \<and> tb_info w' = info) \<and>
     (\<forall>e. r = Inl (Sdk e) \<and> cls e = TemplateBuildErrorC \<longrightarrow>
        read_prop ''status'' (tb_info w') = Inr (jtext ''failed'') \<or>
        (\<exists>w1. TemplateBuild_refresh api (map_option RequestOptions.truncate opts) w1 = Some (r, w')))"
  using wait_loop_outcome [OF assms [unfolded TemplateBuild_wait_def]]
  by (auto simp: wait_outcome_def realSleep_def)

theorem wait_reports_truth_witness:
  "\<exists>info w'. TemplateBuild_wait
       (createApiClient plain_client (answering (jobj [(''build_id'', jtext ''b''), (''status'', jtext ''succeeded'')]))
          sample_config) realSleep None (sample_build (jobj [(''build_id'', jtext ''b'')])) = Some (Inr info, w') \<and>
     read_prop ''status'' info = Inr (jtext ''succeeded'') \<and> tb_info w' = info"
proof -
  let ?info = "jobj [(''build_id'', jtext ''b''), (''status'', jtext ''succeeded'')]"
  let ?api = "createApiClient plain_client (answering ?info) sample_config"
  let ?w = "sample_build (jobj [(''build_id'', jtext ''b'')])"
  have "build_attempt ?api ''/v1/templates/builds/{buildId}'' [] (init None) ?w = Some (Inr ?info, ?w)"
    by (simp add: build_attempt_def answering_call call_headers_def api_op_def init_def)
  then have "TemplateBuild_refresh ?api None ?w = Some (Inr ?info, ?w\<lparr>tb_info := ?info\<rparr>)"
    by (simp add: TemplateBuild_refresh_def bind_io_def send_first_success)
  then have waited: "TemplateBuild_wait ?api realSleep None ?w = Some (Inr ?info, ?w\<lparr>tb_info := ?info\<rparr>)"
    by (simp add: TemplateBuild_wait_def wait_loop.simps)
  with wait_reports_truth [OF waited] show ?thesis by blast
qed

end
