(* ===== verification/Client.thy ===== *)
theory Client
  imports Templates
begin

text \<open>
  The SDK's entry point (\<open>sdks/typescript/src/index.ts\<close>): the credential check and the constructor
  that wires the typed client, the sandbox collection and the template registry.
\<close>

record FissionPlaneOptions = RequestDefaults +
  fo_apiKey :: "jstr option"
  fo_accessToken :: "jstr option"
  fo_baseUrl :: "jstr option"
  fo_agentPort :: "jnum option"

text \<open>\<open>checkCredential\<close>: \<open>None\<close> when the credential is accepted. The ellipsis of the message is one
  character.\<close>

definition checkCredential :: "jstr \<Rightarrow> string \<Rightarrow> FissionPlaneError option" where
  "checkCredential value opt =
     (if value \<noteq> [] \<and> \<not> list_ex is_space value then None
      else
        (let fault = (if value = [] then js ''empty'' else js ''not a single token: it contains whitespace'')
         in Some (new_error AuthenticationErrorC
              (js opt @ js '' is '' @ fault @ js ''; pass one as '' @
               js ''new FissionPlane({ '' @ js opt @ js '': '' @ js [CHR 0x27] @ [0x2026] @ js [CHR 0x27] @ js '' })'' @
               (if opt = ''apiKey'' then js '' or set FISSIONPLANE_API_KEY in the environment'' else []))
              None (Some (js ''invalid_credential'')) None None)))"

text \<open>A constructed client: the configuration the typed client was made from and the two modules.\<close>

record FissionPlane =
  fp_config :: ConnectionConfig
  fp_sandboxes :: Sandboxes
  fp_templates :: Templates

definition resolved_key :: "(jstr \<rightharpoonup> jstr) \<Rightarrow> FissionPlaneOptions \<Rightarrow> jstr option" where
  "resolved_key env opts =
     (case fo_apiKey opts of Some k \<Rightarrow> Some k | None \<Rightarrow> env (js ''FISSIONPLANE_API_KEY''))"

definition resolved_url :: "(jstr \<rightharpoonup> jstr) \<Rightarrow> FissionPlaneOptions \<Rightarrow> jstr" where
  "resolved_url env opts =
     (case fo_baseUrl opts of
        Some u \<Rightarrow> u
      | None \<Rightarrow> with_default (js ''https://api.example.com'') (env (js ''FISSIONPLANE_API_URL'')))"

definition credential_fault :: "(jstr \<rightharpoonup> jstr) \<Rightarrow> FissionPlaneOptions \<Rightarrow> FissionPlaneError option" where
  "credential_fault env opts =
     (case Option.bind (resolved_key env opts) (\<lambda>k. checkCredential k ''apiKey'') of
        Some e \<Rightarrow> Some e
      | None \<Rightarrow> Option.bind (fo_accessToken opts) (\<lambda>t. checkCredential t ''accessToken''))"

definition new_FissionPlane :: "(jstr \<rightharpoonup> jstr) \<Rightarrow> FissionPlaneOptions \<Rightarrow> exn + FissionPlane" where
  "new_FissionPlane env opts =
     (case credential_fault env opts of
        Some e \<Rightarrow> Inl (Sdk e)
      | None \<Rightarrow>
          (let defaults = RequestDefaults.truncate opts;
               config = RequestDefaults.extend defaults
                 (ConnectionConfig.fields (resolved_key env opts) (fo_accessToken opts) (resolved_url env opts));
               dp = RequestDefaults.extend defaults (DataPlaneOptions.fields (fo_agentPort opts))
           in Inr \<lparr>fp_config = config, fp_sandboxes = new_Sandboxes (Some dp),
                   fp_templates = new_Templates (Some defaults)\<rparr>))"

definition fp_api ::
  "('n, 'z) runtime_scheme openapi_fetch \<Rightarrow> 'n fetch_impl \<Rightarrow> FissionPlane \<Rightarrow> ('n, 'z) runtime_scheme api_client"
where
  "fp_api createClient impl fp = createApiClient createClient impl (fp_config fp)"

section \<open>Properties\<close>

lemma checkCredential_None: "checkCredential v opt = None \<longleftrightarrow> v \<noteq> [] \<and> \<not> list_ex is_space v"
  by (simp add: checkCredential_def Let_def)

lemma checkCredential_Some: "checkCredential v opt = Some e \<Longrightarrow> cls e = AuthenticationErrorC"
  by (auto simp: checkCredential_def Let_def new_error_def split: if_splits)

text \<open>A client exists only with usable credentials: the constructor throws an authentication error
  exactly when the resolved API key or the access token is empty or contains white space; otherwise
  both modules and the typed client share the caller's timeout, retry budget and logger.\<close>

theorem constructor_checks_credentials:
  "(case new_FissionPlane env opts of
      Inl e \<Rightarrow> (\<exists>f. e = Sdk f \<and> instance_of f AuthenticationErrorC) \<and>
        (\<exists>v. (resolved_key env opts = Some v \<or> fo_accessToken opts = Some v) \<and>
             (v = [] \<or> list_ex is_space v))
    | Inr fp \<Rightarrow>
        (case resolved_key env opts of None \<Rightarrow> True | Some v \<Rightarrow> v \<noteq> [] \<and> \<not> list_ex is_space v) \<and>
        (case fo_accessToken opts of None \<Rightarrow> True | Some v \<Rightarrow> v \<noteq> [] \<and> \<not> list_ex is_space v) \<and>
        apiKey (fp_config fp) = resolved_key env opts \<and> accessToken (fp_config fp) = fo_accessToken opts \<and>
        rd_requestTimeoutMs (fp_config fp) = rd_requestTimeoutMs opts \<and>
        sx_requests (fp_sandboxes fp) = new_RequestPipeline (Some (RequestDefaults.truncate opts)) \<and>
        tp_requests (fp_templates fp) = new_RequestPipeline (Some (RequestDefaults.truncate opts)))"
proof (cases "credential_fault env opts")
  case None
  then show ?thesis
    by (auto simp: new_FissionPlane_def credential_fault_def checkCredential_None Let_def new_Sandboxes_def
        new_Templates_def RequestDefaults.defs ConnectionConfig.defs DataPlaneOptions.defs
        split: option.splits Option.bind_splits)
next
  case (Some e)
  then have "cls e = AuthenticationErrorC"
    by (auto simp: credential_fault_def dest!: checkCredential_Some split: option.splits Option.bind_splits)
  moreover from Some have "\<exists>v. (resolved_key env opts = Some v \<or> fo_accessToken opts = Some v) \<and>
      (v = [] \<or> list_ex is_space v)"
    by (auto simp: credential_fault_def checkCredential_def split: option.splits Option.bind_splits if_splits)
  ultimately show ?thesis using Some by (simp add: new_FissionPlane_def instance_of_def)
qed

text \<open>The check does not exclude every credential a header cannot carry: a key with a character outside
  Latin-1, or with a NUL, passes it and is refused by \<open>Headers\<close> on the first request instead.\<close>

lemma unsendable_credential_accepted:
  "checkCredential [0x20AC] ''apiKey'' = None \<and> \<not> valid_header_value [0x20AC]"
  "checkCredential [0] ''apiKey'' = None \<and> \<not> valid_header_value [0]"
  by (simp_all add: checkCredential_None is_space_def valid_header_value_def)

end
