(* ===== verification/Schema_Types.thy ===== *)
theory Schema_Types
  imports Api_Client
begin

text \<open>
  The types the contracts of the two planes are written in, and what it is for a JavaScript value, a call
  of the typed client and a result to have them. The contracts are TypeScript interfaces generated from
  the OpenAPI documents; the compiler checks the SDK against them and erases them.

  \<^item> \<open>has_type\<close> is assignability of a value: an optional member may be absent or \<open>undefined\<close>. With
    the flag, members that are not declared are refused, as the compiler does for object literals.
  \<^item> \<open>in_contract\<close> says that a call is to a declared path and method, with exactly the declared path
    parameters, query, headers and body.
  \<^item> \<open>well_typed_result\<close> says that the data of a successful result have the type declared for its
    status.
\<close>

section \<open>Types of values\<close>

datatype ty =
    T_unknown
  | T_string
  | T_number
  | T_boolean
  | T_null
  | T_literal string
  | T_union "ty list"
  | T_array ty
  | T_record ty
  | T_object "field list"
and field = Required string ty | Optional string ty

fun field_name :: "field \<Rightarrow> jstr" where
  "field_name (Required k t) = js k"
| "field_name (Optional k t) = js k"

fun has_type :: "bool \<Rightarrow> ty \<Rightarrow> jsval \<Rightarrow> bool"
  and has_some_type :: "bool \<Rightarrow> ty list \<Rightarrow> jsval \<Rightarrow> bool"
  and has_fields :: "bool \<Rightarrow> field list \<Rightarrow> (jstr \<times> jsval) list \<Rightarrow> bool"
where
  "has_type c T_unknown v = True"
| "has_type c T_string v = (case v of JStr _ \<Rightarrow> True | _ \<Rightarrow> False)"
| "has_type c T_number v = (case v of JNum _ \<Rightarrow> True | _ \<Rightarrow> False)"
| "has_type c T_boolean v = (case v of JBool _ \<Rightarrow> True | _ \<Rightarrow> False)"
| "has_type c T_null v = (v = JNull)"
| "has_type c (T_literal s) v = (v = jtext s)"
| "has_type c (T_union ts) v = has_some_type c ts v"
| "has_type c (T_array t) v = (case v of JArr vs \<Rightarrow> list_all (has_type c t) vs | _ \<Rightarrow> False)"
| "has_type c (T_record t) v = (case v of JObj kvs \<Rightarrow> list_all (has_type c t) (map snd kvs) | _ \<Rightarrow> False)"
| "has_type c (T_object fs) v = (case v of
       JObj kvs \<Rightarrow> has_fields c fs kvs \<and> (c \<longrightarrow> list_all (\<lambda>kv. fst kv \<in> set (map field_name fs)) kvs)
     | _ \<Rightarrow> False)"
| "has_some_type c [] v = False"
| "has_some_type c (t # ts) v = (has_type c t v \<or> has_some_type c ts v)"
| "has_fields c [] kvs = True"
| "has_fields c (Required k t # fs) kvs =
     ((case map_of kvs (js k) of None \<Rightarrow> False | Some v \<Rightarrow> has_type c t v) \<and> has_fields c fs kvs)"
| "has_fields c (Optional k t # fs) kvs =
     ((case map_of kvs (js k) of None \<Rightarrow> True | Some v \<Rightarrow> v = JUndefined \<or> has_type c t v) \<and> has_fields c fs kvs)"

section \<open>Operations\<close>

datatype body_type = No_body | Body ty | Optional_body ty

record api_operation =
  op_path :: "field list"
  op_query :: "field list"
  op_header :: "field list"
  op_body :: body_type
  op_responses :: "(int \<times> ty option) list"

type_synonym path_item = "string \<times> (string \<times> api_operation) list"

fun body_accepted :: "body_type \<Rightarrow> jsval \<Rightarrow> bool" where
  "body_accepted No_body v = (v = JUndefined)"
| "body_accepted (Body t) v = has_type True t v"
| "body_accepted (Optional_body t) v = (v = JUndefined \<or> has_type True t v)"

definition op_accepts :: "api_operation \<Rightarrow> api_call \<Rightarrow> bool" where
  "op_accepts op c \<longleftrightarrow>
     has_type True (T_object (op_path op)) (JObj (ac_path_params c)) \<and>
     has_type True (T_object (op_query op)) (JObj (ac_query c)) \<and>
     has_type True (T_object (op_header op)) (JObj (map (\<lambda>(k, v). (k, JStr v)) (ac_header_params c))) \<and>
     body_accepted (op_body op) (ac_body c)"

text \<open>The operation a call addresses.\<close>

fun method_of :: "jstr \<Rightarrow> (string \<times> api_operation) list \<Rightarrow> api_operation option" where
  "method_of m [] = None"
| "method_of m ((m', op) # ms) = (if m = js m' then Some op else method_of m ms)"

fun operation_of :: "path_item list \<Rightarrow> jstr \<Rightarrow> jstr \<Rightarrow> api_operation option" where
  "operation_of [] m p = None"
| "operation_of ((p', ms) # ps) m p = (if p = js p' then method_of m ms else operation_of ps m p)"

definition addressed :: "path_item list \<Rightarrow> api_call \<Rightarrow> api_operation option" where
  "addressed paths c = operation_of paths (ac_method c) (ac_path c)"

definition in_contract :: "path_item list \<Rightarrow> api_call \<Rightarrow> bool" where
  "in_contract paths c \<longleftrightarrow> (case addressed paths c of None \<Rightarrow> False | Some op \<Rightarrow> op_accepts op c)"

fun declared_type :: "(int \<times> ty option) list \<Rightarrow> int \<Rightarrow> ty option" where
  "declared_type [] st = None"
| "declared_type ((s, t) # rs) st = (if st = s then t else declared_type rs st)"

text \<open>A result of a call: data are judged by the type declared for the status, errors are not data.\<close>

definition well_typed_result :: "path_item list \<Rightarrow> api_call \<Rightarrow> api_result \<Rightarrow> bool" where
  "well_typed_result paths c r \<longleftrightarrow>
     ar_error r = JUndefined \<and> response_ok (ar_response r) \<longrightarrow>
     (\<exists>op. addressed paths c = Some op \<and> rs_status (ar_response r) \<in> fst ` set (op_responses op) \<and>
        (case declared_type (op_responses op) (rs_status (ar_response r)) of
           None \<Rightarrow> ar_data r = JUndefined
         | Some t \<Rightarrow> has_type False t (ar_data r)))"

end
