(* ===== verification/Control_Schema.thy ===== *)
theory Control_Schema
  imports Schema_Types
begin

text \<open>
  The contract of the control plane (\<open>sdks/typescript/src/api/schema.gen.ts\<close>), which the SDK is
  compiled against: its schemas, responses, parameters, operations and paths, in the terms of
  \<open>Schema_Types\<close>. References are resolved by name, so the schemas stand in the order they refer to
  each other.
\<close>

section \<open>Schemas\<close>

definition ArtifactId_ty :: "ty" where
  "ArtifactId_ty = T_string"

definition BuildStep_ty :: "ty" where
  "BuildStep_ty = T_object [Required ''command'' T_string, Optional ''env'' (T_record T_string)]"

definition CapabilityToken_ty :: "ty" where
  "CapabilityToken_ty = T_object [Required ''epoch'' T_number, Required ''expires_at'' T_string,
    Optional ''ports'' (T_union [T_array T_number, T_null]), Required ''token'' T_string]"

definition EgressPolicy_ty :: "ty" where
  "EgressPolicy_ty = T_object [Optional ''allow'' (T_array T_string),
    Optional ''deny'' (T_array T_string)]"

definition SandboxName_ty :: "ty" where
  "SandboxName_ty = T_string"

definition CreateSandboxRequest_ty :: "ty" where
  "CreateSandboxRequest_ty = T_object [Optional ''deadline_seconds'' T_number,
    Optional ''egress'' EgressPolicy_ty, Optional ''metadata'' (T_record T_string),
    Optional ''name'' SandboxName_ty, Required ''template'' T_string]"

definition TemplateAlias_ty :: "ty" where
  "TemplateAlias_ty = T_string"

definition Resources_ty :: "ty" where
  "Resources_ty = T_object [Required ''mem_mib'' T_number, Required ''vcpus'' T_number]"

definition CreateTemplateBuildRequest_ty :: "ty" where
  "CreateTemplateBuildRequest_ty = T_object [Optional ''alias'' TemplateAlias_ty,
    Required ''image'' T_string, Optional ''ready_command'' T_string,
    Optional ''resources'' Resources_ty, Optional ''start_command'' T_string,
    Optional ''steps'' (T_array BuildStep_ty)]"

definition Error_ty :: "ty" where
  "Error_ty = T_object [Required ''code'' T_string, Required ''message'' T_string,
    Optional ''request_id'' T_string, Optional ''retryable'' T_boolean]"

definition PortVisibility_ty :: "ty" where
  "PortVisibility_ty = T_union [T_literal ''private'', T_literal ''public'']"

definition ExposePortRequest_ty :: "ty" where
  "ExposePortRequest_ty = T_object [Required ''visibility'' PortVisibility_ty]"

definition ExtendDeadlineRequest_ty :: "ty" where
  "ExtendDeadlineRequest_ty = T_object [Required ''deadline_seconds'' T_number]"

definition FailureReason_ty :: "ty" where
  "FailureReason_ty = T_union [T_literal ''node_lost'', T_literal ''restore_failed'',
    T_literal ''deadline_expired'', T_literal ''drained_without_capture'',
    T_literal ''never_acknowledged'', T_literal ''snapshot_upload_abandoned'',
    T_literal ''snapshot_expired'']"

definition MintTokenRequest_ty :: "ty" where
  "MintTokenRequest_ty = T_object [Optional ''ports'' (T_array T_number),
    Optional ''ttl_seconds'' T_number]"

definition NanoId_ty :: "ty" where
  "NanoId_ty = T_string"

definition PortExposure_ty :: "ty" where
  "PortExposure_ty = T_object [Required ''port'' T_number, Required ''url'' T_string,
    Required ''visibility'' PortVisibility_ty]"

definition PortList_ty :: "ty" where
  "PortList_ty = T_object [Required ''items'' (T_array PortExposure_ty)]"

definition ResourceDescription_ty :: "ty" where
  "ResourceDescription_ty = T_string"

definition ResumeSandboxRequest_ty :: "ty" where
  "ResumeSandboxRequest_ty = T_object [Optional ''deadline_seconds'' T_number]"

definition SandboxFailure_ty :: "ty" where
  "SandboxFailure_ty = T_object [Optional ''detail'' T_string, Required ''reason'' FailureReason_ty,
    Required ''recoverable'' T_boolean]"

definition SandboxState_ty :: "ty" where
  "SandboxState_ty = T_union [T_literal ''running'', T_literal ''paused'', T_literal ''terminated'',
    T_literal ''failed'']"

definition Sandbox_ty :: "ty" where
  "Sandbox_ty = T_object [Required ''created_at'' T_string, Required ''deadline'' T_string,
    Required ''domain'' T_string, Optional ''egress'' EgressPolicy_ty, Required ''epoch'' T_number,
    Optional ''failure'' SandboxFailure_ty, Required ''metadata'' (T_record T_string),
    Optional ''name'' (T_union [SandboxName_ty, T_null]), Required ''resources'' Resources_ty,
    Optional ''restorable_until'' (T_union [T_string, T_null]), Required ''sandbox_id'' NanoId_ty,
    Required ''state'' SandboxState_ty, Optional ''template'' (T_union [T_string, T_null]),
    Required ''template_artifact_id'' ArtifactId_ty]"

definition SandboxList_ty :: "ty" where
  "SandboxList_ty = T_object [Required ''items'' (T_array Sandbox_ty),
    Optional ''next_cursor'' (T_union [T_string, T_null])]"

definition SandboxWithToken_ty :: "ty" where
  "SandboxWithToken_ty = T_object [Required ''sandbox'' Sandbox_ty,
    Required ''token'' CapabilityToken_ty]"

definition Template_ty :: "ty" where
  "Template_ty = T_object [Optional ''alias'' (T_union [TemplateAlias_ty, T_null]),
    Required ''artifact_id'' ArtifactId_ty, Required ''created_at'' T_string,
    Optional ''description'' (T_union [ResourceDescription_ty, T_null]),
    Optional ''resources'' Resources_ty, Required ''template_id'' NanoId_ty]"

definition TemplateBuildStatus_ty :: "ty" where
  "TemplateBuildStatus_ty = T_union [T_literal ''queued'', T_literal ''building'',
    T_literal ''succeeded'', T_literal ''failed'']"

definition TemplateBuild_ty :: "ty" where
  "TemplateBuild_ty = T_object [Optional ''alias'' (T_union [TemplateAlias_ty, T_null]),
    Optional ''artifact_id'' (T_union [ArtifactId_ty, T_null]), Required ''build_id'' NanoId_ty,
    Required ''created_at'' T_string, Optional ''error'' (T_union [T_string, T_null]),
    Optional ''finished_at'' (T_union [T_string, T_null]), Required ''image'' T_string,
    Optional ''image_digest'' (T_union [ArtifactId_ty, T_null]),
    Required ''status'' TemplateBuildStatus_ty]"

definition TemplateBuildLogEntry_ty :: "ty" where
  "TemplateBuildLogEntry_ty = T_object [Required ''message'' T_string, Required ''timestamp'' T_string]"

definition TemplateBuildLogs_ty :: "ty" where
  "TemplateBuildLogs_ty = T_object [Required ''entries'' (T_array TemplateBuildLogEntry_ty),
    Required ''next_offset'' T_number]"

definition TemplateList_ty :: "ty" where
  "TemplateList_ty = T_object [Required ''items'' (T_array Template_ty),
    Optional ''next_cursor'' (T_union [T_string, T_null])]"

section \<open>Shared responses and parameters\<close>

definition BadRequest :: "ty option" where
  "BadRequest = Some Error_ty"

definition Conflict :: "ty option" where
  "Conflict = Some Error_ty"

definition Forbidden :: "ty option" where
  "Forbidden = Some Error_ty"

definition NotFound :: "ty option" where
  "NotFound = Some Error_ty"

definition TooManyRequests :: "ty option" where
  "TooManyRequests = Some Error_ty"

definition Unauthorized :: "ty option" where
  "Unauthorized = Some Error_ty"

definition buildId_parameter :: "ty" where
  "buildId_parameter = NanoId_ty"

definition cursor_parameter :: "ty" where
  "cursor_parameter = T_string"

definition limit_parameter :: "ty" where
  "limit_parameter = T_number"

definition sandboxId_parameter :: "ty" where
  "sandboxId_parameter = NanoId_ty"

section \<open>Operations\<close>

definition listSandboxes_op :: "api_operation" where
  "listSandboxes_op = \<lparr>op_path = [], op_query = [Optional ''cursor'' cursor_parameter,
    Optional ''limit'' limit_parameter, Optional ''metadata'' T_string, Optional ''name'' SandboxName_ty,
    Optional ''state'' SandboxState_ty], op_header = [], op_body = No_body, op_responses = [(200,
    Some SandboxList_ty), (400, BadRequest), (401, Unauthorized), (429, TooManyRequests)]\<rparr>"

definition createSandbox_op :: "api_operation" where
  "createSandbox_op = \<lparr>op_path = [], op_query = [],
    op_header = [Optional ''Idempotency-Key'' T_string], op_body = Body CreateSandboxRequest_ty,
    op_responses = [(201, Some SandboxWithToken_ty), (400, BadRequest), (401, Unauthorized), (403,
    Forbidden), (404, Some Error_ty), (409, Some Error_ty), (429, TooManyRequests), (503,
    Some Error_ty)]\<rparr>"

definition getSandbox_op :: "api_operation" where
  "getSandbox_op = \<lparr>op_path = [Required ''sandboxId'' sandboxId_parameter], op_query = [],
    op_header = [], op_body = No_body, op_responses = [(200, Some Sandbox_ty), (401, Unauthorized), (404,
    NotFound)]\<rparr>"

definition deleteSandbox_op :: "api_operation" where
  "deleteSandbox_op = \<lparr>op_path = [Required ''sandboxId'' sandboxId_parameter], op_query = [],
    op_header = [], op_body = No_body, op_responses = [(204, None), (401, Unauthorized), (404, NotFound),
    (409, Conflict)]\<rparr>"

definition extendSandboxDeadline_op :: "api_operation" where
  "extendSandboxDeadline_op = \<lparr>op_path = [Required ''sandboxId'' sandboxId_parameter],
    op_query = [], op_header = [], op_body = Body ExtendDeadlineRequest_ty, op_responses = [(200,
    Some Sandbox_ty), (400, BadRequest), (401, Unauthorized), (404, NotFound), (409, Conflict)]\<rparr>"

definition pauseSandbox_op :: "api_operation" where
  "pauseSandbox_op = \<lparr>op_path = [Required ''sandboxId'' sandboxId_parameter], op_query = [],
    op_header = [], op_body = No_body, op_responses = [(200, Some Sandbox_ty), (401, Unauthorized), (404,
    NotFound), (409, Conflict)]\<rparr>"

definition listPorts_op :: "api_operation" where
  "listPorts_op = \<lparr>op_path = [Required ''sandboxId'' sandboxId_parameter], op_query = [],
    op_header = [], op_body = No_body, op_responses = [(200, Some PortList_ty), (401, Unauthorized),
    (404, NotFound)]\<rparr>"

definition exposePort_op :: "api_operation" where
  "exposePort_op = \<lparr>op_path = [Required ''port'' T_number,
    Required ''sandboxId'' sandboxId_parameter], op_query = [], op_header = [],
    op_body = Body ExposePortRequest_ty, op_responses = [(200, Some PortExposure_ty), (400,
    Some Error_ty), (401, Unauthorized), (404, NotFound), (409, Conflict)]\<rparr>"

definition unexposePort_op :: "api_operation" where
  "unexposePort_op = \<lparr>op_path = [Required ''port'' T_number,
    Required ''sandboxId'' sandboxId_parameter], op_query = [], op_header = [], op_body = No_body,
    op_responses = [(204, None), (401, Unauthorized), (404, NotFound), (409, Conflict)]\<rparr>"

definition resumeSandbox_op :: "api_operation" where
  "resumeSandbox_op = \<lparr>op_path = [Required ''sandboxId'' sandboxId_parameter], op_query = [],
    op_header = [], op_body = Optional_body ResumeSandboxRequest_ty, op_responses = [(200,
    Some SandboxWithToken_ty), (401, Unauthorized), (404, NotFound), (409, Conflict), (410,
    Some Error_ty), (429, TooManyRequests), (503, Some Error_ty)]\<rparr>"

definition mintSandboxToken_op :: "api_operation" where
  "mintSandboxToken_op = \<lparr>op_path = [Required ''sandboxId'' sandboxId_parameter], op_query = [],
    op_header = [], op_body = Optional_body MintTokenRequest_ty, op_responses = [(201,
    Some CapabilityToken_ty), (400, BadRequest), (401, Unauthorized), (404, NotFound), (409,
    Conflict)]\<rparr>"

definition listTemplates_op :: "api_operation" where
  "listTemplates_op = \<lparr>op_path = [], op_query = [Optional ''cursor'' cursor_parameter,
    Optional ''limit'' limit_parameter], op_header = [], op_body = No_body, op_responses = [(200,
    Some TemplateList_ty), (401, Unauthorized)]\<rparr>"

definition getTemplate_op :: "api_operation" where
  "getTemplate_op = \<lparr>op_path = [Required ''template'' TemplateAlias_ty], op_query = [],
    op_header = [], op_body = No_body, op_responses = [(200, Some Template_ty), (401, Unauthorized),
    (404, NotFound)]\<rparr>"

definition deleteTemplate_op :: "api_operation" where
  "deleteTemplate_op = \<lparr>op_path = [Required ''template'' TemplateAlias_ty], op_query = [],
    op_header = [], op_body = No_body, op_responses = [(204, None), (401, Unauthorized), (404, NotFound),
    (409, Some Error_ty)]\<rparr>"

definition createTemplateBuild_op :: "api_operation" where
  "createTemplateBuild_op = \<lparr>op_path = [], op_query = [], op_header = [],
    op_body = Body CreateTemplateBuildRequest_ty, op_responses = [(201, Some TemplateBuild_ty), (400,
    BadRequest), (401, Unauthorized), (403, Forbidden), (429, TooManyRequests)]\<rparr>"

definition getTemplateBuild_op :: "api_operation" where
  "getTemplateBuild_op = \<lparr>op_path = [Required ''buildId'' buildId_parameter], op_query = [],
    op_header = [], op_body = No_body, op_responses = [(200, Some TemplateBuild_ty), (401, Unauthorized),
    (404, NotFound)]\<rparr>"

definition getTemplateBuildLogs_op :: "api_operation" where
  "getTemplateBuildLogs_op = \<lparr>op_path = [Required ''buildId'' buildId_parameter],
    op_query = [Optional ''offset'' T_number], op_header = [], op_body = No_body, op_responses = [(200,
    Some TemplateBuildLogs_ty), (401, Unauthorized), (404, NotFound)]\<rparr>"

section \<open>Paths\<close>

definition path_v1_sandboxes :: "path_item" where
  "path_v1_sandboxes = (''/v1/sandboxes'', [(''GET'', listSandboxes_op), (''POST'', createSandbox_op)])"

definition path_v1_sandboxes_sandboxId :: "path_item" where
  "path_v1_sandboxes_sandboxId = (''/v1/sandboxes/{sandboxId}'', [(''GET'', getSandbox_op), (''DELETE'',
    deleteSandbox_op)])"

definition path_v1_sandboxes_sandboxId_deadline :: "path_item" where
  "path_v1_sandboxes_sandboxId_deadline = (''/v1/sandboxes/{sandboxId}/deadline'', [(''POST'',
    extendSandboxDeadline_op)])"

definition path_v1_sandboxes_sandboxId_pause :: "path_item" where
  "path_v1_sandboxes_sandboxId_pause = (''/v1/sandboxes/{sandboxId}/pause'', [(''POST'',
    pauseSandbox_op)])"

definition path_v1_sandboxes_sandboxId_ports :: "path_item" where
  "path_v1_sandboxes_sandboxId_ports = (''/v1/sandboxes/{sandboxId}/ports'', [(''GET'', listPorts_op)])"

definition path_v1_sandboxes_sandboxId_ports_port :: "path_item" where
  "path_v1_sandboxes_sandboxId_ports_port = (''/v1/sandboxes/{sandboxId}/ports/{port}'', [(''PUT'',
    exposePort_op), (''DELETE'', unexposePort_op)])"

definition path_v1_sandboxes_sandboxId_resume :: "path_item" where
  "path_v1_sandboxes_sandboxId_resume = (''/v1/sandboxes/{sandboxId}/resume'', [(''POST'',
    resumeSandbox_op)])"

definition path_v1_sandboxes_sandboxId_token :: "path_item" where
  "path_v1_sandboxes_sandboxId_token = (''/v1/sandboxes/{sandboxId}/token'', [(''POST'',
    mintSandboxToken_op)])"

definition path_v1_templates :: "path_item" where
  "path_v1_templates = (''/v1/templates'', [(''GET'', listTemplates_op)])"

definition path_v1_templates_template :: "path_item" where
  "path_v1_templates_template = (''/v1/templates/{template}'', [(''GET'', getTemplate_op), (''DELETE'',
    deleteTemplate_op)])"

definition path_v1_templates_builds :: "path_item" where
  "path_v1_templates_builds = (''/v1/templates/builds'', [(''POST'', createTemplateBuild_op)])"

definition path_v1_templates_builds_buildId :: "path_item" where
  "path_v1_templates_builds_buildId = (''/v1/templates/builds/{buildId}'', [(''GET'',
    getTemplateBuild_op)])"

definition path_v1_templates_builds_buildId_logs :: "path_item" where
  "path_v1_templates_builds_buildId_logs = (''/v1/templates/builds/{buildId}/logs'', [(''GET'',
    getTemplateBuildLogs_op)])"

definition control_paths :: "path_item list" where
  "control_paths = [path_v1_sandboxes, path_v1_sandboxes_sandboxId, path_v1_sandboxes_sandboxId_deadline,
    path_v1_sandboxes_sandboxId_pause, path_v1_sandboxes_sandboxId_ports,
    path_v1_sandboxes_sandboxId_ports_port, path_v1_sandboxes_sandboxId_resume,
    path_v1_sandboxes_sandboxId_token, path_v1_templates, path_v1_templates_template,
    path_v1_templates_builds, path_v1_templates_builds_buildId, path_v1_templates_builds_buildId_logs]"

end
