(* ===== verification/Agent_Schema.thy ===== *)
theory Agent_Schema
  imports Schema_Types
begin

text \<open>
  The contract of the sandbox agent (\<open>sdks/typescript/src/dataplane/schema.gen.ts\<close>), in the terms of
  \<open>Schema_Types\<close>.
\<close>

section \<open>Schemas\<close>

definition CommandResult_ty :: "ty" where
  "CommandResult_ty = T_object [Required ''exit_code'' T_number, Required ''stderr'' T_string,
    Required ''stdout'' T_string, Optional ''truncated'' T_boolean]"

definition agent_Error_ty :: "ty" where
  "agent_Error_ty = T_object [Required ''code'' T_string, Required ''message'' T_string,
    Optional ''request_id'' T_string, Optional ''retryable'' T_boolean]"

definition FileKind_ty :: "ty" where
  "FileKind_ty = T_union [T_literal ''file'', T_literal ''directory'', T_literal ''symlink'',
    T_literal ''other'']"

definition FileInfo_ty :: "ty" where
  "FileInfo_ty = T_object [Required ''kind'' FileKind_ty, Required ''mode'' T_string,
    Required ''modified_at'' T_string, Required ''name'' T_string, Required ''path'' T_string,
    Required ''size'' T_number, Optional ''target'' T_string]"

definition FileList_ty :: "ty" where
  "FileList_ty = T_object [Required ''items'' (T_array FileInfo_ty)]"

definition MakeDirectoryRequest_ty :: "ty" where
  "MakeDirectoryRequest_ty = T_object [Optional ''mode'' T_string, Required ''parents'' T_boolean,
    Required ''path'' T_string]"

definition MoveFileRequest_ty :: "ty" where
  "MoveFileRequest_ty = T_object [Required ''destination'' T_string, Required ''overwrite'' T_boolean,
    Required ''source'' T_string]"

definition Process_ty :: "ty" where
  "Process_ty = T_object [Required ''command'' T_string, Optional ''exit_code'' (T_union [T_number,
    T_null]), Optional ''exited_at'' (T_union [T_string, T_null]), Required ''pid'' T_number,
    Required ''pty'' T_boolean, Required ''running'' T_boolean, Required ''started_at'' T_string]"

definition ProcessList_ty :: "ty" where
  "ProcessList_ty = T_object [Required ''items'' (T_array Process_ty)]"

definition ProcessLogChunk_ty :: "ty" where
  "ProcessLogChunk_ty = T_object [Required ''data'' T_string, Required ''sequence'' T_number,
    Required ''stream'' (T_union [T_literal ''stdout'', T_literal ''stderr''])]"

definition ProcessLogs_ty :: "ty" where
  "ProcessLogs_ty = T_object [Required ''chunks'' (T_array ProcessLogChunk_ty),
    Optional ''exit_code'' (T_union [T_number, T_null]), Required ''next_sequence'' T_number,
    Required ''running'' T_boolean, Optional ''truncated_before'' T_number]"

definition PtySize_ty :: "ty" where
  "PtySize_ty = T_object [Required ''cols'' T_number, Required ''rows'' T_number]"

definition RunCommandRequest_ty :: "ty" where
  "RunCommandRequest_ty = T_object [Optional ''args'' (T_array T_string), Required ''command'' T_string,
    Optional ''cwd'' T_string, Optional ''env'' (T_record T_string), Optional ''stdin'' T_string,
    Optional ''timeout_seconds'' T_number]"

definition StartProcessRequest_ty :: "ty" where
  "StartProcessRequest_ty = T_object [Optional ''args'' (T_array T_string),
    Required ''command'' T_string, Optional ''cwd'' T_string, Optional ''env'' (T_record T_string),
    Optional ''pty'' PtySize_ty]"

section \<open>Shared responses and parameters\<close>

definition agent_BadRequest :: "ty option" where
  "agent_BadRequest = Some agent_Error_ty"

definition agent_Conflict :: "ty option" where
  "agent_Conflict = Some agent_Error_ty"

definition agent_NotFound :: "ty option" where
  "agent_NotFound = Some agent_Error_ty"

definition agent_TooManyRequests :: "ty option" where
  "agent_TooManyRequests = Some agent_Error_ty"

definition agent_Unauthorized :: "ty option" where
  "agent_Unauthorized = Some agent_Error_ty"

definition path_parameter :: "ty" where
  "path_parameter = T_string"

section \<open>Operations\<close>

definition runCommand_op :: "api_operation" where
  "runCommand_op = \<lparr>op_path = [], op_query = [], op_header = [],
    op_body = Body RunCommandRequest_ty, op_responses = [(200, Some CommandResult_ty), (400,
    agent_BadRequest), (401, agent_Unauthorized), (408, Some agent_Error_ty), (429,
    Some agent_Error_ty)]\<rparr>"

definition listFiles_op :: "api_operation" where
  "listFiles_op = \<lparr>op_path = [], op_query = [Required ''path'' path_parameter], op_header = [],
    op_body = No_body, op_responses = [(200, Some FileList_ty), (400, agent_BadRequest), (401,
    agent_Unauthorized), (404, agent_NotFound)]\<rparr>"

definition removeFile_op :: "api_operation" where
  "removeFile_op = \<lparr>op_path = [], op_query = [Required ''path'' path_parameter,
    Optional ''recursive'' T_boolean], op_header = [], op_body = No_body, op_responses = [(204, None),
    (400, agent_BadRequest), (401, agent_Unauthorized), (404, agent_NotFound)]\<rparr>"

definition downloadFile_op :: "api_operation" where
  "downloadFile_op = \<lparr>op_path = [], op_query = [Required ''path'' path_parameter], op_header = [],
    op_body = No_body, op_responses = [(200, Some T_string), (400, agent_BadRequest), (401,
    agent_Unauthorized), (404, agent_NotFound)]\<rparr>"

definition uploadFile_op :: "api_operation" where
  "uploadFile_op = \<lparr>op_path = [], op_query = [Optional ''mode'' T_string,
    Required ''path'' path_parameter], op_header = [], op_body = Body T_string, op_responses = [(204,
    None), (400, agent_BadRequest), (401, agent_Unauthorized)]\<rparr>"

definition makeDirectory_op :: "api_operation" where
  "makeDirectory_op = \<lparr>op_path = [], op_query = [], op_header = [],
    op_body = Body MakeDirectoryRequest_ty, op_responses = [(204, None), (400, agent_BadRequest), (401,
    agent_Unauthorized)]\<rparr>"

definition moveFile_op :: "api_operation" where
  "moveFile_op = \<lparr>op_path = [], op_query = [], op_header = [], op_body = Body MoveFileRequest_ty,
    op_responses = [(204, None), (400, agent_BadRequest), (401, agent_Unauthorized), (404,
    agent_NotFound), (409, agent_Conflict)]\<rparr>"

definition statFile_op :: "api_operation" where
  "statFile_op = \<lparr>op_path = [], op_query = [Required ''path'' path_parameter], op_header = [],
    op_body = No_body, op_responses = [(200, Some FileInfo_ty), (400, agent_BadRequest), (401,
    agent_Unauthorized), (404, agent_NotFound)]\<rparr>"

definition listProcesses_op :: "api_operation" where
  "listProcesses_op = \<lparr>op_path = [], op_query = [], op_header = [], op_body = No_body,
    op_responses = [(200, Some ProcessList_ty), (401, agent_Unauthorized)]\<rparr>"

definition startProcess_op :: "api_operation" where
  "startProcess_op = \<lparr>op_path = [], op_query = [], op_header = [],
    op_body = Body StartProcessRequest_ty, op_responses = [(201, Some Process_ty), (400,
    agent_BadRequest), (401, agent_Unauthorized), (429, agent_TooManyRequests)]\<rparr>"

definition getProcess_op :: "api_operation" where
  "getProcess_op = \<lparr>op_path = [Required ''pid'' T_number], op_query = [], op_header = [],
    op_body = No_body, op_responses = [(200, Some Process_ty), (401, agent_Unauthorized), (404,
    agent_NotFound)]\<rparr>"

definition killProcess_op :: "api_operation" where
  "killProcess_op = \<lparr>op_path = [Required ''pid'' T_number],
    op_query = [Optional ''signal'' (T_union [T_literal ''SIGTERM'', T_literal ''SIGKILL'',
    T_literal ''SIGINT'', T_literal ''SIGHUP''])], op_header = [], op_body = No_body,
    op_responses = [(204, None), (401, agent_Unauthorized), (404, agent_NotFound)]\<rparr>"

definition getProcessLogs_op :: "api_operation" where
  "getProcessLogs_op = \<lparr>op_path = [Required ''pid'' T_number],
    op_query = [Optional ''after'' T_number], op_header = [], op_body = No_body, op_responses = [(200,
    Some ProcessLogs_ty), (401, agent_Unauthorized), (404, agent_NotFound)]\<rparr>"

section \<open>Paths\<close>

definition path_commands :: "path_item" where
  "path_commands = (''/commands'', [(''POST'', runCommand_op)])"

definition path_files :: "path_item" where
  "path_files = (''/files'', [(''GET'', listFiles_op), (''DELETE'', removeFile_op)])"

definition path_files_content :: "path_item" where
  "path_files_content = (''/files/content'', [(''GET'', downloadFile_op), (''PUT'', uploadFile_op)])"

definition path_files_directories :: "path_item" where
  "path_files_directories = (''/files/directories'', [(''POST'', makeDirectory_op)])"

definition path_files_move :: "path_item" where
  "path_files_move = (''/files/move'', [(''POST'', moveFile_op)])"

definition path_files_stat :: "path_item" where
  "path_files_stat = (''/files/stat'', [(''GET'', statFile_op)])"

definition path_processes :: "path_item" where
  "path_processes = (''/processes'', [(''GET'', listProcesses_op), (''POST'', startProcess_op)])"

definition path_processes_pid :: "path_item" where
  "path_processes_pid = (''/processes/{pid}'', [(''GET'', getProcess_op), (''DELETE'', killProcess_op)])"

definition path_processes_pid_logs :: "path_item" where
  "path_processes_pid_logs = (''/processes/{pid}/logs'', [(''GET'', getProcessLogs_op)])"

definition agent_paths :: "path_item list" where
  "agent_paths = [path_commands, path_files, path_files_content, path_files_directories, path_files_move,
    path_files_stat, path_processes, path_processes_pid, path_processes_pid_logs]"

end
