(* ===== verification/Conformance.thy ===== *)
theory Conformance
  imports Client Control_Schema Agent_Schema
begin

text \<open>
  The SDK against the contracts it is compiled with. \<open>contract_client\<close> is the typed client of
  \<open>Api_Client\<close> behind a check that refuses every call the contract does not declare; an operation
  of the SDK keeps the contract when it cannot tell this client from the unchecked one. Over a server
  that answers with the declared types, a sandbox handle stays well-typed whatever is done with it.
\<close>

section \<open>A client that refuses calls outside the contract\<close>

definition contract_api :: "path_item list \<Rightarrow> 'w api_client \<Rightarrow> 'w api_client" where
  "contract_api paths api c =
     (if in_contract paths c then api c else throw (TypeError (js ''not an operation of the contract'')))"

definition contract_client :: "path_item list \<Rightarrow> 'w openapi_fetch \<Rightarrow> 'w openapi_fetch" where
  "contract_client paths createClient cfg fetch = contract_api paths (createClient cfg fetch)"

lemma unwrapped_contract:
  "in_contract paths c \<Longrightarrow> unwrapped (contract_api paths api) c = unwrapped api c"
  by (rule ext) (simp add: unwrapped_def contract_api_def bind_io_def)

lemma createApiClient_contract:
  "createApiClient (contract_client paths createClient) impl config =
     contract_api paths (createApiClient createClient impl config)"
  by (simp add: createApiClient_def contract_client_def)

lemma call_contract:
  assumes "\<And>i. in_contract paths (op i)"
  shows "call (contract_client paths createClient) impl sandbox this spec (\<lambda>cl i. unwrapped cl (op i)) =
    call createClient impl sandbox this spec (\<lambda>cl i. unwrapped cl (op i))"
  by (rule ext) (simp add: call_def contract_client_def unwrapped_contract [OF assms])

section \<open>Values of the declared types\<close>

text \<open>Optional members, one at a time.\<close>

definition optional_ok :: "('a \<Rightarrow> jsval) \<Rightarrow> bool \<Rightarrow> ty \<Rightarrow> 'a option \<Rightarrow> bool" where
  "optional_ok f c t x \<longleftrightarrow> (case x of None \<Rightarrow> True | Some a \<Rightarrow> f a = JUndefined \<or> has_type c t (f a))"

lemma map_of_opt_field:
  "map_of r k = None \<Longrightarrow> map_of (opt_field k f x @ r) k = map_option f x"
  "j \<noteq> k \<Longrightarrow> map_of (opt_field k f x @ r) j = map_of r j"
  "map_of (opt_field k f x) k = map_option f x"
  "j \<noteq> k \<Longrightarrow> map_of (opt_field k f x) j = None"
  by (cases x; simp)+

lemma list_all_opt_field: "list_all P (opt_field k f x) = (\<forall>a. x = Some a \<longrightarrow> P (k, f a))"
  by (cases x) simp_all

lemma optional_member:
  "(case map_option f x of
      None \<Rightarrow> True | Some v \<Rightarrow> v = JUndefined \<or> has_type c t v) = optional_ok f c t x"
  by (cases x) (simp_all add: optional_ok_def)

lemma list_all_one: "list_all (has_type c t) [v] = has_type c t v"
  by simp

lemma optional_members [simp]:
  "optional_ok JStr c T_string s"
  "optional_ok JNum c T_number n"
  "optional_ok JBool c T_boolean b"
  "optional_ok jstrings c (T_array T_string) xs"
  "optional_ok jrecord c (T_record T_string) kvs"
  "optional_ok (\<lambda>ns. JArr (map JNum ns)) c (T_array T_number) ns"
  by (auto simp: optional_ok_def jstrings_def jrecord_def list_all_iff split: option.split)

lemmas call_shape = in_contract_def addressed_def op_accepts_def api_op_def

lemmas agent_contract = call_shape agent_paths_def path_commands_def path_files_def path_files_directories_def
  path_files_move_def path_files_stat_def path_processes_def path_processes_pid_def path_processes_pid_logs_def
  path_files_content_def runCommand_op_def listFiles_op_def removeFile_op_def makeDirectory_op_def moveFile_op_def
  statFile_op_def listProcesses_op_def startProcess_op_def getProcess_op_def killProcess_op_def
  getProcessLogs_op_def RunCommandRequest_ty_def StartProcessRequest_ty_def MakeDirectoryRequest_ty_def
  MoveFileRequest_ty_def path_parameter_def

section \<open>The data plane\<close>

definition typed_signal :: "jstr option \<Rightarrow> bool" where
  "typed_signal sig \<longleftrightarrow> (case sig of None \<Rightarrow> True | Some s \<Rightarrow> s \<in> set Signals)"

lemma optional_signal:
  "typed_signal sig \<Longrightarrow> optional_ok JStr c (T_union [T_literal ''SIGTERM'', T_literal ''SIGKILL'',
     T_literal ''SIGINT'', T_literal ''SIGHUP'']) sig"
  by (auto simp: typed_signal_def Signals_def optional_ok_def split: option.splits)

text \<open>The argument types TypeScript gives what the model leaves open: a signal is one of the four, and a
  terminal size is a \<open>PtySize\<close>.\<close>

definition typed_pty :: "StartProcessOptions option \<Rightarrow> bool" where
  "typed_pty opts \<longleftrightarrow> (case Option.bind opts sp_pty of None \<Rightarrow> True | Some v \<Rightarrow> has_type True PtySize_ty v)"

lemma optional_pty: "typed_pty opts \<Longrightarrow> optional_ok id True PtySize_ty (Option.bind opts sp_pty)"
  by (auto simp: typed_pty_def optional_ok_def split: option.splits)

lemma Commands_calls:
  "in_contract agent_paths ((api_op ''POST'' ''/commands'' i)\<lparr>ac_body := JObj (
     [(js ''command'', JStr command)] @
     opt_field (js ''args'') jstrings a @ opt_field (js ''cwd'') JStr b @
     opt_field (js ''env'') jrecord d @ opt_field (js ''stdin'') JStr e @
     opt_field (js ''timeout_seconds'') JNum t)\<rparr>)"
  "optional_ok id True PtySize_ty pty \<Longrightarrow>
   in_contract agent_paths ((api_op ''POST'' ''/processes'' i)\<lparr>ac_body := JObj (
     [(js ''command'', JStr command)] @
     opt_field (js ''args'') jstrings a @ opt_field (js ''cwd'') JStr b @
     opt_field (js ''env'') jrecord d @ opt_field (js ''pty'') id pty)\<rparr>)"
  "in_contract agent_paths ((api_op ''GET'' ''/processes/{pid}'' i)\<lparr>ac_path_params := [(js ''pid'', JNum n)]\<rparr>)"
  "in_contract agent_paths ((api_op ''GET'' ''/processes/{pid}/logs'' i)
     \<lparr>ac_path_params := [(js ''pid'', JNum n)], ac_query := opt_field (js ''after'') JNum after\<rparr>)"
  "in_contract agent_paths (api_op ''GET'' ''/processes'' i)"
  "typed_signal sig \<Longrightarrow>
   in_contract agent_paths ((api_op ''DELETE'' ''/processes/{pid}'' i)
     \<lparr>ac_path_params := [(js ''pid'', JNum n)], ac_query := opt_field (js ''signal'') JStr sig\<rparr>)"
  by (simp_all add: agent_contract map_of_opt_field list_all_opt_field optional_member optional_signal
      del: map_of_append case_map_option)

lemma Files_calls:
  "in_contract agent_paths ((api_op ''GET'' ''/files'' i)\<lparr>ac_query := [(js ''path'', JStr path)]\<rparr>)"
  "in_contract agent_paths ((api_op ''GET'' ''/files/stat'' i)\<lparr>ac_query := [(js ''path'', JStr path)]\<rparr>)"
  "in_contract agent_paths ((api_op ''POST'' ''/files/directories'' i)\<lparr>ac_body := JObj (
     [(js ''path'', JStr path), (js ''parents'', JBool b)] @ opt_field (js ''mode'') JStr m)\<rparr>)"
  "in_contract agent_paths ((api_op ''POST'' ''/files/move'' i)\<lparr>ac_body := JObj
     [(js ''source'', JStr source), (js ''destination'', JStr destination), (js ''overwrite'', JBool b)]\<rparr>)"
  "in_contract agent_paths ((api_op ''DELETE'' ''/files'' i)\<lparr>ac_query :=
     [(js ''path'', JStr path)] @ opt_field (js ''recursive'') JBool r\<rparr>)"
  by (simp_all add: agent_contract map_of_opt_field list_all_opt_field optional_member
      del: map_of_append case_map_option)

lemma has_type_base:
  "has_type c T_string v \<longleftrightarrow> (\<exists>s. v = JStr s)"
  "has_type c T_number v \<longleftrightarrow> (\<exists>n. v = JNum n)"
  by (cases v; simp)+

text \<open>Reading a required member of a typed object.\<close>

lemma has_fields_required:
  "has_fields c fs kvs \<Longrightarrow> Required k t \<in> set fs \<Longrightarrow> \<exists>v. map_of kvs (js k) = Some v \<and> has_type c t v"
proof (induction fs)
  case (Cons f fs)
  then show ?case by (cases f) (auto split: option.splits)
qed simp

lemma required_member:
  assumes "has_type c (T_object fs) v" and "Required k t \<in> set fs"
  shows "\<exists>x. read_prop k v = Inr x \<and> has_type c t x"
  using assms has_fields_required [of c fs _ k t]
  by (cases v) (fastforce simp: read_prop_def)+

lemma typed_process_pid:
  assumes "has_type False Process_ty (ph_info h)"
  obtains n where "pid h = Inr (JNum n)"
proof -
  have "\<exists>x. read_prop ''pid'' (ph_info h) = Inr x \<and> has_type False T_number x"
    by (rule required_member [OF assms [unfolded Process_ty_def]]) simp
  with that show ?thesis unfolding has_type_base pid_def by blast
qed



section \<open>Retried attempts\<close>

text \<open>Attempts that agree on the worlds of an invariant agree when they are retried.\<close>

lemma send_loop_transfer:
  assumes "send_loop p spec run k w = Some rw" and "Q w"
    and agree: "\<And>w. Q w \<Longrightarrow> run (init (options spec)) w = run' (init (options spec)) w"
    and keeps: "\<And>w r w'. Q w \<Longrightarrow> run (init (options spec)) w = Some (r, w') \<Longrightarrow> Q w'"
    and platform: "\<And>w w'. Q w \<Longrightarrow> runtime.more w' = runtime.more w \<Longrightarrow> Q w'"
  shows "send_loop p spec run' k w = Some rw"
proof -
  let ?P = "\<lambda>(p :: RequestPipeline) spec run (k :: nat) w rw.
    Q w \<longrightarrow> (\<forall>w. Q w \<longrightarrow> run (init (options spec)) w = run' (init (options spec)) w) \<longrightarrow>
    (\<forall>w r w'. Q w \<longrightarrow> run (init (options spec)) w = Some (r, w') \<longrightarrow> Q w') \<longrightarrow>
    send_loop p spec run' k w = Some rw"
  have "?P p spec run k w rw"
  proof (rule send_loop.raw_induct [where P = ?P, OF _ assms(1)], intro impI)
    fix f p spec run k w rw
    assume IH: "\<And>p spec run k w y. f p spec run k w = Some y \<Longrightarrow> ?P p spec run k w y"
      and eq: "(case run (init (options spec)) w of
          None \<Rightarrow> None
        | Some (Inl error, w') \<Rightarrow>
            if num_le (maxRetries p) (num_of_nat k) \<or> \<not> shouldRetry error (idempotent spec)
            then Some (Inl error, w')
            else case backoff p spec error k w' of
                None \<Rightarrow> None
              | Some (Inl reason, w'') \<Rightarrow> Some (Inl reason, w'')
              | Some (Inr u, w'') \<Rightarrow> f p spec run (Suc k) w''
        | Some (Inr x, w') \<Rightarrow> Some (Inr x, w')) = Some rw"
      and q: "Q w" and agree: "\<forall>w. Q w \<longrightarrow> run (init (options spec)) w = run' (init (options spec)) w"
      and keeps: "\<forall>w r w'. Q w \<longrightarrow> run (init (options spec)) w = Some (r, w') \<longrightarrow> Q w'"
    have same: "run' (init (options spec)) w = run (init (options spec)) w" using agree q by simp
    show "send_loop p spec run' k w = Some rw"
    proof (cases rule: send_loop_cases [where run = run and spec = spec and w = w and p = p and k = k])
      case (again e w1 u w2)
      from keeps q again(1) have "Q w1" by blast
      then have "Q w2" using platform backoff_frame(3) [OF again(4)] by blast
      moreover from again eq have "f p spec run (Suc k) w2 = Some rw" by simp
      ultimately have "send_loop p spec run' (Suc k) w2 = Some rw" using IH agree keeps by blast
      with again same show ?thesis by (simp add: send_loop_step(4))
    qed (use eq same in \<open>auto simp: send_loop_step\<close>)
  qed
  with assms(2) agree keeps show ?thesis by blast
qed

lemma send_cong_on:
  assumes "Q w"
    and agree: "\<And>w. Q w \<Longrightarrow> run (init (options spec)) w = run' (init (options spec)) w"
    and keeps: "\<And>w r w'. Q w \<Longrightarrow> run (init (options spec)) w = Some (r, w') \<Longrightarrow> Q w'"
    and platform: "\<And>w w'. Q w \<Longrightarrow> runtime.more w' = runtime.more w \<Longrightarrow> Q w'"
  shows "send p spec run w = send p spec run' w"
proof (cases "send p spec run w")
  case (Some rw)
  then show ?thesis
    using send_loop_transfer [of p spec run 0 w rw Q run'] assms unfolding send_def by metis
next
  case None
  have "send p spec run' w = None"
  proof (rule ccontr)
    assume "send p spec run' w \<noteq> None"
    then obtain rw where "send_loop p spec run' 0 w = Some rw" by (auto simp: send_def)
    then have "send_loop p spec run 0 w = Some rw"
      by (rule send_loop_transfer [where Q = Q]) (use assms in \<open>metis\<close>)+
    with None show False by (simp add: send_def)
  qed
  with None show ?thesis by simp
qed

section \<open>Results of the declared types\<close>

text \<open>The server's side of a contract: every decoded result of a declared call is of a declared type.\<close>

definition contract_kept :: "path_item list \<Rightarrow> 'w api_client \<Rightarrow> bool" where
  "contract_kept paths api \<longleftrightarrow>
     (\<forall>c w r w'. in_contract paths c \<longrightarrow> api c w = Some (Inr r, w') \<longrightarrow> well_typed_result paths c r)"

text \<open>The data a successful call of an operation can yield.\<close>

definition answer_of :: "api_operation \<Rightarrow> jsval \<Rightarrow> bool" where
  "answer_of op v \<longleftrightarrow>
     (\<exists>(st, t) \<in> set (op_responses op). 200 \<le> st \<and> st \<le> 299 \<and>
        (case t of None \<Rightarrow> v = JUndefined | Some t \<Rightarrow> has_type False t v))"

lemma declared_type_in: "st \<in> fst ` set rs \<Longrightarrow> (st, declared_type rs st) \<in> set rs"
  by (induction rs st rule: declared_type.induct) auto

lemma contract_result:
  assumes "contract_kept paths api" and "addressed paths c = Some op"
    and "unwrapped (contract_api paths api) c w = Some (Inr v, w')"
  shows "answer_of op v"
proof -
  obtain r where r: "contract_api paths api c w = Some (Inr r, w')" "unwrap r = Inr v"
    using assms(3) by (auto simp: unwrapped_def elim!: bind_io_InrE)
  then have c: "in_contract paths c" "api c w = Some (Inr r, w')"
    by (auto simp: contract_api_def split: if_splits)
  from r(2) have ok: "ar_error r = JUndefined" "response_ok (ar_response r)" "v = ar_data r"
    by (auto simp: unwrap_def split: if_splits)
  have "well_typed_result paths c r" using assms(1) c unfolding contract_kept_def by blast
  with ok assms(2) have "rs_status (ar_response r) \<in> fst ` set (op_responses op)"
    "case declared_type (op_responses op) (rs_status (ar_response r)) of
       None \<Rightarrow> v = JUndefined | Some t \<Rightarrow> has_type False t v"
    by (auto simp: well_typed_result_def)
  with ok(2) declared_type_in show ?thesis unfolding answer_of_def response_ok_def by fastforce
qed

lemma send_result:
  assumes "send p spec run w = Some (Inr x, w')"
  obtains w1 where "run (init (options spec)) w1 = Some (Inr x, w')"
  using send_loop_outcome [OF assms [unfolded send_def]] by (auto simp: call_outcome_def)

section \<open>Sandbox handles\<close>

lemmas control_contract = call_shape control_paths_def path_v1_sandboxes_def path_v1_sandboxes_sandboxId_def
  path_v1_sandboxes_sandboxId_deadline_def path_v1_sandboxes_sandboxId_pause_def
  path_v1_sandboxes_sandboxId_ports_def path_v1_sandboxes_sandboxId_ports_port_def
  path_v1_sandboxes_sandboxId_resume_def path_v1_sandboxes_sandboxId_token_def path_v1_templates_def
  path_v1_templates_template_def path_v1_templates_builds_def path_v1_templates_builds_buildId_def
  path_v1_templates_builds_buildId_logs_def

lemmas control_operations = listSandboxes_op_def createSandbox_op_def getSandbox_op_def deleteSandbox_op_def
  extendSandboxDeadline_op_def pauseSandbox_op_def listPorts_op_def exposePort_op_def unexposePort_op_def
  resumeSandbox_op_def mintSandboxToken_op_def listTemplates_op_def getTemplate_op_def deleteTemplate_op_def
  createTemplateBuild_op_def getTemplateBuild_op_def getTemplateBuildLogs_op_def

lemmas control_parameters = sandboxId_parameter_def NanoId_ty_def buildId_parameter_def cursor_parameter_def
  limit_parameter_def TemplateAlias_ty_def SandboxName_ty_def ExtendDeadlineRequest_ty_def
  ResumeSandboxRequest_ty_def MintTokenRequest_ty_def ExposePortRequest_ty_def

text \<open>A handle whose representation and token are what the contract says, and what it sends.\<close>

definition typed_handle :: "Sandbox \<Rightarrow> bool" where
  "typed_handle sb \<longleftrightarrow> has_type False Sandbox_ty (sb_info sb) \<and>
     (sb_token sb = JUndefined \<or> has_type False CapabilityToken_ty (sb_token sb))"

lemma typed_sandbox_id:
  assumes "has_type False Sandbox_ty (sb_info sb)"
  obtains s where "sandboxId sb = Inr (JStr s)"
proof -
  have "\<exists>x. read_prop ''sandbox_id'' (sb_info sb) = Inr x \<and> has_type False NanoId_ty x"
    by (rule required_member [OF assms [unfolded Sandbox_ty_def]]) simp
  with that show ?thesis unfolding has_type_base NanoId_ty_def sandboxId_def by blast
qed

lemma sandbox_send_checked:
  assumes "single_fetch createClient" and api: "api = control_plane createClient impl config"
    and "has_type False Sandbox_ty (sb_info (self w))"
    and calls: "\<And>s i. in_contract control_paths
        ((api_op meth path i)\<lparr>ac_path_params := [(js ''sandboxId'', JStr s)], ac_body := body\<rparr>)"
  shows "sandbox_send (contract_api control_paths api) meth path idem body opts w =
    sandbox_send api meth path idem body opts w"
  unfolding sandbox_send_def
proof (rule send_cong_on [where Q = "\<lambda>w. has_type False Sandbox_ty (sb_info (self w))"])
  let ?spec = "\<lparr>operation = js (meth @ '' '' @ path), idempotent = idem, options = opts\<rparr>"
  fix v v' :: "'a sandbox_world" and r
  assume typed: "has_type False Sandbox_ty (sb_info (self v))"
  then obtain s where s: "sandboxId (self v) = Inr (JStr s)" by (rule typed_sandbox_id)
  show same: "sandbox_attempt (contract_api control_paths api) meth path body (init (options ?spec)) v =
      sandbox_attempt api meth path body (init (options ?spec)) v"
    using s calls by (simp add: sandbox_attempt_def unwrapped_contract)
  assume "sandbox_attempt (contract_api control_paths api) meth path body (init (options ?spec)) v = Some (r, v')"
  with s same have "self v' = self v"
    by (auto simp: sandbox_attempt_def createApiClient_def api dest!: unwrapped_more [OF assms(1)] self_more)
  with typed show "has_type False Sandbox_ty (sb_info (self v'))" by simp
next
  fix v v' :: "'a sandbox_world"
  assume "has_type False Sandbox_ty (sb_info (self v))" "runtime.more v' = runtime.more v"
  then show "has_type False Sandbox_ty (sb_info (self v'))" using self_more [of v' v] by simp
qed (rule assms(3))

lemma sandbox_send_answer:
  assumes "contract_kept control_paths api"
    and "sandbox_send (contract_api control_paths api) meth path idem body opts w = Some (Inr v, w')"
    and "operation_of control_paths (js meth) (js path) = Some op"
  shows "answer_of op v"
proof -
  obtain i w1 where "sandbox_attempt (contract_api control_paths api) meth path body i w1 = Some (Inr v, w')"
    using assms(2) unfolding sandbox_send_def by (auto elim: send_result)
  then obtain sid where "unwrapped (contract_api control_paths api)
      ((api_op meth path i)\<lparr>ac_path_params := [(js ''sandboxId'', sid)], ac_body := body\<rparr>) w1 = Some (Inr v, w')"
    by (auto simp: sandbox_attempt_def split: sum.splits)
  then show ?thesis using assms(1,3) by (rule_tac contract_result) (simp_all add: addressed_def api_op_def)
qed

text \<open>The calls of the lifecycle operations, and what their answers are.\<close>

lemma lifecycle_calls:
  fixes i :: CallInit and s :: jstr
  defines "c \<equiv> \<lambda>meth path body. (api_op meth path i)\<lparr>ac_path_params := [(js ''sandboxId'', JStr s)], ac_body := body\<rparr>"
  shows "in_contract control_paths (c ''GET'' ''/v1/sandboxes/{sandboxId}'' JUndefined)"
    and "in_contract control_paths (c ''DELETE'' ''/v1/sandboxes/{sandboxId}'' JUndefined)"
    and "in_contract control_paths (c ''POST'' ''/v1/sandboxes/{sandboxId}/pause'' JUndefined)"
    and "in_contract control_paths (c ''POST'' ''/v1/sandboxes/{sandboxId}/resume''
        (JObj (opt_field (js ''deadline_seconds'') JNum secs)))"
    and "in_contract control_paths (c ''POST'' ''/v1/sandboxes/{sandboxId}/deadline''
        (jobj [(''deadline_seconds'', JNum n)]))"
    and "in_contract control_paths (c ''POST'' ''/v1/sandboxes/{sandboxId}/token''
        (JObj (opt_field (js ''ttl_seconds'') JNum secs @ opt_field (js ''ports'') (\<lambda>ps. JArr (map JNum ps)) ports)))"
  unfolding c_def
  by (simp_all add: control_contract control_operations control_parameters jobj_def map_of_opt_field
      list_all_opt_field optional_member del: map_of_append case_map_option)

lemma lifecycle_operations:
  "operation_of control_paths (js ''GET'') (js ''/v1/sandboxes/{sandboxId}'') = Some getSandbox_op"
  "operation_of control_paths (js ''DELETE'') (js ''/v1/sandboxes/{sandboxId}'') = Some deleteSandbox_op"
  "operation_of control_paths (js ''POST'') (js ''/v1/sandboxes/{sandboxId}/pause'') = Some pauseSandbox_op"
  "operation_of control_paths (js ''POST'') (js ''/v1/sandboxes/{sandboxId}/resume'') = Some resumeSandbox_op"
  "operation_of control_paths (js ''POST'') (js ''/v1/sandboxes/{sandboxId}/deadline'') = Some extendSandboxDeadline_op"
  "operation_of control_paths (js ''POST'') (js ''/v1/sandboxes/{sandboxId}/token'') = Some mintSandboxToken_op"
  by (simp_all add: control_contract)

lemma lifecycle_answers:
  "answer_of getSandbox_op v \<Longrightarrow> has_type False Sandbox_ty v"
  "answer_of pauseSandbox_op v \<Longrightarrow> has_type False Sandbox_ty v"
  "answer_of extendSandboxDeadline_op v \<Longrightarrow> has_type False Sandbox_ty v"
  "answer_of resumeSandbox_op v \<Longrightarrow> has_type False SandboxWithToken_ty v"
  "answer_of mintSandboxToken_op v \<Longrightarrow> has_type False CapabilityToken_ty v"
  by (auto simp: answer_of_def control_operations)

lemma typed_sandbox_with_token:
  assumes "has_type False SandboxWithToken_ty v"
  shows "\<exists>x. read_prop ''sandbox'' v = Inr x \<and> has_type False Sandbox_ty x"
    and "\<exists>x. read_prop ''token'' v = Inr x \<and> has_type False CapabilityToken_ty x"
  by (rule required_member [OF assms [unfolded SandboxWithToken_ty_def]], simp)+

text \<open>One lifecycle request over a server that keeps the contract.\<close>

lemma typed_send:
  assumes "single_fetch createClient" and "api = control_plane createClient impl config"
    and "contract_kept control_paths api" and "typed_handle (self w)"
    and "\<And>s i. in_contract control_paths
        ((api_op meth path i)\<lparr>ac_path_params := [(js ''sandboxId'', JStr s)], ac_body := body\<rparr>)"
    and "operation_of control_paths (js meth) (js path) = Some op"
    and "sandbox_send api meth path idem body opts w = Some (r, w')"
  shows "self w' = self w \<and> (\<forall>v. r = Inr v \<longrightarrow> answer_of op v)"
proof -
  have "has_type False Sandbox_ty (sb_info (self w))" using assms(4) by (simp add: typed_handle_def)
  with assms have "sandbox_send (contract_api control_paths api) meth path idem body opts w = Some (r, w')"
    by (simp add: sandbox_send_checked)
  then show ?thesis
    using sandbox_send_answer [OF assms(3)] assms(6) sandbox_send_self [OF assms(1)] assms(2,7) by blast
qed

lemma typed_handle_update:
  "typed_handle sb \<Longrightarrow> has_type False Sandbox_ty v \<Longrightarrow> typed_handle (sb\<lparr>sb_info := v\<rparr>)"
  "typed_handle sb \<Longrightarrow> has_type False CapabilityToken_ty v \<Longrightarrow> typed_handle (sb\<lparr>sb_token := v\<rparr>)"
  by (simp_all add: typed_handle_def del: has_type.simps)

lemma lifecycle_keeps_types:
  assumes "single_fetch createClient" and "api = control_plane createClient impl config"
    and "contract_kept control_paths api" and "typed_handle (self w)"
  shows "Sandbox_refresh api o1 w = Some (r, w') \<Longrightarrow> typed_handle (self w')"
    and "Sandbox_pause api o1 w = Some (r, w') \<Longrightarrow> typed_handle (self w')"
    and "Sandbox_extendDeadline api n o1 w = Some (r, w') \<Longrightarrow> typed_handle (self w')"
    and "Sandbox_mintToken api o3 w = Some (r, w') \<Longrightarrow> typed_handle (self w')"
    and "Sandbox_resume api o2 w = Some (r, w') \<Longrightarrow> typed_handle (self w')"
    and "Sandbox_delete api o1 w = Some (rd, w') \<Longrightarrow> typed_handle (self w')"
proof -
  note send = typed_send [OF assms]
  note unfold = bind_io_def set_info_def set_token_def
  note hints = assms(4) typed_handle_update lifecycle_answers
  show "Sandbox_refresh api o1 w = Some (r, w') \<Longrightarrow> typed_handle (self w')"
    unfolding Sandbox_refresh_def unfold
    by (auto split: option.splits sum.splits prod.splits simp: hints
        dest!: send [OF lifecycle_calls(1) lifecycle_operations(1)] simp del: has_type.simps)
  show "Sandbox_pause api o1 w = Some (r, w') \<Longrightarrow> typed_handle (self w')"
    unfolding Sandbox_pause_def unfold
    by (auto split: option.splits sum.splits prod.splits simp: hints
        dest!: send [OF lifecycle_calls(3) lifecycle_operations(3)] simp del: has_type.simps)
  show "Sandbox_extendDeadline api n o1 w = Some (r, w') \<Longrightarrow> typed_handle (self w')"
    unfolding Sandbox_extendDeadline_def unfold
    by (auto split: option.splits sum.splits prod.splits simp: hints
        dest!: send [OF lifecycle_calls(5) lifecycle_operations(5)] simp del: has_type.simps)
  show "Sandbox_mintToken api o3 w = Some (r, w') \<Longrightarrow> typed_handle (self w')"
    unfolding Sandbox_mintToken_def unfold
    by (auto split: option.splits sum.splits prod.splits simp: hints
        dest!: send [OF lifecycle_calls(6) lifecycle_operations(6)] simp del: has_type.simps)
  show "Sandbox_delete api o1 w = Some (rd, w') \<Longrightarrow> typed_handle (self w')"
    unfolding Sandbox_delete_def unfold
    by (auto split: option.splits sum.splits prod.splits simp: hints
        dest!: send [OF lifecycle_calls(2) lifecycle_operations(2)] simp del: has_type.simps)
  assume "Sandbox_resume api o2 w = Some (r, w')"
  then obtain r0 w1 where sent: "sandbox_send api ''POST'' ''/v1/sandboxes/{sandboxId}/resume'' False
      (JObj (opt_field (js ''deadline_seconds'') JNum (Option.bind o2 rs_deadlineSeconds)))
      (map_option RequestOptions.truncate o2) w = Some (r0, w1)"
    and rest: "case r0 of Inl e \<Rightarrow> w' = w1
      | Inr v \<Rightarrow> \<forall>info tok. read_prop ''sandbox'' v = Inr info \<longrightarrow> read_prop ''token'' v = Inr tok \<longrightarrow>
          self w' = (self w1)\<lparr>sb_info := info, sb_token := tok\<rparr>"
    unfolding Sandbox_resume_def unfold by (auto split: option.splits sum.splits prod.splits)
  note answered = send [OF lifecycle_calls(4) lifecycle_operations(4) sent]
  show "typed_handle (self w')"
  proof (cases r0)
    case (Inl e)
    with rest answered assms(4) show ?thesis by simp
  next
    case (Inr v)
    with answered have "has_type False SandboxWithToken_ty v" by (simp add: lifecycle_answers del: has_type.simps)
    then obtain info tok where "read_prop ''sandbox'' v = Inr info" "has_type False Sandbox_ty info"
      "read_prop ''token'' v = Inr tok" "has_type False CapabilityToken_ty tok"
      using typed_sandbox_with_token by blast
    with rest Inr answered assms(4) show ?thesis by (simp add: typed_handle_update del: has_type.simps)
  qed
qed

text \<open>C4: A sandbox handle is type-safe: over a server that answers with the declared types, the lifecycle
  operations of a handle with a typed representation and token make only calls the contract declares, and
  whatever the outcome the handle they leave is typed again, with a string for its id.\<close>

theorem handle_keeps_contract:
  assumes "single_fetch createClient" and "api = control_plane createClient impl config"
    and "checked = control_plane (contract_client control_paths createClient) impl config"
    and "contract_kept control_paths api" and "typed_handle (self w)"
  shows "Sandbox_refresh checked o1 w = Sandbox_refresh api o1 w \<and> Sandbox_pause checked o1 w = Sandbox_pause api o1 w \<and>
     Sandbox_extendDeadline checked n o1 w = Sandbox_extendDeadline api n o1 w \<and>
     Sandbox_resume checked o2 w = Sandbox_resume api o2 w \<and>
     Sandbox_mintToken checked o3 w = Sandbox_mintToken api o3 w \<and> Sandbox_delete checked o1 w = Sandbox_delete api o1 w \<and>
     (\<forall>r w'. Sandbox_refresh api o1 w = Some (r, w') \<or> Sandbox_pause api o1 w = Some (r, w') \<or>
        Sandbox_extendDeadline api n o1 w = Some (r, w') \<or> Sandbox_resume api o2 w = Some (r, w') \<or>
        Sandbox_mintToken api o3 w = Some (r, w') \<or> Sandbox_delete api o1 w = Some (map_sum id (\<lambda>_. ()) r, w') \<longrightarrow>
        typed_handle (self w') \<and> (\<exists>s. sandboxId (self w') = Inr (JStr s)))"
proof -
  have checked: "checked = contract_api control_paths api"
    using assms(2,3) by (simp add: createApiClient_contract)
  have info: "has_type False Sandbox_ty (sb_info (self w))" using assms(5) by (simp add: typed_handle_def)
  note same = sandbox_send_checked [OF assms(1,2) info]
  note sends = same [OF lifecycle_calls(1)] same [OF lifecycle_calls(2)] same [OF lifecycle_calls(3)]
    same [OF lifecycle_calls(4)] same [OF lifecycle_calls(5)] same [OF lifecycle_calls(6)]
  have "Sandbox_refresh checked o1 w = Sandbox_refresh api o1 w" "Sandbox_pause checked o1 w = Sandbox_pause api o1 w"
    "Sandbox_extendDeadline checked n o1 w = Sandbox_extendDeadline api n o1 w"
    "Sandbox_resume checked o2 w = Sandbox_resume api o2 w"
    "Sandbox_mintToken checked o3 w = Sandbox_mintToken api o3 w" "Sandbox_delete checked o1 w = Sandbox_delete api o1 w"
    unfolding checked Sandbox_refresh_def Sandbox_pause_def Sandbox_extendDeadline_def Sandbox_resume_def
      Sandbox_mintToken_def Sandbox_delete_def
    by (intro refl bind_io_cong sends)+
  moreover have "typed_handle (self w') \<and> (\<exists>s. sandboxId (self w') = Inr (JStr s))"
    if "Sandbox_refresh api o1 w = Some (r, w') \<or> Sandbox_pause api o1 w = Some (r, w') \<or>
        Sandbox_extendDeadline api n o1 w = Some (r, w') \<or> Sandbox_resume api o2 w = Some (r, w') \<or>
        Sandbox_mintToken api o3 w = Some (r, w') \<or> Sandbox_delete api o1 w = Some (map_sum id (\<lambda>_. ()) r, w')" for r w'
  proof -
    have "typed_handle (self w')"
      using that by (elim disjE) (erule lifecycle_keeps_types [OF assms(1,2,4,5)])+
    then show ?thesis by (auto simp: typed_handle_def elim: typed_sandbox_id)
  qed
  ultimately show ?thesis by (intro conjI allI impI) blast+
qed

text \<open>A control plane that knows one sandbox and answers its representation, and 404 to anything else.\<close>

definition typed_info :: jsval where
  "typed_info = jobj [(''created_at'', jtext ''2026-01-01T00:00:00Z''), (''deadline'', jtext ''2026-01-02T00:00:00Z''),
     (''domain'', jtext ''d''), (''epoch'', jint 1), (''metadata'', JObj []),
     (''resources'', jobj [(''mem_mib'', jint 512), (''vcpus'', jint 1)]), (''sandbox_id'', jtext ''s''),
     (''state'', jtext ''running''), (''template_artifact_id'', jtext ''a'')]"

definition one_sandbox :: "'n fetch_impl" where
  "one_sandbox rq t n =
     (n, Some (t, Inr (if rq_method rq = js ''GET'' \<and> rq_url rq = js ''http://h'' @ js ''/v1/sandboxes/{sandboxId}''
       then \<lparr>rs_status = 200, rs_headers = [], rs_json = Inr typed_info, rs_bytes = []\<rparr>
       else \<lparr>rs_status = 404, rs_headers = [], rs_json = Inr JNull, rs_bytes = []\<rparr>)))"

lemma typed_info_ok: "has_type False Sandbox_ty typed_info"
  by (simp add: typed_info_def jobj_def Sandbox_ty_def NanoId_ty_def Resources_ty_def SandboxState_ty_def
      ArtifactId_ty_def)

lemma one_sandbox_fetch:
  "createHttpFetch d one_sandbox rq w =
     Some (snd (the (snd (one_sandbox rq (now w) (net w)))), w)"
proof -
  have "createHttpFetch d one_sandbox rq w =
      Some (snd (the (snd (one_sandbox rq (now w) (net w)))), w\<lparr>net := net w\<rparr>)"
    by (rule createHttpFetch_prompt) (simp add: one_sandbox_def)
  then show ?thesis by simp
qed

lemma one_sandbox_call:
  "control_plane plain_client one_sandbox sample_config c w = Some (Inr r, w') \<Longrightarrow>
     response_ok (ar_response r) \<Longrightarrow>
     ac_method c = js ''GET'' \<and> ac_path c = js ''/v1/sandboxes/{sandboxId}'' \<and> ar_data r = typed_info \<and>
     rs_status (ar_response r) = 200"
  by (auto simp: createApiClient_def plain_client_def bind_io_def one_sandbox_fetch one_sandbox_def
      plain_decode_def response_ok_def sample_config_def split: sum.splits if_splits)

lemma one_sandbox_keeps_contract: "contract_kept control_paths (control_plane plain_client one_sandbox sample_config)"
  unfolding contract_kept_def well_typed_result_def
proof (intro allI impI, elim conjE)
  fix c r and w w' :: "'a sandbox_world"
  assume "control_plane plain_client one_sandbox sample_config c w = Some (Inr r, w')" "response_ok (ar_response r)"
  then have c: "ac_method c = js ''GET''" "ac_path c = js ''/v1/sandboxes/{sandboxId}''" "ar_data r = typed_info"
    "rs_status (ar_response r) = 200"
    using one_sandbox_call by blast+
  then have "addressed control_paths c = Some getSandbox_op"
    by (simp add: addressed_def lifecycle_operations)
  with c show "\<exists>op. addressed control_paths c = Some op \<and> rs_status (ar_response r) \<in> fst ` set (op_responses op) \<and>
      (case declared_type (op_responses op) (rs_status (ar_response r)) of
         None \<Rightarrow> ar_data r = JUndefined | Some t \<Rightarrow> has_type False t (ar_data r))"
    using typed_info_ok by (simp add: getSandbox_op_def del: has_type.simps)
qed

theorem handle_keeps_contract_witness:
  "\<exists>w'. Sandbox_refresh (control_plane (contract_client control_paths plain_client) one_sandbox sample_config) None
      (sample_world (sample_handle\<lparr>sb_info := typed_info, sb_token := JUndefined\<rparr>)) = Some (Inr typed_info, w') \<and>
    sandboxId (self w') = Inr (jtext ''s'')"
proof -
  let ?api = "control_plane plain_client one_sandbox sample_config"
  let ?sb = "sample_handle\<lparr>sb_info := typed_info, sb_token := JUndefined\<rparr>"
  let ?w = "sample_world ?sb"
  have "typed_handle (self ?w)" by (simp add: typed_handle_def typed_info_ok del: has_type.simps)
  from handle_keeps_contract [OF plain_client_single_fetch refl refl one_sandbox_keeps_contract this]
  have same: "Sandbox_refresh (control_plane (contract_client control_paths plain_client) one_sandbox sample_config) None ?w =
      Sandbox_refresh ?api None ?w"
    by blast
  have sid: "sandboxId ?sb = Inr (jtext ''s'')" by (simp add: sandboxId_def typed_info_def)
  obtain hs where hs: "set_headers (credential_headers sample_config) [] = Inr hs" using sample_headers by blast
  have "unwrapped ?api ((api_op ''GET'' ''/v1/sandboxes/{sandboxId}'' (init None))
      \<lparr>ac_path_params := [(js ''sandboxId'', jtext ''s'')], ac_body := JUndefined\<rparr>) ?w = Some (Inr typed_info, ?w)"
    using hs by (simp add: unwrapped_def createApiClient_def plain_client_def bind_io_def one_sandbox_fetch
        one_sandbox_def plain_decode_def response_ok_def unwrap_def call_headers_def api_op_def init_def
        sample_config_def [THEN arg_cong [where f = cc_baseUrl]])
  then have "Sandbox_refresh ?api None ?w = Some (Inr typed_info, ?w\<lparr>self := ?sb\<rparr>)"
    by (simp add: Sandbox_refresh_def bind_io_def sandbox_send_def send_first_success sandbox_attempt_def sid set_info_def)
  with same sid show ?thesis by simp
qed

section \<open>The collections\<close>

lemma send_contract:
  assumes "\<And>i. in_contract paths (op i)"
  shows "send p spec (\<lambda>i. unwrapped (contract_api paths api) (op i)) = send p spec (\<lambda>i. unwrapped api (op i))"
  by (simp only: unwrapped_contract [OF assms])

lemma send_answer:
  assumes "contract_kept paths api" and "\<And>i. in_contract paths (op i)" and "\<And>i. addressed paths (op i) = Some d"
    and "send p spec (\<lambda>i. unwrapped api (op i)) w = Some (Inr v, w')"
  shows "answer_of d v"
proof -
  have "send p spec (\<lambda>i. unwrapped (contract_api paths api) (op i)) w = Some (Inr v, w')"
    using assms(4) by (simp only: send_contract [OF assms(2)])
  then obtain w1 where "unwrapped (contract_api paths api) (op (init (options spec))) w1 = Some (Inr v, w')"
    by (rule send_result)
  with assms(1,3) show ?thesis by (rule contract_result)
qed

text \<open>The types of the arguments the model leaves open.\<close>

definition SandboxStates :: "jstr list" where
  "SandboxStates = [js ''running'', js ''paused'', js ''terminated'', js ''failed'']"

definition typed_list_options :: "ListSandboxesOptions option \<Rightarrow> bool" where
  "typed_list_options opts \<longleftrightarrow> (case opts of None \<Rightarrow> True | Some o' \<Rightarrow>
     (case ls_state o' of None \<Rightarrow> True | Some s \<Rightarrow> s \<in> set SandboxStates) \<and>
     (ls_cursor o' = JUndefined \<or> (\<exists>s. ls_cursor o' = JStr s)))"

lemma list_query_fields:
  assumes "typed_list_options opts"
  obtains st c where "list_query opts =
     opt_field (js ''state'') JStr st @ opt_field (js ''name'') JStr (Option.bind opts ls_name) @
     opt_field (js ''metadata'') (\<lambda>md. JStr (form_urlencode md)) (Option.bind opts ls_metadata) @
     opt_field (js ''limit'') JNum (Option.bind opts ls_limit) @ opt_field (js ''cursor'') JStr c"
    and "case st of None \<Rightarrow> True | Some s \<Rightarrow> s \<in> set SandboxStates"
proof (cases opts)
  case None
  then show ?thesis using that [of None None] by (simp add: list_query_def)
next
  case (Some o')
  show ?thesis
  proof (cases "ls_cursor o' = JUndefined")
    case True
    with Some assms show ?thesis
      using that [of "ls_state o'" None] by (simp add: list_query_def typed_list_options_def)
  next
    case False
    with Some assms obtain s where "ls_cursor o' = JStr s" by (auto simp: typed_list_options_def)
    with Some assms show ?thesis
      using that [of "ls_state o'" "Some s"] by (simp add: list_query_def typed_list_options_def)
  qed
qed

lemma optional_states:
  "(case st of None \<Rightarrow> True | Some s \<Rightarrow> s \<in> set SandboxStates) \<Longrightarrow> optional_ok JStr c SandboxState_ty st"
  "optional_ok (\<lambda>md. JStr (form_urlencode md)) c T_string md"
  by (auto simp: SandboxStates_def SandboxState_ty_def optional_ok_def split: option.splits)

lemma list_call:
  assumes "typed_list_options opts"
  shows "in_contract control_paths ((api_op ''GET'' ''/v1/sandboxes'' i)\<lparr>ac_query := list_query opts\<rparr>)"
proof -
  obtain st c where q: "list_query opts =
      opt_field (js ''state'') JStr st @ opt_field (js ''name'') JStr (Option.bind opts ls_name) @
      opt_field (js ''metadata'') (\<lambda>md. JStr (form_urlencode md)) (Option.bind opts ls_metadata) @
      opt_field (js ''limit'') JNum (Option.bind opts ls_limit) @ opt_field (js ''cursor'') JStr c"
    and st: "case st of None \<Rightarrow> True | Some s \<Rightarrow> s \<in> set SandboxStates"
    using assms by (rule list_query_fields)
  show ?thesis
    by (simp add: q control_contract listSandboxes_op_def control_parameters map_of_opt_field list_all_opt_field
        optional_member optional_states(1) [OF st] optional_states(2) del: map_of_append case_map_option)
qed

lemma create_calls:
  assumes "has_type True CreateSandboxRequest_ty body"
  shows "in_contract control_paths ((api_op ''POST'' ''/v1/sandboxes'' i)
    \<lparr>ac_header_params := opt_field (js ''Idempotency-Key'') id k, ac_body := body\<rparr>)"
  using assms
  by (cases k) (simp_all add: control_contract createSandbox_op_def)

lemma collection_calls:
  "in_contract control_paths ((api_op ''GET'' ''/v1/sandboxes/{sandboxId}'' i)\<lparr>ac_path_params := [(js ''sandboxId'', JStr s)]\<rparr>)"
  "in_contract control_paths ((api_op ''GET'' ''/v1/sandboxes/{sandboxId}/ports'' i)\<lparr>ac_path_params := [(js ''sandboxId'', JStr s)]\<rparr>)"
  "v \<in> {js ''private'', js ''public''} \<Longrightarrow>
   in_contract control_paths ((api_op ''PUT'' ''/v1/sandboxes/{sandboxId}/ports/{port}'' i)
     \<lparr>ac_path_params := [(js ''sandboxId'', JStr s), (js ''port'', JNum n)],
      ac_body := jobj [(''visibility'', JStr v)]\<rparr>)"
  "in_contract control_paths ((api_op ''DELETE'' ''/v1/sandboxes/{sandboxId}/ports/{port}'' i)
     \<lparr>ac_path_params := [(js ''sandboxId'', JStr s), (js ''port'', JNum n)]\<rparr>)"
  "in_contract control_paths ((api_op ''GET'' ''/v1/templates'' i)\<lparr>ac_query :=
     opt_field (js ''limit'') JNum l @ opt_field (js ''cursor'') JStr c\<rparr>)"
  "in_contract control_paths ((api_op ''GET'' ''/v1/templates/{template}'' i)\<lparr>ac_path_params := [(js ''template'', JStr s)]\<rparr>)"
  "in_contract control_paths ((api_op ''DELETE'' ''/v1/templates/{template}'' i)\<lparr>ac_path_params := [(js ''template'', JStr s)]\<rparr>)"
  "in_contract control_paths ((api_op ''GET'' ''/v1/templates/builds/{buildId}'' i)\<lparr>ac_path_params := [(js ''buildId'', JStr s)]\<rparr>)"
  "has_type True CreateTemplateBuildRequest_ty body \<Longrightarrow>
   in_contract control_paths ((api_op ''POST'' ''/v1/templates/builds'' i)\<lparr>ac_body := body\<rparr>)"
  by (auto simp: control_contract control_operations control_parameters PortVisibility_ty_def jobj_def map_of_opt_field
      list_all_opt_field optional_member simp del: map_of_append case_map_option)

text \<open>C6: The control-plane collections make only calls the contract declares: with arguments of the types the
  signatures give, every operation of \<open>Sandboxes\<close>, \<open>SandboxPorts\<close> and \<open>Templates\<close> does the same with a client
  that refuses any other path, method, parameter, query member, header or body.\<close>

theorem collections_keep_contract:
  assumes "api = createApiClient createClient impl config"
    and "checked = createApiClient (contract_client control_paths createClient) impl config"
    and "has_type True CreateSandboxRequest_ty body" and "has_type True CreateTemplateBuildRequest_ty tbody"
    and "typed_list_options lopts" and "sp_sandboxId ports = JStr sid" and "visibility \<in> {js ''private'', js ''public''}"
  shows "Sandboxes_create checked sx body copts = Sandboxes_create api sx body copts \<and>
     Sandboxes_get checked sx s opts = Sandboxes_get api sx s opts \<and>
     Sandboxes_list checked sx lopts = Sandboxes_list api sx lopts \<and>
     Ports_list checked ports opts = Ports_list api ports opts \<and>
     Ports_expose checked ports n visibility opts = Ports_expose api ports n visibility opts \<and>
     Ports_unexpose checked ports n opts = Ports_unexpose api ports n opts \<and>
     Templates_list checked tp topts = Templates_list api tp topts \<and>
     Templates_get checked tp s opts = Templates_get api tp s opts \<and>
     Templates_build checked tp tbody opts = Templates_build api tp tbody opts \<and>
     Templates_getBuild checked tp s opts = Templates_getBuild api tp s opts \<and>
     Templates_delete checked tp s opts = Templates_delete api tp s opts"
  unfolding assms(1,2) createApiClient_contract Sandboxes_create_def Sandboxes_get_def Sandboxes_list_def Ports_list_def
    Ports_expose_def Ports_unexpose_def Templates_list_def Templates_get_def Templates_build_def
    Templates_getBuild_def Templates_delete_def assms(6)
  by (simp only: send_contract [OF create_calls [OF assms(3)]] send_contract [OF list_call [OF assms(5)]]
      collection_calls(1,2,4-8) collection_calls(3) [OF assms(7)] collection_calls(9) [OF assms(4)] send_contract)

theorem collections_keep_contract_witness:
  "Sandboxes_list (createApiClient (contract_client control_paths plain_client) (answering JNull) sample_config)
     (new_Sandboxes None) (Some (no_list_options\<lparr>ls_state := Some (js ''paused'')\<rparr>)) (idle_runtime ()) =
   Sandboxes_list (createApiClient plain_client (answering JNull) sample_config)
     (new_Sandboxes None) (Some (no_list_options\<lparr>ls_state := Some (js ''paused'')\<rparr>)) (idle_runtime ())"
proof -
  have "has_type True CreateSandboxRequest_ty (jobj [(''template'', jtext ''base'')])"
    "has_type True CreateTemplateBuildRequest_ty (jobj [(''image'', jtext ''debian'')])"
    "typed_list_options (Some (no_list_options\<lparr>ls_state := Some (js ''paused'')\<rparr>))"
    "sp_sandboxId (new_SandboxPorts (jtext ''s'') None) = jtext ''s''"
    "js ''public'' \<in> {js ''private'', js ''public''}"
    by (simp_all add: jobj_def CreateSandboxRequest_ty_def CreateTemplateBuildRequest_ty_def typed_list_options_def
        no_list_options_def SandboxStates_def new_SandboxPorts_def)
  from collections_keep_contract [OF refl refl this, THEN conjunct2, THEN conjunct2, THEN conjunct1]
  show ?thesis by (rule fun_cong)
qed

text \<open>The handles the collection makes over a server that keeps the contract are typed.\<close>

lemma new_Sandbox_typed:
  assumes "new_Sandbox info token opts = Inr sb" and "has_type False Sandbox_ty info"
    and "token = JUndefined \<or> has_type False CapabilityToken_ty token"
  shows "typed_handle sb"
  using assms new_Sandbox_sel(1,2) [OF assms(1)] by (simp add: typed_handle_def del: has_type.simps)

lemma new_handles_typed:
  "new_handles opts infos = Inr sbs \<Longrightarrow> list_all (has_type False Sandbox_ty) infos \<Longrightarrow> list_all typed_handle sbs"
proof (induction opts infos arbitrary: sbs rule: new_handles.induct)
  case (2 opts info infos)
  then obtain sb rest where "new_Sandbox info JUndefined opts = Inr sb" "new_handles opts infos = Inr rest"
    "sbs = sb # rest"
    by (auto split: sum.splits simp: map_sum_def simp del: has_type.simps)
  with 2 show ?case using new_Sandbox_typed by (fastforce simp del: has_type.simps)
qed simp

lemma collection_answers:
  "answer_of createSandbox_op v \<Longrightarrow> has_type False SandboxWithToken_ty v"
  "answer_of listSandboxes_op v \<Longrightarrow> has_type False SandboxList_ty v"
  by (auto simp: answer_of_def control_operations)

lemma collection_addressed:
  "addressed control_paths ((api_op ''POST'' ''/v1/sandboxes'' i)
     \<lparr>ac_header_params := hs, ac_body := body\<rparr>) = Some createSandbox_op"
  "addressed control_paths ((api_op ''GET'' ''/v1/sandboxes'' i)\<lparr>ac_query := q\<rparr>) = Some listSandboxes_op"
  "addressed control_paths ((api_op ''GET'' ''/v1/sandboxes/{sandboxId}'' i)\<lparr>ac_path_params := ps\<rparr>) = Some getSandbox_op"
  by (simp_all add: control_contract)

theorem collection_handles_typed:
  assumes "contract_kept control_paths api"
  shows "Sandboxes_get api sx s opts w = Some (Inr sb, w') \<Longrightarrow> typed_handle sb"
    and "has_type True CreateSandboxRequest_ty body \<Longrightarrow>
      Sandboxes_create api sx body copts w = Some (Inr sb, w') \<Longrightarrow> typed_handle sb"
    and "typed_list_options lopts \<Longrightarrow>
      Sandboxes_list api sx lopts w = Some (Inr page, w') \<Longrightarrow> list_all typed_handle (pg_items page)"
proof -
  note answer = send_answer [OF assms]
  { assume "Sandboxes_get api sx s opts w = Some (Inr sb, w')"
    then obtain info w1 where "answer_of getSandbox_op info" "new_Sandbox info JUndefined (sx_options sx) = Inr sb"
      unfolding Sandboxes_get_def
      by (auto elim!: bind_io_InrE dest: answer [OF collection_calls(1) collection_addressed(3)])
    then show "typed_handle sb" using lifecycle_answers(1) new_Sandbox_typed by blast }
  { assume body: "has_type True CreateSandboxRequest_ty body"
      and "Sandboxes_create api sx body copts w = Some (Inr sb, w')"
    then obtain v info token where "answer_of createSandbox_op v" "read_prop ''sandbox'' v = Inr info"
      "read_prop ''token'' v = Inr token" "new_Sandbox info token (sx_options sx) = Inr sb"
      unfolding Sandboxes_create_def
      by (auto elim!: bind_io_InrE dest: answer [OF create_calls [OF body] collection_addressed(1)])
    then show "typed_handle sb"
      using typed_sandbox_with_token [OF collection_answers(1)] new_Sandbox_typed by fastforce }
  { assume opts: "typed_list_options lopts" and "Sandboxes_list api sx lopts w = Some (Inr page, w')"
    then obtain v w1 items where sent: "send (sx_requests sx) \<lparr>operation = js ''GET /v1/sandboxes'', idempotent = True,
        options = map_option RequestOptions.truncate lopts\<rparr>
        (\<lambda>i. unwrapped api ((api_op ''GET'' ''/v1/sandboxes'' i)\<lparr>ac_query := list_query lopts\<rparr>)) w = Some (Inr v, w1)"
      and v: "read_prop ''items'' v = Inr items" "map_items (sx_options sx) items = Inr (pg_items page)"
      unfolding Sandboxes_list_def by (auto elim!: bind_io_InrE)
    note answered = answer [OF list_call [OF opts] collection_addressed(2) sent]
    have "\<exists>x. read_prop ''items'' v = Inr x \<and> has_type False (T_array Sandbox_ty) x"
      by (rule required_member [OF collection_answers(2) [OF answered, unfolded SandboxList_ty_def]]) simp
    with v show "list_all typed_handle (pg_items page)"
      by (auto simp: map_items_def split: jsval.splits intro: new_handles_typed) }
qed

section \<open>Template builds\<close>

lemma build_more: "runtime.more w' = runtime.more w \<Longrightarrow> tb_info w' = tb_info (w :: 'n build_world)"
  by (cases w; cases w') (simp add: build_world.defs)

text \<open>A build handle whose representation is what the contract says asks only for what it declares, and
  re-reading it keeps it so.\<close>

lemma build_calls:
  "in_contract control_paths ((api_op ''GET'' ''/v1/templates/builds/{buildId}'' i)
     \<lparr>ac_path_params := [(js ''buildId'', JStr s)], ac_query := []\<rparr>)"
  "in_contract control_paths ((api_op ''GET'' ''/v1/templates/builds/{buildId}/logs'' i)
     \<lparr>ac_path_params := [(js ''buildId'', JStr s)], ac_query := opt_field (js ''offset'') JNum n\<rparr>)"
  by (simp_all add: control_contract control_operations control_parameters map_of_opt_field
      list_all_opt_field optional_member del: map_of_append case_map_option)

lemma typed_build_id:
  assumes "has_type False TemplateBuild_ty v"
  obtains s where "read_prop ''build_id'' v = Inr (JStr s)"
proof -
  have "\<exists>x. read_prop ''build_id'' v = Inr x \<and> has_type False NanoId_ty x"
    by (rule required_member [OF assms [unfolded TemplateBuild_ty_def]]) simp
  with that show ?thesis unfolding has_type_base NanoId_ty_def by blast
qed

lemma build_send_checked:
  fixes w :: "'n build_world"
  assumes "single_fetch createClient" and api: "api = createApiClient createClient impl config"
    and "has_type False TemplateBuild_ty (tb_info w)"
    and calls: "\<And>s i. in_contract control_paths
        ((api_op ''GET'' path i)\<lparr>ac_path_params := [(js ''buildId'', JStr s)], ac_query := query\<rparr>)"
  shows "send p spec (build_attempt (contract_api control_paths api) path query) w =
    send p spec (build_attempt api path query) w"
proof (rule send_cong_on [where Q = "\<lambda>w. has_type False TemplateBuild_ty (tb_info w)"])
  fix v v' :: "'n build_world" and r
  assume typed: "has_type False TemplateBuild_ty (tb_info v)"
  then obtain s where s: "read_prop ''build_id'' (tb_info v) = Inr (JStr s)" by (rule typed_build_id)
  show same: "build_attempt (contract_api control_paths api) path query (init (options spec)) v =
      build_attempt api path query (init (options spec)) v"
    using s calls by (simp add: build_attempt_def unwrapped_contract)
  assume "build_attempt (contract_api control_paths api) path query (init (options spec)) v = Some (r, v')"
  with s same have "tb_info v' = tb_info v"
    by (auto simp: build_attempt_def createApiClient_def api dest!: unwrapped_more [OF assms(1)] build_more)
  with typed show "has_type False TemplateBuild_ty (tb_info v')" by simp
next
  fix v v' :: "'n build_world"
  assume "has_type False TemplateBuild_ty (tb_info v)" "runtime.more v' = runtime.more v"
  then show "has_type False TemplateBuild_ty (tb_info v')" using build_more [of v' v] by simp
qed (rule assms(3))

lemma build_keeps_contract:
  fixes w :: "'n build_world"
  assumes "single_fetch createClient" and "api = createApiClient createClient impl config"
    and "checked = createApiClient (contract_client control_paths createClient) impl config"
    and "has_type False TemplateBuild_ty (tb_info w)"
  shows "TemplateBuild_refresh checked opts w = TemplateBuild_refresh api opts w"
    and "TemplateBuild_logs checked offset opts w = TemplateBuild_logs api offset opts w"
    and "contract_kept control_paths api \<Longrightarrow> TemplateBuild_refresh api opts w = Some (Inr info, w') \<Longrightarrow>
      has_type False TemplateBuild_ty (tb_info w') \<and> tb_info w' = info"
proof -
  note checked = assms(3) [unfolded createApiClient_contract assms(2) [symmetric]]
  note same = build_send_checked [OF assms(1,2,4)]
  note unfold = TemplateBuild_refresh_def TemplateBuild_logs_def checked
  show "TemplateBuild_refresh checked opts w = TemplateBuild_refresh api opts w"
    unfolding unfold by (intro refl bind_io_cong same [OF build_calls(1)])
  show "TemplateBuild_logs checked offset opts w = TemplateBuild_logs api offset opts w"
    unfolding unfold by (intro refl bind_io_cong same [OF build_calls(2)])
  assume kept: "contract_kept control_paths api" and run: "TemplateBuild_refresh api opts w = Some (Inr info, w')"
  then obtain w1 where "send (tb_requests w) \<lparr>operation = js ''GET /v1/templates/builds/{buildId}'', idempotent = True,
      options = opts\<rparr> (build_attempt (contract_api control_paths api) ''/v1/templates/builds/{buildId}'' []) w =
      Some (Inr info, w1)" and w': "tb_info w' = info"
    unfolding TemplateBuild_refresh_def same [OF build_calls(1)] by (auto elim!: bind_io_InrE)
  then obtain w2 where "build_attempt (contract_api control_paths api) ''/v1/templates/builds/{buildId}'' []
      (init opts) w2 = Some (Inr info, w1)"
    by (auto elim: send_result)
  then obtain bid where "unwrapped (contract_api control_paths api) ((api_op ''GET'' ''/v1/templates/builds/{buildId}''
      (init opts))\<lparr>ac_path_params := [(js ''buildId'', bid)], ac_query := []\<rparr>) w2 = Some (Inr info, w1)"
    by (auto simp: build_attempt_def split: sum.splits)
  with kept have "answer_of getTemplateBuild_op info"
    by (rule_tac contract_result) (simp_all add: control_contract)
  with w' show "has_type False TemplateBuild_ty (tb_info w') \<and> tb_info w' = info"
    by (auto simp: answer_of_def control_operations)
qed

text \<open>Polling stays in the contract for as long as it runs: the loop reads the build only, and what it reads
  is again a typed build.\<close>

lemma wait_loop_transfer:
  assumes "wait_loop api delay opts ms dl w = Some rw" and "Q w"
    and agree: "\<And>w. Q w \<Longrightarrow> TemplateBuild_refresh api' ropts w = TemplateBuild_refresh api ropts w"
    and ropts: "ropts = map_option RequestOptions.truncate opts"
    and keeps: "\<And>w info w'. Q w \<Longrightarrow> TemplateBuild_refresh api ropts w = Some (Inr info, w') \<Longrightarrow> Q w'"
    and waits: "\<And>w u w'. Q w \<Longrightarrow> delay ms w = Some (Inr u, w') \<Longrightarrow> Q w'"
  shows "wait_loop api' delay opts ms dl w = Some rw"
proof -
  let ?P = "\<lambda>a d o' m (l :: jnum option) w rw. a = api \<longrightarrow> d = delay \<longrightarrow> o' = opts \<longrightarrow> m = ms \<longrightarrow> Q w \<longrightarrow>
    wait_loop api' d o' m l w = Some rw"
  have "?P api delay opts ms dl w rw"
  proof (rule wait_loop.raw_induct [where P = ?P, OF _ assms(1)], intro impI)
    fix f a d o' m l w rw
    assume IH: "\<And>a d o' m l w y. f a d o' m l w = Some y \<Longrightarrow> ?P a d o' m l w y"
      and eq: "(case TemplateBuild_refresh a (map_option RequestOptions.truncate o') w of
          None \<Rightarrow> None
        | Some (Inl e, w1) \<Rightarrow> Some (Inl e, w1)
        | Some (Inr info, w1) \<Rightarrow>
            (case read_prop ''status'' info of
               Inl e \<Rightarrow> Some (Inl e, w1)
             | Inr st \<Rightarrow>
                 if st = jtext ''succeeded'' then Some (Inr info, w1)
                 else if st = jtext ''failed'' then Some (Inl (Sdk (build_failed_error info)), w1)
                 else if (case l of None \<Rightarrow> False | Some d \<Rightarrow> num_le d (Fin (of_int (now w1))))
                 then Some (Inl (Sdk (build_timeout_error info
                        (with_default NaN (Option.bind o' wb_timeoutMs)))), w1)
                 else (case d m w1 of
                     None \<Rightarrow> None
                   | Some (Inl e, w2) \<Rightarrow> Some (Inl e, w2)
                   | Some (Inr u, w2) \<Rightarrow> f a d o' m l w2))) = Some rw"
      and args: "a = api" "d = delay" "o' = opts" "m = ms" and q: "Q w"
    have next_turn: "wait_loop api' delay opts ms l w2 = Some rw"
      if "TemplateBuild_refresh api ropts w = Some (Inr info, w1)" "delay ms w1 = Some (Inr u, w2)"
        "f api delay opts ms l w2 = Some rw" for info w1 u w2
      using IH [OF that(3)] keeps [OF q that(1)] waits that(2) by blast
    show "wait_loop api' d o' m l w = Some rw"
      using eq next_turn unfolding args
      by (subst wait_loop.simps)
        (auto simp: agree [OF q] ropts [symmetric] split: option.splits sum.splits prod.splits if_splits)
  qed
  with assms(2) show ?thesis by blast
qed

lemma wait_keeps_contract:
  fixes w :: "'n build_world"
  assumes "single_fetch createClient" and "api = createApiClient createClient impl config"
    and "checked = createApiClient (contract_client control_paths createClient) impl config"
    and "contract_kept control_paths api" and "has_type False TemplateBuild_ty (tb_info w)"
    and waits: "\<And>ms w u w'. delay ms w = Some (Inr u, w') \<Longrightarrow> tb_info w' = tb_info w"
  shows "TemplateBuild_wait checked delay opts w = TemplateBuild_wait api delay opts w"
proof -
  let ?Q = "\<lambda>w :: 'n build_world. has_type False TemplateBuild_ty (tb_info w)"
  let ?ropts = "map_option RequestOptions.truncate opts"
  let ?ms = "with_default (Fin 2000) (Option.bind opts wb_pollIntervalMs)"
  let ?dl = "map_option (num_add (Fin (of_int (now w)))) (Option.bind opts wb_timeoutMs)"
  note build = build_keeps_contract [OF assms(1-3)]
  have same: "TemplateBuild_refresh checked ?ropts v = TemplateBuild_refresh api ?ropts v" if "?Q v" for v
    using that by (rule build(1))
  have typed: "?Q v'" if "?Q v" "TemplateBuild_refresh api ?ropts v = Some (Inr info, v')" for v info v'
    using build(3) [OF that(1) assms(4) that(2)] by blast
  have slept: "?Q v'" if "?Q v" "delay ms v = Some (Inr u, v')" for v ms u v'
    using waits [OF that(2)] that(1) by simp
  have forward: "wait_loop api delay opts ?ms ?dl w = Some rw \<Longrightarrow> wait_loop checked delay opts ?ms ?dl w = Some rw" for rw
    by (erule wait_loop_transfer [where Q = ?Q, OF _ assms(5) _ refl]) (use same typed slept in blast)+
  have backward: "wait_loop checked delay opts ?ms ?dl w = Some rw \<Longrightarrow> wait_loop api delay opts ?ms ?dl w = Some rw" for rw
    by (erule wait_loop_transfer [where Q = ?Q, OF _ assms(5) _ refl]) (use same typed slept in \<open>metis\<close>)+
  show ?thesis
    unfolding TemplateBuild_wait_def using forward backward by (metis option.exhaust)
qed

lemma realSleep_keeps_build:
  "realSleep ms w = Some (Inr u, w') \<Longrightarrow> tb_info w' = tb_info (w :: 'n build_world)"
  by (auto simp: realSleep_def)

end
