(* ===== verification/Site_Pages.thy ===== *)
theory Site_Pages
  imports Marketing Json Brand_Assets
begin

text \<open>
  The pages of the marketing site (\<open>apps/marketing-site/src\<close>): the routes Astro builds from \<open>pages/\<close>, the
  document head that \<open>layouts/Layout.astro\<close> writes for each of them (canonical URL, alternates per language,
  structured data), and the links of the header, the footer, the consent banner and the brand page.

  The text catalogues are prose: \<open>getDictionary\<close> is a parameter, a \<open>dictionary\<close> per locale with the members
  the heads use. \<open>new URL(path, SITE_ORIGIN).href\<close> is the origin followed by the path, which is what the URL
  standard says for an absolute path of the characters it leaves alone, as the site's are.
\<close>

section \<open>Constants\<close>

definition SITE_NAME :: jstr where "SITE_NAME = js ''FissionPlane''"
definition LICENSE_URL :: jstr where "LICENSE_URL = js ''https://www.apache.org/licenses/LICENSE-2.0''"

definition DEFAULT_DESCRIPTION :: jstr where
  "DEFAULT_DESCRIPTION =
     js ''Open-source platform for secure sandboxes and serverless functions in self-hosted Firecracker microVMs.''"

definition OG_IMAGE_PATH :: jstr where "OG_IMAGE_PATH = js ''/og-image.png''"

definition DEFAULT_IMAGE_ALT :: jstr where
  "DEFAULT_IMAGE_ALT = js ''FissionPlane '' @ [0x2014] @
     js '' self-hosted sandboxes and serverless functions on Firecracker microVMs''"

definition INDEXABLE :: jstr where
  "INDEXABLE = js ''index, follow, max-image-preview:large, max-snippet:-1, max-video-preview:-1''"

section \<open>The layout's head\<close>

record layout_props =
  lp_title :: jstr
  lp_description :: "jstr option"
  lp_lang :: "jstr option"
  lp_pagePath :: "jstr option"
  lp_robots :: "jstr option"
  lp_ogType :: "jstr option"
  lp_image :: "jstr option"
  lp_imageAlt :: "jstr option"
  lp_jsonLd :: "bool option"
  lp_jsonLdGraph :: "jsval list"

text \<open>What Astro tells the component: the response's status and the path of the request.\<close>

record page_context =
  px_status :: int
  px_pathname :: jstr

record document_head =
  dh_lang :: jstr
  dh_title :: jstr
  dh_description :: jstr
  dh_robots :: jstr
  dh_canonical :: jstr
  dh_alternates :: "(jstr \<times> jstr) list"
  dh_xDefault :: "jstr option"
  dh_ogLocale :: jstr
  dh_ogLocaleAlternates :: "jstr list"
  dh_ogType :: jstr
  dh_image :: jstr
  dh_imageAlt :: jstr
  dh_jsonLd :: "jstr option"

definition of_locale :: "(jstr \<times> jstr) list \<Rightarrow> jstr \<Rightarrow> jstr" where
  "of_locale table l = with_default [] (map_of table l)"

definition site_href :: "jstr \<Rightarrow> jstr" where
  "site_href path = SITE_ORIGIN @ path"

text \<open>\<open>pathname.replace(/\\/+$/, "") || "/"\<close>\<close>

definition or_slash :: "jstr \<Rightarrow> jstr" where
  "or_slash p = (if p = [] then js ''/'' else p)"

definition canonical_path :: "jstr \<Rightarrow> jstr" where
  "canonical_path p =
     (if p = js ''/'' then p else or_slash (rev (dropWhile (\<lambda>u. u = u16 CHR ''/'') (rev p))))"

text \<open>A \<open>pagePath\<close> that is set: the empty string counts as absent.\<close>

definition set_path :: "jstr option \<Rightarrow> jstr option" where
  "set_path p = (if p = Some [] then None else p)"

definition id_ref :: "jstr \<Rightarrow> jsval" where
  "id_ref i = jobj [(''@id'', JStr i)]"

definition organizationId :: jstr where "organizationId = SITE_ORIGIN @ js ''/#organization''"
definition websiteId :: jstr where "websiteId = SITE_ORIGIN @ js ''/#website''"
definition softwareId :: jstr where "softwareId = SITE_ORIGIN @ js ''/#software''"
definition webpageId :: "jstr \<Rightarrow> jstr" where "webpageId canonicalHref = canonicalHref @ js ''#webpage''"

definition jtexts :: "string list \<Rightarrow> jsval" where
  "jtexts xs = JArr (map (\<lambda>s. JStr (js s)) xs)"

text \<open>The entity graph of \<open>jsonLd\<close>.\<close>

definition organization_node :: jsval where
  "organization_node = jobj
     [(''@type'', jtext ''Organization''), (''@id'', JStr organizationId), (''name'', JStr SITE_NAME),
      (''url'', JStr (SITE_ORIGIN @ js ''/'')),
      (''logo'', jobj [(''@type'', jtext ''ImageObject''), (''url'', JStr (site_href (js ''/favicon.svg'')))]),
      (''sameAs'', JArr [JStr GITHUB_URL])]"

definition website_node :: "jstr \<Rightarrow> jstr \<Rightarrow> jsval" where
  "website_node description languageTag = jobj
     [(''@type'', jtext ''WebSite''), (''@id'', JStr websiteId), (''url'', JStr (SITE_ORIGIN @ js ''/'')),
      (''name'', JStr SITE_NAME), (''description'', JStr description), (''inLanguage'', JStr languageTag),
      (''publisher'', id_ref organizationId)]"

definition webpage_node :: "jstr \<Rightarrow> jstr \<Rightarrow> jstr \<Rightarrow> jstr \<Rightarrow> jstr \<Rightarrow> jsval" where
  "webpage_node canonicalHref title description imageURL languageTag = jobj
     [(''@type'', jtext ''WebPage''), (''@id'', JStr (webpageId canonicalHref)), (''url'', JStr canonicalHref),
      (''name'', JStr title), (''description'', JStr description), (''isPartOf'', id_ref websiteId),
      (''about'', id_ref softwareId),
      (''primaryImageOfPage'', jobj [(''@type'', jtext ''ImageObject''), (''url'', JStr imageURL),
         (''width'', jint 1200), (''height'', jint 630)]),
      (''inLanguage'', JStr languageTag)]"

definition software_node :: "jstr \<Rightarrow> jsval" where
  "software_node description = jobj
     [(''@type'', jtext ''SoftwareApplication''), (''@id'', JStr softwareId), (''name'', JStr SITE_NAME),
      (''description'', JStr description), (''url'', JStr (SITE_ORIGIN @ js ''/'')),
      (''applicationCategory'', jtext ''DeveloperApplication''), (''operatingSystem'', jtext ''Linux''),
      (''license'', JStr LICENSE_URL), (''isAccessibleForFree'', JBool True), (''codeRepository'', JStr GITHUB_URL),
      (''downloadUrl'', JStr GITHUB_URL),
      (''softwareHelp'', jobj [(''@type'', jtext ''WebPage''), (''url'', JStr DOCS_URL)]),
      (''author'', id_ref organizationId), (''publisher'', id_ref organizationId),
      (''programmingLanguage'', jtexts [''TypeScript'', ''Python'', ''Rust'']),
      (''keywords'', jtexts [''secure code execution'', ''Firecracker'', ''microVM'', ''sandbox'',
         ''serverless functions'', ''self-hosted'', ''Kubernetes'', ''open source''])]"

definition sourcecode_node :: jsval where
  "sourcecode_node = jobj
     [(''@type'', jtext ''SoftwareSourceCode''), (''@id'', JStr (SITE_ORIGIN @ js ''/#sourcecode'')),
      (''name'', JStr SITE_NAME), (''codeRepository'', JStr GITHUB_URL), (''license'', JStr LICENSE_URL),
      (''programmingLanguage'', jtexts [''TypeScript'', ''Python'', ''Rust''])]"

definition entity_graph :: "jstr \<Rightarrow> jstr \<Rightarrow> jstr \<Rightarrow> jstr \<Rightarrow> jstr \<Rightarrow> jsval list \<Rightarrow> jsval list" where
  "entity_graph canonicalHref title description imageURL languageTag extra =
     [organization_node, website_node description languageTag,
      webpage_node canonicalHref title description imageURL languageTag, software_node description,
      sourcecode_node] @ extra"

definition json_ld :: "jsval list \<Rightarrow> jsval" where
  "json_ld graph = jobj [(''@context'', jtext ''https://schema.org''), (''@graph'', JArr graph)]"

definition Layout :: "page_context \<Rightarrow> layout_props \<Rightarrow> document_head" where
  "Layout ctx props =
     (let description = with_default DEFAULT_DESCRIPTION (lp_description props);
          lang = with_default DEFAULT_LOCALE (lp_lang props);
          pagePath = set_path (lp_pagePath props);
          isNotFound = (px_status ctx = 404);
          pathname = (case pagePath of Some p \<Rightarrow> localePath lang p | None \<Rightarrow> px_pathname ctx);
          canonicalHref = site_href (canonical_path (or_slash pathname));
          imageURL = site_href (with_default OG_IMAGE_PATH (lp_image props));
          isHome = (\<not> isNotFound \<and> lp_pagePath props = Some (js ''/''));
          languageTag = of_locale LOCALE_TAGS lang
      in \<lparr>dh_lang = languageTag, dh_title = lp_title props, dh_description = description,
          dh_robots = with_default (if isNotFound then js ''noindex, nofollow'' else INDEXABLE) (lp_robots props),
          dh_canonical = canonicalHref,
          dh_alternates = (case pagePath of
              None \<Rightarrow> []
            | Some p \<Rightarrow> map (\<lambda>l. (of_locale LOCALE_TAGS l, site_href (localePath l p))) LOCALES),
          dh_xDefault = map_option (\<lambda>p. site_href (localePath DEFAULT_LOCALE p)) pagePath,
          dh_ogLocale = of_locale OG_LOCALES lang,
          dh_ogLocaleAlternates = map (of_locale OG_LOCALES) (filter (\<lambda>l. l \<noteq> lang) LOCALES),
          dh_ogType = with_default (js ''website'') (lp_ogType props), dh_image = imageURL,
          dh_imageAlt = with_default DEFAULT_IMAGE_ALT (lp_imageAlt props),
          dh_jsonLd = (if with_default isHome (lp_jsonLd props)
            then Some (json_stringify (json_ld (entity_graph canonicalHref (lp_title props) description imageURL
                   languageTag (lp_jsonLdGraph props))))
            else None)\<rparr>)"

section \<open>The pages\<close>

text \<open>The members of a text catalogue that the heads use.\<close>

record dictionary =
  meta_title :: jstr
  meta_description :: jstr
  meta_imageAlt :: jstr
  brand_metaTitle :: jstr
  brand_metaDescription :: jstr
  contact_metaTitle :: jstr
  contact_metaDescription :: jstr
  privacy_metaTitle :: jstr
  privacy_metaDescription :: jstr
  notFound_title :: jstr
  faq_items :: "(jstr \<times> jstr) list"

definition layout_props_of :: "jstr \<Rightarrow> jstr \<Rightarrow> jstr \<Rightarrow> jstr \<Rightarrow> layout_props" where
  "layout_props_of ttl description lang pagePath =
     \<lparr>lp_title = ttl, lp_description = Some description, lp_lang = Some lang, lp_pagePath = Some pagePath,
      lp_robots = None, lp_ogType = None, lp_image = None, lp_imageAlt = None, lp_jsonLd = None,
      lp_jsonLdGraph = []\<rparr>"

definition faqJsonLd :: "dictionary \<Rightarrow> jsval" where
  "faqJsonLd t = jobj
     [(''@type'', jtext ''FAQPage''),
      (''mainEntity'', JArr (map (\<lambda>(question, answer). jobj
         [(''@type'', jtext ''Question''), (''name'', JStr question),
          (''acceptedAnswer'', jobj [(''@type'', jtext ''Answer''), (''text'', JStr answer)])]) (faq_items t)))]"

definition LandingPage :: "dictionary \<Rightarrow> jstr \<Rightarrow> layout_props" where
  "LandingPage t lang = (layout_props_of (meta_title t) (meta_description t) lang (js ''/''))
     \<lparr>lp_imageAlt := Some (meta_imageAlt t), lp_jsonLdGraph := [faqJsonLd t]\<rparr>"

definition BrandPage :: "dictionary \<Rightarrow> jstr \<Rightarrow> layout_props" where
  "BrandPage t lang = layout_props_of (brand_metaTitle t) (brand_metaDescription t) lang (js ''/brand'')"

definition ContactPage :: "dictionary \<Rightarrow> jstr \<Rightarrow> layout_props" where
  "ContactPage t lang = layout_props_of (contact_metaTitle t) (contact_metaDescription t) lang (js ''/contact'')"

definition PrivacyPage :: "dictionary \<Rightarrow> jstr \<Rightarrow> layout_props" where
  "PrivacyPage t lang = layout_props_of (privacy_metaTitle t) (privacy_metaDescription t) lang (js ''/privacy'')"

definition NotFoundPage :: "dictionary \<Rightarrow> layout_props" where
  "NotFoundPage t =
     \<lparr>lp_title = notFound_title t, lp_description = None, lp_lang = Some (js ''en''), lp_pagePath = None,
      lp_robots = None, lp_ogType = None, lp_image = None, lp_imageAlt = None, lp_jsonLd = None,
      lp_jsonLdGraph = []\<rparr>"

text \<open>The routes of \<open>pages/\<close>: a file is a route, and \<open>[lang]\<close> ranges over \<open>getStaticPaths\<close>.\<close>

datatype page = Landing | Brand | Contact_form | Privacy

definition getStaticPaths :: "jstr list" where
  "getStaticPaths = filter (\<lambda>l. l \<noteq> DEFAULT_LOCALE) LOCALES"

definition page_files :: "(jstr \<times> page) list" where
  "page_files = [([], Landing), (js ''/brand'', Brand), (js ''/contact'', Contact_form), (js ''/privacy'', Privacy)]"

definition routes :: "(jstr \<times> jstr \<times> page) list" where
  "routes = map (\<lambda>(f, pg). (or_slash f, js ''en'', pg)) page_files @
     concat (map (\<lambda>lang. map (\<lambda>(f, pg). (js ''/'' @ lang @ f, lang, pg)) page_files) getStaticPaths)"

fun page_props :: "(jstr \<Rightarrow> dictionary) \<Rightarrow> jstr \<Rightarrow> page \<Rightarrow> layout_props" where
  "page_props getDictionary lang Landing = LandingPage (getDictionary lang) lang"
| "page_props getDictionary lang Brand = BrandPage (getDictionary lang) lang"
| "page_props getDictionary lang Contact_form = ContactPage (getDictionary lang) lang"
| "page_props getDictionary lang Privacy = PrivacyPage (getDictionary lang) lang"

definition built_head :: "(jstr \<Rightarrow> dictionary) \<Rightarrow> jstr \<times> jstr \<times> page \<Rightarrow> document_head" where
  "built_head getDictionary r = (case r of (path, lang, pg) \<Rightarrow>
     Layout \<lparr>px_status = 200, px_pathname = path\<rparr> (page_props getDictionary lang pg))"

section \<open>Links\<close>

definition header_links :: "jstr \<Rightarrow> jstr list" where
  "header_links lang = [localePath lang (js ''/''), localePath lang (js ''/contact''), GITHUB_URL, DOCS_URL]"

definition footer_links :: "jstr \<Rightarrow> jstr list" where
  "footer_links lang =
     [GITHUB_URL, DOCS_URL, CHANGELOG_URL, LICENSE_FILE_URL, localePath lang (js ''/brand''),
      localePath lang (js ''/privacy''), localePath lang (js ''/contact''), LICENSE_FILE_URL]"

text \<open>An entry of the language picker: its address, its language tag, its label and whether it is current.\<close>

definition language_picker :: "jstr \<Rightarrow> jstr \<Rightarrow> (jstr \<times> jstr \<times> jstr \<times> bool) list" where
  "language_picker lang pagePath =
     map (\<lambda>l. (localePath l pagePath, of_locale LOCALE_TAGS l, of_locale LOCALE_LABELS l, l = lang)) LOCALES"

definition consent_link :: "jstr \<Rightarrow> jstr" where
  "consent_link lang = localePath lang (js ''/privacy'')"

fun pagePath_of :: "page \<Rightarrow> jstr" where
  "pagePath_of Landing = js ''/''"
| "pagePath_of Brand = js ''/brand''"
| "pagePath_of Contact_form = js ''/contact''"
| "pagePath_of Privacy = js ''/privacy''"

text \<open>Every link of a page that stays on the site's own pages.\<close>

definition internal_links :: "jstr \<Rightarrow> page \<Rightarrow> jstr list" where
  "internal_links lang pg =
     filter (starts_with (js ''/'')) (header_links lang @ footer_links lang) @
     map fst (language_picker lang (pagePath_of pg)) @ [consent_link lang]"

section \<open>The site is closed under its links\<close>

lemmas site_simps = page_files_def getStaticPaths_def LOCALES_def DEFAULT_LOCALE_def or_slash_def

lemma routes_eq: "routes = concat (map (\<lambda>l. map (\<lambda>pg. (localePath l (pagePath_of pg), l, pg))
    [Landing, Brand, Contact_form, Privacy]) LOCALES)"
  by (simp add: routes_def site_simps localePath_def js_append [symmetric])

lemma page_props_path: "lp_pagePath (page_props d lang pg) = Some (pagePath_of pg)"
  "lp_lang (page_props d lang pg) = Some lang" "lp_robots (page_props d lang pg) = None"
  by (cases pg; simp add: LandingPage_def BrandPage_def ContactPage_def PrivacyPage_def layout_props_of_def)+

lemma pagePath_of_set: "pagePath_of pg \<noteq> []"
  by (cases pg) simp_all

text \<open>The canonical path of a built page is its route: nothing is stripped.\<close>

lemma localePath_canonical:
  assumes "l \<in> set LOCALES"
  shows "canonical_path (or_slash (localePath l (pagePath_of pg))) = localePath l (pagePath_of pg)"
  using assms
  by (cases pg) (auto simp: LOCALES_def localePath_def DEFAULT_LOCALE_def canonical_path_def or_slash_def js_def)

lemma built_head_fields:
  assumes "l \<in> set LOCALES"
  shows "dh_canonical (built_head d (r, l, pg)) = SITE_ORIGIN @ localePath l (pagePath_of pg)"
    and "dh_alternates (built_head d (r, l, pg)) =
      map (\<lambda>l. (of_locale LOCALE_TAGS l, SITE_ORIGIN @ localePath l (pagePath_of pg))) LOCALES"
    and "dh_xDefault (built_head d (r, l, pg)) = Some (SITE_ORIGIN @ localePath DEFAULT_LOCALE (pagePath_of pg))"
    and "dh_lang (built_head d (r, l, pg)) = of_locale LOCALE_TAGS l"
    and "dh_robots (built_head d (r, l, pg)) = INDEXABLE"
  using localePath_canonical [OF assms, of pg] pagePath_of_set [of pg]
  by (simp_all add: built_head_def Layout_def Let_def page_props_path set_path_def site_href_def with_default_def)

lemma routes_iff:
  "(path, lang, pg) \<in> set routes \<longleftrightarrow> lang \<in> set LOCALES \<and> path = localePath lang (pagePath_of pg)"
  unfolding routes_eq by (cases pg) auto

lemma list_all_tripleI:
  "(\<And>a b c. (a, b, c) \<in> set xs \<Longrightarrow> P a b c) \<Longrightarrow> list_all (\<lambda>(a, b, c). P a b c) xs"
  unfolding list_all_iff by auto

text \<open>An alternate that a head lists: the canonical URL and the language of a built page of the same kind,
  which lists this page back.\<close>

definition alternate_ok :: "(jstr \<Rightarrow> dictionary) \<Rightarrow> document_head \<Rightarrow> page \<Rightarrow> jstr \<times> jstr \<Rightarrow> bool" where
  "alternate_ok d h pg a \<longleftrightarrow>
     list_ex (\<lambda>r. snd (snd r) = pg \<and> (case a of (tag, href) \<Rightarrow>
         dh_lang (built_head d r) = tag \<and> dh_canonical (built_head d r) = href \<and>
         (dh_lang h, dh_canonical h) \<in> set (dh_alternates (built_head d r)))) routes"

lemma alternates_ok:
  assumes "lang \<in> set LOCALES"
  shows "list_all (alternate_ok d (built_head d (path, lang, pg)) pg) (dh_alternates (built_head d (path, lang, pg)))"
  unfolding list_all_iff
proof (intro ballI)
  fix a assume "a \<in> set (dh_alternates (built_head d (path, lang, pg)))"
  then obtain l where l: "l \<in> set LOCALES"
    and a: "a = (of_locale LOCALE_TAGS l, SITE_ORIGIN @ localePath l (pagePath_of pg))"
    by (auto simp: built_head_fields [OF assms])
  have "(localePath l (pagePath_of pg), l, pg) \<in> set routes" using l by (simp add: routes_iff)
  then show "alternate_ok d (built_head d (path, lang, pg)) pg a"
    unfolding alternate_ok_def list_ex_iff
    by (rule bexI [rotated]) (use assms in \<open>simp add: built_head_fields [OF l] built_head_fields [OF assms] a\<close>)
qed

lemma internal_links_built:
  assumes "lang \<in> set LOCALES"
  shows "list_all (\<lambda>href. href \<in> set (map fst routes)) (internal_links lang pg)"
proof -
  have built: "localePath l (pagePath_of pg') \<in> fst ` set routes" if "l \<in> set LOCALES" for l pg'
    by (rule image_eqI [where x = "(localePath l (pagePath_of pg'), l, pg')"]) (simp_all add: routes_iff that)
  have here: "localePath lang (js s) \<in> fst ` set routes" if "js s = pagePath_of pg'" for s pg'
    using built [OF assms, of pg'] that by simp
  have off: "\<not> starts_with (js ''/'') GITHUB_URL" "\<not> starts_with (js ''/'') DOCS_URL"
    "\<not> starts_with (js ''/'') CHANGELOG_URL" "\<not> starts_with (js ''/'') LICENSE_FILE_URL"
    by (simp_all add: GITHUB_URL_def DOCS_URL_def SITE_ORIGIN_def CHANGELOG_URL_def LICENSE_FILE_URL_def js_Cons
        starts_with_def)
  show ?thesis
    unfolding list_all_iff internal_links_def header_links_def footer_links_def language_picker_def consent_link_def
    using off built here [of _ Landing] here [of _ Brand] here [of _ Contact_form] here [of _ Privacy] by auto
qed


section \<open>Structured data\<close>

text \<open>The entities a value describes and those it refers to: an object with no member but \<open>@id\<close> is a
  reference.\<close>

fun references :: "jsval \<Rightarrow> jstr list" where
  "references (JObj fs) =
     (case fs of
        [(k, JStr i)] \<Rightarrow> if k = js ''@id'' then [i] else []
      | _ \<Rightarrow> concat (map references (map snd fs)))"
| "references (JArr vs) = concat (map references vs)"
| "references v = []"

definition entities :: "jsval list \<Rightarrow> jsval list" where
  "entities vs = map (prop_opt (js ''@id'')) vs"

text \<open>On a home page the structured data are the JSON text of the entity graph, and every reference in it is to
  an entity of the graph.\<close>

lemma graph_references:
  assumes "concat (map references extra) = []"
  shows "\<forall>i \<in> set (references (JArr (entity_graph c ttl desc img tag extra))).
    JStr i \<in> set (entities (entity_graph c ttl desc img tag extra))"
  using assms
  by (simp add: entity_graph_def entities_def organization_node_def website_node_def webpage_node_def software_node_def
      sourcecode_node_def id_ref_def jobj_def jtexts_def prop_opt_def)

lemma faq_references: "references (faqJsonLd t) = []"
  by (simp add: faqJsonLd_def jobj_def o_def case_prod_unfold)

lemma home_structured_data:
  assumes "l \<in> set LOCALES"
  shows "\<exists>text graph. dh_jsonLd (built_head d (r, l, Landing)) = Some text \<and> json_parse text = Some (json_ld graph) \<and>
      (\<forall>i \<in> set (references (JArr graph)). JStr i \<in> set (entities graph))"
    and "pg \<noteq> Landing \<Longrightarrow> dh_jsonLd (built_head d (r, l, pg)) = None"
proof -
  let ?graph = "entity_graph (SITE_ORIGIN @ localePath l (js ''/'')) (meta_title (d l)) (meta_description (d l))
      (site_href OG_IMAGE_PATH) (of_locale LOCALE_TAGS l) [faqJsonLd (d l)]"
  have ld: "dh_jsonLd (built_head d (r, l, Landing)) = Some (json_stringify (json_ld ?graph))"
    using localePath_canonical [OF assms, of Landing]
    by (simp add: built_head_def Layout_def LandingPage_def layout_props_of_def Let_def set_path_def with_default_def
        site_href_def del: json_stringify.simps)
  have "json_data (faqJsonLd (d l))"
    by (simp add: faqJsonLd_def jobj_def list_all_iff case_prod_unfold)
  then have "json_data (json_ld ?graph)"
    by (simp add: json_ld_def entity_graph_def organization_node_def website_node_def webpage_node_def
        software_node_def sourcecode_node_def id_ref_def jobj_def jtexts_def)
  then have "json_parse (json_stringify (json_ld ?graph)) = Some (json_ld ?graph)" by (rule json_round_trip)
  moreover have "\<forall>i \<in> set (references (JArr ?graph)). JStr i \<in> set (entities ?graph)"
    by (rule graph_references) (simp add: faq_references)
  ultimately show "\<exists>text graph. dh_jsonLd (built_head d (r, l, Landing)) = Some text \<and>
      json_parse text = Some (json_ld graph) \<and>
      (\<forall>i \<in> set (references (JArr graph)). JStr i \<in> set (entities graph))"
    using ld by blast
  show "pg \<noteq> Landing \<Longrightarrow> dh_jsonLd (built_head d (r, l, pg)) = None"
    by (cases pg) (simp_all add: built_head_def Layout_def BrandPage_def ContactPage_def PrivacyPage_def
        layout_props_of_def Let_def with_default_def)
qed

text \<open>The 404 document is kept out of the index and has no alternates.\<close>

lemma not_found_head:
  "dh_robots (Layout \<lparr>px_status = 404, px_pathname = p\<rparr> (NotFoundPage t)) = js ''noindex, nofollow''"
  "dh_alternates (Layout \<lparr>px_status = 404, px_pathname = p\<rparr> (NotFoundPage t)) = []"
  "dh_jsonLd (Layout \<lparr>px_status = 404, px_pathname = p\<rparr> (NotFoundPage t)) = None"
  by (simp_all add: Layout_def NotFoundPage_def Let_def set_path_def with_default_def)

section \<open>The brand page\<close>

record brand_tile =
  bt_stem :: jstr
  bt_light :: bool
  bt_width :: nat
  bt_height :: nat

definition tiles :: "brand_tile list" where
  "tiles =
     [\<lparr>bt_stem = js ''fissionplane-lockup-dark'', bt_light = True, bt_width = 350, bt_height = 42\<rparr>,
      \<lparr>bt_stem = js ''fissionplane-lockup-light'', bt_light = False, bt_width = 350, bt_height = 42\<rparr>,
      \<lparr>bt_stem = js ''fissionplane-wordmark-dark'', bt_light = True, bt_width = 294, bt_height = 42\<rparr>,
      \<lparr>bt_stem = js ''fissionplane-wordmark-light'', bt_light = False, bt_width = 294, bt_height = 42\<rparr>,
      \<lparr>bt_stem = js ''fissionplane-icon-dark'', bt_light = True, bt_width = 44, bt_height = 42\<rparr>,
      \<lparr>bt_stem = js ''fissionplane-icon-light'', bt_light = False, bt_width = 44, bt_height = 42\<rparr>]"

definition palette :: "(jstr \<times> jstr) list" where
  "palette = map (\<lambda>(n, h). (js n, js h))
     [(''Ash'', ''#F1ECEC''), (''Silver'', ''#B7B1B1''), (''Stone'', ''#847E7E''), (''Charcoal'', ''#4B4646''),
      (''Ink'', ''#131010'')]"

text \<open>The files the page shows and offers, below \<open>/brand/\<close>.\<close>

definition brand_links :: "jstr list" where
  "brand_links = js ''/brand/fissionplane-brand.zip'' #
     concat (map (\<lambda>t. [js ''/brand/'' @ bt_stem t @ js ''.svg'', js ''/brand/'' @ bt_stem t @ js ''.png'']) tiles)"

lemma write_asset_names:
  assumes "fold_try (write_asset deflate engine) assets st = Inr st'"
  shows "map fst (fst st') = map fst (fst st) @
    concat (map (\<lambda>a. [as_stem a @ js ''.svg'', as_stem a @ js ''.png'']) assets)"
  using assms
proof (induction assets arbitrary: st)
  case (Cons a assets)
  then obtain st1 where "write_asset deflate engine a st = Inr st1"
    and rest: "fold_try (write_asset deflate engine) assets st1 = Inr st'"
    by (auto simp: and_then_def split: sum.splits)
  then have "map fst (fst st1) = map fst (fst st) @ [as_stem a @ js ''.svg'', as_stem a @ js ''.png'']"
    by (auto simp: write_asset_def and_then_def Let_def split: prod.splits sum.splits)
  with Cons.IH [OF rest] show ?case by simp
qed simp

text \<open>Every download the brand page offers is a file the script writes, and no file it writes is left out.\<close>

theorem brand_downloads_exist:
  assumes "generate_brand_assets deflate engine icon lockup = Inr written"
  shows "set brand_links = (\<lambda>f. js ''/brand/'' @ fst f) ` set written"
proof -
  obtain wm fs es zip where "fold_try (write_asset deflate engine) (brand_assets icon wm lockup) ([], []) = Inr (fs, es)"
    and written: "written = fs @ [(js ''fissionplane-brand.zip'', zip)]"
    using assms unfolding generate_brand_assets_def by (auto simp: and_then_def split: sum.splits)
  from write_asset_names [OF this(1)]
  have "map fst fs = concat (map (\<lambda>a. [as_stem a @ js ''.svg'', as_stem a @ js ''.png'']) (brand_assets icon wm lockup))"
    by simp
  then have "fst ` set fs = set (concat (map (\<lambda>a. [as_stem a @ js ''.svg'', as_stem a @ js ''.png'']) (brand_assets icon wm lockup)))"
    by (metis set_map)
  moreover have "(\<lambda>f. js ''/brand/'' @ fst f) ` set written =
      (\<lambda>n. js ''/brand/'' @ n) ` (fst ` set fs \<union> {js ''fissionplane-brand.zip''})"
    by (auto simp: written image_image)
  ultimately show ?thesis
    by (simp add: brand_links_def tiles_def brand_assets_def) (auto simp: js_append [symmetric])
qed

text \<open>The introduction speaks of four tones; the page shows five swatches, and the marks use the first four.\<close>

lemma palette_has_a_fifth_tone:
  "length palette = 5" "map snd (take 4 palette) = map (js \<circ> fst) DARK_VARIANT"
  by (simp_all add: palette_def DARK_VARIANT_def)

end
