(* ===== verification/Spec2Isabelle.thy ===== *)
theory Spec2Isabelle
  imports Hosts Console_Web Og_Image Sharp Contact Copy_Button Sitemap Sidebar Charts Conformance Site_Pages
begin

text \<open>
  A verification library of the TypeScript code of fissionplane, a self-hosted platform for sandboxes in
  microVMs. Paths below are relative to \<open>src/src\<close>.

  The TypeScript code has four parts. The \<^emph>\<open>SDK\<close> (\<open>sdks/typescript\<close>) talks over HTTP and WebSockets to the
  control plane, which creates and manages sandboxes and template builds, and to the agent inside a sandbox,
  which runs commands and serves files. The \<^emph>\<open>API hosts\<close> (\<open>libs/typescript/core\<close>, \<open>libs/typescript/api\<close>,
  \<open>apps/console-api\<close>, \<open>apps/backoffice-api\<close>) serve the tenant console and the operators' backoffice behind a
  session and a permission check. The \<^emph>\<open>web front ends\<close> (\<open>apps/console-web\<close>, \<open>apps/backoffice-web\<close>,
  \<open>libs/typescript/ui\<close>) call the hosts. The \<^emph>\<open>marketing site\<close> (\<open>apps/marketing-site\<close>) is a static site with a
  worker, a consent script, a contact form, and build scripts that draw its images without a graphics
  library. The parts meet in the wire formats: the SDK and its contracts, the hosts and the contract they
  publish to the front ends, the scripts and the files the pages link to.

  \<^bold>\<open>How code becomes definitions.\<close> A function that awaits is a state transformer over a world that either
  never settles (\<open>None\<close>) or settles with an exception or a value (\<open>Prelude\<close>). The world of the SDK is
  \<open>runtime\<close> (\<open>Platform\<close>): the clock, the random source, the diagnostic sink and the state behind the network,
  extended by the handle whose method runs (\<open>sandbox_world\<close>, \<open>build_world\<close>), so that an assignment to a field of
  \<open>this\<close> is an update of the world. An exception is a value of \<open>exn\<close> (\<open>Errors\<close>). JavaScript values are \<open>jsval\<close>, strings
  are lists of 16-bit words, objects are association lists in insertion order (\<open>Js_Value\<close>). Event-driven code
  (streams, pages) is a state with one function per event and an inductive relation over sequences of events.
  Buffers are lists of 8-bit words with reads and writes that throw where Node's do (\<open>Bytes\<close>).

  \<^bold>\<open>The platform and the language.\<close>
  \<^item> \<open>Prelude\<close>: the combinators of asynchronous code, association lists, lemma collections.
  \<^item> \<open>Js_Value\<close>: strings, numbers, values, conversions. \<open>Encoding\<close>: UTF-8, base64, form encoding. \<open>Json\<close>:
    \<open>JSON.parse\<close> and \<open>JSON.stringify\<close> with their round trip. \<open>Regexp\<close>: the fragment of regular expressions the
    sources write, with a matcher and a parser of patterns.
  \<^item> \<open>Errors\<close> (\<open>errors.ts\<close>): the error classes and the choice of class and retry verdict by status.
  \<^item> \<open>Platform\<close>: headers, requests, responses, abort signals, timers.

  \<^bold>\<open>The SDK\<close> (\<open>sdks/typescript/src\<close>).
  \<^item> \<open>Http\<close> (\<open>http.ts\<close>, \<open>api/metadata.ts\<close>): the fetch wrapper with its timeout, and the retry pipeline. A call
    that is not idempotent is attempted once; a finite budget bounds the attempts and the time; the
    internal header never leaves.
  \<^item> \<open>Api_Client\<close> (\<open>api/index.ts\<close>): the typed client and \<open>unwrap\<close>; what the SDK relies on of openapi-fetch is
    \<open>single_fetch\<close>, and \<open>plain_client\<close> meets it.
  \<^item> \<open>Dataplane\<close> (\<open>dataplane.ts\<close>): capability tokens, origins, WebSocket opening, token recovery (at most one
    mint and one replay), and the client cache of the two modules that use it.
  \<^item> \<open>Streaming\<close> (\<open>streaming.ts\<close>): a stream as a state machine over socket events, listener calls and \<open>next\<close>.
  \<^item> \<open>Commands\<close>, \<open>Files\<close>, \<open>Ports\<close>, \<open>Sandbox\<close>, \<open>Templates\<close>, \<open>Client\<close> (\<open>commands.ts\<close>, \<open>files.ts\<close>, \<open>ports.ts\<close>,
    \<open>sandbox.ts\<close>, \<open>templates.ts\<close>, \<open>index.ts\<close>): every operation with its request, the event parsers with what they
    accept, the handle invariant (a cached client always carries the handle's current token), what each lifecycle
    operation leaves behind, pagination, and polling that ends.
  \<^item> \<open>Schema_Types\<close>, \<open>Control_Schema\<close>, \<open>Agent_Schema\<close> (\<open>api/schema.gen.ts\<close>, \<open>dataplane/schema.gen.ts\<close>): the two
    generated contracts as data, every schema and operation, and what it is for a value or a call to have them.
  \<^item> \<open>Conformance\<close>: the SDK against these contracts. The SDK does the same over a client that refuses every
    call the contract does not declare, and a handle over a server that answers with the declared types stays
    well-typed.

  \<^bold>\<open>The hosts.\<close>
  \<^item> \<open>Names\<close>, \<open>Organizations\<close> (\<open>core/src/shared\<close>, \<open>organizations\<close>, \<open>auth\<close>, \<open>ddd\<close> and the other value types): schemas,
    the permission matrix, tagged domain errors.
  \<^item> \<open>Contract\<close> (\<open>core/src/backend-api\<close>, \<open>frontend\<close> and the guarded routes of \<open>libs/typescript/api\<close>): the groups
    and endpoints, and the regular expression built for a route, which matches exactly its paths.
  \<^item> \<open>Server\<close> (\<open>api/src/http\<close>): requests in, responses out; every request is answered once.
  \<^item> \<open>Tenancy\<close> (\<open>api/src/modules\<close>, \<open>composition\<close>): subject headers, middleware, use cases, controllers.
  \<^item> \<open>Hosts\<close> (\<open>apps/console-api\<close>, \<open>apps/backoffice-api\<close>): configuration and the two gates, composed with the
    modules above into the servers. Whatever headers a caller forges, the console reads only the session's own
    organization, and the backoffice answers operators only.

  \<^bold>\<open>The front ends.\<close>
  \<^item> \<open>Console_Web\<close>: name parsing, slugs, forms, loaders, sign-out and the conditions of the pages.
  \<^item> \<open>Sidebar\<close>, \<open>Charts\<close>: the components of \<open>libs/typescript/ui\<close> that keep state or compute: sidebar, carousel,
    charts, error lists, toast icons, sliders.

  \<^bold>\<open>The marketing site.\<close>
  \<^item> \<open>Marketing\<close> (\<open>worker/index.ts\<close>, \<open>src/i18n/locales.ts\<close>, \<open>src/lib\<close>): the documentation proxy and the locales.
  \<^item> \<open>Site_Pages\<close> (\<open>layouts/Layout.astro\<close>, \<open>pages\<close>, \<open>components\<close>): routes, document heads, structured data and
    links; alternates are complete and reciprocal, and every download the brand page offers is written.
  \<^item> \<open>Consent\<close>, \<open>Contact\<close>, \<open>Copy_Button\<close>, \<open>Sitemap\<close>: the scripts of the pages as state machines over clicks,
    other tabs, storage, answers and timers, and the sitemap step of the build.
  \<^item> \<open>Bytes\<close>, \<open>Raster\<close>, \<open>Png_Format\<close>, \<open>Painting\<close>, \<open>Winding\<close>, \<open>Sharp\<close>, \<open>Shapes\<close>, \<open>Woff\<close>, \<open>Outlines\<close>, \<open>Zip\<close>, \<open>Brand_Assets\<close>,
    \<open>Og_Image\<close> (\<open>scripts\<close>): both rasterisers against the winding rule, the PNG and ZIP writers against readers,
    the CRC against polynomial division, the TrueType reader against unbounded integers, SVG placement on
    whole pixels, and the two scripts up to the files they write.

  \<^bold>\<open>Interfaces.\<close> \<open>settling_attempt\<close> and \<open>bounded_attempt\<close> are what the retry pipeline asks of an attempt, with the timed
  fetch as provider; \<open>module_state\<close> and \<open>token_source\<close> are what the data-plane modules ask of the handle, with
  \<open>sandbox_source\<close> as provider; \<open>event_parser\<close> is what a stream asks of its parser, with both parsers as
  providers; \<open>poller\<close> is what \<open>wait\<close> asks of a build, with the registry as provider; \<open>rbac_service\<close>,
  \<open>settling_repository\<close> and \<open>list_sandboxes\<close> are the ports of the tenant module, with the live layers as providers.

  \<^bold>\<open>Bounds and termination.\<close> Loops without a bound in the source are partial functions, so that a promise that
  never settles is the value \<open>None\<close>: \<open>send_loop\<close>, which settles for a finite retry budget; \<open>iterate_from\<close>,
  whose length is the server's and which yields a whole chain of pages when there is one; \<open>wait_loop\<close>, which
  settles when a timeout is given. The only bound by level is \<open>outlines_at\<close>: five levels of composite
  glyphs, which is the source's own limit and raises its error. Every other recursion has a termination proof.

  \<^bold>\<open>Numbers.\<close> JavaScript numbers and the coordinates of the scripts are exact rationals with \<open>NaN\<close> and the
  infinities; rounding of IEEE doubles is not modelled, nor are numerals with more than 308 digits. Integers
  the source keeps at a width (checksums, typed arrays, header fields) are words of that width.

  \<^bold>\<open>Parameters.\<close> The platform's \<open>fetch\<close>, the server behind it, openapi-fetch, the WebSocket factory, the URL
  parser, Better Auth, the effect router and repository layers, the catalogue of texts, \<open>deflate\<close> and \<open>inflate\<close>,
  trigonometric functions, \<open>toUpperCase\<close> and \<open>toLowerCase\<close>, the carousel engine, and what the engine does with
  artwork whose coordinates are not finite. Hypotheses about them are named (\<open>single_fetch\<close>, \<open>contract_kept\<close>
  and others beside the definitions), and each property that has one is applied to a concrete instance.

  \<^bold>\<open>Not modelled.\<close>
  \<^item> The markup and class names of the React and Astro components, and UI components that only wrap
    third-party primitives: they make no decision of their own.
  \<^item> The text catalogues of the marketing site: prose, checked for shape by the TypeScript compiler.
  \<^item> The option objects handed to Better Auth and drizzle, and process start-up.
  \<^item> Byte-stream requests against the agent's contract: they bypass the typed client, so \<open>Conformance\<close> does not
    cover them; \<open>Files\<close> states their requests.
  \<^item> Response headers in the contracts.
  \<^item> Fonts whose units per em are zero, which make the script divide by zero.
  \<^item> The control plane, the agent and the other SDKs, which are written in Rust and Python.
\<close>

end
